(* ===== verification/Prelude.thy ===== *)
theory Prelude
  imports Complex_Main "HOL-Library.Word" "HOL-Library.Multiset" "HOL-Library.List_Lexorder"
    "HOL-Library.Char_ord" "HOL-Library.Signed_Division"
begin

text \<open>
  Shared vocabulary of the development: how a Go call ends, machine integers,
  clock readings, the order in which Go ranges over a map, and the generic lemmas the
  component theories use.
\<close>

section \<open>How a Go call ends\<close>

text \<open>
  A Go function returns a value, returns an error, or panics. The third case is kept apart
  from the second: a caller that tests \<open>err != nil\<close> does not see a panic.
\<close>

datatype ('e, 'a) outcome = Ok 'a | Err 'e | Panic string

named_theorems ops_defs "definitions of the operations of the stores"

fun is_Ok :: "('e, 'a) outcome \<Rightarrow> bool" where
  "is_Ok (Ok _) = True"
| "is_Ok (Err _) = False"
| "is_Ok (Panic _) = False"

lemma is_Ok_iff: "is_Ok r \<longleftrightarrow> (\<exists>a. r = Ok a)"
  by (cases r) auto

section \<open>Machine integers\<close>

text \<open>
  \<open>int\<close>, \<open>int64\<close> and \<open>time.Duration\<close> are 64-bit two's complement. Values are kept as
  \<open>int\<close>; every operation that can leave the range is followed by \<open>wrap64\<close>.
\<close>

definition wrap64 :: "int \<Rightarrow> int" where
  "wrap64 x = signed_take_bit 63 x"

definition int64 :: "int \<Rightarrow> bool" where
  "int64 x \<longleftrightarrow> - (2 ^ 63) \<le> x \<and> x < 2 ^ 63"

lemma wrap64_sint: "wrap64 x = sint (word_of_int x :: 64 word)"
  by (simp add: wrap64_def sint_sbintrunc')

lemma wrap64_id [simp]: "int64 x \<Longrightarrow> wrap64 x = x"
  unfolding wrap64_def int64_def by (rule signed_take_bit_int_eq_self) simp_all

lemma wrap64_range [simp]: "int64 (wrap64 x)"
  unfolding wrap64_def int64_def
  using signed_take_bit_int_greater_eq_minus_exp [of 63 x] signed_take_bit_int_less_exp [of 63 x]
  by simp

section \<open>Floating point\<close>

text \<open>
  A \<open>float64\<close> operation computes the exact real result and rounds it. The rounding is a parameter
  of every definition that computes with floats; what is used of IEEE 754 is that rounding is
  monotone, leaves what it has rounded unchanged, and is exact on the integers up to
  \<open>2 ^ 53\<close>. Overflow to infinity is not modelled.
\<close>

type_synonym rounding = "real \<Rightarrow> real"

locale float64 =
  fixes rnd :: rounding
  assumes rnd_mono: "x \<le> y \<Longrightarrow> rnd x \<le> rnd y"
    and rnd_idem: "rnd (rnd x) = rnd x"
    and rnd_int: "\<bar>n\<bar> \<le> 2 ^ 53 \<Longrightarrow> rnd (of_int n) = of_int n"
begin

lemma rnd_0: "rnd 0 = 0"
  using rnd_int [of 0] by simp

lemma rnd_1: "rnd 1 = 1"
  using rnd_int [of 1] by simp

lemma rnd_nonneg: "0 \<le> x \<Longrightarrow> 0 \<le> rnd x"
  using rnd_mono [of 0 x] rnd_0 by simp

end

text \<open>Rounding down to a multiple of \<open>2 ^ -k\<close> is one such rounding.\<close>

definition grid_round :: "nat \<Rightarrow> rounding" where
  "grid_round k x = of_int \<lfloor>x * 2 ^ k\<rfloor> / 2 ^ k"

interpretation grid: float64 "grid_round k" for k
proof unfold_locales
  show "x \<le> y \<Longrightarrow> grid_round k x \<le> grid_round k y" for x y
    by (auto simp: grid_round_def intro!: divide_right_mono floor_mono)
  show "grid_round k (grid_round k x) = grid_round k x" for x
    by (simp add: grid_round_def)
  show "grid_round k (of_int n) = of_int n" for n
  proof -
    have "(of_int n :: real) * 2 ^ k = of_int (n * 2 ^ k)" by simp
    then show ?thesis unfolding grid_round_def by (simp only: floor_of_int) simp
  qed
qed

section \<open>Time\<close>

text \<open>
  \<open>time.Time\<close> is an instant in nanoseconds, \<open>time.Duration\<close> a number of nanoseconds. A call
  that reads the clock gets its readings as \<open>clk 0\<close>, \<open>clk 1\<close>, and so on, in the order of the
  source; \<open>clock_from k clk\<close> is the clock for a callee whose readings start at position \<open>k\<close>.
\<close>

type_synonym time = int
type_synonym duration = int
type_synonym clock = "nat \<Rightarrow> time"

definition Millisecond :: duration where "Millisecond = 1000000"
definition Second :: duration where "Second = 1000000000"
definition Minute :: duration where "Minute = 60 * Second"
definition Hour :: duration where "Hour = 60 * Minute"

lemmas duration_units = Millisecond_def Second_def Minute_def Hour_def

text \<open>\<open>t.Sub(u)\<close>: the difference of two instants, cut off at the ends of the range of a duration.\<close>

definition time_sub :: "time \<Rightarrow> time \<Rightarrow> duration" where
  "time_sub t u = max (- (2 ^ 63)) (min (2 ^ 63 - 1) (t - u))"

lemma time_sub_exact: "int64 (t - u) \<Longrightarrow> time_sub t u = t - u"
  by (simp add: time_sub_def int64_def)

lemma time_sub_self [simp]: "time_sub t t = 0"
  by (simp add: time_sub_def)

definition clock_from :: "nat \<Rightarrow> clock \<Rightarrow> clock" where
  "clock_from k clk = (\<lambda>i. clk (k + i))"

lemma clock_from_apply [simp]: "clock_from k clk i = clk (k + i)"
  by (simp add: clock_from_def)

lemma clock_from_const [simp]: "clock_from k (\<lambda>_. t) = (\<lambda>_. t)"
  by (simp add: clock_from_def)

lemma mono_clock_from [simp]: "mono clk \<Longrightarrow> mono (clock_from k clk)"
  by (auto simp: mono_def)

section \<open>Ranging over a Go map\<close>

text \<open>
  \<open>for k, v := range m\<close> visits every key of \<open>m\<close> once, in an order the language leaves open.
  The order is a parameter \<open>iter\<close>: it turns the set of keys into the list of keys visited.
\<close>

locale map_iteration =
  fixes iter :: "string set \<Rightarrow> string list"
  assumes set_iter: "finite A \<Longrightarrow> set (iter A) = A"
    and distinct_iter: "finite A \<Longrightarrow> distinct (iter A)"
begin

lemma iter_empty: "iter {} = []"
  using set_iter [of "{}"] by simp

lemma length_iter: "finite A \<Longrightarrow> length (iter A) = card A"
  using set_iter distinct_iter distinct_card by metis

lemma mset_iter: "finite A \<Longrightarrow> mset (iter A) = mset_set A"
  using mset_set_set [OF distinct_iter] set_iter by metis

end

interpretation sorted_keys: map_iteration "sorted_list_of_set"
  by unfold_locales simp_all

definition range_map :: "(string set \<Rightarrow> string list) \<Rightarrow> (string \<rightharpoonup> 'v) \<Rightarrow> 'v list" where
  "range_map iter m = List.map_filter m (iter (dom m))"

lemma map_filter_dom: "set ks \<subseteq> dom m \<Longrightarrow> List.map_filter m ks = map (\<lambda>k. the (m k)) ks"
  by (induction ks) (auto simp: map_filter_simps)

context map_iteration
begin

lemma range_map_eq: "finite (dom m) \<Longrightarrow> range_map iter m = map (\<lambda>k. the (m k)) (iter (dom m))"
  unfolding range_map_def by (rule map_filter_dom) (simp add: set_iter)

lemma set_range_map: "finite (dom m) \<Longrightarrow> set (range_map iter m) = ran m"
  by (force simp: range_map_eq set_iter ran_def dom_def image_iff)

lemma length_range_map: "finite (dom m) \<Longrightarrow> length (range_map iter m) = card (dom m)"
  by (simp add: range_map_eq length_iter)

lemma mset_range_map:
  "finite (dom m) \<Longrightarrow> mset (range_map iter m) = image_mset (\<lambda>k. the (m k)) (mset_set (dom m))"
  by (simp add: range_map_eq mset_iter)

end

section \<open>Lists\<close>

text \<open>Removing one position, as \<open>append(xs[:i], xs[i+1:]...)\<close> does.\<close>

definition remove_at :: "nat \<Rightarrow> 'a list \<Rightarrow> 'a list" where
  "remove_at i xs = take i xs @ drop (Suc i) xs"

lemma length_remove_at [simp]: "i < length xs \<Longrightarrow> length (remove_at i xs) = length xs - 1"
  by (simp add: remove_at_def)

lemma mset_remove_at: "i < length xs \<Longrightarrow> mset (remove_at i xs) = mset xs - {#xs ! i#}"
  using arg_cong [OF id_take_nth_drop [of i xs], of mset] by (simp add: remove_at_def)

lemma set_remove_at: "set (remove_at i xs) \<subseteq> set xs"
  by (auto simp: remove_at_def dest: in_set_takeD in_set_dropD)

lemma remove_at_Cons_0 [simp]: "remove_at 0 (x # xs) = xs"
  by (simp add: remove_at_def)

lemma remove_at_Cons_Suc [simp]: "remove_at (Suc i) (x # xs) = x # remove_at i xs"
  by (simp add: remove_at_def)

section \<open>Decimal notation\<close>

text \<open>The \<open>%d\<close> verb of \<open>fmt\<close>.\<close>

fun nat_digits :: "nat \<Rightarrow> string" where
  "nat_digits n = (if n < 10 then [char_of (48 + n)] else nat_digits (n div 10) @ [char_of (48 + n mod 10)])"

declare nat_digits.simps [simp del]

definition decimal :: "int \<Rightarrow> string" where
  "decimal i = (if i < 0 then CHR ''-'' # nat_digits (nat (- i)) else nat_digits (nat i))"

text \<open>
  \<open>strconv.Atoi\<close> where only the number is used: 0 for what is not a number, the nearest end of the range
  for what is beyond it.
\<close>

definition is_digit :: "char \<Rightarrow> bool" where
  "is_digit c \<longleftrightarrow> 48 \<le> (of_char c :: nat) \<and> (of_char c :: nat) \<le> 57"

definition digits_value :: "string \<Rightarrow> int" where
  "digits_value cs = foldl (\<lambda>n c. n * 10 + (of_char c - 48)) 0 cs"

definition Atoi :: "string \<Rightarrow> int" where
  "Atoi s =
     (let (neg, ds) = (case s of [] \<Rightarrow> (False, [])
            | c # cs \<Rightarrow> if c = CHR ''-'' then (True, cs) else if c = CHR ''+'' then (False, cs) else (False, s));
          v = (if neg then - digits_value ds else digits_value ds)
      in if ds = [] \<or> \<not> list_all is_digit ds then 0 else max (- (2 ^ 63)) (min (2 ^ 63 - 1) v))"

text \<open>Reading back what was printed.\<close>

lemma is_digit_char: "d < 10 \<Longrightarrow> is_digit (char_of (48 + d :: nat))"
  by (simp add: is_digit_def)

lemma digit_char_value: "d < 10 \<Longrightarrow> of_char (char_of (48 + d :: nat)) = 48 + int d"
  using of_nat_of_char [of "char_of (48 + d :: nat)", where 'a = int] by simp

lemma nat_digits_properties:
  "nat_digits n \<noteq> [] \<and> list_all is_digit (nat_digits n) \<and> digits_value (nat_digits n) = int n"
proof (induction n rule: nat_digits.induct)
  case (1 n)
  have digit: "is_digit (char_of (48 + n mod 10))" by (rule is_digit_char) simp
  show ?case
  proof (cases "n < 10")
    case True
    then show ?thesis
      by (simp add: nat_digits.simps [of n] digits_value_def is_digit_def digit_char_value)
  next
    case False
    moreover have "int (n div 10) * 10 + int (n mod 10) = int n"
      by (metis div_mult_mod_eq of_nat_add of_nat_mult of_nat_numeral)
    ultimately show ?thesis
      using 1 digit by (simp add: nat_digits.simps [of n] digits_value_def digit_char_value)
  qed
qed

end
