(* ===== verification/Errors.thy ===== *)
theory Errors
  imports Prelude
begin

text \<open>
  The error values of \<^verbatim>\<open>pkg/errors/errors.go\<close>: the sentinel errors, the four error structs
  with their constructors, and the two methods of the \<open>error\<close> interface, \<open>Error\<close> and
  \<open>Unwrap\<close>. \<open>Errorf msg (Some e)\<close> stands for \<open>fmt.Errorf("msg: %w", e)\<close>, \<open>Errorf msg None\<close>
  for \<open>fmt.Errorf("msg")\<close>.
\<close>

section \<open>The error values\<close>

datatype err =
    ErrJobNotFound | ErrJobAlreadyExists | ErrJobCancelled | ErrJobExpired | ErrJobTimeout
  | ErrInvalidJobType | ErrInvalidPayload
  | ErrQueueNotFound | ErrQueuePaused | ErrQueueFull | ErrEmptyQueue | ErrInvalidQueue
  | ErrWorkerNotFound | ErrWorkerTimeout | ErrWorkerBusy | ErrMaxWorkersReached
  | ErrNoAvailableWorkers
  | ErrStorageUnavailable | ErrStorageTimeout | ErrDuplicateKey | ErrInvalidOperation
  | ErrConnectionFailed
  | ErrMaxRetriesExceeded | ErrRetryNotAllowed
  | ErrInvalidConfiguration | ErrMissingRequired | ErrInvalidValue
  | ContextCanceled | ContextDeadlineExceeded
  | JobError string string "err option"
  | QueueError string string "err option"
  | WorkerError string string "err option"
  | ValidationError string string
  | Errorf string "err option"

type_synonym 'a res = "(err, 'a) outcome"

text \<open>
  The memory and postgres stores, the manager and the worker pool spell the sentinel of line 23
  \<open>ErrQueueEmpty\<close>; the package declares it as \<open>ErrEmptyQueue\<close>. It is one value here.
\<close>

abbreviation ErrQueueEmpty :: err where "ErrQueueEmpty \<equiv> ErrEmptyQueue"

definition NewJobError :: "string \<Rightarrow> string \<Rightarrow> err option \<Rightarrow> err" where
  "NewJobError jobID message e = JobError jobID message e"

definition NewQueueError :: "string \<Rightarrow> string \<Rightarrow> err option \<Rightarrow> err" where
  "NewQueueError queueName message e = QueueError queueName message e"

definition NewWorkerError :: "string \<Rightarrow> string \<Rightarrow> err option \<Rightarrow> err" where
  "NewWorkerError workerID message e = WorkerError workerID message e"

definition NewValidationError :: "string \<Rightarrow> string \<Rightarrow> err" where
  "NewValidationError field message = ValidationError field message"

lemmas err_constructors [simp] =
  NewJobError_def NewQueueError_def NewWorkerError_def NewValidationError_def

text \<open>\<open>if err != nil { return fmt.Errorf("msg: %w", err) }\<close>\<close>

fun wrap_err :: "string \<Rightarrow> 'a res \<Rightarrow> 'a res" where
  "wrap_err msg (Ok a) = Ok a"
| "wrap_err msg (Err e) = Err (Errorf msg (Some e))"
| "wrap_err msg (Panic p) = Panic p"

lemma wrap_err_iff:
  "wrap_err m r = Ok a \<longleftrightarrow> r = Ok a"
  "wrap_err m r = Err e \<longleftrightarrow> (\<exists>c. r = Err c \<and> e = Errorf m (Some c))"
  by (cases r; auto)+

section \<open>Sequencing\<close>

text \<open>\<open>if err != nil { return err }\<close> after a read and after a write.\<close>

definition with_ok :: "'a res \<Rightarrow> 's \<Rightarrow> ('a \<Rightarrow> 'b res \<times> 's) \<Rightarrow> 'b res \<times> 's" where
  "with_ok r s f = (case r of Ok a \<Rightarrow> f a | Err e \<Rightarrow> (Err e, s) | Panic p \<Rightarrow> (Panic p, s))"

definition then_ok :: "'a res \<times> 's \<Rightarrow> ('a \<Rightarrow> 's \<Rightarrow> 'b res \<times> 's) \<Rightarrow> 'b res \<times> 's" where
  "then_ok c f = (case c of (r, s) \<Rightarrow> with_ok r s (\<lambda>a. f a s))"

definition read_ok :: "'a res \<Rightarrow> ('a \<Rightarrow> 'b res) \<Rightarrow> 'b res" where
  "read_ok r f = (case r of Ok a \<Rightarrow> f a | Err e \<Rightarrow> Err e | Panic p \<Rightarrow> Panic p)"

definition wrapped :: "string \<Rightarrow> 'a res \<times> 's \<Rightarrow> 'a res \<times> 's" where
  "wrapped msg c = (case c of (r, s) \<Rightarrow> (wrap_err msg r, s))"

fun map_res :: "('a \<Rightarrow> 'b) \<Rightarrow> 'a res \<Rightarrow> 'b res" where
  "map_res f (Ok a) = Ok (f a)"
| "map_res f (Err e) = Err e"
| "map_res f (Panic p) = Panic p"

lemma map_res_iff:
  "map_res f r = Ok b \<longleftrightarrow> (\<exists>a. r = Ok a \<and> b = f a)"
  "map_res f r = Err e \<longleftrightarrow> r = Err e"
  by (cases r; auto)+

definition discard :: "'a res \<times> 's \<Rightarrow> unit res \<times> 's" where
  "discard c = (case c of (r, s) \<Rightarrow> (map_res (\<lambda>_. ()) r, s))"

lemma with_ok_simps [simp]:
  "with_ok (Ok a) s f = f a" "with_ok (Err e) s f = (Err e, s)" "with_ok (Panic p) s f = (Panic p, s)"
  by (simp_all add: with_ok_def)

lemma then_ok_simps [simp]: "then_ok (r, s) f = with_ok r s (\<lambda>a. f a s)"
  by (simp add: then_ok_def)

lemma read_ok_simps [simp]:
  "read_ok (Ok a) f = f a" "read_ok (Err e) f = Err e" "read_ok (Panic p) f = Panic p"
  by (simp_all add: read_ok_def)

lemma wrapped_simps [simp]: "wrapped msg (r, s) = (wrap_err msg r, s)"
  by (simp add: wrapped_def)

lemma discard_simps [simp]: "discard (r, s) = (map_res (\<lambda>_. ()) r, s)"
  by (simp add: discard_def)

section \<open>The error interface\<close>

text \<open>\<open>%v\<close> of an optional cause, as the struct errors print it.\<close>

definition quote_char :: char where "quote_char = CHR 0x27"

primrec Error :: "err \<Rightarrow> string" where
  "Error ErrJobNotFound = ''job not found''"
| "Error ErrJobAlreadyExists = ''job already exists''"
| "Error ErrJobCancelled = ''job was cancelled''"
| "Error ErrJobExpired = ''job has expired''"
| "Error ErrJobTimeout = ''job execution timeout''"
| "Error ErrInvalidJobType = ''invalid job type''"
| "Error ErrInvalidPayload = ''invalid job payload''"
| "Error ErrQueueNotFound = ''queue not found''"
| "Error ErrQueuePaused = ''queue is paused''"
| "Error ErrQueueFull = ''queue is full''"
| "Error ErrEmptyQueue = ''queue is empty''"
| "Error ErrInvalidQueue = ''invalid queue configuration''"
| "Error ErrWorkerNotFound = ''worker not found''"
| "Error ErrWorkerTimeout = ''worker heartbeat timeout''"
| "Error ErrWorkerBusy = ''worker is busy''"
| "Error ErrMaxWorkersReached = ''maximum workers reached''"
| "Error ErrNoAvailableWorkers = ''no available workers''"
| "Error ErrStorageUnavailable = ''storage backend unavailable''"
| "Error ErrStorageTimeout = ''storage operation timeout''"
| "Error ErrDuplicateKey = ''duplicate key''"
| "Error ErrInvalidOperation = ''invalid operation''"
| "Error ErrConnectionFailed = ''connection failed''"
| "Error ErrMaxRetriesExceeded = ''maximum retries exceeded''"
| "Error ErrRetryNotAllowed = ''retry not allowed''"
| "Error ErrInvalidConfiguration = ''invalid configuration''"
| "Error ErrMissingRequired = ''missing required field''"
| "Error ErrInvalidValue = ''invalid value''"
| "Error ContextCanceled = ''context canceled''"
| "Error ContextDeadlineExceeded = ''context deadline exceeded''"
| "Error (JobError i m e) =
     (case map_option Error e of
        Some c \<Rightarrow> ''job '' @ i @ '': '' @ m @ '': '' @ c
      | None \<Rightarrow> ''job '' @ i @ '': '' @ m)"
| "Error (QueueError q m e) =
     (case map_option Error e of
        Some c \<Rightarrow> ''queue '' @ q @ '': '' @ m @ '': '' @ c
      | None \<Rightarrow> ''queue '' @ q @ '': '' @ m)"
| "Error (WorkerError w m e) =
     (case map_option Error e of
        Some c \<Rightarrow> ''worker '' @ w @ '': '' @ m @ '': '' @ c
      | None \<Rightarrow> ''worker '' @ w @ '': '' @ m)"
| "Error (ValidationError f m) =
     ''validation error on field '' @ [quote_char] @ f @ [quote_char] @ '': '' @ m"
| "Error (Errorf m e) =
     (case map_option Error e of Some c \<Rightarrow> m @ '': '' @ c | None \<Rightarrow> m)"

primrec Unwrap :: "err \<Rightarrow> err option" where
  "Unwrap ErrJobNotFound = None"
| "Unwrap ErrJobAlreadyExists = None"
| "Unwrap ErrJobCancelled = None"
| "Unwrap ErrJobExpired = None"
| "Unwrap ErrJobTimeout = None"
| "Unwrap ErrInvalidJobType = None"
| "Unwrap ErrInvalidPayload = None"
| "Unwrap ErrQueueNotFound = None"
| "Unwrap ErrQueuePaused = None"
| "Unwrap ErrQueueFull = None"
| "Unwrap ErrEmptyQueue = None"
| "Unwrap ErrInvalidQueue = None"
| "Unwrap ErrWorkerNotFound = None"
| "Unwrap ErrWorkerTimeout = None"
| "Unwrap ErrWorkerBusy = None"
| "Unwrap ErrMaxWorkersReached = None"
| "Unwrap ErrNoAvailableWorkers = None"
| "Unwrap ErrStorageUnavailable = None"
| "Unwrap ErrStorageTimeout = None"
| "Unwrap ErrDuplicateKey = None"
| "Unwrap ErrInvalidOperation = None"
| "Unwrap ErrConnectionFailed = None"
| "Unwrap ErrMaxRetriesExceeded = None"
| "Unwrap ErrRetryNotAllowed = None"
| "Unwrap ErrInvalidConfiguration = None"
| "Unwrap ErrMissingRequired = None"
| "Unwrap ErrInvalidValue = None"
| "Unwrap ContextCanceled = None"
| "Unwrap ContextDeadlineExceeded = None"
| "Unwrap (JobError i m e) = e"
| "Unwrap (QueueError q m e) = e"
| "Unwrap (WorkerError w m e) = e"
| "Unwrap (ValidationError f m) = None"
| "Unwrap (Errorf m e) = e"

text \<open>
  Unwrapping strips one layer of text from the left: the message of the cause is a suffix of the
  message of the wrapping error. \<open>root_cause\<close> follows the chain to its end; it ends because the
  cause is a subterm.
\<close>

lemma Error_Unwrap_suffix: "Unwrap e = Some c \<Longrightarrow> \<exists>p. Error e = p @ '': '' @ Error c"
  by (cases e) auto

lemma size_Unwrap: "Unwrap e = Some c \<Longrightarrow> size c < size e"
  by (cases e) auto

function root_cause :: "err \<Rightarrow> err" where
  "root_cause e = (case Unwrap e of None \<Rightarrow> e | Some c \<Rightarrow> root_cause c)"
  by pat_completeness auto
termination
  by (relation "measure size") (auto simp: size_Unwrap)

declare root_cause.simps [simp del]

lemma Unwrap_root_cause: "Unwrap (root_cause e) = None"
proof (induction e rule: root_cause.induct)
  case (1 e)
  then show ?case by (cases "Unwrap e") (simp_all add: root_cause.simps [of e])
qed

lemma Error_root_cause: "\<exists>p. Error e = p @ Error (root_cause e)"
proof (induction e rule: root_cause.induct)
  case (1 e)
  show ?case
  proof (cases "Unwrap e")
    case None
    then show ?thesis by (simp add: root_cause.simps [of e])
  next
    case (Some c)
    then obtain p where "Error e = p @ '': '' @ Error c" using Error_Unwrap_suffix by blast
    moreover from 1 Some obtain q where "Error c = q @ Error (root_cause c)" by blast
    ultimately have "Error e = (p @ '': '' @ q) @ Error (root_cause c)" by simp
    with Some show ?thesis by (simp add: root_cause.simps [of e] del: append_assoc)
  qed
qed

end
