(* ===== verification/Job.thy ===== *)
theory Job
  imports Errors
begin

text \<open>
  The data model of \<^verbatim>\<open>pkg/job\<close>: jobs, queue configurations, queue statistics and
  workers, with their methods. Record fields carry the struct field's name after a prefix:
  \<open>j_\<close> for \<open>Job\<close>, \<open>qc_\<close> for \<open>QueueConfig\<close>, \<open>qs_\<close> for \<open>QueueStats\<close>, \<open>w_\<close> for \<open>Worker\<close>.

  The packages do not agree on every field of these structs. The records follow one reading:
  \<^item> \<open>Job.RetryCount\<close> (pool, postgres store, tests) is the counter that \<open>job.go\<close> declares as
    \<open>CurrentRetry\<close>;
  \<^item> \<open>Job.UpdatedAt\<close>, \<open>Job.TimeoutSeconds\<close> and \<open>QueueConfig.Timeout\<close>, which the stores, the
    manager and the pool use and the structs do not declare, are fields of the records;
  \<^item> a timestamp that one package takes as a pointer and another as a value is an option:
    \<open>None\<close> is the nil pointer, and also the zero time, since every test the code makes on such a
    field gives the same answer for both;
  \<^item> \<open>Worker.CurrentJobID\<close> is an option, as the memory and postgres stores use it.
\<close>

section \<open>Values\<close>

text \<open>What decoding JSON into \<open>interface{}\<close> can give.\<close>

datatype jval = JNull | JBool bool | JNum real | JStr string | JArr "jval list"

type_synonym jmap = "string \<rightharpoonup> jval"
type_synonym bytes = "string option"

section \<open>Job status\<close>

type_synonym Status = string

definition StatusPending :: Status where "StatusPending = ''PENDING''"
definition StatusRunning :: Status where "StatusRunning = ''RUNNING''"
definition StatusSuccess :: Status where "StatusSuccess = ''SUCCESS''"
definition StatusFailed :: Status where "StatusFailed = ''FAILED''"
definition StatusRetrying :: Status where "StatusRetrying = ''RETRYING''"
definition StatusCancelled :: Status where "StatusCancelled = ''CANCELLED''"
definition StatusExpired :: Status where "StatusExpired = ''EXPIRED''"

lemmas status_defs =
  StatusPending_def StatusRunning_def StatusSuccess_def StatusFailed_def StatusRetrying_def
  StatusCancelled_def StatusExpired_def

lemma status_neq [simp]:
  "StatusPending \<noteq> StatusRunning"
  "StatusPending \<noteq> StatusSuccess"
  "StatusPending \<noteq> StatusFailed"
  "StatusPending \<noteq> StatusRetrying"
  "StatusPending \<noteq> StatusCancelled"
  "StatusPending \<noteq> StatusExpired"
  "StatusRunning \<noteq> StatusPending"
  "StatusRunning \<noteq> StatusSuccess"
  "StatusRunning \<noteq> StatusFailed"
  "StatusRunning \<noteq> StatusRetrying"
  "StatusRunning \<noteq> StatusCancelled"
  "StatusRunning \<noteq> StatusExpired"
  "StatusSuccess \<noteq> StatusPending"
  "StatusSuccess \<noteq> StatusRunning"
  "StatusSuccess \<noteq> StatusFailed"
  "StatusSuccess \<noteq> StatusRetrying"
  "StatusSuccess \<noteq> StatusCancelled"
  "StatusSuccess \<noteq> StatusExpired"
  "StatusFailed \<noteq> StatusPending"
  "StatusFailed \<noteq> StatusRunning"
  "StatusFailed \<noteq> StatusSuccess"
  "StatusFailed \<noteq> StatusRetrying"
  "StatusFailed \<noteq> StatusCancelled"
  "StatusFailed \<noteq> StatusExpired"
  "StatusRetrying \<noteq> StatusPending"
  "StatusRetrying \<noteq> StatusRunning"
  "StatusRetrying \<noteq> StatusSuccess"
  "StatusRetrying \<noteq> StatusFailed"
  "StatusRetrying \<noteq> StatusCancelled"
  "StatusRetrying \<noteq> StatusExpired"
  "StatusCancelled \<noteq> StatusPending"
  "StatusCancelled \<noteq> StatusRunning"
  "StatusCancelled \<noteq> StatusSuccess"
  "StatusCancelled \<noteq> StatusFailed"
  "StatusCancelled \<noteq> StatusRetrying"
  "StatusCancelled \<noteq> StatusExpired"
  "StatusExpired \<noteq> StatusPending"
  "StatusExpired \<noteq> StatusRunning"
  "StatusExpired \<noteq> StatusSuccess"
  "StatusExpired \<noteq> StatusFailed"
  "StatusExpired \<noteq> StatusRetrying"
  "StatusExpired \<noteq> StatusCancelled"
  by (simp_all add: status_defs)

type_synonym Priority = int

definition PriorityLow :: Priority where "PriorityLow = 0"
definition PriorityNormal :: Priority where "PriorityNormal = 5"
definition PriorityHigh :: Priority where "PriorityHigh = 10"

lemmas priority_defs = PriorityLow_def PriorityNormal_def PriorityHigh_def

section \<open>Jobs\<close>

record job =
  j_ID :: string
  j_Type :: string
  j_Payload :: jmap
  j_Priority :: Priority
  j_Status :: Status
  j_MaxRetries :: int
  j_CurrentRetry :: int
  j_Timeout :: duration
  j_ScheduledAt :: "time option"
  j_CreatedAt :: time
  j_StartedAt :: "time option"
  j_CompletedAt :: "time option"
  j_Error :: string
  j_Result :: bytes
  j_Metadata :: jmap
  j_Queue :: string
  j_Progress :: int
  j_WorkerID :: string
  j_UpdatedAt :: time
  j_TimeoutSeconds :: int

abbreviation j_RetryCount :: "job \<Rightarrow> int" where "j_RetryCount \<equiv> j_CurrentRetry"

definition IsTerminal :: "job \<Rightarrow> bool" where
  "IsTerminal j \<longleftrightarrow>
     j_Status j = StatusSuccess \<or> j_Status j = StatusFailed \<or>
     j_Status j = StatusCancelled \<or> j_Status j = StatusExpired"

definition CanRetry :: "job \<Rightarrow> bool" where
  "CanRetry j \<longleftrightarrow> j_CurrentRetry j < j_MaxRetries j \<and> \<not> IsTerminal j"

definition IsReady :: "time \<Rightarrow> job \<Rightarrow> bool" where
  "IsReady now j = (case j_ScheduledAt j of None \<Rightarrow> True | Some t \<Rightarrow> now > t)"

definition Duration :: "job \<Rightarrow> duration" where
  "Duration j =
     (case (j_StartedAt j, j_CompletedAt j) of
        (Some s, Some c) \<Rightarrow> time_sub c s
      | _ \<Rightarrow> 0)"

section \<open>Queue configurations and statistics\<close>

type_synonym RetryStrategy = string

definition RetryStrategyFixed :: RetryStrategy where "RetryStrategyFixed = ''FIXED''"
definition RetryStrategyExponential :: RetryStrategy where
  "RetryStrategyExponential = ''EXPONENTIAL''"
definition RetryStrategyLinear :: RetryStrategy where "RetryStrategyLinear = ''LINEAR''"

lemmas strategy_defs =
  RetryStrategyFixed_def RetryStrategyExponential_def RetryStrategyLinear_def

record QueueConfig =
  qc_Name :: string
  qc_MaxWorkers :: int
  qc_MaxRetries :: int
  qc_RetryStrategy :: RetryStrategy
  qc_DefaultTimeout :: duration
  qc_Priority :: int
  qc_RateLimit :: int
  qc_Weight :: int
  qc_IsPaused :: bool
  qc_RetryDelay :: duration
  qc_MaxRetryDelay :: duration
  qc_DeadLetterQueue :: string
  qc_Timeout :: int

text \<open>A composite literal leaves the fields it does not name at their zero values.\<close>

definition zero_QueueConfig :: QueueConfig where
  "zero_QueueConfig =
     \<lparr>qc_Name = '''', qc_MaxWorkers = 0, qc_MaxRetries = 0, qc_RetryStrategy = '''',
      qc_DefaultTimeout = 0, qc_Priority = 0, qc_RateLimit = 0, qc_Weight = 0,
      qc_IsPaused = False, qc_RetryDelay = 0, qc_MaxRetryDelay = 0, qc_DeadLetterQueue = '''',
      qc_Timeout = 0\<rparr>"

definition DefaultQueueConfig :: "string \<Rightarrow> QueueConfig" where
  "DefaultQueueConfig name =
     zero_QueueConfig\<lparr>qc_Name := name, qc_MaxWorkers := 10, qc_MaxRetries := 3,
       qc_RetryStrategy := RetryStrategyExponential, qc_DefaultTimeout := 5 * Minute,
       qc_Priority := 5, qc_Weight := 1, qc_IsPaused := False, qc_RetryDelay := 5 * Second,
       qc_MaxRetryDelay := 1 * Hour\<rparr>"

record QueueStats =
  qs_QueueName :: string
  qs_PendingCount :: int
  qs_RunningCount :: int
  qs_SuccessCount :: int
  qs_FailedCount :: int
  qs_ActiveWorkers :: int
  qs_AvgProcessingTime :: duration
  qs_LastJobAt :: "time option"

definition zero_QueueStats :: "string \<Rightarrow> QueueStats" where
  "zero_QueueStats name =
     \<lparr>qs_QueueName = name, qs_PendingCount = 0, qs_RunningCount = 0, qs_SuccessCount = 0,
      qs_FailedCount = 0, qs_ActiveWorkers = 0, qs_AvgProcessingTime = 0, qs_LastJobAt = None\<rparr>"

section \<open>Workers\<close>

type_synonym WorkerStatus = string

definition WorkerStatusIdle :: WorkerStatus where "WorkerStatusIdle = ''IDLE''"
definition WorkerStatusProcessing :: WorkerStatus where "WorkerStatusProcessing = ''PROCESSING''"
definition WorkerStatusStopped :: WorkerStatus where "WorkerStatusStopped = ''STOPPED''"
definition WorkerStatusFailed :: WorkerStatus where "WorkerStatusFailed = ''FAILED''"

lemmas worker_status_defs =
  WorkerStatusIdle_def WorkerStatusProcessing_def WorkerStatusStopped_def WorkerStatusFailed_def

record worker =
  w_ID :: string
  w_Hostname :: string
  w_StartedAt :: "time option"
  w_LastHeartbeat :: "time option"
  w_CurrentJobID :: "string option"
  w_ProcessedCount :: int
  w_FailedCount :: int
  w_Status :: WorkerStatus
  w_Queues :: "string list"
  w_Concurrency :: int
  w_Tags :: "string \<rightharpoonup> string"
  w_Version :: string

text \<open>
  \<open>time.Since\<close> of the zero time is the longest duration, so an unset heartbeat is never below a
  timeout.
\<close>

definition IsAlive :: "time \<Rightarrow> duration \<Rightarrow> worker \<Rightarrow> bool" where
  "IsAlive now timeout w =
     (case w_LastHeartbeat w of None \<Rightarrow> False | Some t \<Rightarrow> time_sub now t < timeout)"

definition Uptime :: "time \<Rightarrow> worker \<Rightarrow> duration" where
  "Uptime now w = (case w_StartedAt w of None \<Rightarrow> 2 ^ 63 - 1 | Some t \<Rightarrow> time_sub now t)"

text \<open>\<open>float64(successful) / float64(total) * 100\<close>, each operation rounded.\<close>

definition SuccessRate :: "rounding \<Rightarrow> worker \<Rightarrow> real" where
  "SuccessRate rnd w =
     (let total = w_ProcessedCount w in
      if total = 0 then 0
      else let successful = wrap64 (total - w_FailedCount w) in
        rnd (rnd (rnd (of_int successful) / rnd (of_int total)) * 100))"

end
