(* ===== verification/Storage.thy ===== *)
theory Storage
  imports Job
begin

text \<open>
  The storage interface (\<^verbatim>\<open>internal/storage/storage.go\<close>, \<open>queue.Storage\<close>) as a record of
  operations over a state type \<open>'s\<close>: the manager, the pool and the scheduler call a backend only
  through it. The operations have the names and arguments of their callers and of the memory and
  postgres backends; reads give a result, writes a result and the next state.

  \<open>store_view\<close> is what a client may rely on: the jobs, each queue as a multiset of entries, the
  paused queues and the saved configurations. The functions \<open>spec_\<dots>\<close> say what each operation
  does to that view, and the locale \<open>storage\<close> is the contract that a backend refines them.
\<close>

section \<open>The interface\<close>

record 's Storage =
  st_CreateJob :: "job \<Rightarrow> 's \<Rightarrow> unit res \<times> 's"
  st_GetJob :: "string \<Rightarrow> 's \<Rightarrow> job res"
  st_UpdateJob :: "job \<Rightarrow> 's \<Rightarrow> unit res \<times> 's"
  st_DeleteJob :: "string \<Rightarrow> 's \<Rightarrow> unit res \<times> 's"
  st_ListJobs :: "string \<Rightarrow> Status \<Rightarrow> int \<Rightarrow> int \<Rightarrow> 's \<Rightarrow> job list res"
  st_UpdateStatus :: "clock \<Rightarrow> string \<Rightarrow> Status \<Rightarrow> 's \<Rightarrow> unit res \<times> 's"
  st_UpdateProgress :: "clock \<Rightarrow> string \<Rightarrow> int \<Rightarrow> 's \<Rightarrow> unit res \<times> 's"
  st_SetResult :: "clock \<Rightarrow> string \<Rightarrow> bytes \<Rightarrow> 's \<Rightarrow> unit res \<times> 's"
  st_SetError :: "clock \<Rightarrow> string \<Rightarrow> string \<Rightarrow> 's \<Rightarrow> unit res \<times> 's"
  st_Enqueue :: "clock \<Rightarrow> string \<Rightarrow> string \<Rightarrow> Priority \<Rightarrow> duration \<Rightarrow> 's \<Rightarrow> unit res \<times> 's"
  st_Dequeue :: "clock \<Rightarrow> string \<Rightarrow> 's \<Rightarrow> string res \<times> 's"
  st_Requeue :: "clock \<Rightarrow> string \<Rightarrow> string \<Rightarrow> Priority \<Rightarrow> duration \<Rightarrow> 's \<Rightarrow> unit res \<times> 's"
  st_Remove :: "string \<Rightarrow> string \<Rightarrow> 's \<Rightarrow> unit res \<times> 's"
  st_Length :: "string \<Rightarrow> 's \<Rightarrow> int res"
  st_Peek :: "string \<Rightarrow> int \<Rightarrow> 's \<Rightarrow> string list res"
  st_GetScheduled :: "string \<Rightarrow> time \<Rightarrow> 's \<Rightarrow> string list res"
  st_PauseQueue :: "string \<Rightarrow> 's \<Rightarrow> unit res \<times> 's"
  st_ResumeQueue :: "string \<Rightarrow> 's \<Rightarrow> unit res \<times> 's"
  st_IsQueuePaused :: "string \<Rightarrow> 's \<Rightarrow> bool res"
  st_RegisterWorker :: "worker \<Rightarrow> 's \<Rightarrow> unit res \<times> 's"
  st_UnregisterWorker :: "string \<Rightarrow> 's \<Rightarrow> unit res \<times> 's"
  st_UpdateHeartbeat :: "clock \<Rightarrow> string \<Rightarrow> 's \<Rightarrow> unit res \<times> 's"
  st_UpdateWorkerStatus :: "string \<Rightarrow> WorkerStatus \<Rightarrow> 's \<Rightarrow> unit res \<times> 's"
  st_SetCurrentJob :: "string \<Rightarrow> string \<Rightarrow> 's \<Rightarrow> unit res \<times> 's"
  st_IncrementProcessed :: "string \<Rightarrow> 's \<Rightarrow> unit res \<times> 's"
  st_IncrementFailed :: "string \<Rightarrow> 's \<Rightarrow> unit res \<times> 's"
  st_RecordJobCreated :: "string \<Rightarrow> string \<Rightarrow> 's \<Rightarrow> unit res \<times> 's"
  st_RecordJobCompleted :: "string \<Rightarrow> string \<Rightarrow> duration \<Rightarrow> 's \<Rightarrow> unit res \<times> 's"
  st_RecordJobFailed :: "string \<Rightarrow> string \<Rightarrow> 's \<Rightarrow> unit res \<times> 's"
  st_RecordJobRetried :: "string \<Rightarrow> string \<Rightarrow> 's \<Rightarrow> unit res \<times> 's"
  st_GetQueueStats :: "string \<Rightarrow> 's \<Rightarrow> QueueStats res"
  st_GetQueueStatsAll :: "'s \<Rightarrow> (string \<rightharpoonup> QueueStats) res"
  st_SaveQueueConfig :: "QueueConfig \<Rightarrow> 's \<Rightarrow> unit res \<times> 's"
  st_GetQueueConfig :: "string \<Rightarrow> 's \<Rightarrow> QueueConfig res"
  st_DeleteQueueConfig :: "string \<Rightarrow> 's \<Rightarrow> unit res \<times> 's"
  st_ListQueueConfigs :: "'s \<Rightarrow> QueueConfig list res"

section \<open>The abstract store\<close>

text \<open>A queue entry as a client sees it: job, priority, and the time from which it is ready.\<close>

type_synonym entry = "string \<times> Priority \<times> time"

record store_view =
  v_jobs :: "string \<rightharpoonup> job"
  v_entries :: "string \<Rightarrow> entry multiset"
  v_paused :: "string \<Rightarrow> bool"
  v_configs :: "string \<rightharpoonup> QueueConfig"

definition spec_CreateJob :: "job \<Rightarrow> store_view \<Rightarrow> unit res \<times> store_view" where
  "spec_CreateJob j v =
     (case v_jobs v (j_ID j) of
        Some _ \<Rightarrow> (Err ErrJobAlreadyExists, v)
      | None \<Rightarrow> (Ok (), v\<lparr>v_jobs := (v_jobs v)(j_ID j \<mapsto> j)\<rparr>))"

text \<open>Replacing, changing and deleting a stored job all fail on a job that is not there.\<close>

definition spec_change_job ::
  "string \<Rightarrow> (job \<Rightarrow> job option) \<Rightarrow> store_view \<Rightarrow> unit res \<times> store_view" where
  "spec_change_job jid f v =
     (case v_jobs v jid of
        None \<Rightarrow> (Err ErrJobNotFound, v)
      | Some j \<Rightarrow> (Ok (), v\<lparr>v_jobs := (v_jobs v)(jid := f j)\<rparr>))"

definition set_status :: "clock \<Rightarrow> Status \<Rightarrow> job \<Rightarrow> job" where
  "set_status clk status j =
     j\<lparr>j_Status := status, j_UpdatedAt := clk 0,
       j_StartedAt := (if status = StatusRunning \<and> j_StartedAt j = None then Some (clk 1) else j_StartedAt j),
       j_CompletedAt := (if status \<in> {StatusSuccess, StatusFailed, StatusCancelled, StatusExpired} \<and>
          j_CompletedAt j = None then Some (clk 2) else j_CompletedAt j)\<rparr>"

definition spec_Enqueue ::
  "clock \<Rightarrow> string \<Rightarrow> string \<Rightarrow> Priority \<Rightarrow> duration \<Rightarrow> store_view \<Rightarrow> unit res \<times> store_view" where
  "spec_Enqueue clk q jid p d v =
     (if v_jobs v jid = None then (Err ErrJobNotFound, v)
      else (Ok (), v\<lparr>v_entries := (v_entries v)(q := add_mset (jid, p, clk 0 + d) (v_entries v q))\<rparr>))"

text \<open>\<open>Dequeue\<close> takes some ready entry of the highest priority among the ready ones.\<close>

definition spec_Dequeue :: "time \<Rightarrow> string \<Rightarrow> store_view \<Rightarrow> string res \<times> store_view \<Rightarrow> bool" where
  "spec_Dequeue now q v r \<longleftrightarrow>
     (if v_paused v q then r = (Err ErrQueuePaused, v)
      else if \<forall>(jid, p, t) \<in># v_entries v q. t > now then r = (Err ErrQueueEmpty, v)
      else \<exists>jid p t. (jid, p, t) \<in># v_entries v q \<and> t \<le> now \<and>
             (\<forall>(jid', p', t') \<in># v_entries v q. t' \<le> now \<longrightarrow> p' \<le> p) \<and>
             r = (Ok jid, v\<lparr>v_entries := (v_entries v)(q := v_entries v q - {#(jid, p, t)#})\<rparr>))"

definition spec_Remove :: "string \<Rightarrow> string \<Rightarrow> store_view \<Rightarrow> unit res \<times> store_view \<Rightarrow> bool" where
  "spec_Remove q jid v r \<longleftrightarrow>
     (if jid \<notin># image_mset fst (v_entries v q) then r = (Err ErrJobNotFound, v)
      else \<exists>p t. (jid, p, t) \<in># v_entries v q \<and>
             r = (Ok (), v\<lparr>v_entries := (v_entries v)(q := v_entries v q - {#(jid, p, t)#})\<rparr>))"

lemma spec_Dequeue_OkI:
  assumes "\<not> v_paused v q" and mem: "(jid, p, t) \<in># v_entries v q" and t: "t \<le> now"
    and "\<forall>(jid', p', t') \<in># v_entries v q. t' \<le> now \<longrightarrow> p' \<le> p"
    and "v' = v\<lparr>v_entries := (v_entries v)(q := v_entries v q - {#(jid, p, t)#})\<rparr>"
  shows "spec_Dequeue now q v (Ok jid, v')"
proof -
  have "\<not> (\<forall>(jid, p, t) \<in># v_entries v q. t > now)" using mem t by fastforce
  with assms show ?thesis unfolding spec_Dequeue_def by simp blast
qed

lemma spec_Dequeue_OkD:
  "spec_Dequeue now q v (Ok jid, v') \<Longrightarrow>
   \<not> v_paused v q \<and> (\<exists>p t. (jid, p, t) \<in># v_entries v q \<and> t \<le> now \<and>
     (\<forall>(jid', p', t') \<in># v_entries v q. t' \<le> now \<longrightarrow> p' \<le> p) \<and>
     v' = v\<lparr>v_entries := (v_entries v)(q := v_entries v q - {#(jid, p, t)#})\<rparr>)"
  by (auto simp: spec_Dequeue_def split: if_splits)

lemma spec_Dequeue_ErrD:
  "spec_Dequeue now q v (Err e, v') \<Longrightarrow> v' = v \<and>
   (if v_paused v q then e = ErrQueuePaused
    else e = ErrQueueEmpty \<and> (\<forall>(jid, p, t) \<in># v_entries v q. t > now))"
  by (auto simp: spec_Dequeue_def split: if_splits)

lemma spec_Dequeue_no_Panic: "\<not> spec_Dequeue now q v (Panic msg, v')"
  by (auto simp: spec_Dequeue_def split: if_splits)

definition spec_set_paused :: "bool \<Rightarrow> string \<Rightarrow> store_view \<Rightarrow> unit res \<times> store_view" where
  "spec_set_paused b q v = (Ok (), v\<lparr>v_paused := (v_paused v)(q := b)\<rparr>)"

definition spec_set_config ::
  "string \<Rightarrow> QueueConfig option \<Rightarrow> store_view \<Rightarrow> unit res \<times> store_view" where
  "spec_set_config q c v = (Ok (), v\<lparr>v_configs := (v_configs v)(q := c)\<rparr>)"

section \<open>Refinement\<close>

text \<open>
  Under the backend's invariant \<open>ok\<close>, an operation keeps \<open>ok\<close> and commutes with the view; or
  relates to a nondeterministic specification; or leaves the view alone
  and does not panic.
\<close>

definition refines ::
  "('s \<Rightarrow> bool) \<Rightarrow> ('s \<Rightarrow> 'v) \<Rightarrow> ('s \<Rightarrow> 'r \<times> 's) \<Rightarrow> ('v \<Rightarrow> 'r \<times> 'v) \<Rightarrow> bool" where
  "refines ok view f g \<longleftrightarrow>
     (\<forall>s r s'. ok s \<and> f s = (r, s') \<longrightarrow> ok s' \<and> g (view s) = (r, view s'))"

definition refines_rel ::
  "('s \<Rightarrow> bool) \<Rightarrow> ('s \<Rightarrow> 'v) \<Rightarrow> ('s \<Rightarrow> 'r \<times> 's) \<Rightarrow> ('v \<Rightarrow> 'r \<times> 'v \<Rightarrow> bool) \<Rightarrow> bool" where
  "refines_rel ok view f R \<longleftrightarrow>
     (\<forall>s r s'. ok s \<and> f s = (r, s') \<longrightarrow> ok s' \<and> R (view s) (r, view s'))"

definition frames :: "('s \<Rightarrow> bool) \<Rightarrow> ('s \<Rightarrow> 'v) \<Rightarrow> ('s \<Rightarrow> 'a res \<times> 's) \<Rightarrow> bool" where
  "frames ok view f \<longleftrightarrow>
     (\<forall>s r s'. ok s \<and> f s = (r, s') \<longrightarrow> ok s' \<and> view s' = view s \<and> (\<forall>p. r \<noteq> Panic p))"

lemma refinesD: "\<lbrakk>refines ok view f g; ok s; f s = (r, s')\<rbrakk> \<Longrightarrow> ok s' \<and> g (view s) = (r, view s')"
  by (auto simp: refines_def)

lemma refines_relD: "\<lbrakk>refines_rel ok view f R; ok s; f s = (r, s')\<rbrakk> \<Longrightarrow> ok s' \<and> R (view s) (r, view s')"
  by (auto simp: refines_rel_def)

lemma framesD: "\<lbrakk>frames ok view f; ok s; f s = (r, s')\<rbrakk>
   \<Longrightarrow> ok s' \<and> view s' = view s \<and> (\<forall>p. r \<noteq> Panic p)"
  by (auto simp: frames_def)

lemmas refinement_defs = refines_def refines_rel_def frames_def

locale storage =
  fixes St :: "'s Storage" and view :: "'s \<Rightarrow> store_view" and ok :: "'s \<Rightarrow> bool"
  assumes CreateJob: "refines ok view (st_CreateJob St j) (spec_CreateJob j)"
    and GetJob: "ok s \<Longrightarrow> st_GetJob St jid s =
      (case v_jobs (view s) jid of None \<Rightarrow> Err ErrJobNotFound | Some j \<Rightarrow> Ok j)"
    and GetJob_ID: "ok s \<Longrightarrow> v_jobs (view s) jid = Some j \<Longrightarrow> j_ID j = jid"
    and UpdateJob: "refines ok view (st_UpdateJob St j) (spec_change_job (j_ID j) (\<lambda>_. Some j))"
    and DeleteJob: "refines ok view (st_DeleteJob St jid) (spec_change_job jid (\<lambda>_. None))"
    and UpdateStatus: "refines ok view (st_UpdateStatus St clk jid status)
      (spec_change_job jid (\<lambda>j. Some (set_status clk status j)))"
    and UpdateProgress: "refines ok view (st_UpdateProgress St clk jid n)
      (spec_change_job jid (\<lambda>j. Some (j\<lparr>j_Progress := n, j_UpdatedAt := clk 0\<rparr>)))"
    and SetResult: "refines ok view (st_SetResult St clk jid b)
      (spec_change_job jid (\<lambda>j. Some (j\<lparr>j_Result := b, j_UpdatedAt := clk 0\<rparr>)))"
    and SetError: "refines ok view (st_SetError St clk jid e)
      (spec_change_job jid (\<lambda>j. Some (j\<lparr>j_Error := e, j_UpdatedAt := clk 0\<rparr>)))"
    and Enqueue: "refines ok view (st_Enqueue St clk q jid p d) (spec_Enqueue clk q jid p d)"
    and Requeue: "refines ok view (st_Requeue St clk q jid p d) (spec_Enqueue clk q jid p d)"
    and Dequeue: "refines_rel ok view (st_Dequeue St clk q) (spec_Dequeue (clk 0) q)"
    and Remove: "refines_rel ok view (st_Remove St q jid) (spec_Remove q jid)"
    and Length: "ok s \<Longrightarrow> st_Length St q s = Ok (int (size (v_entries (view s) q)))"
    and IsQueuePaused: "ok s \<Longrightarrow> st_IsQueuePaused St q s = Ok (v_paused (view s) q)"
    and PauseQueue: "refines ok view (st_PauseQueue St q) (spec_set_paused True q)"
    and ResumeQueue: "refines ok view (st_ResumeQueue St q) (spec_set_paused False q)"
    and SaveQueueConfig: "refines ok view (st_SaveQueueConfig St c) (spec_set_config (qc_Name c) (Some c))"
    and DeleteQueueConfig: "refines ok view (st_DeleteQueueConfig St q) (spec_set_config q None)"
    and GetQueueConfig: "ok s \<Longrightarrow>
      (case v_configs (view s) q of None \<Rightarrow> \<exists>e. st_GetQueueConfig St q s = Err e
       | Some c \<Rightarrow> st_GetQueueConfig St q s = Ok c)"
    and GetQueueConfig_Name: "ok s \<Longrightarrow> v_configs (view s) q = Some c \<Longrightarrow> qc_Name c = q"
    and worker_frames: "frames ok view (st_RegisterWorker St w)"
      "frames ok view (st_UnregisterWorker St wid)" "frames ok view (st_UpdateHeartbeat St clk wid)"
      "frames ok view (st_UpdateWorkerStatus St wid ws)" "frames ok view (st_SetCurrentJob St wid jid)"
      "frames ok view (st_IncrementProcessed St wid)" "frames ok view (st_IncrementFailed St wid)"
    and metrics_frames: "frames ok view (st_RecordJobCreated St q t)"
      "frames ok view (st_RecordJobCompleted St q t d)" "frames ok view (st_RecordJobFailed St q t)"
      "frames ok view (st_RecordJobRetried St q t)"

text \<open>A backend that also lists every saved configuration, in some order.\<close>

locale storage_listing = storage +
  assumes ListQueueConfigs: "ok s \<Longrightarrow>
      \<exists>cs. st_ListQueueConfigs St s = Ok cs \<and> set cs = ran (v_configs (view s))"

end
