(* ===== verification/MemoryStore.thy ===== *)
theory MemoryStore
  imports Job
begin

text \<open>
  The in-memory backend, \<^verbatim>\<open>internal/storage/memory/memory.go\<close>. Each method holds the
  store's lock for its whole body, so a method is one function on the state: a method that only
  reads gives its result, one that writes gives its result and the new state. The context
  argument is not used by this backend and is left out.

  \<open>queues\<close> and \<open>paused\<close> are only ever read by key, where Go gives the zero value for a missing
  one, so they are total functions. \<open>jobs\<close>, \<open>workers\<close>, the configurations and the statistics
  are partial maps; ranging over them takes the order of the visit as the argument \<open>iter\<close>.
\<close>

section \<open>State\<close>

record queueEntry =
  qe_JobID :: string
  qe_Priority :: Priority
  qe_Timestamp :: time

record jobTypeMetrics =
  jt_Count :: int
  jt_TotalDuration :: duration
  jt_MinDuration :: duration
  jt_MaxDuration :: duration

record metricsData =
  md_jobsCreated :: int
  md_jobsCompleted :: int
  md_jobsFailed :: int
  md_jobsRetried :: int
  md_queueStats :: "string \<rightharpoonup> QueueStats"
  md_jobTypeStats :: "string \<rightharpoonup> jobTypeMetrics"
  md_lastUpdate :: time

record MemoryStore =
  ms_jobs :: "string \<rightharpoonup> job"
  ms_queues :: "string \<Rightarrow> queueEntry list"
  ms_paused :: "string \<Rightarrow> bool"
  ms_workers :: "string \<rightharpoonup> worker"
  ms_metrics :: metricsData
  ms_queueConfigs :: "string \<rightharpoonup> QueueConfig"

definition NewMemoryStore :: "clock \<Rightarrow> MemoryStore" where
  "NewMemoryStore clk =
     \<lparr>ms_jobs = Map.empty, ms_queues = (\<lambda>_. []), ms_paused = (\<lambda>_. False),
      ms_workers = Map.empty,
      ms_metrics = \<lparr>md_jobsCreated = 0, md_jobsCompleted = 0, md_jobsFailed = 0,
        md_jobsRetried = 0, md_queueStats = Map.empty, md_jobTypeStats = Map.empty,
        md_lastUpdate = clk 0\<rparr>,
      ms_queueConfigs = Map.empty\<rparr>"

section \<open>JobStore\<close>

definition mem_CreateJob :: "job \<Rightarrow> MemoryStore \<Rightarrow> unit res \<times> MemoryStore" where
  "mem_CreateJob j m =
     (if ms_jobs m (j_ID j) \<noteq> None then (Err ErrJobAlreadyExists, m)
      else (Ok (), m\<lparr>ms_jobs := (ms_jobs m)(j_ID j \<mapsto> j)\<rparr>))"

definition mem_GetJob :: "string \<Rightarrow> MemoryStore \<Rightarrow> job res" where
  "mem_GetJob jid m = (case ms_jobs m jid of None \<Rightarrow> Err ErrJobNotFound | Some j \<Rightarrow> Ok j)"

definition mem_UpdateJob :: "job \<Rightarrow> MemoryStore \<Rightarrow> unit res \<times> MemoryStore" where
  "mem_UpdateJob j m =
     (if ms_jobs m (j_ID j) = None then (Err ErrJobNotFound, m)
      else (Ok (), m\<lparr>ms_jobs := (ms_jobs m)(j_ID j \<mapsto> j)\<rparr>))"

definition mem_DeleteJob :: "string \<Rightarrow> MemoryStore \<Rightarrow> unit res \<times> MemoryStore" where
  "mem_DeleteJob jid m =
     (if ms_jobs m jid = None then (Err ErrJobNotFound, m)
      else (Ok (), m\<lparr>ms_jobs := (ms_jobs m)(jid := None)\<rparr>))"

text \<open>
  \<open>sort.Slice\<close> is not stable: it may leave jobs of equal age in any order. The sort here is
  stable, but its input comes in the arbitrary order \<open>iter\<close>, so the results over all \<open>iter\<close> are
  the results the code can give. A negative offset makes \<open>jobs[offset:]\<close> panic.
\<close>

definition mem_ListJobs ::
  "(string set \<Rightarrow> string list) \<Rightarrow> string \<Rightarrow> Status \<Rightarrow> int \<Rightarrow> int \<Rightarrow> MemoryStore \<Rightarrow> job list res"
where
  "mem_ListJobs iter queue status limit offset m =
     (let jobs = filter (\<lambda>j. (queue = '''' \<or> j_Queue j = queue) \<and> (status = '''' \<or> j_Status j = status))
                   (range_map iter (ms_jobs m));
          jobs = sort_key (\<lambda>j. - j_CreatedAt j) jobs
      in if offset \<ge> int (length jobs) then Ok []
         else if offset < 0 then Panic ''slice bounds out of range''
         else let jobs = drop (nat offset) jobs in
           if limit > 0 \<and> limit < int (length jobs) then Ok (take (nat limit) jobs) else Ok jobs)"

definition mem_UpdateStatus ::
  "clock \<Rightarrow> string \<Rightarrow> Status \<Rightarrow> MemoryStore \<Rightarrow> unit res \<times> MemoryStore" where
  "mem_UpdateStatus clk jid status m =
     (case ms_jobs m jid of
        None \<Rightarrow> (Err ErrJobNotFound, m)
      | Some j \<Rightarrow>
          let j = j\<lparr>j_Status := status, j_UpdatedAt := clk 0\<rparr>;
              j = (if status = StatusRunning \<and> j_StartedAt j = None
                   then j\<lparr>j_StartedAt := Some (clk 1)\<rparr> else j);
              j = (if IsTerminal j \<and> j_CompletedAt j = None
                   then j\<lparr>j_CompletedAt := Some (clk 2)\<rparr> else j)
          in (Ok (), m\<lparr>ms_jobs := (ms_jobs m)(jid \<mapsto> j)\<rparr>))"

definition mem_UpdateProgress ::
  "clock \<Rightarrow> string \<Rightarrow> int \<Rightarrow> MemoryStore \<Rightarrow> unit res \<times> MemoryStore" where
  "mem_UpdateProgress clk jid progress m =
     (case ms_jobs m jid of
        None \<Rightarrow> (Err ErrJobNotFound, m)
      | Some j \<Rightarrow>
          (Ok (), m\<lparr>ms_jobs := (ms_jobs m)(jid \<mapsto> j\<lparr>j_Progress := progress, j_UpdatedAt := clk 0\<rparr>)\<rparr>))"

definition mem_SetResult ::
  "clock \<Rightarrow> string \<Rightarrow> bytes \<Rightarrow> MemoryStore \<Rightarrow> unit res \<times> MemoryStore" where
  "mem_SetResult clk jid result m =
     (case ms_jobs m jid of
        None \<Rightarrow> (Err ErrJobNotFound, m)
      | Some j \<Rightarrow>
          (Ok (), m\<lparr>ms_jobs := (ms_jobs m)(jid \<mapsto> j\<lparr>j_Result := result, j_UpdatedAt := clk 0\<rparr>)\<rparr>))"

definition mem_SetError ::
  "clock \<Rightarrow> string \<Rightarrow> string \<Rightarrow> MemoryStore \<Rightarrow> unit res \<times> MemoryStore" where
  "mem_SetError clk jid errMsg m =
     (case ms_jobs m jid of
        None \<Rightarrow> (Err ErrJobNotFound, m)
      | Some j \<Rightarrow>
          (Ok (), m\<lparr>ms_jobs := (ms_jobs m)(jid \<mapsto> j\<lparr>j_Error := errMsg, j_UpdatedAt := clk 0\<rparr>)\<rparr>))"

section \<open>QueueStore\<close>

definition mem_Enqueue ::
  "clock \<Rightarrow> string \<Rightarrow> string \<Rightarrow> Priority \<Rightarrow> duration \<Rightarrow> MemoryStore \<Rightarrow> unit res \<times> MemoryStore" where
  "mem_Enqueue clk queue jobID priority delay m =
     (if ms_jobs m jobID = None then (Err ErrJobNotFound, m)
      else let entry = \<lparr>qe_JobID = jobID, qe_Priority = priority, qe_Timestamp = clk 0 + delay\<rparr>
        in (Ok (), m\<lparr>ms_queues := (ms_queues m)(queue := ms_queues m queue @ [entry])\<rparr>))"

text \<open>The loop of \<open>Dequeue\<close>: \<open>i\<close> is the loop index, the next two are \<open>bestIdx\<close> and \<open>bestPriority\<close>.\<close>

fun mem_Dequeue_loop :: "time \<Rightarrow> int \<Rightarrow> int \<Rightarrow> Priority \<Rightarrow> queueEntry list \<Rightarrow> int" where
  "mem_Dequeue_loop now i bestIdx bestPriority [] = bestIdx"
| "mem_Dequeue_loop now i bestIdx bestPriority (entry # entries) =
     (if qe_Timestamp entry > now then mem_Dequeue_loop now (i + 1) bestIdx bestPriority entries
      else if bestIdx = -1 \<or> qe_Priority entry > bestPriority
      then mem_Dequeue_loop now (i + 1) i (qe_Priority entry) entries
      else mem_Dequeue_loop now (i + 1) bestIdx bestPriority entries)"

definition mem_Dequeue :: "clock \<Rightarrow> string \<Rightarrow> MemoryStore \<Rightarrow> string res \<times> MemoryStore" where
  "mem_Dequeue clk queue m =
     (if ms_paused m queue then (Err ErrQueuePaused, m)
      else let entries = ms_queues m queue in
        if length entries = 0 then (Err ErrQueueEmpty, m)
        else let bestIdx = mem_Dequeue_loop (clk 0) 0 (-1) (-1) entries in
          if bestIdx = -1 then (Err ErrQueueEmpty, m)
          else (Ok (qe_JobID (entries ! nat bestIdx)),
                m\<lparr>ms_queues := (ms_queues m)(queue := remove_at (nat bestIdx) entries)\<rparr>))"

definition mem_Requeue ::
  "clock \<Rightarrow> string \<Rightarrow> string \<Rightarrow> Priority \<Rightarrow> duration \<Rightarrow> MemoryStore \<Rightarrow> unit res \<times> MemoryStore" where
  "mem_Requeue clk queue jobID priority delay m = mem_Enqueue clk queue jobID priority delay m"

fun mem_Remove_loop :: "string \<Rightarrow> nat \<Rightarrow> queueEntry list \<Rightarrow> nat option" where
  "mem_Remove_loop jobID i [] = None"
| "mem_Remove_loop jobID i (entry # entries) =
     (if qe_JobID entry = jobID then Some i else mem_Remove_loop jobID (Suc i) entries)"

definition mem_Remove :: "string \<Rightarrow> string \<Rightarrow> MemoryStore \<Rightarrow> unit res \<times> MemoryStore" where
  "mem_Remove queue jobID m =
     (let entries = ms_queues m queue in
      case mem_Remove_loop jobID 0 entries of
        Some i \<Rightarrow> (Ok (), m\<lparr>ms_queues := (ms_queues m)(queue := remove_at i entries)\<rparr>)
      | None \<Rightarrow> (Err ErrJobNotFound, m))"

definition mem_Length :: "string \<Rightarrow> MemoryStore \<Rightarrow> int res" where
  "mem_Length queue m = Ok (int (length (ms_queues m queue)))"

definition mem_Peek :: "string \<Rightarrow> int \<Rightarrow> MemoryStore \<Rightarrow> string list res" where
  "mem_Peek queue n m =
     (let entries = ms_queues m queue;
          n = (if n > int (length entries) then int (length entries) else n)
      in if n < 0 then Panic ''makeslice: cap out of range''
         else Ok (map qe_JobID (take (nat n) entries)))"

definition mem_GetScheduled :: "string \<Rightarrow> time \<Rightarrow> MemoryStore \<Rightarrow> string list res" where
  "mem_GetScheduled queue until m =
     Ok (map qe_JobID (filter (\<lambda>entry. \<not> qe_Timestamp entry > until) (ms_queues m queue)))"

definition mem_PauseQueue :: "string \<Rightarrow> MemoryStore \<Rightarrow> unit res \<times> MemoryStore" where
  "mem_PauseQueue queue m = (Ok (), m\<lparr>ms_paused := (ms_paused m)(queue := True)\<rparr>)"

definition mem_ResumeQueue :: "string \<Rightarrow> MemoryStore \<Rightarrow> unit res \<times> MemoryStore" where
  "mem_ResumeQueue queue m = (Ok (), m\<lparr>ms_paused := (ms_paused m)(queue := False)\<rparr>)"

definition mem_IsQueuePaused :: "string \<Rightarrow> MemoryStore \<Rightarrow> bool res" where
  "mem_IsQueuePaused queue m = Ok (ms_paused m queue)"

section \<open>WorkerStore\<close>

definition mem_RegisterWorker :: "worker \<Rightarrow> MemoryStore \<Rightarrow> unit res \<times> MemoryStore" where
  "mem_RegisterWorker w m = (Ok (), m\<lparr>ms_workers := (ms_workers m)(w_ID w \<mapsto> w)\<rparr>)"

definition mem_UnregisterWorker :: "string \<Rightarrow> MemoryStore \<Rightarrow> unit res \<times> MemoryStore" where
  "mem_UnregisterWorker wid m =
     (if ms_workers m wid = None then (Err ErrWorkerNotFound, m)
      else (Ok (), m\<lparr>ms_workers := (ms_workers m)(wid := None)\<rparr>))"

definition mem_GetWorker :: "string \<Rightarrow> MemoryStore \<Rightarrow> worker res" where
  "mem_GetWorker wid m =
     (case ms_workers m wid of None \<Rightarrow> Err ErrWorkerNotFound | Some w \<Rightarrow> Ok w)"

definition mem_ListWorkers ::
  "(string set \<Rightarrow> string list) \<Rightarrow> string \<Rightarrow> MemoryStore \<Rightarrow> worker list res" where
  "mem_ListWorkers iter queue m =
     Ok (filter (\<lambda>w. queue = '''' \<or> queue \<in> set (w_Queues w)) (range_map iter (ms_workers m)))"

text \<open>The five methods that look a worker up and change it in place.\<close>

definition mem_with_worker ::
  "string \<Rightarrow> (worker \<Rightarrow> worker) \<Rightarrow> MemoryStore \<Rightarrow> unit res \<times> MemoryStore" where
  "mem_with_worker wid f m =
     (case ms_workers m wid of
        None \<Rightarrow> (Err ErrWorkerNotFound, m)
      | Some w \<Rightarrow> (Ok (), m\<lparr>ms_workers := (ms_workers m)(wid \<mapsto> f w)\<rparr>))"

definition mem_UpdateHeartbeat :: "clock \<Rightarrow> string \<Rightarrow> MemoryStore \<Rightarrow> unit res \<times> MemoryStore" where
  "mem_UpdateHeartbeat clk wid m = mem_with_worker wid (\<lambda>w. w\<lparr>w_LastHeartbeat := Some (clk 0)\<rparr>) m"

definition mem_UpdateWorkerStatus ::
  "string \<Rightarrow> WorkerStatus \<Rightarrow> MemoryStore \<Rightarrow> unit res \<times> MemoryStore" where
  "mem_UpdateWorkerStatus wid status m = mem_with_worker wid (\<lambda>w. w\<lparr>w_Status := status\<rparr>) m"

definition mem_SetCurrentJob :: "string \<Rightarrow> string \<Rightarrow> MemoryStore \<Rightarrow> unit res \<times> MemoryStore" where
  "mem_SetCurrentJob workerID jobID m =
     mem_with_worker workerID
       (\<lambda>w. if jobID = '''' then w\<lparr>w_CurrentJobID := None\<rparr> else w\<lparr>w_CurrentJobID := Some jobID\<rparr>) m"

definition mem_IncrementProcessed :: "string \<Rightarrow> MemoryStore \<Rightarrow> unit res \<times> MemoryStore" where
  "mem_IncrementProcessed workerID m =
     mem_with_worker workerID (\<lambda>w. w\<lparr>w_ProcessedCount := wrap64 (w_ProcessedCount w + 1)\<rparr>) m"

definition mem_IncrementFailed :: "string \<Rightarrow> MemoryStore \<Rightarrow> unit res \<times> MemoryStore" where
  "mem_IncrementFailed workerID m =
     mem_with_worker workerID (\<lambda>w. w\<lparr>w_FailedCount := wrap64 (w_FailedCount w + 1)\<rparr>) m"

definition mem_GetStaleWorkers ::
  "(string set \<Rightarrow> string list) \<Rightarrow> clock \<Rightarrow> duration \<Rightarrow> MemoryStore \<Rightarrow> worker list res" where
  "mem_GetStaleWorkers iter clk threshold m =
     (let cutoff = clk 0 + wrap64 (- threshold) in
      Ok (filter (\<lambda>w. case w_LastHeartbeat w of None \<Rightarrow> False | Some t \<Rightarrow> t < cutoff)
            (range_map iter (ms_workers m))))"

section \<open>MetricsStore\<close>

definition mem_RecordJobCreated :: "string \<Rightarrow> string \<Rightarrow> MemoryStore \<Rightarrow> unit res \<times> MemoryStore" where
  "mem_RecordJobCreated queue jobType m =
     (let md = ms_metrics m;
          md = md\<lparr>md_jobsCreated := wrap64 (md_jobsCreated md + 1)\<rparr>;
          md = (if md_queueStats md queue = None
                then md\<lparr>md_queueStats := (md_queueStats md)(queue \<mapsto> zero_QueueStats queue)\<rparr> else md)
      in (Ok (), m\<lparr>ms_metrics := md\<rparr>))"

definition mem_RecordJobCompleted ::
  "string \<Rightarrow> string \<Rightarrow> duration \<Rightarrow> MemoryStore \<Rightarrow> unit res \<times> MemoryStore" where
  "mem_RecordJobCompleted queue jobType dur m =
     (let md = ms_metrics m;
          md = md\<lparr>md_jobsCompleted := wrap64 (md_jobsCompleted md + 1)\<rparr>;
          md = (case md_queueStats md queue of
                  None \<Rightarrow> md
                | Some s \<Rightarrow> md\<lparr>md_queueStats := (md_queueStats md)(queue \<mapsto>
                              s\<lparr>qs_SuccessCount := wrap64 (qs_SuccessCount s + 1)\<rparr>)\<rparr>);
          stats = (case md_jobTypeStats md jobType of
                     None \<Rightarrow> \<lparr>jt_Count = 0, jt_TotalDuration = 0, jt_MinDuration = dur, jt_MaxDuration = dur\<rparr>
                   | Some s \<Rightarrow> s);
          stats = stats\<lparr>jt_Count := wrap64 (jt_Count stats + 1),
                        jt_TotalDuration := wrap64 (jt_TotalDuration stats + dur)\<rparr>;
          stats = (if dur < jt_MinDuration stats then stats\<lparr>jt_MinDuration := dur\<rparr> else stats);
          stats = (if dur > jt_MaxDuration stats then stats\<lparr>jt_MaxDuration := dur\<rparr> else stats)
      in (Ok (), m\<lparr>ms_metrics := md\<lparr>md_jobTypeStats := (md_jobTypeStats md)(jobType \<mapsto> stats)\<rparr>\<rparr>))"

definition mem_RecordJobFailed :: "string \<Rightarrow> string \<Rightarrow> MemoryStore \<Rightarrow> unit res \<times> MemoryStore" where
  "mem_RecordJobFailed queue jobType m =
     (let md = ms_metrics m;
          md = md\<lparr>md_jobsFailed := wrap64 (md_jobsFailed md + 1)\<rparr>;
          md = (case md_queueStats md queue of
                  None \<Rightarrow> md
                | Some s \<Rightarrow> md\<lparr>md_queueStats := (md_queueStats md)(queue \<mapsto>
                              s\<lparr>qs_FailedCount := wrap64 (qs_FailedCount s + 1)\<rparr>)\<rparr>)
      in (Ok (), m\<lparr>ms_metrics := md\<rparr>))"

definition mem_RecordJobRetried :: "string \<Rightarrow> string \<Rightarrow> MemoryStore \<Rightarrow> unit res \<times> MemoryStore" where
  "mem_RecordJobRetried queue jobType m =
     (let md = ms_metrics m
      in (Ok (), m\<lparr>ms_metrics := md\<lparr>md_jobsRetried := wrap64 (md_jobsRetried md + 1)\<rparr>\<rparr>))"

definition count_job_status :: "string \<Rightarrow> job \<Rightarrow> QueueStats \<Rightarrow> QueueStats" where
  "count_job_status queue j stats =
     (if j_Queue j \<noteq> queue then stats
      else if j_Status j = StatusPending
      then stats\<lparr>qs_PendingCount := wrap64 (qs_PendingCount stats + 1)\<rparr>
      else if j_Status j = StatusRunning
      then stats\<lparr>qs_RunningCount := wrap64 (qs_RunningCount stats + 1)\<rparr>
      else if j_Status j = StatusSuccess
      then stats\<lparr>qs_SuccessCount := wrap64 (qs_SuccessCount stats + 1)\<rparr>
      else if j_Status j = StatusFailed
      then stats\<lparr>qs_FailedCount := wrap64 (qs_FailedCount stats + 1)\<rparr>
      else stats)"

definition mem_GetQueueStats ::
  "(string set \<Rightarrow> string list) \<Rightarrow> string \<Rightarrow> MemoryStore \<Rightarrow> QueueStats res" where
  "mem_GetQueueStats iter queue m =
     (let stats = fold (count_job_status queue) (range_map iter (ms_jobs m)) (zero_QueueStats queue)
      in case md_queueStats (ms_metrics m) queue of
           None \<Rightarrow> Ok stats
         | Some s \<Rightarrow>
             let stats = (if qs_SuccessCount stats = 0
                          then stats\<lparr>qs_SuccessCount := qs_SuccessCount s\<rparr> else stats);
                 stats = (if qs_FailedCount stats = 0
                          then stats\<lparr>qs_FailedCount := qs_FailedCount s\<rparr> else stats)
             in Ok stats)"

definition mem_GetQueueStatsAll ::
  "(string set \<Rightarrow> string list) \<Rightarrow> MemoryStore \<Rightarrow> (string \<rightharpoonup> QueueStats) res" where
  "mem_GetQueueStatsAll iter m =
     (let queues = iter (set (map j_Queue (range_map iter (ms_jobs m))))
      in Ok (fold (\<lambda>queue result. case mem_GetQueueStats iter queue m of
                       Ok stats \<Rightarrow> result(queue \<mapsto> stats)
                     | _ \<Rightarrow> result) queues Map.empty))"

text \<open>Integer division of Go truncates towards zero.\<close>

definition mem_GetJobTypeStats :: "string \<Rightarrow> MemoryStore \<Rightarrow> (int \<times> duration) res" where
  "mem_GetJobTypeStats jobType m =
     (case md_jobTypeStats (ms_metrics m) jobType of
        None \<Rightarrow> Ok (0, 0)
      | Some stats \<Rightarrow>
          let n = jt_Count stats
          in Ok (n, if n > 0 then jt_TotalDuration stats sdiv n else 0))"

section \<open>ConfigStore\<close>

definition mem_SaveQueueConfig :: "QueueConfig \<Rightarrow> MemoryStore \<Rightarrow> unit res \<times> MemoryStore" where
  "mem_SaveQueueConfig config m =
     (Ok (), m\<lparr>ms_queueConfigs := (ms_queueConfigs m)(qc_Name config \<mapsto> config)\<rparr>)"

definition mem_GetQueueConfig :: "string \<Rightarrow> MemoryStore \<Rightarrow> QueueConfig res" where
  "mem_GetQueueConfig queue m =
     (case ms_queueConfigs m queue of
        None \<Rightarrow> Err (Errorf (''queue config not found: '' @ queue) None)
      | Some config \<Rightarrow> Ok config)"

definition mem_DeleteQueueConfig :: "string \<Rightarrow> MemoryStore \<Rightarrow> unit res \<times> MemoryStore" where
  "mem_DeleteQueueConfig queue m =
     (Ok (), m\<lparr>ms_queueConfigs := (ms_queueConfigs m)(queue := None)\<rparr>)"

definition mem_ListQueueConfigs ::
  "(string set \<Rightarrow> string list) \<Rightarrow> MemoryStore \<Rightarrow> QueueConfig list res" where
  "mem_ListQueueConfigs iter m = Ok (range_map iter (ms_queueConfigs m))"

lemmas mem_job_defs =
  mem_CreateJob_def mem_GetJob_def mem_UpdateJob_def mem_DeleteJob_def mem_UpdateStatus_def
  mem_UpdateProgress_def mem_SetResult_def mem_SetError_def

lemmas mem_queue_defs =
  mem_Enqueue_def mem_Dequeue_def mem_Requeue_def mem_Remove_def mem_PauseQueue_def
  mem_ResumeQueue_def

lemmas mem_worker_defs =
  mem_RegisterWorker_def mem_UnregisterWorker_def mem_with_worker_def mem_UpdateHeartbeat_def
  mem_UpdateWorkerStatus_def mem_SetCurrentJob_def mem_IncrementProcessed_def
  mem_IncrementFailed_def

lemmas mem_metrics_defs =
  mem_RecordJobCreated_def mem_RecordJobCompleted_def mem_RecordJobFailed_def
  mem_RecordJobRetried_def

lemmas mem_config_defs = mem_SaveQueueConfig_def mem_DeleteQueueConfig_def

lemmas mem_write_defs =
  mem_job_defs mem_queue_defs mem_worker_defs mem_metrics_defs mem_config_defs

end
