(* ===== verification/MemoryQueue.thy ===== *)
theory MemoryQueue
  imports MemoryStore
begin

text \<open>
  What the queue methods of the memory store do. \<open>is_best\<close> says which entry \<open>Dequeue\<close> has to
  take: ready, of the highest priority among the ready ones, and the oldest of those. The loop
  finds exactly that entry, and dequeuing again and again gives the ready entries in the order of a
  stable sort by falling priority.
\<close>

section \<open>The entry to take\<close>

definition entry_ready :: "time \<Rightarrow> queueEntry \<Rightarrow> bool" where
  "entry_ready now e \<longleftrightarrow> qe_Timestamp e \<le> now"

definition is_best :: "time \<Rightarrow> queueEntry list \<Rightarrow> nat \<Rightarrow> bool" where
  "is_best now es i \<longleftrightarrow>
     i < length es \<and> entry_ready now (es ! i) \<and>
     (\<forall>k < length es. entry_ready now (es ! k) \<longrightarrow> qe_Priority (es ! k) \<le> qe_Priority (es ! i)) \<and>
     (\<forall>k < i. entry_ready now (es ! k) \<longrightarrow> qe_Priority (es ! k) < qe_Priority (es ! i))"

lemma is_best_unique: "is_best now es i \<Longrightarrow> is_best now es k \<Longrightarrow> i = k"
  by (metis is_best_def linorder_neqE_nat not_less)

lemma is_best_first:
  "\<lbrakk>\<forall>x \<in> set es. \<not> entry_ready now x; entry_ready now e\<rbrakk> \<Longrightarrow> is_best now (es @ [e]) (length es)"
  by (auto simp: is_best_def nth_append less_Suc_eq all_set_conv_all_nth)

lemma is_best_better:
  "\<lbrakk>is_best now es i; entry_ready now e; qe_Priority (es ! i) < qe_Priority e\<rbrakk>
   \<Longrightarrow> is_best now (es @ [e]) (length es)"
  by (fastforce simp: is_best_def nth_append less_Suc_eq)

lemma is_best_keep:
  "\<lbrakk>is_best now es i; \<not> entry_ready now e \<or> qe_Priority e \<le> qe_Priority (es ! i)\<rbrakk>
   \<Longrightarrow> is_best now (es @ [e]) i"
  by (auto simp: is_best_def nth_append less_Suc_eq)

text \<open>The state of the loop after the entries \<open>es\<close>.\<close>

definition loop_state :: "time \<Rightarrow> queueEntry list \<Rightarrow> int \<Rightarrow> Priority \<Rightarrow> bool" where
  "loop_state now es b p \<longleftrightarrow>
     (b = -1 \<and> (\<forall>x \<in> set es. \<not> entry_ready now x)) \<or>
     (\<exists>i. b = int i \<and> is_best now es i \<and> p = qe_Priority (es ! i))"

lemma loop_state_step:
  assumes "loop_state now es b p"
  shows "loop_state now (es @ [e])
           (if qe_Timestamp e > now then b else if b = -1 \<or> qe_Priority e > p then int (length es) else b)
           (if qe_Timestamp e > now then p else if b = -1 \<or> qe_Priority e > p then qe_Priority e else p)"
proof (cases "entry_ready now e")
  case False
  then have late: "qe_Timestamp e > now" by (simp add: entry_ready_def)
  from assms show ?thesis unfolding loop_state_def [of now es b p]
  proof
    assume "b = -1 \<and> (\<forall>x \<in> set es. \<not> entry_ready now x)"
    with False late show ?thesis by (auto simp: loop_state_def)
  next
    assume "\<exists>i. b = int i \<and> is_best now es i \<and> p = qe_Priority (es ! i)"
    then obtain i where i: "b = int i" "is_best now es i" "p = qe_Priority (es ! i)" by blast
    with False have "is_best now (es @ [e]) i" by (blast intro: is_best_keep)
    moreover from i(2) have "i < length es" by (simp add: is_best_def)
    ultimately show ?thesis using i late by (auto simp: loop_state_def nth_append)
  qed
next
  case True
  then have now: "\<not> qe_Timestamp e > now" by (simp add: entry_ready_def)
  from assms show ?thesis unfolding loop_state_def [of now es b p]
  proof
    assume "b = -1 \<and> (\<forall>x \<in> set es. \<not> entry_ready now x)"
    with True now show ?thesis by (auto simp: loop_state_def nth_append intro: is_best_first)
  next
    assume "\<exists>i. b = int i \<and> is_best now es i \<and> p = qe_Priority (es ! i)"
    then obtain i where i: "b = int i" "is_best now es i" "p = qe_Priority (es ! i)" by blast
    from i(2) have len: "i < length es" by (simp add: is_best_def)
    show ?thesis
    proof (cases "qe_Priority e > p")
      case higher: True
      with i True have "is_best now (es @ [e]) (length es)" by (blast intro: is_best_better)
      with higher now show ?thesis by (auto simp: loop_state_def nth_append)
    next
      case False
      with i have "is_best now (es @ [e]) i" by (auto intro: is_best_keep)
      with False now i len show ?thesis by (auto simp: loop_state_def nth_append)
    qed
  qed
qed

lemma loop_state_loop:
  "loop_state now pre b p \<Longrightarrow>
   \<exists>q. loop_state now (pre @ es) (mem_Dequeue_loop now (int (length pre)) b p es) q"
proof (induction es arbitrary: pre b p)
  case Nil
  then show ?case by auto
next
  case (Cons e es)
  note step = loop_state_step [OF Cons.prems, of e]
  from Cons.IH [OF step] show ?case
    by (cases "qe_Timestamp e > now"; cases "b = -1 \<or> qe_Priority e > p")
      (simp_all add: add.commute del: One_nat_def)
qed

lemma Dequeue_loop_cases:
  obtains (none) "mem_Dequeue_loop now 0 (-1) (-1) es = -1" "\<forall>e \<in> set es. \<not> entry_ready now e"
  | (best) i where "mem_Dequeue_loop now 0 (-1) (-1) es = int i" "is_best now es i"
proof -
  have "loop_state now [] (-1) (-1)" by (simp add: loop_state_def)
  from loop_state_loop [OF this, of es] show thesis
    using none best by (auto simp: loop_state_def)
qed

section \<open>Dequeue\<close>

text \<open>The three ways a call ends.\<close>

lemma Dequeue_paused: "ms_paused m q \<Longrightarrow> mem_Dequeue clk q m = (Err ErrQueuePaused, m)"
  by (simp add: mem_Dequeue_def)

lemma Dequeue_empty:
  "\<lbrakk>\<not> ms_paused m q; \<forall>e \<in> set (ms_queues m q). \<not> entry_ready (clk 0) e\<rbrakk>
   \<Longrightarrow> mem_Dequeue clk q m = (Err ErrQueueEmpty, m)"
  by (rule Dequeue_loop_cases [of "clk 0" "ms_queues m q"])
    (auto simp: mem_Dequeue_def Let_def is_best_def)

lemma Dequeue_best:
  assumes "\<not> ms_paused m q" and "is_best (clk 0) (ms_queues m q) i"
  shows "mem_Dequeue clk q m =
    (Ok (qe_JobID (ms_queues m q ! i)),
     m\<lparr>ms_queues := (ms_queues m)(q := remove_at i (ms_queues m q))\<rparr>)"
proof (rule Dequeue_loop_cases [of "clk 0" "ms_queues m q"])
  assume "\<forall>e \<in> set (ms_queues m q). \<not> entry_ready (clk 0) e"
  with assms(2) show ?thesis by (auto simp: is_best_def)
next
  fix k assume k: "mem_Dequeue_loop (clk 0) 0 (-1) (-1) (ms_queues m q) = int k"
    "is_best (clk 0) (ms_queues m q) k"
  with assms(2) have "k = i" by (blast intro: is_best_unique)
  moreover from assms(2) have "ms_queues m q \<noteq> []" by (auto simp: is_best_def)
  ultimately show ?thesis using k assms(1) by (simp add: mem_Dequeue_def Let_def)
qed

lemma ex_is_best: "e \<in> set es \<Longrightarrow> entry_ready now e \<Longrightarrow> \<exists>i. is_best now es i"
  by (rule Dequeue_loop_cases [of now es]) auto

lemma mem_Dequeue_cases:
  obtains (paused) "ms_paused m q" "mem_Dequeue clk q m = (Err ErrQueuePaused, m)"
  | (empty) "\<not> ms_paused m q" "\<forall>e \<in> set (ms_queues m q). \<not> entry_ready (clk 0) e"
      "mem_Dequeue clk q m = (Err ErrQueueEmpty, m)"
  | (job) i where "\<not> ms_paused m q" "is_best (clk 0) (ms_queues m q) i"
      "mem_Dequeue clk q m = (Ok (qe_JobID (ms_queues m q ! i)),
         m\<lparr>ms_queues := (ms_queues m)(q := remove_at i (ms_queues m q))\<rparr>)"
  using Dequeue_paused Dequeue_empty Dequeue_best ex_is_best by metis

section \<open>Dequeuing until nothing is ready\<close>

fun mem_drain :: "nat \<Rightarrow> clock \<Rightarrow> string \<Rightarrow> MemoryStore \<Rightarrow> string list \<times> MemoryStore" where
  "mem_drain 0 clk q m = ([], m)"
| "mem_drain (Suc n) clk q m =
     (case mem_Dequeue clk q m of
        (Ok jid, m') \<Rightarrow> (case mem_drain n clk q m' of (jids, m'') \<Rightarrow> (jid # jids, m''))
      | (_, m') \<Rightarrow> ([], m'))"

text \<open>The ready entries in the order they have to be served: stable, by falling priority.\<close>

definition ready_order :: "time \<Rightarrow> queueEntry list \<Rightarrow> queueEntry list" where
  "ready_order now es = sort_key (\<lambda>e. - qe_Priority e) (filter (entry_ready now) es)"

lemma is_best_0: "is_best now (e # es) 0 \<Longrightarrow>
  entry_ready now e \<and> (\<forall>x \<in> set es. entry_ready now x \<longrightarrow> qe_Priority x \<le> qe_Priority e)"
  by (fastforce simp: is_best_def in_set_conv_nth)

lemma is_best_Suc: "is_best now (e # es) (Suc i) \<Longrightarrow>
  is_best now es i \<and> (entry_ready now e \<longrightarrow> qe_Priority e < qe_Priority (es ! i))"
  by (fastforce simp: is_best_def)

lemma ready_order_best:
  "is_best now es i \<Longrightarrow> ready_order now es = es ! i # ready_order now (remove_at i es)"
proof (induction es arbitrary: i)
  case Nil
  then show ?case by (simp add: is_best_def)
next
  case (Cons e es)
  show ?case
  proof (cases i)
    case 0
    with Cons.prems show ?thesis
      by (auto simp: ready_order_def dest: is_best_0 intro!: insort_is_Cons)
  next
    case (Suc k)
    with Cons.prems have best: "is_best now es k"
      and low: "entry_ready now e \<longrightarrow> qe_Priority e < qe_Priority (es ! k)"
      by (auto dest: is_best_Suc)
    from Cons.IH [OF best] low Suc show ?thesis
      by (cases "entry_ready now e") (simp_all add: ready_order_def)
  qed
qed

lemma ready_order_Nil: "ready_order now es = [] \<longleftrightarrow> (\<forall>e \<in> set es. \<not> entry_ready now e)"
  by (metis (no_types, lifting) ready_order_def filter_empty_conv length_0_conv length_sort)

lemma drain_ready_order:
  "\<not> ms_paused m q \<Longrightarrow>
   fst (mem_drain n (\<lambda>_. now) q m) = map qe_JobID (take n (ready_order now (ms_queues m q)))"
proof (induction n arbitrary: m)
  case 0
  then show ?case by simp
next
  case (Suc n)
  show ?case
  proof (rule mem_Dequeue_cases [of m q "\<lambda>_. now"])
    assume "ms_paused m q"
    with Suc.prems show ?thesis by simp
  next
    assume "\<forall>e \<in> set (ms_queues m q). \<not> entry_ready now e"
      and deq: "mem_Dequeue (\<lambda>_. now) q m = (Err ErrQueueEmpty, m)"
    then have "ready_order now (ms_queues m q) = []" by (simp add: ready_order_Nil)
    with deq show ?thesis by simp
  next
    fix i
    let ?m' = "m\<lparr>ms_queues := (ms_queues m)(q := remove_at i (ms_queues m q))\<rparr>"
    assume best: "is_best now (ms_queues m q) i"
      and deq: "mem_Dequeue (\<lambda>_. now) q m = (Ok (qe_JobID (ms_queues m q ! i)), ?m')"
    from Suc.prems have "fst (mem_drain n (\<lambda>_. now) q ?m') =
        map qe_JobID (take n (ready_order now (remove_at i (ms_queues m q))))"
      by (subst Suc.IH) simp_all
    with deq ready_order_best [OF best] show ?thesis by (simp add: case_prod_beta)
  qed
qed

section \<open>Enqueue and Remove\<close>

lemma Remove_loop_shift:
  "mem_Remove_loop jid (Suc n) es = map_option Suc (mem_Remove_loop jid n es)"
  by (induction es arbitrary: n) auto

lemma Remove_loop_Some:
  "mem_Remove_loop jid 0 es = Some i \<Longrightarrow>
     i < length es \<and> qe_JobID (es ! i) = jid \<and> (\<forall>k < i. qe_JobID (es ! k) \<noteq> jid)"
  by (induction es arbitrary: i)
    (simp, fastforce simp: Remove_loop_shift less_Suc_eq_0_disj split: if_splits)

lemma Remove_loop_None:
  "mem_Remove_loop jid n es = None \<longleftrightarrow> jid \<notin> qe_JobID ` set es"
  by (induction es arbitrary: n) auto

lemma Enqueue_Ok:
  "ms_jobs m jid \<noteq> None \<Longrightarrow>
   mem_Enqueue clk q jid p d m =
     (Ok (), m\<lparr>ms_queues := (ms_queues m)(q := ms_queues m q @
        [\<lparr>qe_JobID = jid, qe_Priority = p, qe_Timestamp = clk 0 + d\<rparr>])\<rparr>)"
  by (simp add: mem_Enqueue_def Let_def)

lemma Enqueue_missing:
  "ms_jobs m jid = None \<Longrightarrow> mem_Enqueue clk q jid p d m = (Err ErrJobNotFound, m)"
  by (simp add: mem_Enqueue_def)

end
