(* ===== verification/MemoryProofs.thy ===== *)
theory MemoryProofs
  imports MemoryQueue
begin

text \<open>
  The memory store as a whole: an invariant that every method keeps, in every order of calls
  (\<open>mem_reachable\<close>), and what listing, status changes, metrics and worker bookkeeping give.
\<close>

section \<open>Every call of the store\<close>

text \<open>One constructor per method that writes, with the method's arguments.\<close>

datatype mem_op =
    OpCreateJob job | OpUpdateJob job | OpDeleteJob string
  | OpUpdateStatus clock string Status | OpUpdateProgress clock string int
  | OpSetResult clock string bytes | OpSetError clock string string
  | OpEnqueue clock string string Priority duration | OpDequeue clock string
  | OpRequeue clock string string Priority duration | OpRemove string string
  | OpPauseQueue string | OpResumeQueue string
  | OpRegisterWorker worker | OpUnregisterWorker string | OpUpdateHeartbeat clock string
  | OpUpdateWorkerStatus string WorkerStatus | OpSetCurrentJob string string
  | OpIncrementProcessed string | OpIncrementFailed string
  | OpRecordJobCreated string string | OpRecordJobCompleted string string duration
  | OpRecordJobFailed string string | OpRecordJobRetried string string
  | OpSaveQueueConfig QueueConfig | OpDeleteQueueConfig string

fun mem_step :: "mem_op \<Rightarrow> MemoryStore \<Rightarrow> MemoryStore" where
  "mem_step (OpCreateJob j) m = snd (mem_CreateJob j m)"
| "mem_step (OpUpdateJob j) m = snd (mem_UpdateJob j m)"
| "mem_step (OpDeleteJob i) m = snd (mem_DeleteJob i m)"
| "mem_step (OpUpdateStatus c i s) m = snd (mem_UpdateStatus c i s m)"
| "mem_step (OpUpdateProgress c i p) m = snd (mem_UpdateProgress c i p m)"
| "mem_step (OpSetResult c i r) m = snd (mem_SetResult c i r m)"
| "mem_step (OpSetError c i e) m = snd (mem_SetError c i e m)"
| "mem_step (OpEnqueue c q i p d) m = snd (mem_Enqueue c q i p d m)"
| "mem_step (OpDequeue c q) m = snd (mem_Dequeue c q m)"
| "mem_step (OpRequeue c q i p d) m = snd (mem_Requeue c q i p d m)"
| "mem_step (OpRemove q i) m = snd (mem_Remove q i m)"
| "mem_step (OpPauseQueue q) m = snd (mem_PauseQueue q m)"
| "mem_step (OpResumeQueue q) m = snd (mem_ResumeQueue q m)"
| "mem_step (OpRegisterWorker w) m = snd (mem_RegisterWorker w m)"
| "mem_step (OpUnregisterWorker i) m = snd (mem_UnregisterWorker i m)"
| "mem_step (OpUpdateHeartbeat c i) m = snd (mem_UpdateHeartbeat c i m)"
| "mem_step (OpUpdateWorkerStatus i s) m = snd (mem_UpdateWorkerStatus i s m)"
| "mem_step (OpSetCurrentJob i j) m = snd (mem_SetCurrentJob i j m)"
| "mem_step (OpIncrementProcessed i) m = snd (mem_IncrementProcessed i m)"
| "mem_step (OpIncrementFailed i) m = snd (mem_IncrementFailed i m)"
| "mem_step (OpRecordJobCreated q t) m = snd (mem_RecordJobCreated q t m)"
| "mem_step (OpRecordJobCompleted q t d) m = snd (mem_RecordJobCompleted q t d m)"
| "mem_step (OpRecordJobFailed q t) m = snd (mem_RecordJobFailed q t m)"
| "mem_step (OpRecordJobRetried q t) m = snd (mem_RecordJobRetried q t m)"
| "mem_step (OpSaveQueueConfig c) m = snd (mem_SaveQueueConfig c m)"
| "mem_step (OpDeleteQueueConfig q) m = snd (mem_DeleteQueueConfig q m)"

inductive mem_reachable :: "MemoryStore \<Rightarrow> bool" where
  new: "mem_reachable (NewMemoryStore clk)"
| call: "mem_reachable m \<Longrightarrow> mem_reachable (mem_step op m)"

section \<open>The invariant\<close>

text \<open>
  The maps are finite, every record is filed under its own key, and the metrics are consistent:
  counters fit their type and the shortest duration of a job type is not above the longest.
\<close>

definition jobs_inv :: "(string \<rightharpoonup> job) \<Rightarrow> bool" where
  "jobs_inv jm \<longleftrightarrow> finite (dom jm) \<and> (\<forall>k j. jm k = Some j \<longrightarrow> j_ID j = k)"

definition workers_inv :: "(string \<rightharpoonup> worker) \<Rightarrow> bool" where
  "workers_inv wm \<longleftrightarrow> finite (dom wm) \<and> (\<forall>k w. wm k = Some w \<longrightarrow> w_ID w = k)"

definition configs_inv :: "(string \<rightharpoonup> QueueConfig) \<Rightarrow> bool" where
  "configs_inv cm \<longleftrightarrow> finite (dom cm) \<and> (\<forall>k c. cm k = Some c \<longrightarrow> qc_Name c = k)"

definition metrics_inv :: "metricsData \<Rightarrow> bool" where
  "metrics_inv md \<longleftrightarrow>
     int64 (md_jobsCreated md) \<and> int64 (md_jobsCompleted md) \<and>
     int64 (md_jobsFailed md) \<and> int64 (md_jobsRetried md) \<and>
     (\<forall>q s. md_queueStats md q = Some s \<longrightarrow> qs_QueueName s = q) \<and>
     (\<forall>t s. md_jobTypeStats md t = Some s \<longrightarrow> jt_MinDuration s \<le> jt_MaxDuration s)"

definition mem_inv :: "MemoryStore \<Rightarrow> bool" where
  "mem_inv m \<longleftrightarrow> jobs_inv (ms_jobs m) \<and> workers_inv (ms_workers m) \<and>
     configs_inv (ms_queueConfigs m) \<and> metrics_inv (ms_metrics m)"

lemma jobs_inv_upd [intro]: "jobs_inv jm \<Longrightarrow> j_ID j = k \<Longrightarrow> jobs_inv (jm(k \<mapsto> j))"
  by (auto simp: jobs_inv_def)

lemma jobs_inv_del [intro]: "jobs_inv jm \<Longrightarrow> jobs_inv (jm(k := None))"
  by (auto simp: jobs_inv_def)

lemma jobs_inv_ID: "jobs_inv jm \<Longrightarrow> jm k = Some j \<Longrightarrow> j_ID j = k"
  by (simp add: jobs_inv_def)

lemma workers_inv_upd [intro]: "workers_inv wm \<Longrightarrow> w_ID w = k \<Longrightarrow> workers_inv (wm(k \<mapsto> w))"
  by (auto simp: workers_inv_def)

lemma workers_inv_del [intro]: "workers_inv wm \<Longrightarrow> workers_inv (wm(k := None))"
  by (auto simp: workers_inv_def)

lemma workers_inv_ID: "workers_inv wm \<Longrightarrow> wm k = Some w \<Longrightarrow> w_ID w = k"
  by (simp add: workers_inv_def)

lemma configs_inv_upd [intro]: "configs_inv cm \<Longrightarrow> qc_Name c = k \<Longrightarrow> configs_inv (cm(k \<mapsto> c))"
  by (auto simp: configs_inv_def)

lemma configs_inv_del [intro]: "configs_inv cm \<Longrightarrow> configs_inv (cm(k := None))"
  by (auto simp: configs_inv_def)

lemmas inv_ID = jobs_inv_ID workers_inv_ID

lemma int64_0 [simp]: "int64 0"
  by (simp add: int64_def)

lemma mem_inv_new: "mem_inv (NewMemoryStore clk)"
  by (simp add: mem_inv_def NewMemoryStore_def jobs_inv_def workers_inv_def configs_inv_def
      metrics_inv_def)

lemma mem_inv_jobs: "mem_inv m \<Longrightarrow> jobs_inv jm \<Longrightarrow> mem_inv (m\<lparr>ms_jobs := jm\<rparr>)"
  by (simp add: mem_inv_def)

lemma mem_inv_workers: "mem_inv m \<Longrightarrow> workers_inv wm \<Longrightarrow> mem_inv (m\<lparr>ms_workers := wm\<rparr>)"
  by (simp add: mem_inv_def)

lemma mem_inv_configs: "mem_inv m \<Longrightarrow> configs_inv cm \<Longrightarrow> mem_inv (m\<lparr>ms_queueConfigs := cm\<rparr>)"
  by (simp add: mem_inv_def)

lemma mem_inv_metrics: "mem_inv m \<Longrightarrow> metrics_inv md \<Longrightarrow> mem_inv (m\<lparr>ms_metrics := md\<rparr>)"
  by (simp add: mem_inv_def)

lemma mem_inv_queues [simp]: "mem_inv (m\<lparr>ms_queues := qm\<rparr>) = mem_inv m"
  by (simp add: mem_inv_def)

lemma mem_inv_paused [simp]: "mem_inv (m\<lparr>ms_paused := pm\<rparr>) = mem_inv m"
  by (simp add: mem_inv_def)

lemmas mem_inv_fields = mem_inv_jobs mem_inv_workers mem_inv_configs mem_inv_metrics

lemma mem_invD:
  "mem_inv m \<Longrightarrow> jobs_inv (ms_jobs m)" "mem_inv m \<Longrightarrow> workers_inv (ms_workers m)"
  "mem_inv m \<Longrightarrow> configs_inv (ms_queueConfigs m)" "mem_inv m \<Longrightarrow> metrics_inv (ms_metrics m)"
  by (simp_all add: mem_inv_def)

text \<open>One method at a time.\<close>

lemma inv_job_ops:
  assumes "mem_inv m"
  shows "mem_inv (snd (mem_CreateJob j m))" "mem_inv (snd (mem_UpdateJob j m))"
    "mem_inv (snd (mem_DeleteJob i m))" "mem_inv (snd (mem_UpdateStatus c i s m))"
    "mem_inv (snd (mem_UpdateProgress c i p m))" "mem_inv (snd (mem_SetResult c i r m))"
    "mem_inv (snd (mem_SetError c i e m))"
  using assms mem_invD(1) [OF assms]
  by (auto simp: mem_job_defs Let_def inv_ID split: option.splits intro!: mem_inv_fields)

lemma inv_queue_ops:
  assumes "mem_inv m"
  shows "mem_inv (snd (mem_Enqueue c q i p d m))" "mem_inv (snd (mem_Dequeue c q m))"
    "mem_inv (snd (mem_Requeue c q i p d m))" "mem_inv (snd (mem_Remove q i m))"
    "mem_inv (snd (mem_PauseQueue q m))" "mem_inv (snd (mem_ResumeQueue q m))"
  using assms by (auto simp: mem_queue_defs Let_def split: option.splits)

lemma inv_with_worker:
  "\<lbrakk>mem_inv m; \<And>w. w_ID (f w) = w_ID w\<rbrakk> \<Longrightarrow> mem_inv (snd (mem_with_worker i f m))"
  using mem_invD(2) [of m]
  by (auto simp: mem_with_worker_def inv_ID split: option.splits intro!: mem_inv_fields)

lemma inv_worker_ops:
  assumes "mem_inv m"
  shows "mem_inv (snd (mem_RegisterWorker w m))" "mem_inv (snd (mem_UnregisterWorker i m))"
    "mem_inv (snd (mem_UpdateHeartbeat c i m))" "mem_inv (snd (mem_UpdateWorkerStatus i s m))"
    "mem_inv (snd (mem_SetCurrentJob i j m))" "mem_inv (snd (mem_IncrementProcessed i m))"
    "mem_inv (snd (mem_IncrementFailed i m))"
  using assms mem_invD(2) [OF assms]
  by (auto simp: mem_RegisterWorker_def mem_UnregisterWorker_def mem_UpdateHeartbeat_def
      mem_UpdateWorkerStatus_def mem_SetCurrentJob_def mem_IncrementProcessed_def
      mem_IncrementFailed_def intro!: mem_inv_fields inv_with_worker)

lemma inv_metrics_ops:
  assumes "mem_inv m"
  shows "mem_inv (snd (mem_RecordJobCreated q t m))"
    "mem_inv (snd (mem_RecordJobCompleted q t d m))"
    "mem_inv (snd (mem_RecordJobFailed q t m))" "mem_inv (snd (mem_RecordJobRetried q t m))"
  using assms mem_invD(4) [OF assms]
  by (auto simp: mem_metrics_defs Let_def metrics_inv_def zero_QueueStats_def
      split: option.splits intro!: mem_inv_fields)

lemma inv_config_ops:
  assumes "mem_inv m"
  shows "mem_inv (snd (mem_SaveQueueConfig c m))" "mem_inv (snd (mem_DeleteQueueConfig q m))"
  using assms mem_invD(3) [OF assms] by (auto simp: mem_config_defs intro!: mem_inv_fields)

lemmas inv_ops = inv_job_ops inv_queue_ops inv_worker_ops inv_metrics_ops inv_config_ops

lemma mem_step_inv: "mem_inv m \<Longrightarrow> mem_inv (mem_step op m)"
  by (cases op) (simp_all add: inv_ops)

end
