(* ===== verification/MemoryStorage.thy ===== *)
theory MemoryStorage
  imports Storage MemoryProofs
begin

text \<open>
  The memory store as a backend: its operations as a \<open>Storage\<close> record, its state seen as an
  abstract store, and the proof that it keeps the contract of the locale \<open>storage\<close>.
\<close>

definition memStorage :: "(string set \<Rightarrow> string list) \<Rightarrow> MemoryStore Storage" where
  "memStorage iter =
     \<lparr>st_CreateJob = mem_CreateJob, st_GetJob = mem_GetJob, st_UpdateJob = mem_UpdateJob,
      st_DeleteJob = mem_DeleteJob, st_ListJobs = mem_ListJobs iter,
      st_UpdateStatus = mem_UpdateStatus, st_UpdateProgress = mem_UpdateProgress,
      st_SetResult = mem_SetResult, st_SetError = mem_SetError,
      st_Enqueue = mem_Enqueue, st_Dequeue = mem_Dequeue, st_Requeue = mem_Requeue,
      st_Remove = mem_Remove, st_Length = mem_Length, st_Peek = mem_Peek,
      st_GetScheduled = mem_GetScheduled, st_PauseQueue = mem_PauseQueue,
      st_ResumeQueue = mem_ResumeQueue, st_IsQueuePaused = mem_IsQueuePaused,
      st_RegisterWorker = mem_RegisterWorker, st_UnregisterWorker = mem_UnregisterWorker,
      st_UpdateHeartbeat = mem_UpdateHeartbeat, st_UpdateWorkerStatus = mem_UpdateWorkerStatus,
      st_SetCurrentJob = mem_SetCurrentJob, st_IncrementProcessed = mem_IncrementProcessed,
      st_IncrementFailed = mem_IncrementFailed, st_RecordJobCreated = mem_RecordJobCreated,
      st_RecordJobCompleted = mem_RecordJobCompleted, st_RecordJobFailed = mem_RecordJobFailed,
      st_RecordJobRetried = mem_RecordJobRetried, st_GetQueueStats = mem_GetQueueStats iter,
      st_GetQueueStatsAll = mem_GetQueueStatsAll iter, st_SaveQueueConfig = mem_SaveQueueConfig,
      st_GetQueueConfig = mem_GetQueueConfig, st_DeleteQueueConfig = mem_DeleteQueueConfig,
      st_ListQueueConfigs = mem_ListQueueConfigs iter\<rparr>"

lemma memStorage_sel [simp]:
  "st_CreateJob (memStorage iter) = mem_CreateJob" "st_GetJob (memStorage iter) = mem_GetJob"
  "st_UpdateJob (memStorage iter) = mem_UpdateJob" "st_DeleteJob (memStorage iter) = mem_DeleteJob"
  "st_ListJobs (memStorage iter) = mem_ListJobs iter"
  "st_UpdateStatus (memStorage iter) = mem_UpdateStatus"
  "st_UpdateProgress (memStorage iter) = mem_UpdateProgress"
  "st_SetResult (memStorage iter) = mem_SetResult" "st_SetError (memStorage iter) = mem_SetError"
  "st_Enqueue (memStorage iter) = mem_Enqueue" "st_Dequeue (memStorage iter) = mem_Dequeue"
  "st_Requeue (memStorage iter) = mem_Requeue" "st_Remove (memStorage iter) = mem_Remove"
  "st_Length (memStorage iter) = mem_Length" "st_Peek (memStorage iter) = mem_Peek"
  "st_GetScheduled (memStorage iter) = mem_GetScheduled"
  "st_PauseQueue (memStorage iter) = mem_PauseQueue"
  "st_ResumeQueue (memStorage iter) = mem_ResumeQueue"
  "st_IsQueuePaused (memStorage iter) = mem_IsQueuePaused"
  "st_RegisterWorker (memStorage iter) = mem_RegisterWorker"
  "st_UnregisterWorker (memStorage iter) = mem_UnregisterWorker"
  "st_UpdateHeartbeat (memStorage iter) = mem_UpdateHeartbeat"
  "st_UpdateWorkerStatus (memStorage iter) = mem_UpdateWorkerStatus"
  "st_SetCurrentJob (memStorage iter) = mem_SetCurrentJob"
  "st_IncrementProcessed (memStorage iter) = mem_IncrementProcessed"
  "st_IncrementFailed (memStorage iter) = mem_IncrementFailed"
  "st_RecordJobCreated (memStorage iter) = mem_RecordJobCreated"
  "st_RecordJobCompleted (memStorage iter) = mem_RecordJobCompleted"
  "st_RecordJobFailed (memStorage iter) = mem_RecordJobFailed"
  "st_RecordJobRetried (memStorage iter) = mem_RecordJobRetried"
  "st_GetQueueStats (memStorage iter) = mem_GetQueueStats iter"
  "st_GetQueueStatsAll (memStorage iter) = mem_GetQueueStatsAll iter"
  "st_SaveQueueConfig (memStorage iter) = mem_SaveQueueConfig"
  "st_GetQueueConfig (memStorage iter) = mem_GetQueueConfig"
  "st_DeleteQueueConfig (memStorage iter) = mem_DeleteQueueConfig"
  "st_ListQueueConfigs (memStorage iter) = mem_ListQueueConfigs iter"
  by (simp_all add: memStorage_def)

section \<open>The view of the memory store\<close>

definition entry_of :: "queueEntry \<Rightarrow> entry" where
  "entry_of e = (qe_JobID e, qe_Priority e, qe_Timestamp e)"

definition mem_view :: "MemoryStore \<Rightarrow> store_view" where
  "mem_view m = \<lparr>v_jobs = ms_jobs m, v_entries = (\<lambda>q. mset (map entry_of (ms_queues m q))),
     v_paused = ms_paused m, v_configs = ms_queueConfigs m\<rparr>"

lemma mem_view_sel [simp]:
  "v_jobs (mem_view m) = ms_jobs m"
  "v_entries (mem_view m) = (\<lambda>q. mset (map entry_of (ms_queues m q)))"
  "v_paused (mem_view m) = ms_paused m" "v_configs (mem_view m) = ms_queueConfigs m"
  by (simp_all add: mem_view_def)

lemma mem_view_upd [simp]:
  "mem_view (m\<lparr>ms_jobs := x\<rparr>) = (mem_view m)\<lparr>v_jobs := x\<rparr>"
  "mem_view (m\<lparr>ms_paused := y\<rparr>) = (mem_view m)\<lparr>v_paused := y\<rparr>"
  "mem_view (m\<lparr>ms_workers := z\<rparr>) = mem_view m"
  "mem_view (m\<lparr>ms_metrics := u\<rparr>) = mem_view m"
  "mem_view (m\<lparr>ms_queueConfigs := w\<rparr>) = (mem_view m)\<lparr>v_configs := w\<rparr>"
  by (simp_all add: mem_view_def)

lemma mem_view_queue [simp]:
  "mem_view (m\<lparr>ms_queues := (ms_queues m)(q := es)\<rparr>) =
     (mem_view m)\<lparr>v_entries := (v_entries (mem_view m))(q := mset (map entry_of es))\<rparr>"
  by (auto simp: mem_view_def)

lemma refinesI:
  "\<lbrakk>\<And>s. ok s \<Longrightarrow> ok (snd (f s)); \<And>s. ok s \<Longrightarrow> g (view s) = (fst (f s), view (snd (f s)))\<rbrakk>
   \<Longrightarrow> refines ok view f g"
  by (fastforce simp: refines_def)

lemma refines_relI:
  "\<lbrakk>\<And>s. ok s \<Longrightarrow> ok (snd (f s)); \<And>s. ok s \<Longrightarrow> R (view s) (fst (f s), view (snd (f s)))\<rbrakk>
   \<Longrightarrow> refines_rel ok view f R"
  by (fastforce simp: refines_rel_def)

lemma framesI:
  "\<lbrakk>\<And>s. ok s \<Longrightarrow> ok (snd (f s)); \<And>s. ok s \<Longrightarrow> view (snd (f s)) = view s;
    \<And>s p. ok s \<Longrightarrow> fst (f s) \<noteq> Panic p\<rbrakk> \<Longrightarrow> frames ok view f"
  unfolding frames_def by (metis fst_conv snd_conv)

lemma mem_refines_jobs:
  "refines mem_inv mem_view (mem_CreateJob j) (spec_CreateJob j)"
  "refines mem_inv mem_view (mem_UpdateJob j) (spec_change_job (j_ID j) (\<lambda>_. Some j))"
  "refines mem_inv mem_view (mem_DeleteJob jid) (spec_change_job jid (\<lambda>_. None))"
  "refines mem_inv mem_view (mem_UpdateProgress clk jid n)
      (spec_change_job jid (\<lambda>j. Some (j\<lparr>j_Progress := n, j_UpdatedAt := clk 0\<rparr>)))"
  "refines mem_inv mem_view (mem_SetResult clk jid b)
      (spec_change_job jid (\<lambda>j. Some (j\<lparr>j_Result := b, j_UpdatedAt := clk 0\<rparr>)))"
  "refines mem_inv mem_view (mem_SetError clk jid e)
      (spec_change_job jid (\<lambda>j. Some (j\<lparr>j_Error := e, j_UpdatedAt := clk 0\<rparr>)))"
  by (auto intro!: refinesI simp: inv_job_ops)
    (auto simp: mem_job_defs spec_CreateJob_def spec_change_job_def split: option.splits)

lemma mem_refines_UpdateStatus:
  "refines mem_inv mem_view (mem_UpdateStatus clk jid status)
     (spec_change_job jid (\<lambda>j. Some (set_status clk status j)))"
  by (rule refinesI, simp add: inv_job_ops)
    (auto simp: mem_UpdateStatus_def spec_change_job_def set_status_def IsTerminal_def Let_def
      split: option.splits)

lemma mem_refines_Enqueue:
  "refines mem_inv mem_view (mem_Enqueue clk q jid p d) (spec_Enqueue clk q jid p d)"
  by (rule refinesI, simp add: inv_queue_ops)
    (auto simp: mem_Enqueue_def spec_Enqueue_def entry_of_def Let_def)

lemma mem_refines_Dequeue:
  "refines_rel mem_inv mem_view (mem_Dequeue clk q) (spec_Dequeue (clk 0) q)"
proof (rule refines_relI)
  fix m :: MemoryStore
  show "spec_Dequeue (clk 0) q (mem_view m) (fst (mem_Dequeue clk q m), mem_view (snd (mem_Dequeue clk q m)))"
  proof (rule mem_Dequeue_cases [of m q clk])
    fix i
    let ?es = "ms_queues m q"
    assume np: "\<not> ms_paused m q" and best: "is_best (clk 0) ?es i"
      and deq: "mem_Dequeue clk q m =
        (Ok (qe_JobID (?es ! i)), m\<lparr>ms_queues := (ms_queues m)(q := remove_at i ?es)\<rparr>)"
    from best have i: "i < length ?es" by (simp add: is_best_def)
    obtain jid p t where e: "entry_of (?es ! i) = (jid, p, t)" by (cases "entry_of (?es ! i)")
    have mem: "(jid, p, t) \<in> set (map entry_of ?es)" using e i by (metis length_map nth_map nth_mem)
    have t: "t \<le> clk 0" using best e by (auto simp: is_best_def entry_ready_def entry_of_def)
    have top: "\<forall>(jid', p', t') \<in> set (map entry_of ?es). t' \<le> clk 0 \<longrightarrow> p' \<le> p"
      using best e by (fastforce simp: is_best_def entry_ready_def entry_of_def in_set_conv_nth)
    have rest: "mset (map entry_of (remove_at i ?es)) = mset (map entry_of ?es) - {#(jid, p, t)#}"
      using i e by (simp add: mset_remove_at image_mset_Diff)
    have "spec_Dequeue (clk 0) q (mem_view m)
        (Ok jid, mem_view (m\<lparr>ms_queues := (ms_queues m)(q := remove_at i ?es)\<rparr>))"
      by (rule spec_Dequeue_OkI [of _ _ _ p t])
        (use np mem t top rest in \<open>simp_all only: mem_view_sel mem_view_queue set_mset_mset not_False_eq_True\<close>)
    moreover have "jid = qe_JobID (?es ! i)" using e by (simp add: entry_of_def)
    ultimately show ?thesis using deq by simp
  qed (auto simp: spec_Dequeue_def entry_of_def entry_ready_def)
qed (simp add: inv_queue_ops)

lemma mem_refines_Remove: "refines_rel mem_inv mem_view (mem_Remove q jid) (spec_Remove q jid)"
proof (rule refines_relI)
  fix m :: MemoryStore
  let ?es = "ms_queues m q"
  show "spec_Remove q jid (mem_view m) (fst (mem_Remove q jid m), mem_view (snd (mem_Remove q jid m)))"
  proof (cases "mem_Remove_loop jid 0 ?es")
    case None
    then show ?thesis
      using iffD1 [OF Remove_loop_None None]
      by (simp add: mem_Remove_def spec_Remove_def Let_def entry_of_def image_image)
  next
    case (Some i)
    from Remove_loop_Some [OF this] have i: "i < length ?es" "qe_JobID (?es ! i) = jid" by auto
    let ?e = "entry_of (?es ! i)"
    have mem: "?e \<in> set (map entry_of ?es)" using i by simp
    have e: "?e = (jid, qe_Priority (?es ! i), qe_Timestamp (?es ! i))"
      using i by (simp add: entry_of_def)
    have "mset (map entry_of (remove_at i ?es)) = mset (map entry_of ?es) - {#?e#}"
      using i by (simp add: mset_remove_at image_mset_Diff)
    moreover have "jid \<in># image_mset fst (mset (map entry_of ?es))"
      using mem e by (metis fst_conv image_eqI set_image_mset set_mset_mset)
    ultimately show ?thesis using Some mem e unfolding spec_Remove_def
      by (auto simp add: mem_Remove_def Let_def simp del: mset_map)
  qed
qed (simp add: inv_queue_ops)

lemma mem_refines_paused:
  "refines mem_inv mem_view (mem_PauseQueue q) (spec_set_paused True q)"
  "refines mem_inv mem_view (mem_ResumeQueue q) (spec_set_paused False q)"
  by (rule refinesI; auto simp: mem_PauseQueue_def mem_ResumeQueue_def spec_set_paused_def)+

lemma mem_refines_configs:
  "refines mem_inv mem_view (mem_SaveQueueConfig c) (spec_set_config (qc_Name c) (Some c))"
  "refines mem_inv mem_view (mem_DeleteQueueConfig q) (spec_set_config q None)"
  by (auto intro!: refinesI simp: inv_config_ops)
    (auto simp: mem_config_defs spec_set_config_def)

lemma mem_frames_workers:
  "frames mem_inv mem_view (mem_RegisterWorker w)"
  "frames mem_inv mem_view (mem_UnregisterWorker wid)"
  "frames mem_inv mem_view (mem_UpdateHeartbeat clk wid)"
  "frames mem_inv mem_view (mem_UpdateWorkerStatus wid ws)"
  "frames mem_inv mem_view (mem_SetCurrentJob wid jid)"
  "frames mem_inv mem_view (mem_IncrementProcessed wid)"
  "frames mem_inv mem_view (mem_IncrementFailed wid)"
  by (auto intro!: framesI simp: inv_worker_ops)
    (auto simp: mem_worker_defs split: option.splits if_splits)

lemma mem_frames_metrics:
  "frames mem_inv mem_view (mem_RecordJobCreated q t)"
  "frames mem_inv mem_view (mem_RecordJobCompleted q t d)"
  "frames mem_inv mem_view (mem_RecordJobFailed q t)"
  "frames mem_inv mem_view (mem_RecordJobRetried q t)"
  by (auto intro!: framesI simp: inv_metrics_ops) (auto simp: mem_metrics_defs Let_def)

interpretation mem: storage "memStorage iter" mem_view mem_inv for iter
  by unfold_locales
    (auto simp: mem_refines_jobs mem_refines_UpdateStatus mem_refines_Enqueue mem_refines_Dequeue
      mem_refines_Remove mem_refines_paused mem_refines_configs mem_frames_workers
      mem_frames_metrics mem_Requeue_def [abs_def] mem_GetJob_def mem_Length_def
      mem_IsQueuePaused_def mem_GetQueueConfig_def mem_inv_def jobs_inv_def configs_inv_def
      split: option.splits)

sublocale map_iteration \<subseteq> listing: storage_listing "memStorage iter" mem_view mem_inv
  by unfold_locales (simp add: mem_ListQueueConfigs_def set_range_map mem_inv_def configs_inv_def)

end
