(* ===== verification/Samples.thy ===== *)
theory Samples
  imports Job
begin

text \<open>Concrete jobs and configurations, on which the properties are shown to apply.\<close>

definition sample_job :: "string \<Rightarrow> job" where
  "sample_job jid =
     \<lparr>j_ID = jid, j_Type = ''echo'', j_Payload = Map.empty, j_Priority = PriorityNormal,
      j_Status = StatusPending, j_MaxRetries = 3, j_CurrentRetry = 0, j_Timeout = 0,
      j_ScheduledAt = None, j_CreatedAt = 0, j_StartedAt = None, j_CompletedAt = None,
      j_Error = '''', j_Result = None, j_Metadata = Map.empty, j_Queue = ''mail'', j_Progress = 0,
      j_WorkerID = '''', j_UpdatedAt = 0, j_TimeoutSeconds = 30\<rparr>"

lemma sample_job_sel [simp]:
  "j_ID (sample_job jid) = jid" "j_Type (sample_job jid) = ''echo''"
  "j_Priority (sample_job jid) = PriorityNormal" "j_Status (sample_job jid) = StatusPending"
  "j_MaxRetries (sample_job jid) = 3" "j_CurrentRetry (sample_job jid) = 0"
  "j_ScheduledAt (sample_job jid) = None" "j_CreatedAt (sample_job jid) = 0"
  "j_StartedAt (sample_job jid) = None" "j_CompletedAt (sample_job jid) = None"
  "j_Queue (sample_job jid) = ''mail''" "j_Result (sample_job jid) = None"
  "j_TimeoutSeconds (sample_job jid) = 30"
  by (simp_all add: sample_job_def)

definition sample_config :: "string \<Rightarrow> QueueConfig" where
  "sample_config q =
     zero_QueueConfig\<lparr>qc_Name := q, qc_MaxRetries := 3, qc_RetryStrategy := RetryStrategyExponential,
       qc_RetryDelay := 60, qc_MaxRetryDelay := 3600, qc_Priority := PriorityNormal, qc_Weight := 1,
       qc_DeadLetterQueue := ''dead''\<rparr>"

lemma sample_config_sel [simp]:
  "qc_Name (sample_config q) = q" "qc_RetryStrategy (sample_config q) = RetryStrategyExponential"
  "qc_RetryDelay (sample_config q) = 60" "qc_MaxRetryDelay (sample_config q) = 3600"
  "qc_Priority (sample_config q) = PriorityNormal" "qc_Weight (sample_config q) = 1"
  "qc_DeadLetterQueue (sample_config q) = ''dead''" "qc_MaxRetries (sample_config q) = 3"
  by (simp_all add: sample_config_def)

end
