(* ===== verification/MemoryProperties.thy ===== *)
theory MemoryProperties
  imports MemoryStorage Samples
begin

text \<open>What the memory store is for, as theorems about its methods.\<close>

section \<open>Order of service\<close>

lemma remove1_best: "is_best now es i \<Longrightarrow> remove1 (es ! i) es = remove_at i es"
proof (induction es arbitrary: i)
  case Nil
  then show ?case by (simp add: is_best_def)
next
  case (Cons e es)
  show ?case
  proof (cases i)
    case 0
    then show ?thesis by simp
  next
    case (Suc k)
    with Cons.prems have "is_best now es k" "e \<noteq> es ! k" by (auto simp: is_best_def)
    with Cons.IH Suc show ?thesis by simp
  qed
qed

text \<open>
  C2: \<open>Dequeue\<close>, on every branch. A paused queue and a queue without a ready entry give their
  errors and change nothing. Otherwise the job is the one first in the order of falling priority,
  and of age among equals, over the entries whose time has come; its entry, and nothing
  else, is removed.
\<close>

theorem Dequeue_takes_first:
  "mem_Dequeue clk q m =
     (if ms_paused m q then (Err ErrQueuePaused, m)
      else case ready_order (clk 0) (ms_queues m q) of
          [] \<Rightarrow> (Err ErrQueueEmpty, m)
        | e # _ \<Rightarrow> (Ok (qe_JobID e), m\<lparr>ms_queues := (ms_queues m)(q := remove1 e (ms_queues m q))\<rparr>))"
proof (rule mem_Dequeue_cases [of m q clk])
  fix i
  assume "is_best (clk 0) (ms_queues m q) i" and "\<not> ms_paused m q"
    and "mem_Dequeue clk q m = (Ok (qe_JobID (ms_queues m q ! i)),
         m\<lparr>ms_queues := (ms_queues m)(q := remove_at i (ms_queues m q))\<rparr>)"
  then show ?thesis by (simp add: ready_order_best remove1_best)
qed (auto simp: iffD2 [OF ready_order_Nil])

text \<open>
  C1: dequeuing again and again from a queue that is not paused serves its ready entries exactly in the
  order of a stable sort by falling priority: higher priorities first, first come first
  served within a priority, nothing twice, nothing that is not ready.
\<close>

theorem drain_stable_priority:
  "fst (mem_drain n (\<lambda>_. now) q m) =
     (if ms_paused m q then []
      else map qe_JobID (take n (sort_key (\<lambda>e. - qe_Priority e)
             (filter (\<lambda>e. qe_Timestamp e \<le> now) (ms_queues m q)))))"
proof (cases "ms_paused m q")
  case True
  then show ?thesis by (cases n) (simp_all add: Dequeue_paused)
next
  case False
  have "entry_ready now = (\<lambda>e. qe_Timestamp e \<le> now)" by (auto simp: entry_ready_def)
  with drain_ready_order [OF False] False show ?thesis by (simp add: ready_order_def)
qed

section \<open>The store as a whole\<close>

text \<open>
  C4: after any sequence of calls on a new store, every record is filed under its own
  identifier, the tables are finite, the counters are in the range of their type, and the
  shortest recorded duration of a job type is not above the longest.
\<close>

theorem reachable_store_inv: "mem_reachable m \<Longrightarrow> mem_inv m"
  by (induction rule: mem_reachable.induct) (auto intro: mem_inv_new mem_step_inv)

theorem reachable_store_inv_witness:
  "mem_inv (mem_step (OpRecordJobCompleted ''mail'' ''echo'' 5)
     (mem_step (OpCreateJob (sample_job ''a'')) (NewMemoryStore (\<lambda>_. 0))))"
  by (rule reachable_store_inv) (intro mem_reachable.intros)

text \<open>
  C5: the memory store keeps the contract of a storage backend: each operation does to the
  jobs, the queues (as multisets of entries), the paused flags and the configurations what the
  abstract store prescribes, with the same result, and the worker and metrics operations leave
  these alone.
\<close>

theorem memory_refines_storage: "storage (memStorage iter) mem_view mem_inv"
  by (rule mem.storage_axioms)

section \<open>Round trips\<close>

text \<open>
  Putting an entry for a stored job into a queue that has none of this job, and removing the
  job, gives back the same store.
\<close>

theorem Enqueue_Remove_roundtrip:
  assumes "ms_jobs m jid \<noteq> None" and "jid \<notin> qe_JobID ` set (ms_queues m q)"
  shows "mem_Remove q jid (snd (mem_Enqueue clk q jid p d m)) = (Ok (), m)"
proof -
  let ?es = "ms_queues m q" and ?e = "\<lparr>qe_JobID = jid, qe_Priority = p, qe_Timestamp = clk 0 + d\<rparr>"
  have "mem_Remove_loop jid n (es @ [?e]) = Some (n + length es)" if "jid \<notin> qe_JobID ` set es" for n es
    using that by (induction es arbitrary: n) auto
  with assms(2) have "mem_Remove_loop jid 0 (?es @ [?e]) = Some (length ?es)" by simp
  with Enqueue_Ok [OF assms(1)] show ?thesis by (simp add: mem_Remove_def remove_at_def)
qed

theorem Enqueue_Remove_roundtrip_witness:
  "mem_Remove ''mail'' ''a'' (snd (mem_Enqueue (\<lambda>_. 7) ''mail'' ''a'' 5 0
      (snd (mem_CreateJob (sample_job ''a'') (NewMemoryStore (\<lambda>_. 0)))))) =
   (Ok (), snd (mem_CreateJob (sample_job ''a'') (NewMemoryStore (\<lambda>_. 0))))"
  by (rule Enqueue_Remove_roundtrip) (simp_all add: mem_CreateJob_def NewMemoryStore_def)

section \<open>Listing\<close>

definition matches :: "string \<Rightarrow> Status \<Rightarrow> job \<Rightarrow> bool" where
  "matches q st j \<longleftrightarrow> (q = '''' \<or> j_Queue j = q) \<and> (st = '''' \<or> j_Status j = st)"

definition listing :: "(string set \<Rightarrow> string list) \<Rightarrow> string \<Rightarrow> Status \<Rightarrow> MemoryStore \<Rightarrow> job list" where
  "listing iter q st m = sort_key (\<lambda>j. - j_CreatedAt j) (filter (matches q st) (range_map iter (ms_jobs m)))"

lemma ListJobs_listing:
  "mem_ListJobs iter q st limit offset m =
     (if offset \<ge> int (length (listing iter q st m)) then Ok []
      else if offset < 0 then Panic ''slice bounds out of range''
      else Ok ((if limit > 0 then take (nat limit) else id) (drop (nat offset) (listing iter q st m))))"
proof -
  have eq: "(\<lambda>j. (q = '''' \<or> j_Queue j = q) \<and> (st = '''' \<or> j_Status j = st)) = matches q st"
    by (auto simp: matches_def)
  show ?thesis unfolding mem_ListJobs_def eq listing_def [symmetric] Let_def
    by (auto simp: nat_le_iff)
qed

lemma distinct_range_map_IDs:
  assumes "map_iteration iter" and "jobs_inv jm"
  shows "distinct (map j_ID (range_map iter jm))"
proof -
  have fin: "finite (dom jm)" and ids: "\<And>k j. jm k = Some j \<Longrightarrow> j_ID j = k"
    using assms(2) by (auto simp: jobs_inv_def)
  have "map j_ID (range_map iter jm) = iter (dom jm)"
    unfolding map_iteration.range_map_eq [OF assms(1) fin] map_map
    by (rule map_idI) (use ids map_iteration.set_iter [OF assms(1) fin] in auto)
  then show ?thesis using map_iteration.distinct_iter [OF assms(1) fin] by simp
qed

lemma set_listing:
  assumes "map_iteration iter" and "mem_inv m"
  shows "set (listing iter q st m) = {j. ms_jobs m (j_ID j) = Some j \<and> matches q st j}"
proof -
  have inv: "jobs_inv (ms_jobs m)" using assms(2) by (simp add: mem_inv_def)
  then have "ran (ms_jobs m) = {j. ms_jobs m (j_ID j) = Some j}"
    by (auto simp: ran_def jobs_inv_def)
  with inv show ?thesis
    by (auto simp: listing_def map_iteration.set_range_map [OF assms(1)] jobs_inv_def)
qed

lemma distinct_listing:
  assumes "map_iteration iter" and "mem_inv m"
  shows "distinct (map j_ID (listing iter q st m))"
proof -
  have "jobs_inv (ms_jobs m)" using assms(2) by (simp add: mem_inv_def)
  note d = distinct_range_map_IDs [OF assms(1) this]
  have "mset (map j_ID (listing iter q st m)) =
      mset (map j_ID (filter (matches q st) (range_map iter (ms_jobs m))))"
    by (simp add: listing_def)
  then have "distinct (map j_ID (listing iter q st m)) =
      distinct (map j_ID (filter (matches q st) (range_map iter (ms_jobs m))))"
    by (rule mset_eq_imp_distinct_iff)
  with d show ?thesis by (simp add: distinct_map_filter)
qed

lemma sorted_listing: "sorted (map (\<lambda>j. - j_CreatedAt j) (listing iter q st m))"
  by (simp add: listing_def)

text \<open>
  Without paging, \<open>ListJobs\<close> gives every stored job of the queue and status asked for (the
  empty string asks for all), once each, newest first.
\<close>

theorem ListJobs_complete:
  assumes "map_iteration iter" and "mem_inv m"
  shows "\<exists>js. mem_ListJobs iter q st 0 0 m = Ok js \<and> distinct (map j_ID js) \<and>
    set js = {j. ms_jobs m (j_ID j) = Some j \<and> (q = '''' \<or> j_Queue j = q) \<and> (st = '''' \<or> j_Status j = st)} \<and>
    sorted (map (\<lambda>j. - j_CreatedAt j) js)"
proof -
  have "mem_ListJobs iter q st 0 0 m = Ok (listing iter q st m)" by (simp add: ListJobs_listing)
  then show ?thesis
    using distinct_listing [OF assms] set_listing [OF assms] sorted_listing
    by (auto simp: matches_def)
qed

theorem ListJobs_complete_witness:
  "\<exists>js. mem_ListJobs sorted_list_of_set ''mail'' '''' 0 0
       (snd (mem_CreateJob (sample_job ''a'') (NewMemoryStore (\<lambda>_. 0)))) = Ok js \<and>
     distinct (map j_ID js) \<and> sample_job ''a'' \<in> set js"
proof -
  let ?m = "snd (mem_CreateJob (sample_job ''a'') (NewMemoryStore (\<lambda>_. 0)))"
  have "mem_inv ?m" by (simp add: inv_job_ops mem_inv_new)
  from ListJobs_complete [OF sorted_keys.map_iteration_axioms this, of "''mail''" "''''"]
  show ?thesis by (fastforce simp: mem_CreateJob_def NewMemoryStore_def)
qed

text \<open>
  paging cuts the full listing: an offset of \<open>n\<close> skips \<open>n\<close> jobs, a positive limit keeps
  that many of the rest, any other limit keeps them all. A negative offset is not rejected, it
  panics.
\<close>

theorem ListJobs_pages:
  assumes "mem_ListJobs iter q st 0 0 m = Ok js"
  shows "mem_ListJobs iter q st limit offset m =
    (if offset < 0 then Panic ''slice bounds out of range''
     else Ok ((if limit > 0 then take (nat limit) else id) (drop (nat offset) js)))"
proof -
  have js: "js = listing iter q st m" using assms by (auto simp: ListJobs_listing split: if_splits)
  show ?thesis unfolding js ListJobs_listing by (auto simp: nat_le_iff)
qed

theorem ListJobs_pages_witness:
  "mem_ListJobs sorted_list_of_set '''' '''' 1 0 (NewMemoryStore (\<lambda>_. 0)) = Ok [] \<and>
   mem_ListJobs sorted_list_of_set '''' '''' 1 (- 1) (NewMemoryStore (\<lambda>_. 0)) =
     Panic ''slice bounds out of range''"
proof -
  have "mem_ListJobs sorted_list_of_set '''' '''' 0 0 (NewMemoryStore (\<lambda>_. 0)) = Ok []"
    by (simp add: mem_ListJobs_def NewMemoryStore_def range_map_def)
  from ListJobs_pages [OF this, of 1 0] ListJobs_pages [OF this, of 1 "- 1"] show ?thesis by simp
qed

section \<open>Status changes\<close>

text \<open>A sequence of status changes of one job, each with the clock of its call.\<close>

definition mem_status_changes :: "string \<Rightarrow> (clock \<times> Status) list \<Rightarrow> MemoryStore \<Rightarrow> MemoryStore" where
  "mem_status_changes jid hist m = fold (\<lambda>(clk, st) m. snd (mem_UpdateStatus clk jid st m)) hist m"

definition terminal_status :: "Status \<Rightarrow> bool" where
  "terminal_status st \<longleftrightarrow> st \<in> {StatusSuccess, StatusFailed, StatusCancelled, StatusExpired}"

lemma UpdateStatus_set_status:
  "ms_jobs m jid = Some j \<Longrightarrow>
   snd (mem_UpdateStatus clk jid st m) = m\<lparr>ms_jobs := (ms_jobs m)(jid \<mapsto> set_status clk st j)\<rparr>"
  by (auto simp: mem_UpdateStatus_def set_status_def IsTerminal_def Let_def)

lemma status_changes_job:
  "ms_jobs m jid = Some j \<Longrightarrow>
   ms_jobs (mem_status_changes jid hist m) jid = Some (fold (\<lambda>(clk, st). set_status clk st) hist j)"
proof (induction hist arbitrary: m j)
  case Nil
  then show ?case by (simp add: mem_status_changes_def)
next
  case (Cons x hist)
  obtain clk st where x: "x = (clk, st)" by (cases x)
  have "ms_jobs (snd (mem_UpdateStatus clk jid st m)) jid = Some (set_status clk st j)"
    using Cons.prems by (simp add: UpdateStatus_set_status)
  from Cons.IH [OF this] show ?case by (simp add: x mem_status_changes_def)
qed

lemma fold_set_status:
  "j_StartedAt (fold (\<lambda>(clk, st). set_status clk st) hist j) =
     (case j_StartedAt j of Some t \<Rightarrow> Some t
      | None \<Rightarrow> map_option (\<lambda>(clk, _). clk 1) (find (\<lambda>(_, st). st = StatusRunning) hist))"
  "j_CompletedAt (fold (\<lambda>(clk, st). set_status clk st) hist j) =
     (case j_CompletedAt j of Some t \<Rightarrow> Some t
      | None \<Rightarrow> map_option (\<lambda>(clk, _). clk 2) (find (\<lambda>(_, st). terminal_status st) hist))"
  by (induction hist arbitrary: j)
    (auto simp: set_status_def terminal_status_def split: option.splits)

text \<open>
  however often the status of a job changes, \<open>StartedAt\<close> is the time at which it first became
  RUNNING and \<open>CompletedAt\<close> the time at which it first reached a terminal status; both stay
  unset as long as that has not happened.
\<close>

theorem status_timestamps:
  assumes "ms_jobs m jid = Some j" and "j_StartedAt j = None" and "j_CompletedAt j = None"
  shows "\<exists>j'. ms_jobs (mem_status_changes jid hist m) jid = Some j' \<and>
    j_StartedAt j' = map_option (\<lambda>(clk, _). clk 1) (find (\<lambda>(_, st). st = StatusRunning) hist) \<and>
    j_CompletedAt j' = map_option (\<lambda>(clk, _). clk 2) (find (\<lambda>(_, st). terminal_status st) hist)"
  using status_changes_job [OF assms(1), of hist] assms(2,3) by (simp add: fold_set_status)

theorem status_timestamps_witness:
  "\<exists>j'. ms_jobs (mem_status_changes ''a'' [(\<lambda>_. 3, StatusRunning), (\<lambda>_. 8, StatusFailed), (\<lambda>_. 9, StatusRunning)]
      (snd (mem_CreateJob (sample_job ''a'') (NewMemoryStore (\<lambda>_. 0))))) ''a'' = Some j' \<and>
    j_StartedAt j' = Some 3 \<and> j_CompletedAt j' = Some 8"
  using status_timestamps [of "snd (mem_CreateJob (sample_job ''a'') (NewMemoryStore (\<lambda>_. 0)))" "''a''"
      "sample_job ''a''" "[(\<lambda>_. 3, StatusRunning), (\<lambda>_. 8, StatusFailed), (\<lambda>_. 9, StatusRunning)]"]
  by (simp add: mem_CreateJob_def NewMemoryStore_def terminal_status_def)

section \<open>Metrics\<close>

text \<open>The durations of the completed jobs of one type, recorded one after the other.\<close>

definition mem_complete_all :: "string \<Rightarrow> string \<Rightarrow> duration list \<Rightarrow> MemoryStore \<Rightarrow> MemoryStore" where
  "mem_complete_all q t ds m = fold (\<lambda>d m. snd (mem_RecordJobCompleted q t d m)) ds m"

definition duration_stats :: "duration list \<Rightarrow> jobTypeMetrics" where
  "duration_stats ds = \<lparr>jt_Count = int (length ds), jt_TotalDuration = sum_list ds,
     jt_MinDuration = Min (set ds), jt_MaxDuration = Max (set ds)\<rparr>"

lemma RecordJobCompleted_stats:
  "md_jobTypeStats (ms_metrics (snd (mem_RecordJobCompleted q t d m))) t = Some (
     let s = (case md_jobTypeStats (ms_metrics m) t of
                None \<Rightarrow> \<lparr>jt_Count = 0, jt_TotalDuration = 0, jt_MinDuration = d, jt_MaxDuration = d\<rparr>
              | Some s \<Rightarrow> s)
     in \<lparr>jt_Count = wrap64 (jt_Count s + 1), jt_TotalDuration = wrap64 (jt_TotalDuration s + d),
         jt_MinDuration = min d (jt_MinDuration s), jt_MaxDuration = max d (jt_MaxDuration s)\<rparr>)"
  by (auto simp: mem_RecordJobCompleted_def Let_def min_def max_def split: option.splits)

lemma complete_all_stats:
  assumes "md_jobTypeStats (ms_metrics m) t = None" and "ds \<noteq> []" and "\<forall>d \<in> set ds. 0 \<le> d"
    and "sum_list ds < 2 ^ 63" and "int (length ds) < 2 ^ 63"
  shows "md_jobTypeStats (ms_metrics (mem_complete_all q t ds m)) t = Some (duration_stats ds)"
  using assms(2-)
proof (induction ds rule: rev_induct)
  case Nil
  then show ?case by simp
next
  case (snoc d ds)
  have fold: "mem_complete_all q t (ds @ [d]) m = snd (mem_RecordJobCompleted q t d (mem_complete_all q t ds m))"
    by (simp add: mem_complete_all_def)
  have nn: "0 \<le> sum_list ds" "0 \<le> d" using snoc.prems(2) by (auto intro: sum_list_nonneg)
  with snoc.prems have r: "int64 (sum_list ds + d)" "int64 (int (length ds) + 1)" by (auto simp: int64_def)
  show ?case
  proof (cases "ds = []")
    case True
    with assms(1) r show ?thesis unfolding fold RecordJobCompleted_stats
      by (simp add: mem_complete_all_def duration_stats_def)
  next
    case False
    with snoc nn have "md_jobTypeStats (ms_metrics (mem_complete_all q t ds m)) t = Some (duration_stats ds)"
      by simp
    with False r show ?thesis unfolding fold RecordJobCompleted_stats
      by (simp add: duration_stats_def add.commute)
  qed
qed

text \<open>
  the statistics of a job type are the number of recorded durations, their sum, the least and
  the greatest of them, and \<open>GetJobTypeStats\<close> reports the number and the mean (rounded down),
  as long as the sum of the durations fits its type.
\<close>

theorem job_type_statistics:
  assumes "md_jobTypeStats (ms_metrics m) t = None" and "ds \<noteq> []" and "\<forall>d \<in> set ds. 0 \<le> d"
    and "sum_list ds < 2 ^ 63" and "int (length ds) < 2 ^ 63"
  shows "md_jobTypeStats (ms_metrics (mem_complete_all q t ds m)) t =
      Some \<lparr>jt_Count = int (length ds), jt_TotalDuration = sum_list ds,
            jt_MinDuration = Min (set ds), jt_MaxDuration = Max (set ds)\<rparr> \<and>
    mem_GetJobTypeStats t (mem_complete_all q t ds m) =
      Ok (int (length ds), sum_list ds div int (length ds))"
proof -
  have "0 \<le> sum_list ds" using assms(3) by (auto intro: sum_list_nonneg)
  then show ?thesis using complete_all_stats [OF assms] assms(2)
    by (simp add: mem_GetJobTypeStats_def duration_stats_def Let_def signed_divide_int_def sgn_if)
qed

theorem job_type_statistics_witness:
  "mem_GetJobTypeStats ''echo'' (mem_complete_all ''mail'' ''echo'' [4, 1, 5] (NewMemoryStore (\<lambda>_. 0))) = Ok (3, 3)"
  using job_type_statistics [of "NewMemoryStore (\<lambda>_. 0)" "''echo''" "[4, 1, 5]" "''mail''"]
  by (simp add: NewMemoryStore_def)

lemma fold_count_job_status:
  assumes "int (length js) < 2 ^ 63"
  shows "qs_PendingCount (fold (count_job_status q) js (zero_QueueStats q)) =
      int (length (filter (\<lambda>j. j_Queue j = q \<and> j_Status j = StatusPending) js))"
    "qs_RunningCount (fold (count_job_status q) js (zero_QueueStats q)) =
      int (length (filter (\<lambda>j. j_Queue j = q \<and> j_Status j = StatusRunning) js))"
    "qs_SuccessCount (fold (count_job_status q) js (zero_QueueStats q)) =
      int (length (filter (\<lambda>j. j_Queue j = q \<and> j_Status j = StatusSuccess) js))"
    "qs_FailedCount (fold (count_job_status q) js (zero_QueueStats q)) =
      int (length (filter (\<lambda>j. j_Queue j = q \<and> j_Status j = StatusFailed) js))"
proof -
  have int64_len: "int64 (int (length (filter P js)) + 1)" if "length js < 9223372036854775807" for P and js :: "job list"
  proof -
    have "length (filter P js) < 9223372036854775807"
      by (rule le_less_trans [OF length_filter_le that])
    then show ?thesis by (simp add: int64_def)
  qed
  show "qs_PendingCount (fold (count_job_status q) js (zero_QueueStats q)) =
      int (length (filter (\<lambda>j. j_Queue j = q \<and> j_Status j = StatusPending) js))"
    "qs_RunningCount (fold (count_job_status q) js (zero_QueueStats q)) =
      int (length (filter (\<lambda>j. j_Queue j = q \<and> j_Status j = StatusRunning) js))"
    "qs_SuccessCount (fold (count_job_status q) js (zero_QueueStats q)) =
      int (length (filter (\<lambda>j. j_Queue j = q \<and> j_Status j = StatusSuccess) js))"
    "qs_FailedCount (fold (count_job_status q) js (zero_QueueStats q)) =
      int (length (filter (\<lambda>j. j_Queue j = q \<and> j_Status j = StatusFailed) js))"
    using assms
    by (induction js rule: rev_induct)
      (auto simp: zero_QueueStats_def count_job_status_def int64_len)
qed

lemma length_filter_range_map:
  assumes "map_iteration iter" and "finite (dom jm)"
  shows "length (filter P (range_map iter jm)) = card {k. \<exists>j. jm k = Some j \<and> P j}"
proof -
  have "length (filter P (range_map iter jm)) = length (filter (P \<circ> (\<lambda>k. the (jm k))) (iter (dom jm)))"
    unfolding map_iteration.range_map_eq [OF assms] by (simp add: filter_map)
  also have "\<dots> = card (set (filter (P \<circ> (\<lambda>k. the (jm k))) (iter (dom jm))))"
    using map_iteration.distinct_iter [OF assms] by (metis distinct_card distinct_filter)
  also have "set (filter (P \<circ> (\<lambda>k. the (jm k))) (iter (dom jm))) = {k. \<exists>j. jm k = Some j \<and> P j}"
    using map_iteration.set_iter [OF assms] by auto
  finally show ?thesis .
qed

definition jobs_with :: "MemoryStore \<Rightarrow> string \<Rightarrow> Status \<Rightarrow> int" where
  "jobs_with m q st = int (card {jid. \<exists>j. ms_jobs m jid = Some j \<and> j_Queue j = q \<and> j_Status j = st})"

text \<open>
  \<open>GetQueueStats\<close> counts the stored jobs of the queue by status. A count of successful or
  failed jobs that is zero is replaced by the counter kept with the queue, which also counts jobs
  that are not stored any more.
\<close>

theorem queue_stats_counts:
  assumes "map_iteration iter" and "mem_inv m" and "int (card (dom (ms_jobs m))) < 2 ^ 63"
  shows "\<exists>s. mem_GetQueueStats iter q m = Ok s \<and> qs_PendingCount s = jobs_with m q StatusPending \<and>
    qs_RunningCount s = jobs_with m q StatusRunning \<and>
    qs_SuccessCount s = (case md_queueStats (ms_metrics m) q of
       Some kept \<Rightarrow> if jobs_with m q StatusSuccess = 0 then qs_SuccessCount kept else jobs_with m q StatusSuccess
     | None \<Rightarrow> jobs_with m q StatusSuccess) \<and>
    qs_FailedCount s = (case md_queueStats (ms_metrics m) q of
       Some kept \<Rightarrow> if jobs_with m q StatusFailed = 0 then qs_FailedCount kept else jobs_with m q StatusFailed
     | None \<Rightarrow> jobs_with m q StatusFailed)"
proof -
  let ?js = "range_map iter (ms_jobs m)"
  have fin: "finite (dom (ms_jobs m))" using assms(2) by (simp add: mem_inv_def jobs_inv_def)
  have "int (length ?js) < 2 ^ 63"
    using assms(3) by (simp add: map_iteration.length_range_map [OF assms(1) fin])
  note counts = fold_count_job_status [OF this, of q, unfolded length_filter_range_map [OF assms(1) fin],
      folded jobs_with_def]
  show ?thesis
    by (cases "md_queueStats (ms_metrics m) q") (simp_all add: mem_GetQueueStats_def Let_def counts)
qed

theorem queue_stats_counts_witness:
  "\<exists>s. mem_GetQueueStats sorted_list_of_set ''mail''
      (snd (mem_CreateJob (sample_job ''a'') (NewMemoryStore (\<lambda>_. 0)))) = Ok s \<and> qs_PendingCount s = 1"
proof -
  let ?m = "snd (mem_CreateJob (sample_job ''a'') (NewMemoryStore (\<lambda>_. 0)))"
  have inv: "mem_inv ?m" by (simp add: inv_job_ops mem_inv_new)
  have jobs: "ms_jobs ?m = [''a'' \<mapsto> sample_job ''a'']" by (simp add: mem_CreateJob_def NewMemoryStore_def)
  have card: "int (card (dom (ms_jobs ?m))) < 2 ^ 63" by (simp add: jobs)
  from queue_stats_counts [OF sorted_keys.map_iteration_axioms inv card, of "''mail''"]
  show ?thesis by (auto simp: jobs jobs_with_def)
qed

end
