(* ===== verification/Manager.thy ===== *)
theory Manager
  imports Storage
begin

text \<open>
  The queue manager, \<^verbatim>\<open>internal/queue/manager.go\<close>, over any backend \<open>St\<close> of the storage
  interface. Its state is the backend's state and the cache of queue configurations. A method that
  changes the object behind a pointer argument (a job, a configuration) also returns the object.
  The struct errors are built with the message only, as the code calls their constructors.
\<close>

section \<open>State\<close>

record 's Manager =
  mg_storage :: 's
  mg_configs :: "string \<rightharpoonup> QueueConfig"

text \<open>A storage call made by the manager: the new storage state goes back into the manager.\<close>

definition on_storage :: "('s \<Rightarrow> 'a \<times> 's) \<Rightarrow> 's Manager \<Rightarrow> 'a \<times> 's Manager" where
  "on_storage f m = (case f (mg_storage m) of (r, s) \<Rightarrow> (r, m\<lparr>mg_storage := s\<rparr>))"

section \<open>Configuration\<close>

definition mgr_loadConfigs :: "'s Storage \<Rightarrow> 's Manager \<Rightarrow> unit res \<times> 's Manager" where
  "mgr_loadConfigs St m =
     (case st_ListQueueConfigs St (mg_storage m) of
        Err e \<Rightarrow> (Err e, m)
      | Panic p \<Rightarrow> (Panic p, m)
      | Ok configs \<Rightarrow>
          (Ok (), m\<lparr>mg_configs := fold (\<lambda>config cm. cm(qc_Name config \<mapsto> config)) configs (mg_configs m)\<rparr>))"

definition NewManager :: "'s Storage \<Rightarrow> 's \<Rightarrow> ('s Manager) res" where
  "NewManager St store =
     (let m = \<lparr>mg_storage = store, mg_configs = Map.empty\<rparr> in
      case mgr_loadConfigs St m of
        (Err e, _) \<Rightarrow> Err (Errorf ''failed to load queue configs'' (Some e))
      | (Panic p, _) \<Rightarrow> Panic p
      | (Ok _, m) \<Rightarrow> Ok m)"

definition queue_defaults :: "QueueConfig \<Rightarrow> QueueConfig" where
  "queue_defaults config =
     (let config = (if qc_MaxWorkers config = 0 then config\<lparr>qc_MaxWorkers := 10\<rparr> else config);
          config = (if qc_MaxRetries config = 0 then config\<lparr>qc_MaxRetries := 3\<rparr> else config);
          config = (if qc_RetryStrategy config = ''''
                    then config\<lparr>qc_RetryStrategy := RetryStrategyExponential\<rparr> else config);
          config = (if qc_RetryDelay config = 0 then config\<lparr>qc_RetryDelay := 60\<rparr> else config);
          config = (if qc_MaxRetryDelay config = 0 then config\<lparr>qc_MaxRetryDelay := 3600\<rparr> else config);
          config = (if qc_Timeout config = 0 then config\<lparr>qc_Timeout := 300\<rparr> else config);
          config = (if qc_Weight config = 0 then config\<lparr>qc_Weight := 1\<rparr> else config)
      in config)"

definition mgr_RegisterQueue ::
  "'s Storage \<Rightarrow> QueueConfig \<Rightarrow> 's Manager \<Rightarrow> unit res \<times> QueueConfig \<times> 's Manager" where
  "mgr_RegisterQueue St config m =
     (if qc_Name config = '''' then (Err (NewValidationError ''queue name is required'' ''''), config, m)
      else let config = queue_defaults config in
        case on_storage (st_SaveQueueConfig St config) m of
          (Err e, m) \<Rightarrow> (Err (Errorf ''failed to save queue config'' (Some e)), config, m)
        | (Panic p, m) \<Rightarrow> (Panic p, config, m)
        | (Ok _, m) \<Rightarrow>
            (Ok (), config, m\<lparr>mg_configs := (mg_configs m)(qc_Name config \<mapsto> config)\<rparr>))"

definition mgr_GetQueueConfig ::
  "'s Storage \<Rightarrow> string \<Rightarrow> 's Manager \<Rightarrow> QueueConfig res \<times> 's Manager" where
  "mgr_GetQueueConfig St name m =
     (case mg_configs m name of
        Some config \<Rightarrow> (Ok config, m)
      | None \<Rightarrow>
          (case st_GetQueueConfig St name (mg_storage m) of
             Err e \<Rightarrow> (Err (NewQueueError '''' (''queue config not found: '' @ name) None), m)
           | Panic p \<Rightarrow> (Panic p, m)
           | Ok config \<Rightarrow> (Ok config, m\<lparr>mg_configs := (mg_configs m)(name \<mapsto> config)\<rparr>)))"

definition mgr_UpdateQueueConfig ::
  "'s Storage \<Rightarrow> QueueConfig \<Rightarrow> 's Manager \<Rightarrow> unit res \<times> 's Manager" where
  "mgr_UpdateQueueConfig St config m =
     (if qc_Name config = '''' then (Err (NewValidationError ''queue name is required'' ''''), m)
      else if mg_configs m (qc_Name config) = None
      then (Err (NewQueueError '''' (''queue not found: '' @ qc_Name config) None), m)
      else case on_storage (st_SaveQueueConfig St config) m of
          (Err e, m) \<Rightarrow> (Err (Errorf ''failed to update queue config'' (Some e)), m)
        | (Panic p, m) \<Rightarrow> (Panic p, m)
        | (Ok _, m) \<Rightarrow> (Ok (), m\<lparr>mg_configs := (mg_configs m)(qc_Name config \<mapsto> config)\<rparr>))"

definition mgr_DeleteQueue :: "'s Storage \<Rightarrow> string \<Rightarrow> 's Manager \<Rightarrow> unit res \<times> 's Manager" where
  "mgr_DeleteQueue St name m =
     (case st_Length St name (mg_storage m) of
        Err e \<Rightarrow> (Err e, m)
      | Panic p \<Rightarrow> (Panic p, m)
      | Ok len \<Rightarrow>
          if len > 0 then (Err (NewQueueError '''' (''cannot delete non-empty queue: '' @ name) None), m)
          else case on_storage (st_DeleteQueueConfig St name) m of
              (Err e, m) \<Rightarrow> (Err (Errorf ''failed to delete queue config'' (Some e)), m)
            | (Panic p, m) \<Rightarrow> (Panic p, m)
            | (Ok _, m) \<Rightarrow> (Ok (), m\<lparr>mg_configs := (mg_configs m)(name := None)\<rparr>))"

definition mgr_ListQueues ::
  "(string set \<Rightarrow> string list) \<Rightarrow> 's Manager \<Rightarrow> QueueConfig list res" where
  "mgr_ListQueues iter m = Ok (range_map iter (mg_configs m))"

section \<open>Enqueue\<close>

definition enqueue_default_config :: "string \<Rightarrow> QueueConfig" where
  "enqueue_default_config name =
     zero_QueueConfig\<lparr>qc_Name := name, qc_MaxWorkers := 10, qc_MaxRetries := 3,
       qc_RetryStrategy := RetryStrategyExponential, qc_RetryDelay := 60,
       qc_MaxRetryDelay := 3600, qc_Timeout := 300, qc_Priority := PriorityNormal, qc_Weight := 1\<rparr>"

text \<open>The configuration the job is enqueued under: the queue's own, or a new default one.\<close>

definition mgr_config_or_default ::
  "'s Storage \<Rightarrow> string \<Rightarrow> 's Manager \<Rightarrow> QueueConfig res \<times> 's Manager" where
  "mgr_config_or_default St q m =
     (case mgr_GetQueueConfig St q m of
        (Ok config, m) \<Rightarrow> (Ok config, m)
      | (Panic p, m) \<Rightarrow> (Panic p, m)
      | (Err _, m) \<Rightarrow>
          (case mgr_RegisterQueue St (enqueue_default_config q) m of
             (Ok _, config, m) \<Rightarrow> (Ok config, m)
           | (Err e, _, m) \<Rightarrow> (Err e, m)
           | (Panic p, _, m) \<Rightarrow> (Panic p, m)))"

definition job_defaults :: "QueueConfig \<Rightarrow> job \<Rightarrow> job" where
  "job_defaults config j =
     (let j = (if j_MaxRetries j = 0 then j\<lparr>j_MaxRetries := qc_MaxRetries config\<rparr> else j);
          j = (if j_TimeoutSeconds j = 0 then j\<lparr>j_TimeoutSeconds := qc_Timeout config\<rparr> else j)
      in j)"

definition schedule_delay :: "clock \<Rightarrow> job \<Rightarrow> duration" where
  "schedule_delay clk j =
     (case j_ScheduledAt j of
        None \<Rightarrow> 0
      | Some t \<Rightarrow> if t > clk 0 then time_sub t (clk 1) else 0)"

definition mgr_Enqueue ::
  "'s Storage \<Rightarrow> clock \<Rightarrow> job \<Rightarrow> 's Manager \<Rightarrow> unit res \<times> job \<times> 's Manager" where
  "mgr_Enqueue St clk j m =
     (let j = (if j_Queue j = '''' then j\<lparr>j_Queue := ''default''\<rparr> else j) in
      case mgr_config_or_default St (j_Queue j) m of
        (Err e, m) \<Rightarrow> (Err e, j, m)
      | (Panic p, m) \<Rightarrow> (Panic p, j, m)
      | (Ok config, m) \<Rightarrow>
          let j = job_defaults config j in
          case on_storage (st_CreateJob St j) m of
            (Err e, m) \<Rightarrow> (Err (Errorf ''failed to create job'' (Some e)), j, m)
          | (Panic p, m) \<Rightarrow> (Panic p, j, m)
          | (Ok _, m) \<Rightarrow>
              let delay = schedule_delay clk j in
              case on_storage (st_Enqueue St (clock_from 2 clk) (j_Queue j) (j_ID j) (j_Priority j) delay) m of
                (Err e, m) \<Rightarrow> (Err (Errorf ''failed to enqueue job'' (Some e)), j, m)
              | (Panic p, m) \<Rightarrow> (Panic p, j, m)
              | (Ok _, m) \<Rightarrow>
                  case on_storage (st_RecordJobCreated St (j_Queue j) (j_Type j)) m of
                    (Panic p, m) \<Rightarrow> (Panic p, j, m)
                  | (_, m) \<Rightarrow> (Ok (), j, m))"

section \<open>Choosing a queue\<close>

record queueCandidate =
  cd_name :: string
  cd_priority :: Priority
  cd_weight :: int
  cd_length :: int

fun mgr_candidates :: "'s Storage \<Rightarrow> 's Manager \<Rightarrow> string list \<Rightarrow> queueCandidate list res" where
  "mgr_candidates St m [] = Ok []"
| "mgr_candidates St m (qName # queues) =
     (case mg_configs m qName of
        None \<Rightarrow> mgr_candidates St m queues
      | Some config \<Rightarrow>
          (case st_IsQueuePaused St qName (mg_storage m) of
             Panic p \<Rightarrow> Panic p
           | Err _ \<Rightarrow> mgr_candidates St m queues
           | Ok paused \<Rightarrow>
               if paused then mgr_candidates St m queues
               else (case st_Length St qName (mg_storage m) of
                  Panic p \<Rightarrow> Panic p
                | Err _ \<Rightarrow> mgr_candidates St m queues
                | Ok len \<Rightarrow>
                    if len = 0 then mgr_candidates St m queues
                    else (case mgr_candidates St m queues of
                       Ok cs \<Rightarrow> Ok (\<lparr>cd_name = qName, cd_priority = qc_Priority config,
                                     cd_weight = qc_Weight config, cd_length = len\<rparr> # cs)
                     | r \<Rightarrow> r))))"

definition max_priority :: "queueCandidate list \<Rightarrow> Priority" where
  "max_priority cs = fold (\<lambda>c mp. if cd_priority c > mp then cd_priority c else mp) cs PriorityLow"

definition total_weight :: "queueCandidate list \<Rightarrow> int" where
  "total_weight cs = fold (\<lambda>c w. wrap64 (w + cd_weight c)) cs 0"

text \<open>The cumulative walk; \<open>None\<close> is falling out of the loop.\<close>

fun pick_weighted :: "int \<Rightarrow> int \<Rightarrow> queueCandidate list \<Rightarrow> string option" where
  "pick_weighted r cumWeight [] = None"
| "pick_weighted r cumWeight (c # cs) =
     (let cumWeight = wrap64 (cumWeight + cd_weight c) in
      if r < cumWeight then Some (cd_name c) else pick_weighted r cumWeight cs)"

text \<open>\<open>intn n\<close> is the result of \<open>rand.Intn(n)\<close>, which panics unless \<open>n > 0\<close>.\<close>

definition mgr_selectQueue ::
  "'s Storage \<Rightarrow> (int \<Rightarrow> int) \<Rightarrow> string list \<Rightarrow> 's Manager \<Rightarrow> string res" where
  "mgr_selectQueue St intn queues m =
     (case mgr_candidates St m queues of
        Err e \<Rightarrow> Err e
      | Panic p \<Rightarrow> Panic p
      | Ok candidates \<Rightarrow>
          if candidates = [] then Ok ''''
          else
            let maxPriority = max_priority candidates;
                high = filter (\<lambda>c. cd_priority c = maxPriority) candidates
            in if length high = 1 then Ok (cd_name (hd high))
               else
                 let totalWeight = total_weight high in
                 if totalWeight \<le> 0 then Panic ''invalid argument to Intn''
                 else case pick_weighted (intn totalWeight) 0 high of
                     Some name \<Rightarrow> Ok name
                   | None \<Rightarrow> (case high of c # _ \<Rightarrow> Ok (cd_name c)
                                         | [] \<Rightarrow> Panic ''index out of range''))"

section \<open>Dequeue\<close>

text \<open>The loop over the other queues: the error of the last queue tried is what remains.\<close>

fun mgr_try_others ::
  "'s Storage \<Rightarrow> clock \<Rightarrow> string \<Rightarrow> string list \<Rightarrow> string res \<Rightarrow> 's Manager \<Rightarrow> string res \<times> 's Manager"
where
  "mgr_try_others St clk selected [] r m = (r, m)"
| "mgr_try_others St clk selected (qName # queues) r m =
     (if qName = selected then mgr_try_others St clk selected queues r m
      else case on_storage (st_Dequeue St clk qName) m of
          (Ok jobID, m) \<Rightarrow> (Ok jobID, m)
        | (Panic p, m) \<Rightarrow> (Panic p, m)
        | (Err e, m) \<Rightarrow> mgr_try_others St (clock_from 1 clk) selected queues (Err e) m)"

definition mgr_Dequeue ::
  "'s Storage \<Rightarrow> clock \<Rightarrow> (int \<Rightarrow> int) \<Rightarrow> string list \<Rightarrow> 's Manager \<Rightarrow> job res \<times> 's Manager" where
  "mgr_Dequeue St clk intn queues m =
     (if length queues = 0 then (Err (NewQueueError '''' ''no queues specified'' None), m)
      else case mgr_selectQueue St intn queues m of
          Err e \<Rightarrow> (Err e, m)
        | Panic p \<Rightarrow> (Panic p, m)
        | Ok selected \<Rightarrow>
            if selected = '''' then (Err ErrQueueEmpty, m)
            else
              let (r, m) = (case on_storage (st_Dequeue St clk selected) m of
                  (Err e, m) \<Rightarrow>
                    if e = ErrQueueEmpty
                    then mgr_try_others St (clock_from 1 clk) selected queues (Err e) m
                    else (Err e, m)
                | (r, m) \<Rightarrow> (r, m))
              in case r of
                  Err e \<Rightarrow> (Err e, m)
                | Panic p \<Rightarrow> (Panic p, m)
                | Ok jobID \<Rightarrow> (wrap_err ''failed to get job'' (st_GetJob St jobID (mg_storage m)), m))"

definition mgr_Requeue ::
  "'s Storage \<Rightarrow> clock \<Rightarrow> job \<Rightarrow> duration \<Rightarrow> 's Manager \<Rightarrow> unit res \<times> 's Manager" where
  "mgr_Requeue St clk j delay m =
     (case on_storage (st_UpdateJob St j) m of
        (Err e, m) \<Rightarrow> (Err (Errorf ''failed to update job'' (Some e)), m)
      | (Panic p, m) \<Rightarrow> (Panic p, m)
      | (Ok _, m) \<Rightarrow>
          (case on_storage (st_Requeue St clk (j_Queue j) (j_ID j) (j_Priority j) delay) m of
             (r, m) \<Rightarrow> (wrap_err ''failed to requeue job'' r, m)))"

definition mgr_RemoveJob :: "'s Storage \<Rightarrow> string \<Rightarrow> string \<Rightarrow> 's Manager \<Rightarrow> unit res \<times> 's Manager" where
  "mgr_RemoveJob St queue jobID m =
     (case on_storage (st_Remove St queue jobID) m of (r, m) \<Rightarrow> (wrap_err ''failed to remove job'' r, m))"

section \<open>Queue operations\<close>

definition mgr_PauseQueue :: "'s Storage \<Rightarrow> string \<Rightarrow> 's Manager \<Rightarrow> unit res \<times> 's Manager" where
  "mgr_PauseQueue St name m =
     (case on_storage (st_PauseQueue St name) m of (r, m) \<Rightarrow> (wrap_err ''failed to pause queue'' r, m))"

definition mgr_ResumeQueue :: "'s Storage \<Rightarrow> string \<Rightarrow> 's Manager \<Rightarrow> unit res \<times> 's Manager" where
  "mgr_ResumeQueue St name m =
     (case on_storage (st_ResumeQueue St name) m of (r, m) \<Rightarrow> (wrap_err ''failed to resume queue'' r, m))"

definition mgr_IsQueuePaused :: "'s Storage \<Rightarrow> string \<Rightarrow> 's Manager \<Rightarrow> bool res" where
  "mgr_IsQueuePaused St name m = st_IsQueuePaused St name (mg_storage m)"

definition mgr_GetQueueLength :: "'s Storage \<Rightarrow> string \<Rightarrow> 's Manager \<Rightarrow> int res" where
  "mgr_GetQueueLength St name m = st_Length St name (mg_storage m)"

fun peek_jobs :: "'s Storage \<Rightarrow> 's \<Rightarrow> string list \<Rightarrow> job list res" where
  "peek_jobs St s [] = Ok []"
| "peek_jobs St s (jid # jids) =
     (case st_GetJob St jid s of
        Err _ \<Rightarrow> peek_jobs St s jids
      | Panic p \<Rightarrow> Panic p
      | Ok j \<Rightarrow> (case peek_jobs St s jids of Ok js \<Rightarrow> Ok (j # js) | r \<Rightarrow> r))"

definition mgr_PeekQueue :: "'s Storage \<Rightarrow> string \<Rightarrow> int \<Rightarrow> 's Manager \<Rightarrow> job list res" where
  "mgr_PeekQueue St name n m =
     (case st_Peek St name n (mg_storage m) of
        Err e \<Rightarrow> Err e
      | Panic p \<Rightarrow> Panic p
      | Ok jobIDs \<Rightarrow> peek_jobs St (mg_storage m) jobIDs)"

definition mgr_GetQueueStats :: "'s Storage \<Rightarrow> string \<Rightarrow> 's Manager \<Rightarrow> QueueStats res" where
  "mgr_GetQueueStats St name m = st_GetQueueStats St name (mg_storage m)"

definition mgr_GetAllQueueStats :: "'s Storage \<Rightarrow> 's Manager \<Rightarrow> (string \<rightharpoonup> QueueStats) res" where
  "mgr_GetAllQueueStats St m = st_GetQueueStatsAll St (mg_storage m)"

section \<open>Job operations\<close>

definition mgr_GetJob :: "'s Storage \<Rightarrow> string \<Rightarrow> 's Manager \<Rightarrow> job res" where
  "mgr_GetJob St jid m = st_GetJob St jid (mg_storage m)"

definition mgr_UpdateJob :: "'s Storage \<Rightarrow> job \<Rightarrow> 's Manager \<Rightarrow> unit res \<times> 's Manager" where
  "mgr_UpdateJob St j m = on_storage (st_UpdateJob St j) m"

definition mgr_DeleteJob :: "'s Storage \<Rightarrow> string \<Rightarrow> 's Manager \<Rightarrow> unit res \<times> 's Manager" where
  "mgr_DeleteJob St jid m = on_storage (st_DeleteJob St jid) m"

definition mgr_ListJobs ::
  "'s Storage \<Rightarrow> string \<Rightarrow> Status \<Rightarrow> int \<Rightarrow> int \<Rightarrow> 's Manager \<Rightarrow> job list res" where
  "mgr_ListJobs St queue status limit offset m = st_ListJobs St queue status limit offset (mg_storage m)"

definition mgr_UpdateJobStatus ::
  "'s Storage \<Rightarrow> clock \<Rightarrow> string \<Rightarrow> Status \<Rightarrow> 's Manager \<Rightarrow> unit res \<times> 's Manager" where
  "mgr_UpdateJobStatus St clk jid status m = on_storage (st_UpdateStatus St clk jid status) m"

definition mgr_UpdateJobProgress ::
  "'s Storage \<Rightarrow> clock \<Rightarrow> string \<Rightarrow> int \<Rightarrow> 's Manager \<Rightarrow> unit res \<times> 's Manager" where
  "mgr_UpdateJobProgress St clk jid progress m = on_storage (st_UpdateProgress St clk jid progress) m"

definition mgr_SetJobResult ::
  "'s Storage \<Rightarrow> clock \<Rightarrow> string \<Rightarrow> bytes \<Rightarrow> 's Manager \<Rightarrow> unit res \<times> 's Manager" where
  "mgr_SetJobResult St clk jid result m = on_storage (st_SetResult St clk jid result) m"

definition mgr_SetJobError ::
  "'s Storage \<Rightarrow> clock \<Rightarrow> string \<Rightarrow> string \<Rightarrow> 's Manager \<Rightarrow> unit res \<times> 's Manager" where
  "mgr_SetJobError St clk jid errMsg m = on_storage (st_SetError St clk jid errMsg) m"

definition mgr_CancelJob ::
  "'s Storage \<Rightarrow> clock \<Rightarrow> string \<Rightarrow> 's Manager \<Rightarrow> unit res \<times> 's Manager" where
  "mgr_CancelJob St clk jid m =
     (case st_GetJob St jid (mg_storage m) of
        Err e \<Rightarrow> (Err e, m)
      | Panic p \<Rightarrow> (Panic p, m)
      | Ok j \<Rightarrow>
          if IsTerminal j then (Err (NewJobError '''' ''job is already in terminal state'' None), m)
          else case on_storage (st_UpdateStatus St clk jid StatusCancelled) m of
              (Err e, m) \<Rightarrow> (Err e, m)
            | (Panic p, m) \<Rightarrow> (Panic p, m)
            | (Ok _, m) \<Rightarrow>
                if j_Status j = StatusPending
                then (case on_storage (st_Remove St (j_Queue j) jid) m of
                        (Panic p, m) \<Rightarrow> (Panic p, m)
                      | (_, m) \<Rightarrow> (Ok (), m))
                else (Ok (), m))"

end
