(* ===== verification/ManagerProofs.thy ===== *)
theory ManagerProofs
  imports Manager MemoryStorage
begin

text \<open>
  The manager over any backend that keeps the contract of the locale \<open>storage\<close>: what it does to
  the abstract store, proved once inside the locale.
\<close>

section \<open>Storage calls of the manager\<close>

lemma on_storage_iff:
  "on_storage f m = (r, m') \<longleftrightarrow> (\<exists>s. f (mg_storage m) = (r, s) \<and> m' = m\<lparr>mg_storage := s\<rparr>)"
  by (auto simp: on_storage_def split: prod.splits)

lemma on_refines:
  "\<lbrakk>refines ok view f g; ok (mg_storage m); on_storage f m = (r, m')\<rbrakk>
   \<Longrightarrow> ok (mg_storage m') \<and> r = fst (g (view (mg_storage m))) \<and>
       view (mg_storage m') = snd (g (view (mg_storage m))) \<and> mg_configs m' = mg_configs m"
  unfolding on_storage_iff by (auto dest: refinesD)

lemma on_refines_rel:
  "\<lbrakk>refines_rel ok view f R; ok (mg_storage m); on_storage f m = (r, m')\<rbrakk>
   \<Longrightarrow> ok (mg_storage m') \<and> R (view (mg_storage m)) (r, view (mg_storage m')) \<and>
       mg_configs m' = mg_configs m"
  by (auto simp: on_storage_iff dest: refines_relD)

lemma on_frames:
  "\<lbrakk>frames ok view f; ok (mg_storage m); on_storage f m = (r, m')\<rbrakk>
   \<Longrightarrow> ok (mg_storage m') \<and> view (mg_storage m') = view (mg_storage m) \<and>
       mg_configs m' = mg_configs m \<and> (\<forall>p. r \<noteq> Panic p)"
  unfolding on_storage_iff by (auto dest: framesD)

section \<open>Choosing a queue\<close>

lemma fold_max: "fold (\<lambda>c mp. if f c > mp then f c else mp) cs (a :: int) = Max (insert a (f ` set cs))"
proof (induction cs arbitrary: a)
  case Nil
  then show ?case by simp
next
  case (Cons c cs)
  have "(if f c > a then f c else a) = max (f c) a" by simp
  then show ?case using Cons [of "max (f c) a"]
    by (cases "set cs = {}") (simp_all add: max.assoc max.left_commute)
qed

lemma max_priority_eq: "max_priority cs = Max (insert 0 (cd_priority ` set cs))"
  by (simp add: max_priority_def PriorityLow_def fold_max)

lemma max_priority_ge: "c \<in> set cs \<Longrightarrow> cd_priority c \<le> max_priority cs"
  by (simp add: max_priority_eq)

lemma max_priority_attained:
  "c \<in> set cs \<Longrightarrow> 0 \<le> cd_priority c \<Longrightarrow> \<exists>c' \<in> set cs. cd_priority c' = max_priority cs"
  using Max_in [of "insert 0 (cd_priority ` set cs)"]
  by (metis (no_types, lifting) finite_imageI finite_insert finite_set image_iff insert_iff
      insert_not_empty max_priority_eq max_priority_ge order_antisym)

text \<open>With weights that are not negative and a sum that fits, no addition wraps.\<close>

definition weights_ok :: "queueCandidate list \<Rightarrow> bool" where
  "weights_ok cs \<longleftrightarrow> (\<forall>c \<in> set cs. 0 \<le> cd_weight c) \<and> int64 (sum_list (map cd_weight cs))"

lemma total_weight_from:
  "\<lbrakk>\<forall>c \<in> set cs. 0 \<le> cd_weight c; 0 \<le> a; int64 (a + sum_list (map cd_weight cs))\<rbrakk>
   \<Longrightarrow> fold (\<lambda>c w. wrap64 (w + cd_weight c)) cs a = a + sum_list (map cd_weight cs)"
proof (induction cs arbitrary: a)
  case Nil
  then show ?case by simp
next
  case (Cons c cs)
  have "0 \<le> sum_list (map cd_weight cs)" using Cons.prems(1) by (auto intro!: sum_list_nonneg)
  with Cons.prems have "int64 (a + cd_weight c)" by (auto simp: int64_def)
  with Cons show ?case by (simp add: add.assoc)
qed

lemma total_weight_eq: "weights_ok cs \<Longrightarrow> total_weight cs = sum_list (map cd_weight cs)"
  using total_weight_from [of cs 0] by (simp add: total_weight_def weights_ok_def)

text \<open>The walk from \<open>a\<close> stops at \<open>c\<close> exactly for \<open>cd_weight c\<close> of the numbers from \<open>a\<close> on.\<close>

lemma pick_weighted_first:
  assumes "\<forall>c \<in> set cs. 0 \<le> cd_weight c" "0 \<le> a" "int64 (a + sum_list (map cd_weight cs))"
    and "a \<le> r" "r < a + sum_list (map cd_weight cs)"
  shows "\<exists>c \<in> set cs. pick_weighted r a cs = Some (cd_name c) \<and> 0 < cd_weight c"
  using assms
proof (induction cs arbitrary: a)
  case Nil
  then show ?case by simp
next
  case (Cons c cs)
  have nn: "0 \<le> sum_list (map cd_weight cs)" using Cons.prems(1) by (auto intro!: sum_list_nonneg)
  with Cons.prems have w: "wrap64 (a + cd_weight c) = a + cd_weight c" by (auto simp: int64_def)
  show ?case
  proof (cases "r < a + cd_weight c")
    case True
    with Cons.prems(4) w show ?thesis by (auto simp: Let_def)
  next
    case False
    with Cons.prems
    have "\<exists>d \<in> set cs. pick_weighted r (a + cd_weight c) cs = Some (cd_name d) \<and> 0 < cd_weight d"
      by (intro Cons.IH) (auto simp: add.assoc)
    then show ?thesis using False w by (auto simp: Let_def)
  qed
qed

lemma pick_weighted_set:
  assumes "\<forall>c \<in> set cs. 0 \<le> cd_weight c" "0 \<le> a" "int64 (a + sum_list (map cd_weight cs))"
    and "distinct (map cd_name cs)" "c \<in> set cs"
  shows "\<exists>lo \<ge> a. {r. a \<le> r \<and> r < a + sum_list (map cd_weight cs) \<and> pick_weighted r a cs = Some (cd_name c)}
     = {lo ..< lo + cd_weight c}"
  using assms
proof (induction cs arbitrary: a)
  case Nil
  then show ?case by simp
next
  case (Cons d cs)
  have nn: "0 \<le> sum_list (map cd_weight cs)" using Cons.prems(1) by (auto intro!: sum_list_nonneg)
  with Cons.prems have w: "wrap64 (a + cd_weight d) = a + cd_weight d" by (auto simp: int64_def)
  show ?case
  proof (cases "c = d")
    case True
    have other: "pick_weighted r b cs \<noteq> Some (cd_name d)" for r b
    proof -
      have "pick_weighted r b cs = Some n \<Longrightarrow> n \<in> cd_name ` set cs" for n
        by (induction cs arbitrary: b) (auto simp: Let_def split: if_splits)
      with Cons.prems(4) show ?thesis by auto
    qed
    have "{r. a \<le> r \<and> r < a + sum_list (map cd_weight (d # cs)) \<and>
        pick_weighted r a (d # cs) = Some (cd_name c)} = {a ..< a + cd_weight c}"
      using True nn w other by (auto simp: Let_def)
    then show ?thesis by blast
  next
    case False
    with Cons.prems have "c \<in> set cs" and "cd_name d \<notin> cd_name ` set cs" by auto
    then have c: "c \<in> set cs" "cd_name c \<noteq> cd_name d" by (simp, metis image_eqI)
    have "\<exists>lo \<ge> a + cd_weight d. {r. a + cd_weight d \<le> r \<and>
        r < a + cd_weight d + sum_list (map cd_weight cs) \<and>
        pick_weighted r (a + cd_weight d) cs = Some (cd_name c)} = {lo ..< lo + cd_weight c}"
      using Cons.prems c by (intro Cons.IH) (auto simp: add.assoc)
    then obtain lo where lo: "lo \<ge> a + cd_weight d" "{r. a + cd_weight d \<le> r \<and>
        r < a + cd_weight d + sum_list (map cd_weight cs) \<and>
        pick_weighted r (a + cd_weight d) cs = Some (cd_name c)} = {lo ..< lo + cd_weight c}" by blast
    have "{r. a \<le> r \<and> r < a + sum_list (map cd_weight (d # cs)) \<and>
        pick_weighted r a (d # cs) = Some (cd_name c)} = {lo ..< lo + cd_weight c}"
      using c Cons.prems(1) w by (subst lo(2) [symmetric]) (auto simp: Let_def)
    then show ?thesis using lo(1) Cons.prems(1) by (intro exI [of _ lo]) auto
  qed
qed

lemma pick_weighted_in: "pick_weighted r a cs = Some n \<Longrightarrow> n \<in> cd_name ` set cs"
  by (induction cs arbitrary: a) (auto simp: Let_def split: if_splits)

text \<open>What a successful choice is: one of the candidates, of the highest priority.\<close>

lemma selectQueue_Ok:
  assumes "mgr_candidates St m queues = Ok cs" and "cs \<noteq> []"
    and "mgr_selectQueue St intn queues m = Ok name"
  shows "\<exists>c \<in> set cs. cd_name c = name \<and> (\<forall>d \<in> set cs. cd_priority d \<le> cd_priority c)"
proof -
  let ?high = "filter (\<lambda>c. cd_priority c = max_priority cs) cs"
  have "name \<in> cd_name ` set ?high"
  proof (cases "length ?high = 1")
    case True
    with assms have "name = cd_name (hd ?high)" by (simp add: mgr_selectQueue_def Let_def)
    moreover from True have "hd ?high \<in> set ?high" by (intro hd_in_set) auto
    ultimately show ?thesis by blast
  next
    case False
    with assms show ?thesis
      by (cases "pick_weighted (intn (total_weight ?high)) 0 ?high"; cases ?high)
        (force simp: mgr_selectQueue_def Let_def dest: pick_weighted_in split: if_splits)+
  qed
  then show ?thesis using max_priority_ge by fastforce
qed

section \<open>The manager over a storage that keeps its contract\<close>

text \<open>The cache of configurations holds nothing but what the storage holds.\<close>

definition cache_ok :: "('s \<Rightarrow> store_view) \<Rightarrow> 's Manager \<Rightarrow> bool" where
  "cache_ok view m \<longleftrightarrow>
     (\<forall>q c. mg_configs m q = Some c \<longrightarrow> v_configs (view (mg_storage m)) q = Some c)"

text \<open>The configuration of a queue: the cached one, the saved one, or a new default one.\<close>

definition config_for :: "('s \<Rightarrow> store_view) \<Rightarrow> 's Manager \<Rightarrow> string \<Rightarrow> QueueConfig" where
  "config_for view m q =
     (case mg_configs m q of
        Some c \<Rightarrow> c
      | None \<Rightarrow> (case v_configs (view (mg_storage m)) q of
          Some c \<Rightarrow> c | None \<Rightarrow> queue_defaults (enqueue_default_config q)))"

context storage
begin

lemma candidates_eq:
  "ok (mg_storage m) \<Longrightarrow>
   mgr_candidates St m queues = Ok (List.map_filter (\<lambda>q.
     case mg_configs m q of None \<Rightarrow> None
     | Some config \<Rightarrow>
         if v_paused (view (mg_storage m)) q \<or> v_entries (view (mg_storage m)) q = {#} then None
         else Some \<lparr>cd_name = q, cd_priority = qc_Priority config, cd_weight = qc_Weight config,
                cd_length = int (size (v_entries (view (mg_storage m)) q))\<rparr>) queues)"
  by (induction queues)
    (auto simp: IsQueuePaused Length map_filter_simps split: option.splits)

text \<open>
  \<open>RegisterQueue\<close> and \<open>GetQueueConfig\<close> touch configurations only.
\<close>


lemma RegisterQueue_Ok:
  assumes "ok (mg_storage m)" and "qc_Name c \<noteq> ''''"
  shows "\<exists>m'. mgr_RegisterQueue St c m = (Ok (), queue_defaults c, m') \<and> ok (mg_storage m') \<and>
    view (mg_storage m') = (view (mg_storage m))\<lparr>v_configs :=
       (v_configs (view (mg_storage m)))(qc_Name c \<mapsto> queue_defaults c)\<rparr> \<and>
    mg_configs m' = (mg_configs m)(qc_Name c \<mapsto> queue_defaults c)"
proof -
  obtain r m1 where call: "on_storage (st_SaveQueueConfig St (queue_defaults c)) m = (r, m1)"
    by (cases "on_storage (st_SaveQueueConfig St (queue_defaults c)) m")
  have name: "qc_Name (queue_defaults c) = qc_Name c" by (simp add: queue_defaults_def Let_def)
  from on_refines [OF SaveQueueConfig assms(1) call] name assms(2) call show ?thesis
    by (auto simp: mgr_RegisterQueue_def spec_set_config_def Let_def)
qed

lemma GetQueueConfig_cases:
  assumes "ok (mg_storage m)"
  obtains (cached) c where "mg_configs m q = Some c" "mgr_GetQueueConfig St q m = (Ok c, m)"
  | (loaded) c where "mg_configs m q = None" "v_configs (view (mg_storage m)) q = Some c"
      "mgr_GetQueueConfig St q m = (Ok c, m\<lparr>mg_configs := (mg_configs m)(q \<mapsto> c)\<rparr>)"
  | (missing) "mg_configs m q = None" "v_configs (view (mg_storage m)) q = None"
      "mgr_GetQueueConfig St q m =
        (Err (NewQueueError '''' (''queue config not found: '' @ q) None), m)"
proof (cases "mg_configs m q")
  case (Some c)
  then show ?thesis using cached by (simp add: mgr_GetQueueConfig_def)
next
  case None
  with GetQueueConfig [OF assms, of q] show ?thesis using loaded missing
    by (cases "v_configs (view (mg_storage m)) q") (auto simp: mgr_GetQueueConfig_def)
qed

lemma config_or_default_Ok:
  assumes "ok (mg_storage m)" and "q \<noteq> ''''"
  shows "\<exists>c m' cf. mgr_config_or_default St q m = (Ok c, m') \<and> ok (mg_storage m') \<and>
     view (mg_storage m') = (view (mg_storage m))\<lparr>v_configs := cf\<rparr> \<and>
     c = config_for view m q \<and>
     (cache_ok view m \<longrightarrow> cache_ok view m') \<and> mg_configs m' q = Some c"
proof (rule GetQueueConfig_cases [OF assms(1), of q])
  assume missing: "mg_configs m q = None" "v_configs (view (mg_storage m)) q = None"
    and get: "mgr_GetQueueConfig St q m =
      (Err (NewQueueError '''' (''queue config not found: '' @ q) None), m)"
  have name: "qc_Name (enqueue_default_config q) = q" by (simp add: enqueue_default_config_def)
  with RegisterQueue_Ok [OF assms(1), of "enqueue_default_config q"] assms(2) obtain m' where
    reg: "mgr_RegisterQueue St (enqueue_default_config q) m =
        (Ok (), queue_defaults (enqueue_default_config q), m')" "ok (mg_storage m')"
      "view (mg_storage m') = (view (mg_storage m))\<lparr>v_configs :=
       (v_configs (view (mg_storage m)))(q \<mapsto> queue_defaults (enqueue_default_config q))\<rparr>"
      "mg_configs m' = (mg_configs m)(q \<mapsto> queue_defaults (enqueue_default_config q))"
    by auto
  then show ?thesis using missing get by (auto simp: mgr_config_or_default_def cache_ok_def config_for_def)
next
  fix c assume "mg_configs m q = Some c" "mgr_GetQueueConfig St q m = (Ok c, m)"
  then show ?thesis using assms(1)
    by (intro exI [of _ c] exI [of _ m] exI [of _ "v_configs (view (mg_storage m))"])
      (simp add: mgr_config_or_default_def config_for_def)
next
  fix c assume "mg_configs m q = None" "v_configs (view (mg_storage m)) q = Some c"
    "mgr_GetQueueConfig St q m = (Ok c, m\<lparr>mg_configs := (mg_configs m)(q \<mapsto> c)\<rparr>)"
  then show ?thesis using assms(1)
    by (intro exI [of _ c] exI [of _ "m\<lparr>mg_configs := (mg_configs m)(q \<mapsto> c)\<rparr>"]
          exI [of _ "v_configs (view (mg_storage m))"])
      (auto simp: mgr_config_or_default_def cache_ok_def config_for_def)
qed

end

section \<open>Enqueue\<close>

text \<open>The job as it is stored, given the configuration it is enqueued under.\<close>

definition enqueued_job :: "QueueConfig \<Rightarrow> job \<Rightarrow> job" where
  "enqueued_job c j =
     j\<lparr>j_Queue := (if j_Queue j = '''' then ''default'' else j_Queue j),
       j_MaxRetries := (if j_MaxRetries j = 0 then qc_MaxRetries c else j_MaxRetries j),
       j_TimeoutSeconds := (if j_TimeoutSeconds j = 0 then qc_Timeout c else j_TimeoutSeconds j)\<rparr>"

lemma job_defaults_enqueued:
  "job_defaults c (if j_Queue j = '''' then j\<lparr>j_Queue := ''default''\<rparr> else j) = enqueued_job c j"
  by (simp add: job_defaults_def enqueued_job_def Let_def)

lemma enqueued_job_sel [simp]:
  "j_ID (enqueued_job c j) = j_ID j" "j_Priority (enqueued_job c j) = j_Priority j"
  "j_Type (enqueued_job c j) = j_Type j" "j_Status (enqueued_job c j) = j_Status j"
  "j_ScheduledAt (enqueued_job c j) = j_ScheduledAt j"
  by (simp_all add: enqueued_job_def)

definition queue_of :: "job \<Rightarrow> string" where
  "queue_of j = (if j_Queue j = '''' then ''default'' else j_Queue j)"

lemma queue_of_enqueued [simp]: "j_Queue (enqueued_job c j) = queue_of j"
  by (simp add: enqueued_job_def queue_of_def)

lemma queue_of_nonempty [simp]: "queue_of j \<noteq> ''''"
  by (simp add: queue_of_def)

lemma schedule_delay_enqueued [simp]: "schedule_delay clk (enqueued_job c j) = schedule_delay clk j"
  by (simp add: schedule_delay_def)

text \<open>
  The entry of a scheduled job is never ready before the scheduled time: the delay is measured
  from a clock reading that is not later than the one it is added to.
\<close>

lemma schedule_delay_not_early:
  assumes "mono clk" and "j_ScheduledAt j = Some t" and "int64 (t - clk 1)"
  shows "t \<le> clk 2 + schedule_delay clk j"
proof (cases "t > clk 0")
  case True
  have "clk 1 \<le> clk 2" using assms(1) by (auto simp: mono_def)
  with True assms show ?thesis by (simp add: schedule_delay_def time_sub_exact)
next
  case False
  have "clk 0 \<le> clk 2" using assms(1) by (auto simp: mono_def)
  with False assms show ?thesis by (simp add: schedule_delay_def)
qed

text \<open>What \<open>Enqueue\<close> does once the job has its defaults.\<close>

definition enqueue_stored ::
  "'s Storage \<Rightarrow> clock \<Rightarrow> job \<Rightarrow> 's Manager \<Rightarrow> unit res \<times> job \<times> 's Manager" where
  "enqueue_stored St clk j m =
       (case on_storage (st_CreateJob St (j)) m of
          (Err e, m2) \<Rightarrow> (Err (Errorf ''failed to create job'' (Some e)), j, m2)
        | (Panic p, m2) \<Rightarrow> (Panic p, j, m2)
        | (Ok _, m2) \<Rightarrow>
            case on_storage (st_Enqueue St (clock_from 2 clk) (j_Queue j) (j_ID j) (j_Priority j)
                   (schedule_delay clk j)) m2 of
              (Err e, m3) \<Rightarrow> (Err (Errorf ''failed to enqueue job'' (Some e)), j, m3)
            | (Panic p, m3) \<Rightarrow> (Panic p, j, m3)
            | (Ok _, m3) \<Rightarrow>
                case on_storage (st_RecordJobCreated St (j_Queue j) (j_Type j)) m3 of
                  (Panic p, m4) \<Rightarrow> (Panic p, j, m4)
                | (_, m4) \<Rightarrow> (Ok (), j, m4))"

context storage
begin

lemma Enqueue_unfold:
  assumes "ok (mg_storage m)"
  shows "\<exists>c m1 cf. ok (mg_storage m1) \<and>
     view (mg_storage m1) = (view (mg_storage m))\<lparr>v_configs := cf\<rparr> \<and>
     (cache_ok view m \<longrightarrow> cache_ok view m1) \<and> mg_configs m1 (queue_of j) = Some c \<and>
     c = config_for view m (queue_of j) \<and>
     mgr_Enqueue St clk j m =
       enqueue_stored St clk (enqueued_job c j) m1"
proof -
  obtain c m1 cf where cd: "mgr_config_or_default St (queue_of j) m = (Ok c, m1)"
    "ok (mg_storage m1)" "view (mg_storage m1) = (view (mg_storage m))\<lparr>v_configs := cf\<rparr>"
    "cache_ok view m \<longrightarrow> cache_ok view m1" "mg_configs m1 (queue_of j) = Some c"
    "c = config_for view m (queue_of j)"
    using config_or_default_Ok [OF assms queue_of_nonempty] by blast
  have q: "j_Queue (if j_Queue j = '''' then j\<lparr>j_Queue := ''default''\<rparr> else j) = queue_of j"
    by (simp add: queue_of_def)
  show ?thesis
    by (intro exI [of _ c] exI [of _ m1] exI [of _ cf] conjI cd(2-6),
        simp only: mgr_Enqueue_def enqueue_stored_def Let_def q cd(1) prod.case outcome.case
          job_defaults_enqueued)
qed

lemma Enqueue_new:
  assumes okm: "ok (mg_storage m)" and new: "v_jobs (view (mg_storage m)) (j_ID j) = None"
  shows "\<exists>c m' cf. mgr_Enqueue St clk j m = (Ok (), enqueued_job c j, m') \<and>
     ok (mg_storage m') \<and> mg_configs m' (queue_of j) = Some c \<and>
     c = config_for view m (queue_of j) \<and>
     (cache_ok view m \<longrightarrow> cache_ok view m') \<and>
     view (mg_storage m') = (view (mg_storage m))
       \<lparr>v_configs := cf,
        v_jobs := (v_jobs (view (mg_storage m)))(j_ID j \<mapsto> enqueued_job c j),
        v_entries := (v_entries (view (mg_storage m)))(queue_of j :=
          add_mset (j_ID j, j_Priority j, clk 2 + schedule_delay clk j)
            (v_entries (view (mg_storage m)) (queue_of j)))\<rparr>"
proof -
  from Enqueue_unfold [OF okm, of j clk] obtain c m1 cf where
    m1: "ok (mg_storage m1)" "view (mg_storage m1) = (view (mg_storage m))\<lparr>v_configs := cf\<rparr>"
    "cache_ok view m \<longrightarrow> cache_ok view m1" "mg_configs m1 (queue_of j) = Some c"
    "c = config_for view m (queue_of j)" and
    eq: "mgr_Enqueue St clk j m =
       enqueue_stored St clk (enqueued_job c j) m1"
    by blast
  obtain r2 m2 where c2: "on_storage (st_CreateJob St (enqueued_job c j)) m1 = (r2, m2)"
    by (cases "on_storage (st_CreateJob St (enqueued_job c j)) m1")
  from on_refines [OF CreateJob m1(1) c2] m1(2) new
  have m2: "r2 = Ok ()" "ok (mg_storage m2)" "mg_configs m2 = mg_configs m1"
    "view (mg_storage m2) = (view (mg_storage m))\<lparr>v_configs := cf,
       v_jobs := (v_jobs (view (mg_storage m)))(j_ID j \<mapsto> enqueued_job c j)\<rparr>"
    by (auto simp: spec_CreateJob_def)
  obtain r3 m3 where c3: "on_storage (st_Enqueue St (clock_from 2 clk) (queue_of j) (j_ID j)
      (j_Priority j) (schedule_delay clk j)) m2 = (r3, m3)"
    by (cases "on_storage (st_Enqueue St (clock_from 2 clk) (queue_of j) (j_ID j)
      (j_Priority j) (schedule_delay clk j)) m2")
  from on_refines [OF Enqueue m2(2) c3] m2(4)
  have m3: "r3 = Ok ()" "ok (mg_storage m3)" "mg_configs m3 = mg_configs m2"
    "view (mg_storage m3) = (view (mg_storage m2))\<lparr>v_entries := (v_entries (view (mg_storage m)))(queue_of j :=
          add_mset (j_ID j, j_Priority j, clk 2 + schedule_delay clk j)
            (v_entries (view (mg_storage m)) (queue_of j)))\<rparr>"
    by (auto simp: spec_Enqueue_def numeral_2_eq_2)
  obtain r4 m4 where c4: "on_storage (st_RecordJobCreated St (queue_of j) (j_Type j)) m3 = (r4, m4)"
    by (cases "on_storage (st_RecordJobCreated St (queue_of j) (j_Type j)) m3")
  from on_frames [OF metrics_frames(1) m3(2) c4]
  have m4: "ok (mg_storage m4)" "view (mg_storage m4) = view (mg_storage m3)"
    "mg_configs m4 = mg_configs m3" "\<forall>p. r4 \<noteq> Panic p" by auto
  have "mgr_Enqueue St clk j m = (Ok (), enqueued_job c j, m4)"
    using eq c2 c3 c4 m2(1) m3(1) m4(4) by (cases r4) (auto simp: enqueue_stored_def)
  moreover have "cache_ok view m \<longrightarrow> cache_ok view m4"
    using m1(2,3) m2 m3 m4 by (auto simp: cache_ok_def)
  ultimately show ?thesis using m1 m2 m3 m4
    by (intro exI [of _ c] exI [of _ m4] exI [of _ cf]) simp
qed

lemma Enqueue_duplicate:
  assumes okm: "ok (mg_storage m)" and dup: "v_jobs (view (mg_storage m)) (j_ID j) \<noteq> None"
  shows "\<exists>c m' cf. mgr_Enqueue St clk j m =
      (Err (Errorf ''failed to create job'' (Some ErrJobAlreadyExists)), enqueued_job c j, m') \<and>
     ok (mg_storage m') \<and> view (mg_storage m') = (view (mg_storage m))\<lparr>v_configs := cf\<rparr> \<and>
     (cache_ok view m \<longrightarrow> cache_ok view m')"
proof -
  from Enqueue_unfold [OF okm, of j clk] obtain c m1 cf where
    m1: "ok (mg_storage m1)" "view (mg_storage m1) = (view (mg_storage m))\<lparr>v_configs := cf\<rparr>"
    "cache_ok view m \<longrightarrow> cache_ok view m1" and
    eq: "mgr_Enqueue St clk j m = enqueue_stored St clk (enqueued_job c j) m1"
    by blast
  obtain r2 m2 where c2: "on_storage (st_CreateJob St (enqueued_job c j)) m1 = (r2, m2)"
    by (cases "on_storage (st_CreateJob St (enqueued_job c j)) m1")
  from on_refines [OF CreateJob m1(1) c2] m1(2) dup
  have "r2 = Err ErrJobAlreadyExists" "ok (mg_storage m2)" "view (mg_storage m2) = view (mg_storage m1)"
    "mg_configs m2 = mg_configs m1"
    by (auto simp: spec_CreateJob_def)
  with c2 eq m1(2,3) show ?thesis by (auto simp: enqueue_stored_def cache_ok_def)
qed

end

section \<open>Dequeue\<close>

text \<open>When the choice cannot panic: priorities are at least \<open>PriorityLow\<close>, weights are positive and add up.\<close>

definition selectable :: "queueCandidate list \<Rightarrow> bool" where
  "selectable cs \<longleftrightarrow> (\<forall>c \<in> set cs. 0 \<le> cd_priority c \<and> 0 < cd_weight c) \<and>
     int64 (sum_list (map cd_weight cs))"

lemma sum_filter_le:
  "\<forall>c \<in> set cs. 0 \<le> (f c :: int) \<Longrightarrow> sum_list (map f (filter P cs)) \<le> sum_list (map f cs)"
  by (induction cs) auto

lemma selectable_high:
  assumes "selectable cs" and "cs \<noteq> []"
  defines "high \<equiv> filter (\<lambda>c. cd_priority c = max_priority cs) cs"
  shows "high \<noteq> []" "weights_ok high" "0 < total_weight high"
proof -
  from assms(1,2) obtain c where "c \<in> set cs" "0 \<le> cd_priority c"
    by (cases cs) (auto simp: selectable_def)
  from max_priority_attained [OF this] show ne: "high \<noteq> []"
    by (auto simp: high_def filter_empty_conv)
  have nn: "\<forall>c \<in> set cs. 0 \<le> cd_weight c" using assms(1) by (auto simp: selectable_def)
  have pos: "\<forall>c \<in> set high. 0 < cd_weight c" using assms(1) by (auto simp: selectable_def high_def)
  have sum: "0 < sum_list (map cd_weight high)"
    using ne pos by (induction high) (auto intro!: add_pos_nonneg sum_list_nonneg simp: less_imp_le)
  have "sum_list (map cd_weight high) \<le> sum_list (map cd_weight cs)"
    unfolding high_def by (rule sum_filter_le [OF nn])
  with sum assms(1) have "int64 (sum_list (map cd_weight high))"
    by (auto simp: selectable_def int64_def)
  with pos show "weights_ok high" by (auto simp: weights_ok_def less_imp_le)
  with sum show "0 < total_weight high" by (simp add: total_weight_eq)
qed

lemma selectQueue_total:
  assumes "mgr_candidates St m queues = Ok cs" and "cs \<noteq> []" and "selectable cs"
  shows "\<exists>name. mgr_selectQueue St intn queues m = Ok name"
  using assms(1,2) selectable_high [OF assms(3,2)]
  by (auto simp: mgr_selectQueue_def Let_def split: option.splits list.splits)

text \<open>When the choice does panic: several candidates, or none, of the highest priority and no weight.\<close>

lemma selectQueue_panic:
  assumes "mgr_candidates St m queues = Ok cs" and "cs \<noteq> []"
    and "\<forall>c \<in> set cs. cd_priority c < 0"
  shows "mgr_selectQueue St intn queues m = Panic ''invalid argument to Intn''"
proof -
  have "max_priority cs = 0" using assms(3) unfolding max_priority_eq
    by (intro Max_eqI) (auto simp: less_imp_le)
  with assms(3) have "filter (\<lambda>c. cd_priority c = max_priority cs) cs = []"
    by (auto simp: filter_empty_conv)
  with assms show ?thesis by (simp add: mgr_selectQueue_def total_weight_def)
qed

text \<open>A dequeue of one of the queues at some reading of the clock; a queue with nothing to give.\<close>

definition took :: "clock \<Rightarrow> string list \<Rightarrow> store_view \<Rightarrow> string \<Rightarrow> store_view \<Rightarrow> bool" where
  "took clk queues v jid v' \<longleftrightarrow> (\<exists>q \<in> set queues. \<exists>i. spec_Dequeue (clk i) q v (Ok jid, v'))"

definition none_ready :: "time \<Rightarrow> string \<Rightarrow> store_view \<Rightarrow> bool" where
  "none_ready now q v \<longleftrightarrow> v_paused v q \<or> (\<forall>(jid, p, t) \<in># v_entries v q. t > now)"

lemma took_Cons [simp]:
  "took clk (q # queues) v jid v' \<longleftrightarrow>
     (\<exists>i. spec_Dequeue (clk i) q v (Ok jid, v')) \<or> took clk queues v jid v'"
  by (auto simp: took_def)

lemma took_later: "took (clock_from k clk) queues v jid v' \<Longrightarrow> took clk queues v jid v'"
  by (auto simp: took_def)

lemma none_ready_earlier: "none_ready now q v \<Longrightarrow> now' \<le> now \<Longrightarrow> none_ready now' q v"
  by (fastforce simp: none_ready_def)

lemma spec_Dequeue_Err_none_ready:
  "spec_Dequeue now q v (Err e, v') \<Longrightarrow>
   v' = v \<and> e \<in> {ErrQueuePaused, ErrQueueEmpty} \<and> none_ready now q v \<and>
   (\<not> v_paused v q \<longrightarrow> e = ErrQueueEmpty)"
  by (auto simp: none_ready_def dest!: spec_Dequeue_ErrD split: if_splits)

text \<open>The attempt on the selected queue and, when it is empty, on the others.\<close>

definition attempt :: "'s Storage \<Rightarrow> clock \<Rightarrow> string \<Rightarrow> string list \<Rightarrow> 's Manager \<Rightarrow> string res \<times> 's Manager" where
  "attempt St clk selected queues m =
     (case on_storage (st_Dequeue St clk selected) m of
        (Err e, m) \<Rightarrow>
          if e = ErrQueueEmpty
          then mgr_try_others St (clock_from 1 clk) selected queues (Err e) m
          else (Err e, m)
      | (r, m) \<Rightarrow> (r, m))"

text \<open>Every entry of every queue has its job.\<close>

definition no_dangling :: "store_view \<Rightarrow> bool" where
  "no_dangling v \<longleftrightarrow> (\<forall>q. \<forall>(jid, p, t) \<in># v_entries v q. v_jobs v jid \<noteq> None)"

context storage
begin

lemmas dequeue_call = on_refines_rel [OF Dequeue]

text \<open>
  The fallback loop ends in a dequeue of one of the other queues, or has found none: then the
  store is as it was, and every other queue is paused or has no ready entry.
\<close>

lemma try_others_cases:
  assumes "ok (mg_storage m)" and "mono clk"
    and "mgr_try_others St clk sel queues (Err e) m = (r', m')"
  shows "ok (mg_storage m') \<and> mg_configs m' = mg_configs m \<and>
    ((\<exists>jid. r' = Ok jid \<and> took clk queues (view (mg_storage m)) jid (view (mg_storage m'))) \<or>
     (\<exists>e'. r' = Err e' \<and> e' \<in> {e, ErrQueuePaused, ErrQueueEmpty}) \<and>
       view (mg_storage m') = view (mg_storage m) \<and>
       (\<forall>q \<in> set queues. q \<noteq> sel \<longrightarrow> none_ready (clk 0) q (view (mg_storage m))))"
  using assms
proof (induction queues arbitrary: clk e m)
  case Nil
  then show ?case by auto
next
  case (Cons q queues)
  show ?case
  proof (cases "q = sel")
    case True
    with Cons.prems(3) have "mgr_try_others St clk sel queues (Err e) m = (r', m')" by simp
    from Cons.IH [OF Cons.prems(1,2) this] True show ?thesis by auto
  next
    case False
    obtain r1 m1 where c1: "on_storage (st_Dequeue St clk q) m = (r1, m1)"
      by (cases "on_storage (st_Dequeue St clk q) m")
    note d = dequeue_call [OF Cons.prems(1) c1]
    show ?thesis
    proof (cases r1)
      case (Ok jid)
      with False c1 Cons.prems(3) d show ?thesis by auto
    next
      case (Panic p)
      with d show ?thesis by (simp add: spec_Dequeue_no_Panic)
    next
      case (Err e1)
      with d have v: "view (mg_storage m1) = view (mg_storage m)" "ok (mg_storage m1)"
        "mg_configs m1 = mg_configs m" "e1 \<in> {ErrQueuePaused, ErrQueueEmpty}"
        "none_ready (clk 0) q (view (mg_storage m))"
        by (auto dest!: spec_Dequeue_Err_none_ready)
      from Err False c1 Cons.prems(3)
      have rest: "mgr_try_others St (clock_from 1 clk) sel queues (Err e1) m1 = (r', m')" by simp
      have later: "clk 0 \<le> clock_from 1 clk 0"
        using Cons.prems(2) by (simp add: mono_def)
      from Cons.IH [OF v(2) mono_clock_from [OF Cons.prems(2)] rest] v(1,3,4,5)
      show ?thesis
        by (cases r') (auto simp del: clock_from_apply One_nat_def
            dest: none_ready_earlier [OF _ later] took_later)
    qed
  qed
qed

end

context storage
begin

lemma attempt_cases:
  assumes okm: "ok (mg_storage m)" and mono: "mono clk" and sel: "sel \<in> set queues"
    and run: "attempt St clk sel queues m = (r, m')" and np: "\<not> v_paused (view (mg_storage m)) sel"
  shows "ok (mg_storage m') \<and> mg_configs m' = mg_configs m \<and>
    ((\<exists>jid. r = Ok jid \<and> took clk queues (view (mg_storage m)) jid (view (mg_storage m'))) \<or>
     (\<exists>e. r = Err e \<and> e \<in> {ErrQueuePaused, ErrQueueEmpty}) \<and>
       view (mg_storage m') = view (mg_storage m) \<and>
       (\<forall>q \<in> set queues. none_ready (clk 0) q (view (mg_storage m))))"
proof -
  obtain r1 m1 where c1: "on_storage (st_Dequeue St clk sel) m = (r1, m1)"
    by (cases "on_storage (st_Dequeue St clk sel) m")
  note d = dequeue_call [OF okm c1]
  show ?thesis
  proof (cases r1)
    case (Ok jid)
    with c1 run d sel show ?thesis by (auto simp: attempt_def took_def)
  next
    case (Panic p)
    with d show ?thesis by (simp add: spec_Dequeue_no_Panic)
  next
    case (Err e1)
    with d np have v: "view (mg_storage m1) = view (mg_storage m)" "ok (mg_storage m1)"
      "mg_configs m1 = mg_configs m" "e1 = ErrQueueEmpty"
      "none_ready (clk 0) sel (view (mg_storage m))"
      by (auto dest!: spec_Dequeue_Err_none_ready)
    with run c1 Err
    have rest: "mgr_try_others St (clock_from 1 clk) sel queues (Err ErrQueueEmpty) m1 = (r, m')"
      by (simp add: attempt_def)
    have later: "clk 0 \<le> clock_from 1 clk 0" using mono by (simp add: mono_def)
    from try_others_cases [OF v(2) mono_clock_from [OF mono] rest] v(1,3,5) show ?thesis
      by (cases r) (auto simp del: clock_from_apply One_nat_def
          dest: none_ready_earlier [OF _ later] took_later)
  qed
qed

lemma Dequeue_unfold:
  "mgr_Dequeue St clk intn queues m =
     (if queues = [] then (Err (NewQueueError '''' ''no queues specified'' None), m)
      else case mgr_selectQueue St intn queues m of
          Err e \<Rightarrow> (Err e, m)
        | Panic p \<Rightarrow> (Panic p, m)
        | Ok selected \<Rightarrow>
            if selected = '''' then (Err ErrQueueEmpty, m)
            else case attempt St clk selected queues m of
                (Err e, m) \<Rightarrow> (Err e, m)
              | (Panic p, m) \<Rightarrow> (Panic p, m)
              | (Ok jobID, m) \<Rightarrow> (wrap_err ''failed to get job'' (st_GetJob St jobID (mg_storage m)), m))"
  by (simp add: mgr_Dequeue_def attempt_def split: outcome.splits prod.splits)

lemma selected_queue:
  assumes "ok (mg_storage m)" and "mgr_selectQueue St intn queues m = Ok sel" and "sel \<noteq> ''''"
  shows "sel \<in> set queues" "\<not> v_paused (view (mg_storage m)) sel"
    "v_entries (view (mg_storage m)) sel \<noteq> {#}"
proof -
  obtain cs where cs: "mgr_candidates St m queues = Ok cs" using candidates_eq [OF assms(1)] by blast
  with assms(2,3) have "cs \<noteq> []" by (auto simp: mgr_selectQueue_def)
  from selectQueue_Ok [OF cs this assms(2)] obtain c where "c \<in> set cs" "cd_name c = sel" by blast
  with cs candidates_eq [OF assms(1), of queues] show "sel \<in> set queues"
    "\<not> v_paused (view (mg_storage m)) sel" "v_entries (view (mg_storage m)) sel \<noteq> {#}"
    by (auto simp: List.map_filter_def split: option.splits if_splits)
qed

end

context storage
begin

lemma took_jobs: "took clk queues v jid v' \<Longrightarrow> v_jobs v' = v_jobs v"
  by (auto simp: took_def dest!: spec_Dequeue_OkD)

lemma Dequeue_cases:
  assumes okm: "ok (mg_storage m)" and mono: "mono clk"
    and run: "mgr_Dequeue St clk intn queues m = (r, m')"
  obtains (rejected) e where "r = Err e" "m' = m" "queues = [] \<or> mgr_selectQueue St intn queues m = Ok ''''"
  | (panic) p where "r = Panic p" "m' = m" "mgr_selectQueue St intn queues m = Panic p"
  | (unready) e where "r = Err e" "e \<in> {ErrQueuePaused, ErrQueueEmpty}" "ok (mg_storage m')"
      "view (mg_storage m') = view (mg_storage m)" "mg_configs m' = mg_configs m"
      "\<forall>q \<in> set queues. none_ready (clk 0) q (view (mg_storage m))"
  | (taken) jid where "ok (mg_storage m')" "mg_configs m' = mg_configs m"
      "took clk queues (view (mg_storage m)) jid (view (mg_storage m'))"
      "r = (case v_jobs (view (mg_storage m)) jid of
              None \<Rightarrow> Err (Errorf ''failed to get job'' (Some ErrJobNotFound)) | Some j \<Rightarrow> Ok j)"
proof -
  obtain cs where cs: "mgr_candidates St m queues = Ok cs" using candidates_eq [OF okm] by blast
  then have noerr: "mgr_selectQueue St intn queues m \<noteq> Err e" for e
    by (auto simp: mgr_selectQueue_def Let_def split: option.splits list.splits)
  show ?thesis
  proof (cases "queues = [] \<or> mgr_selectQueue St intn queues m = Ok ''''")
    case True
    with run rejected show ?thesis unfolding Dequeue_unfold by (auto split: if_splits)
  next
    case False
    show ?thesis
    proof (cases "mgr_selectQueue St intn queues m")
      case (Panic p)
      with False run panic show ?thesis unfolding Dequeue_unfold by auto
    next
      case (Err e)
      with noerr show ?thesis by blast
    next
      case (Ok sel)
      obtain r1 m1 where a: "attempt St clk sel queues m = (r1, m1)" by (cases "attempt St clk sel queues m")
      from False Ok have "sel \<noteq> ''''" by auto
      note sel = selected_queue [OF okm Ok this]
      note res = attempt_cases [OF okm mono sel(1) a sel(2)]
      show ?thesis
      proof (cases r1)
        case (Ok jid)
        with res have ok1: "ok (mg_storage m1)" "mg_configs m1 = mg_configs m"
          and took1: "took clk queues (view (mg_storage m)) jid (view (mg_storage m1))" by auto
        have "m' = m1" and "r = wrap_err ''failed to get job'' (st_GetJob St jid (mg_storage m1))"
          using run a Ok False \<open>mgr_selectQueue St intn queues m = Ok sel\<close> \<open>sel \<noteq> ''''\<close>
          unfolding Dequeue_unfold by auto
        then show ?thesis using taken [of jid] ok1 took1 took_jobs [OF took1]
          by (simp add: GetJob split: option.splits)
      next
        case (Err e)
        with run a False \<open>mgr_selectQueue St intn queues m = Ok sel\<close> \<open>sel \<noteq> ''''\<close>
        have "r = Err e" "m' = m1" unfolding Dequeue_unfold by auto
        with res Err show ?thesis by - (rule unready [of e]; auto)
      next
        case (Panic p)
        with res show ?thesis by auto
      qed
    qed
  qed
qed

text \<open>
  A job can be had from a registered queue: some queue of the list has one ready, the choice does
  not panic, and the entries of the store have their jobs. Then a job is returned.
\<close>

lemma took_job: "took clk queues v jid v' \<Longrightarrow> no_dangling v \<Longrightarrow> \<exists>j. v_jobs v jid = Some j"
  by (fastforce simp: took_def no_dangling_def dest!: spec_Dequeue_OkD)

lemma Dequeue_live:
  assumes okm: "ok (mg_storage m)" and mono: "mono clk" and nd: "no_dangling (view (mg_storage m))"
    and q: "q \<in> set queues" "mg_configs m q \<noteq> None" and ne: "'''' \<notin> set queues"
    and ready: "\<not> none_ready (clk 0) q (view (mg_storage m))"
    and sel: "\<And>cs. mgr_candidates St m queues = Ok cs \<Longrightarrow> selectable cs"
  shows "\<exists>j m'. mgr_Dequeue St clk intn queues m = (Ok j, m')"
proof -
  obtain cs where cs: "mgr_candidates St m queues = Ok cs" using candidates_eq [OF okm] by blast
  have "cs \<noteq> []" using cs q ready candidates_eq [OF okm, of queues]
    by (fastforce simp: List.map_filter_def none_ready_def filter_empty_conv
        split: option.splits if_splits)
  from selectQueue_total [OF cs this sel [OF cs]] obtain name where
    name: "mgr_selectQueue St intn queues m = Ok name" by blast
  from selectQueue_Ok [OF cs \<open>cs \<noteq> []\<close> name] cs candidates_eq [OF okm, of queues] ne
  have "name \<noteq> ''''" by (auto simp: List.map_filter_def split: option.splits if_splits)
  obtain r m' where run: "mgr_Dequeue St clk intn queues m = (r, m')"
    by (cases "mgr_Dequeue St clk intn queues m")
  from okm mono run show ?thesis
  proof (cases rule: Dequeue_cases)
    case (taken jid)
    with took_job [OF taken(3) nd] run show ?thesis by auto
  qed (use q ready name \<open>name \<noteq> ''''\<close> in auto)
qed

end

section \<open>Requeue, cancel, remove\<close>

context storage
begin

text \<open>\<open>Requeue\<close> replaces the stored job by the caller's copy and queues it again.\<close>

lemma Requeue_Ok:
  assumes okm: "ok (mg_storage m)" and old: "v_jobs (view (mg_storage m)) (j_ID j) \<noteq> None"
  shows "\<exists>m'. mgr_Requeue St clk j d m = (Ok (), m') \<and> ok (mg_storage m') \<and>
     mg_configs m' = mg_configs m \<and>
     view (mg_storage m') = (view (mg_storage m))
       \<lparr>v_jobs := (v_jobs (view (mg_storage m)))(j_ID j \<mapsto> j),
        v_entries := (v_entries (view (mg_storage m)))(j_Queue j :=
          add_mset (j_ID j, j_Priority j, clk 0 + d) (v_entries (view (mg_storage m)) (j_Queue j)))\<rparr>"
proof -
  obtain r1 m1 where c1: "on_storage (st_UpdateJob St j) m = (r1, m1)"
    by (cases "on_storage (st_UpdateJob St j) m")
  from on_refines [OF UpdateJob okm c1] old
  have 1: "r1 = Ok ()" "ok (mg_storage m1)" "mg_configs m1 = mg_configs m"
    "view (mg_storage m1) = (view (mg_storage m))\<lparr>v_jobs := (v_jobs (view (mg_storage m)))(j_ID j \<mapsto> j)\<rparr>"
    by (auto simp: spec_change_job_def)
  obtain r2 m2 where c2: "on_storage (st_Requeue St clk (j_Queue j) (j_ID j) (j_Priority j) d) m1 = (r2, m2)"
    by (cases "on_storage (st_Requeue St clk (j_Queue j) (j_ID j) (j_Priority j) d) m1")
  from on_refines [OF Requeue 1(2) c2] 1(4)
  show ?thesis using c1 c2 1(1,3) by (auto simp: mgr_Requeue_def spec_Enqueue_def)
qed

lemma Requeue_missing:
  assumes okm: "ok (mg_storage m)" and none: "v_jobs (view (mg_storage m)) (j_ID j) = None"
  shows "\<exists>m'. mgr_Requeue St clk j d m = (Err (Errorf ''failed to update job'' (Some ErrJobNotFound)), m') \<and>
     ok (mg_storage m') \<and> view (mg_storage m') = view (mg_storage m) \<and> mg_configs m' = mg_configs m"
proof -
  obtain r1 m1 where c1: "on_storage (st_UpdateJob St j) m = (r1, m1)"
    by (cases "on_storage (st_UpdateJob St j) m")
  from on_refines [OF UpdateJob okm c1] none show ?thesis
    using c1 by (auto simp: mgr_Requeue_def spec_change_job_def)
qed

text \<open>
  \<open>CancelJob\<close>: a terminal or missing job is refused and nothing changes; any other job becomes
  CANCELLED, and a pending one loses one entry of its queue if it has any.
\<close>

lemma CancelJob_refused:
  assumes "ok (mg_storage m)"
    and "v_jobs (view (mg_storage m)) jid = None \<or> (\<exists>j. v_jobs (view (mg_storage m)) jid = Some j \<and> IsTerminal j)"
  shows "\<exists>e. mgr_CancelJob St clk jid m = (Err e, m)"
  using assms by (auto simp: mgr_CancelJob_def GetJob)

lemma CancelJob_Ok:
  assumes okm: "ok (mg_storage m)" and j: "v_jobs (view (mg_storage m)) jid = Some j" "\<not> IsTerminal j"
  shows "\<exists>m'. mgr_CancelJob St clk jid m = (Ok (), m') \<and> ok (mg_storage m') \<and>
     mg_configs m' = mg_configs m \<and> v_configs (view (mg_storage m')) = v_configs (view (mg_storage m)) \<and>
     v_jobs (view (mg_storage m')) = (v_jobs (view (mg_storage m)))(jid \<mapsto> set_status clk StatusCancelled j) \<and>
     (if j_Status j = StatusPending \<and> jid \<in># image_mset fst (v_entries (view (mg_storage m)) (j_Queue j))
      then \<exists>p t. (jid, p, t) \<in># v_entries (view (mg_storage m)) (j_Queue j) \<and>
         v_entries (view (mg_storage m')) = (v_entries (view (mg_storage m)))
           (j_Queue j := v_entries (view (mg_storage m)) (j_Queue j) - {#(jid, p, t)#})
      else v_entries (view (mg_storage m')) = v_entries (view (mg_storage m)))"
proof -
  obtain r1 m1 where c1: "on_storage (st_UpdateStatus St clk jid StatusCancelled) m = (r1, m1)"
    by (cases "on_storage (st_UpdateStatus St clk jid StatusCancelled) m")
  from on_refines [OF UpdateStatus okm c1] j
  have 1: "r1 = Ok ()" "ok (mg_storage m1)" "view (mg_storage m1) =
     (view (mg_storage m))\<lparr>v_jobs := (v_jobs (view (mg_storage m)))(jid \<mapsto> set_status clk StatusCancelled j)\<rparr>"
    "mg_configs m1 = mg_configs m"
    by (auto simp: spec_change_job_def)
  show ?thesis
  proof (cases "j_Status j = StatusPending")
    case False
    with 1 c1 j okm show ?thesis by (simp add: mgr_CancelJob_def GetJob)
  next
    case True
    obtain r2 m2 where c2: "on_storage (st_Remove St (j_Queue j) jid) m1 = (r2, m2)"
      by (cases "on_storage (st_Remove St (j_Queue j) jid) m1")
    note rem = on_refines_rel [OF Remove 1(2) c2]
    have "mgr_CancelJob St clk jid m = (Ok (), m2)"
      using True rem 1 c1 c2 j okm by (cases r2) (auto simp: mgr_CancelJob_def GetJob spec_Remove_def split: if_splits)
    with rem 1(3,4) True show ?thesis
      by (cases "jid \<in># image_mset fst (v_entries (view (mg_storage m)) (j_Queue j))")
        (simp_all add: spec_Remove_def, auto intro!: exI)
  qed
qed

end

section \<open>The cache of configurations\<close>

context storage
begin

lemma RegisterQueue_cache:
  assumes "ok (mg_storage m)" and "cache_ok view m"
    and "mgr_RegisterQueue St c m = (r, c', m')"
  shows "ok (mg_storage m') \<and> cache_ok view m'"
proof (cases "qc_Name c = ''''")
  case True
  with assms show ?thesis by (auto simp: mgr_RegisterQueue_def)
next
  case False
  from RegisterQueue_Ok [OF assms(1) this] assms(2,3) show ?thesis by (auto simp: cache_ok_def)
qed

lemma UpdateQueueConfig_cache:
  assumes okm: "ok (mg_storage m)" and "cache_ok view m" and "mgr_UpdateQueueConfig St c m = (r, m')"
  shows "ok (mg_storage m') \<and> cache_ok view m'"
proof -
  obtain r1 m1 where c1: "on_storage (st_SaveQueueConfig St c) m = (r1, m1)"
    by (cases "on_storage (st_SaveQueueConfig St c) m")
  from on_refines [OF SaveQueueConfig okm c1] assms c1 show ?thesis
    by (auto simp: mgr_UpdateQueueConfig_def spec_set_config_def cache_ok_def split: if_splits)
qed

lemma DeleteQueue_cache:
  assumes okm: "ok (mg_storage m)" and "cache_ok view m" and "mgr_DeleteQueue St q m = (r, m')"
  shows "ok (mg_storage m') \<and> cache_ok view m'"
proof -
  obtain r1 m1 where c1: "on_storage (st_DeleteQueueConfig St q) m = (r1, m1)"
    by (cases "on_storage (st_DeleteQueueConfig St q) m")
  from on_refines [OF DeleteQueueConfig okm c1] assms c1 show ?thesis
    by (auto simp: mgr_DeleteQueue_def Length spec_set_config_def cache_ok_def split: if_splits)
qed

lemma GetQueueConfig_cache:
  assumes "ok (mg_storage m)" and "cache_ok view m" and "mgr_GetQueueConfig St q m = (r, m')"
  shows "mg_storage m' = mg_storage m \<and> cache_ok view m' \<and>
    (case v_configs (view (mg_storage m)) q of
       None \<Rightarrow> r = Err (NewQueueError '''' (''queue config not found: '' @ q) None)
     | Some c \<Rightarrow> r = Ok c)"
  using assms(1)
  by (cases rule: GetQueueConfig_cases [of m q]) (use assms(2,3) in \<open>auto simp: cache_ok_def\<close>)

text \<open>A queue that still has entries is not deleted; an empty one is, from the cache and the storage.\<close>

lemma DeleteQueue_cases:
  assumes okm: "ok (mg_storage m)"
  shows "if v_entries (view (mg_storage m)) q = {#}
    then \<exists>m'. mgr_DeleteQueue St q m = (Ok (), m') \<and> mg_configs m' = (mg_configs m)(q := None) \<and>
      view (mg_storage m') = (view (mg_storage m))\<lparr>v_configs := (v_configs (view (mg_storage m)))(q := None)\<rparr>
    else mgr_DeleteQueue St q m =
      (Err (NewQueueError '''' (''cannot delete non-empty queue: '' @ q) None), m)"
proof -
  obtain r1 m1 where c1: "on_storage (st_DeleteQueueConfig St q) m = (r1, m1)"
    by (cases "on_storage (st_DeleteQueueConfig St q) m")
  from on_refines [OF DeleteQueueConfig okm c1] c1 show ?thesis
    by (auto simp: mgr_DeleteQueue_def Length okm spec_set_config_def)
qed

end

context storage_listing
begin

lemma fold_configs:
  "fold (\<lambda>config cm. cm(qc_Name config \<mapsto> config)) cs cm q =
     (case find (\<lambda>c. qc_Name c = q) (rev cs) of Some c \<Rightarrow> Some c | None \<Rightarrow> cm q)"
  by (induction cs rule: rev_induct) auto

lemma NewManager_Ok:
  assumes okm: "ok s"
  shows "NewManager St s = Ok \<lparr>mg_storage = s, mg_configs = v_configs (view s)\<rparr>"
proof -
  from ListQueueConfigs [OF okm] obtain cs where
    cs: "st_ListQueueConfigs St s = Ok cs" "set cs = ran (v_configs (view s))" by blast
  have "fold (\<lambda>config cm. cm(qc_Name config \<mapsto> config)) cs Map.empty q = v_configs (view s) q" for q
  proof (cases "v_configs (view s) q")
    case None
    then have "\<forall>c \<in> set cs. qc_Name c \<noteq> q"
      using cs(2) GetQueueConfig_Name [OF okm] by (fastforce simp: ran_def)
    then have "find (\<lambda>c. qc_Name c = q) (rev cs) = None" by (auto simp: find_None_iff)
    with None show ?thesis unfolding fold_configs by simp
  next
    case (Some c)
    have "find (\<lambda>c. qc_Name c = q) (rev cs) \<noteq> None"
      using Some cs(2) GetQueueConfig_Name [OF okm Some] by (auto simp: find_None_iff ran_def)
    then obtain c' where c': "find (\<lambda>c. qc_Name c = q) (rev cs) = Some c'" by blast
    then have "c' \<in> set cs" "qc_Name c' = q" by (auto simp: find_Some_iff rev_nth)
    with cs(2) GetQueueConfig_Name [OF okm] Some have "c' = c" by (fastforce simp: ran_def)
    with c' Some show ?thesis unfolding fold_configs by simp
  qed
  then show ?thesis using cs(1) by (auto simp: NewManager_def mgr_loadConfigs_def)
qed

end

end
