(* ===== verification/ManagerProperties.thy ===== *)
theory ManagerProperties
  imports ManagerProofs Samples
begin

text \<open>
  What the queue manager gives its clients, over the memory store. Each property is the
  corresponding lemma of the locale \<open>storage\<close>, at the interpretation \<open>mem\<close>.
\<close>

section \<open>A manager over a new store, for the witnesses\<close>

definition new_manager :: "MemoryStore Manager" where
  "new_manager = \<lparr>mg_storage = NewMemoryStore (\<lambda>_. 0), mg_configs = Map.empty\<rparr>"

lemma new_manager_sel [simp]:
  "mem_inv (mg_storage new_manager)" "mg_configs new_manager = Map.empty"
  "ms_jobs (mg_storage new_manager) = Map.empty" "ms_queues (mg_storage new_manager) = (\<lambda>_. [])"
  "ms_paused (mg_storage new_manager) = (\<lambda>_. False)" "ms_queueConfigs (mg_storage new_manager) = Map.empty"
  "cache_ok mem_view new_manager"
  by (simp_all add: new_manager_def mem_inv_new cache_ok_def) (simp_all add: NewMemoryStore_def)

section \<open>Enqueue\<close>

text \<open>
  Enqueuing a job with a new identifier succeeds. The job is stored with the defaults of the
  queue's configuration filled in (the queue name \<open>default\<close> if it has none), one entry is
  added to its queue and nothing else changes in jobs and queues; the queue is registered
  afterwards, with a default configuration if it was unknown.
\<close>

theorem Enqueue_new_job:
  assumes "mem_inv (mg_storage m)" and "ms_jobs (mg_storage m) (j_ID j) = None"
  shows "\<exists>m' cf. mgr_Enqueue (memStorage iter) clk j m =
        (Ok (), enqueued_job (config_for mem_view m (queue_of j)) j, m') \<and>
     mem_inv (mg_storage m') \<and> mg_configs m' (queue_of j) = Some (config_for mem_view m (queue_of j)) \<and>
     mem_view (mg_storage m') = (mem_view (mg_storage m))
       \<lparr>v_configs := cf,
        v_jobs := (ms_jobs (mg_storage m))(j_ID j \<mapsto> enqueued_job (config_for mem_view m (queue_of j)) j),
        v_entries := (v_entries (mem_view (mg_storage m)))(queue_of j :=
          add_mset (j_ID j, j_Priority j, clk 2 + schedule_delay clk j)
            (v_entries (mem_view (mg_storage m)) (queue_of j)))\<rparr>"
  using mem.Enqueue_new [OF assms(1), of j iter clk] assms(2) by (simp, blast)

theorem Enqueue_new_job_witness:
  "\<exists>m'. mgr_Enqueue (memStorage sorted_list_of_set) (\<lambda>_. 5) (sample_job ''a'') new_manager =
     (Ok (), enqueued_job (queue_defaults (enqueue_default_config ''mail'')) (sample_job ''a''), m') \<and>
     mem_inv (mg_storage m')"
  using Enqueue_new_job [of new_manager "sample_job ''a''" sorted_list_of_set "\<lambda>_. 5"]
  by (auto simp: config_for_def queue_of_def)

text \<open>
  a job whose identifier is taken is refused: the error wraps \<open>ErrJobAlreadyExists\<close>, and jobs,
  queue entries and paused flags stay as they were.
\<close>

theorem Enqueue_duplicate_refused:
  assumes "mem_inv (mg_storage m)" and "ms_jobs (mg_storage m) (j_ID j) \<noteq> None"
  shows "\<exists>e j' m' cf. mgr_Enqueue (memStorage iter) clk j m = (Err e, j', m') \<and>
     root_cause e = ErrJobAlreadyExists \<and>
     mem_view (mg_storage m') = (mem_view (mg_storage m))\<lparr>v_configs := cf\<rparr>"
proof -
  have cause: "root_cause (Errorf msg (Some ErrJobAlreadyExists)) = ErrJobAlreadyExists" for msg
    by (simp add: root_cause.simps)
  from mem.Enqueue_duplicate [OF assms(1), of j iter clk] assms(2) cause show ?thesis
    by (simp, blast)
qed

theorem Enqueue_duplicate_refused_witness:
  "\<exists>e j' m'. mgr_Enqueue (memStorage sorted_list_of_set) (\<lambda>_. 5) (sample_job ''a'')
      (new_manager\<lparr>mg_storage := snd (mem_CreateJob (sample_job ''a'') (mg_storage new_manager))\<rparr>) =
      (Err e, j', m') \<and> root_cause e = ErrJobAlreadyExists"
  using Enqueue_duplicate_refused [of "new_manager\<lparr>mg_storage :=
      snd (mem_CreateJob (sample_job ''a'') (mg_storage new_manager))\<rparr>" "sample_job ''a''"
      sorted_list_of_set "\<lambda>_. 5"]
  by (auto simp: inv_job_ops) (auto simp: mem_CreateJob_def)

text \<open>
  A job that is scheduled for later is not handed out early. The entry made for it is ready
  at the scheduled time at the earliest, so a dequeue before that time never takes this entry.
\<close>

theorem scheduled_job_not_early:
  assumes "mem_inv (mg_storage m)" and "ms_jobs (mg_storage m) (j_ID j) = None"
    and "\<forall>q. j_ID j \<notin> qe_JobID ` set (ms_queues (mg_storage m) q)"
    and "mono clk" and "j_ScheduledAt j = Some t" and "int64 (t - clk 1)"
    and "mgr_Enqueue (memStorage iter) clk j m = (r, j', m')" and "clk' 0 < t"
  shows "fst (mem_Dequeue clk' q (mg_storage m')) \<noteq> Ok (j_ID j)"
proof
  assume ok: "fst (mem_Dequeue clk' q (mg_storage m')) = Ok (j_ID j)"
  from mem.Enqueue_new [OF assms(1), of j iter clk] assms(2,7) obtain cf c where
    inv: "mem_inv (mg_storage m')" and
    v: "mem_view (mg_storage m') = (mem_view (mg_storage m))
       \<lparr>v_configs := cf,
        v_jobs := (ms_jobs (mg_storage m))(j_ID j \<mapsto> enqueued_job c j),
        v_entries := (v_entries (mem_view (mg_storage m)))(queue_of j :=
          add_mset (j_ID j, j_Priority j, clk 2 + schedule_delay clk j)
            (v_entries (mem_view (mg_storage m)) (queue_of j)))\<rparr>"
    by auto
  obtain m1 where "mem_Dequeue clk' q (mg_storage m') = (Ok (j_ID j), m1)"
    using ok by (cases "mem_Dequeue clk' q (mg_storage m')") auto
  from refines_relD [OF mem_refines_Dequeue inv this]
  obtain p u where e: "(j_ID j, p, u) \<in># v_entries (mem_view (mg_storage m')) q" "u \<le> clk' 0"
    by (auto dest!: spec_Dequeue_OkD)
  have "(j_ID j, p, u) \<notin># v_entries (mem_view (mg_storage m)) q'" for q'
    using assms(3) by (auto simp: entry_of_def)
  with e(1) have "u = clk 2 + schedule_delay clk j"
    unfolding v by (auto split: if_splits)
  with schedule_delay_not_early [OF assms(4-6)] e(2) assms(8) show False by simp
qed

theorem scheduled_job_not_early_witness:
  "fst (mem_Dequeue (\<lambda>_. 99) ''mail'' (mg_storage (snd (snd (mgr_Enqueue (memStorage sorted_list_of_set) (\<lambda>_. 5)
      ((sample_job ''a'')\<lparr>j_ScheduledAt := Some 100\<rparr>) new_manager))))) \<noteq> Ok ''a''"
proof -
  let ?j = "(sample_job ''a'')\<lparr>j_ScheduledAt := Some 100\<rparr>"
  obtain r j' m' where run: "mgr_Enqueue (memStorage sorted_list_of_set) (\<lambda>_. 5) ?j new_manager = (r, j', m')"
    by (cases "mgr_Enqueue (memStorage sorted_list_of_set) (\<lambda>_. 5) ?j new_manager")
  from scheduled_job_not_early [OF _ _ _ _ _ _ run, of 100 "\<lambda>_. 99" "''mail''"]
  show ?thesis by (simp add: run mono_def int64_def)
qed

section \<open>Choosing a queue\<close>

text \<open>
  C24: among candidates of equal priority the choice is weighted exactly: of the numbers that
  \<open>rand.Intn(totalWeight)\<close> can give, as many select a queue as its weight says, so a uniform
  number makes the probability of a queue its share of the total weight.
\<close>

theorem weighted_choice_exact:
  assumes "weights_ok cs" and "distinct (map cd_name cs)" and "c \<in> set cs"
  shows "total_weight cs = sum_list (map cd_weight cs) \<and>
    int (card {r. 0 \<le> r \<and> r < total_weight cs \<and> pick_weighted r 0 cs = Some (cd_name c)}) = cd_weight c"
proof -
  have total: "total_weight cs = sum_list (map cd_weight cs)" by (rule total_weight_eq [OF assms(1)])
  from pick_weighted_set [of cs 0 c] assms obtain lo where
    "{r. 0 \<le> r \<and> r < total_weight cs \<and> pick_weighted r 0 cs = Some (cd_name c)} = {lo ..< lo + cd_weight c}"
    by (auto simp: weights_ok_def total)
  moreover have "0 \<le> cd_weight c" using assms(1,3) by (auto simp: weights_ok_def)
  ultimately show ?thesis using total by simp
qed

theorem weighted_choice_exact_witness:
  "int (card {r. 0 \<le> r \<and> r < total_weight
      [\<lparr>cd_name = ''a'', cd_priority = 5, cd_weight = 3, cd_length = 1\<rparr>,
       \<lparr>cd_name = ''b'', cd_priority = 5, cd_weight = 1, cd_length = 4\<rparr>] \<and>
     pick_weighted r 0
      [\<lparr>cd_name = ''a'', cd_priority = 5, cd_weight = 3, cd_length = 1\<rparr>,
       \<lparr>cd_name = ''b'', cd_priority = 5, cd_weight = 1, cd_length = 4\<rparr>] = Some ''a''}) = 3"
proof -
  let ?c = "\<lparr>cd_name = ''a'', cd_priority = 5, cd_weight = 3, cd_length = 1\<rparr>"
  let ?cs = "[?c, \<lparr>cd_name = ''b'', cd_priority = 5, cd_weight = 1, cd_length = 4\<rparr>]"
  have "weights_ok ?cs" "distinct (map cd_name ?cs)" "?c \<in> set ?cs"
    by (simp_all add: weights_ok_def int64_def)
  from conjunct2 [OF weighted_choice_exact [OF this]] show ?thesis
    by (simp only: queueCandidate.select_convs)
qed

text \<open>
  C15: the queue chosen is one of those asked for; it is registered, not paused, has an entry, and no
  other such queue has a higher priority. The empty name is given exactly when there is no such
  queue (the name itself not being asked for). With priorities and weights that are sane the choice does not panic.
\<close>

definition available :: "MemoryStore Manager \<Rightarrow> string \<Rightarrow> bool" where
  "available m q \<longleftrightarrow> mg_configs m q \<noteq> None \<and> \<not> ms_paused (mg_storage m) q \<and> ms_queues (mg_storage m) q \<noteq> []"

definition sane_queues :: "MemoryStore Manager \<Rightarrow> string list \<Rightarrow> bool" where
  "sane_queues m queues \<longleftrightarrow> '''' \<notin> set queues \<and>
     (\<forall>q \<in> set queues. \<forall>c. mg_configs m q = Some c \<longrightarrow> 0 \<le> qc_Priority c \<and> 0 < qc_Weight c) \<and>
     int64 (\<Sum>q\<leftarrow>queues. case mg_configs m q of None \<Rightarrow> 0 | Some c \<Rightarrow> qc_Weight c)"

definition candidate_of :: "MemoryStore Manager \<Rightarrow> string \<Rightarrow> queueCandidate" where
  "candidate_of m q = \<lparr>cd_name = q, cd_priority = qc_Priority (the (mg_configs m q)),
     cd_weight = qc_Weight (the (mg_configs m q)), cd_length = int (length (ms_queues (mg_storage m) q))\<rparr>"

lemma mem_candidates:
  assumes "mem_inv (mg_storage m)"
  shows "mgr_candidates (memStorage iter) m queues = Ok (map (candidate_of m) (filter (available m) queues))"
  unfolding mem.candidates_eq [OF assms]
  by (induction queues)
    (auto simp: map_filter_simps available_def candidate_of_def split: option.splits)

lemma sane_selectable:
  assumes "sane_queues m queues"
  shows "selectable (map (candidate_of m) (filter (available m) queues))"
proof -
  let ?w = "\<lambda>q. case mg_configs m q of None \<Rightarrow> 0 | Some c \<Rightarrow> qc_Weight c"
  have nn: "\<forall>q \<in> set queues. 0 \<le> ?w q"
    using assms by (auto simp: sane_queues_def less_imp_le split: option.splits)
  have eq: "map (cd_weight \<circ> candidate_of m) (filter (available m) queues) = map ?w (filter (available m) queues)"
    by (auto simp: candidate_of_def available_def)
  have "(\<Sum>q\<leftarrow>filter (available m) queues. ?w q) \<le> (\<Sum>q\<leftarrow>queues. ?w q)"
    by (rule sum_filter_le [OF nn])
  moreover have "0 \<le> (\<Sum>q\<leftarrow>filter (available m) queues. ?w q)"
    using nn by (auto intro!: sum_list_nonneg)
  ultimately have "int64 (\<Sum>q\<leftarrow>filter (available m) queues. ?w q)"
    using assms by (auto simp: sane_queues_def int64_def)
  then show ?thesis using assms unfolding selectable_def map_map eq
    by (fastforce simp: sane_queues_def available_def candidate_of_def)
qed

theorem selectQueue_choice:
  assumes "mem_inv (mg_storage m)" and "sane_queues m queues"
  shows "\<exists>name. mgr_selectQueue (memStorage iter) intn queues m = Ok name \<and>
    (if \<exists>q \<in> set queues. available m q
     then name \<in> set queues \<and> available m name \<and>
       (\<forall>q \<in> set queues. available m q \<longrightarrow>
          qc_Priority (the (mg_configs m q)) \<le> qc_Priority (the (mg_configs m name)))
     else name = '''')"
proof (cases "filter (available m) queues = []")
  case True
  then show ?thesis using mem_candidates [OF assms(1), of iter queues]
    by (auto simp: mgr_selectQueue_def filter_empty_conv)
next
  case False
  let ?cs = "map (candidate_of m) (filter (available m) queues)"
  note cs = mem_candidates [OF assms(1), of iter queues]
  have ne: "?cs \<noteq> []" using False by simp
  from selectQueue_total [OF cs ne sane_selectable [OF assms(2)]] obtain name where
    name: "mgr_selectQueue (memStorage iter) intn queues m = Ok name" by blast
  from selectQueue_Ok [OF cs ne name] obtain c where
    "c \<in> set ?cs" "cd_name c = name" "\<forall>d \<in> set ?cs. cd_priority d \<le> cd_priority c" by blast
  with False name show ?thesis by (auto simp: candidate_of_def filter_empty_conv)
qed

theorem selectQueue_choice_witness:
  "\<exists>name. mgr_selectQueue (memStorage sorted_list_of_set) (\<lambda>_. 0) [''mail'', ''sms'']
     (new_manager\<lparr>mg_configs := [''mail'' \<mapsto> sample_config ''mail'']\<rparr>) = Ok name \<and> name = ''''"
  using selectQueue_choice [of "new_manager\<lparr>mg_configs := [''mail'' \<mapsto> sample_config ''mail'']\<rparr>"
      "[''mail'', ''sms'']" sorted_list_of_set "\<lambda>_. 0"]
  by (simp add: sane_queues_def available_def int64_def priority_defs)

text \<open>
  The choice is not safe for every configuration: when the queues that have entries all have a
  negative priority, none of them reaches the initial maximum \<open>PriorityLow\<close>, the total weight is
  zero, and \<open>rand.Intn(0)\<close> panics.
\<close>

theorem selectQueue_negative_panics:
  assumes "mem_inv (mg_storage m)" and "\<exists>q \<in> set queues. available m q"
    and "\<forall>q \<in> set queues. available m q \<longrightarrow> qc_Priority (the (mg_configs m q)) < 0"
  shows "mgr_Dequeue (memStorage iter) clk intn queues m = (Panic ''invalid argument to Intn'', m)"
proof -
  let ?cs = "map (candidate_of m) (filter (available m) queues)"
  have "?cs \<noteq> []" "\<forall>c \<in> set ?cs. cd_priority c < 0"
    using assms(2,3) by (auto simp: filter_empty_conv candidate_of_def)
  from selectQueue_panic [OF mem_candidates [OF assms(1)] this] assms(2) show ?thesis
    by (auto simp: mgr_Dequeue_def)
qed

theorem selectQueue_negative_panics_witness:
  "mgr_Dequeue (memStorage sorted_list_of_set) (\<lambda>_. 9) (\<lambda>_. 0) [''mail'']
     (new_manager\<lparr>mg_configs := [''mail'' \<mapsto> (sample_config ''mail'')\<lparr>qc_Priority := - 1\<rparr>],
        mg_storage := (mg_storage new_manager)\<lparr>ms_queues := (\<lambda>_. [])(''mail'' :=
          [\<lparr>qe_JobID = ''a'', qe_Priority = 5, qe_Timestamp = 0\<rparr>])\<rparr>\<rparr>) =
   (Panic ''invalid argument to Intn'',
     new_manager\<lparr>mg_configs := [''mail'' \<mapsto> (sample_config ''mail'')\<lparr>qc_Priority := - 1\<rparr>],
        mg_storage := (mg_storage new_manager)\<lparr>ms_queues := (\<lambda>_. [])(''mail'' :=
          [\<lparr>qe_JobID = ''a'', qe_Priority = 5, qe_Timestamp = 0\<rparr>])\<rparr>\<rparr>)"
  by (rule selectQueue_negative_panics) (simp_all add: available_def)

section \<open>Dequeue\<close>

text \<open>
  C19: a job that \<open>Dequeue\<close> returns is a stored job with an entry in one of the queues asked for. That
  queue is not paused, the entry is ready and of the highest priority among the ready ones there,
  and taking it out is all that happens to jobs, queues and configurations.
\<close>

theorem Dequeue_takes_ready_job:
  assumes "mem_inv (mg_storage m)" and "mono clk"
    and "mgr_Dequeue (memStorage iter) clk intn queues m = (Ok j, m')"
  shows "ms_jobs (mg_storage m) (j_ID j) = Some j \<and>
    (\<exists>q \<in> set queues. \<exists>i. \<exists>p t. \<not> ms_paused (mg_storage m) q \<and>
       (j_ID j, p, t) \<in># v_entries (mem_view (mg_storage m)) q \<and> t \<le> clk i \<and>
       (\<forall>e \<in> set (ms_queues (mg_storage m) q). qe_Timestamp e \<le> clk i \<longrightarrow> qe_Priority e \<le> p) \<and>
       mem_view (mg_storage m') = (mem_view (mg_storage m))\<lparr>v_entries := (v_entries (mem_view (mg_storage m)))
         (q := v_entries (mem_view (mg_storage m)) q - {#(j_ID j, p, t)#})\<rparr>)"
  using assms
proof (cases rule: mem.Dequeue_cases)
  case (taken jid)
  then obtain q i where q: "q \<in> set queues"
    and deq: "spec_Dequeue (clk i) q (mem_view (mg_storage m)) (Ok jid, mem_view (mg_storage m'))"
    by (auto simp: took_def)
  from taken have j: "ms_jobs (mg_storage m) jid = Some j" by (simp split: option.splits)
  with mem.GetJob_ID [OF assms(1)] have id: "j_ID j = jid" by simp
  from spec_Dequeue_OkD [OF deq] obtain p t where
    e: "\<not> ms_paused (mg_storage m) q" "(jid, p, t) \<in># v_entries (mem_view (mg_storage m)) q" "t \<le> clk i"
    and best: "\<forall>(jid', p', t') \<in># v_entries (mem_view (mg_storage m)) q. t' \<le> clk i \<longrightarrow> p' \<le> p"
    and v: "mem_view (mg_storage m') = (mem_view (mg_storage m))\<lparr>v_entries := (v_entries (mem_view (mg_storage m)))
         (q := v_entries (mem_view (mg_storage m)) q - {#(jid, p, t)#})\<rparr>"
    unfolding mem_view_sel(3) by blast
  have "qe_Priority x \<le> p" if "x \<in> set (ms_queues (mg_storage m) q)" "qe_Timestamp x \<le> clk i" for x
    using best that by (force simp: entry_of_def)
  then show ?thesis unfolding id using j q e v by blast
qed simp_all

definition one_job_waiting :: "MemoryStore Manager" where
  "one_job_waiting = new_manager\<lparr>mg_configs := [''mail'' \<mapsto> sample_config ''mail''],
     mg_storage := (mg_storage new_manager)\<lparr>ms_jobs := [''a'' \<mapsto> sample_job ''a''],
       ms_queues := (\<lambda>_. [])(''mail'' := [\<lparr>qe_JobID = ''a'', qe_Priority = 5, qe_Timestamp = 0\<rparr>])\<rparr>\<rparr>"

lemma one_job_waiting_sel [simp]:
  "mem_inv (mg_storage one_job_waiting)" "mg_configs one_job_waiting = [''mail'' \<mapsto> sample_config ''mail'']"
  "ms_jobs (mg_storage one_job_waiting) = [''a'' \<mapsto> sample_job ''a'']"
  "ms_queues (mg_storage one_job_waiting) =
     (\<lambda>_. [])(''mail'' := [\<lparr>qe_JobID = ''a'', qe_Priority = 5, qe_Timestamp = 0\<rparr>])"
  "ms_paused (mg_storage one_job_waiting) = (\<lambda>_. False)"
  using new_manager_sel(1)
  by (simp_all add: one_job_waiting_def mem_inv_def jobs_inv_def)

lemma mem_Dequeue_live:
  assumes "mem_inv (mg_storage m)" and "mono clk" and "sane_queues m queues"
    and "\<forall>q. \<forall>e \<in> set (ms_queues (mg_storage m) q). ms_jobs (mg_storage m) (qe_JobID e) \<noteq> None"
    and "q \<in> set queues" "mg_configs m q \<noteq> None" "\<not> ms_paused (mg_storage m) q"
    and "e \<in> set (ms_queues (mg_storage m) q)" "qe_Timestamp e \<le> clk 0"
  shows "\<exists>j m'. mgr_Dequeue (memStorage iter) clk intn queues m = (Ok j, m')"
proof (rule mem.Dequeue_live [OF assms(1,2) _ assms(5,6)])
  show "no_dangling (mem_view (mg_storage m))"
    using assms(4) by (force simp: no_dangling_def entry_of_def)
  show "'''' \<notin> set queues" using assms(3) by (simp add: sane_queues_def)
  show "\<not> none_ready (clk 0) q (mem_view (mg_storage m))"
    using assms(7-9) by (force simp: none_ready_def entry_of_def)
  show "selectable cs" if "mgr_candidates (memStorage iter) m queues = Ok cs" for cs
    using that sane_selectable [OF assms(3)] mem_candidates [OF assms(1), of iter queues] by simp
qed

lemma one_job_waiting_dequeue:
  "\<exists>j m'. mgr_Dequeue (memStorage iter) (\<lambda>_. 9) intn [''mail''] one_job_waiting = (Ok j, m')"
  by (rule mem_Dequeue_live [where q = "''mail''" and e = "\<lparr>qe_JobID = ''a'', qe_Priority = 5, qe_Timestamp = 0\<rparr>"])
    (auto simp: mono_def sane_queues_def int64_def priority_defs)

theorem Dequeue_takes_ready_job_witness:
  "\<exists>m'. mgr_Dequeue (memStorage sorted_list_of_set) (\<lambda>_. 9) (\<lambda>_. 0) [''mail''] one_job_waiting =
     (Ok (sample_job ''a''), m')"
proof -
  from one_job_waiting_dequeue [of sorted_list_of_set "\<lambda>_. 0"] obtain j m' where
    run: "mgr_Dequeue (memStorage sorted_list_of_set) (\<lambda>_. 9) (\<lambda>_. 0) [''mail''] one_job_waiting = (Ok j, m')"
    by blast
  from Dequeue_takes_ready_job [OF _ _ run] have "j = sample_job ''a''"
    by (auto simp: mono_def split: if_splits)
  with run show ?thesis by simp
qed



text \<open>
  C21: an error of \<open>Dequeue\<close> leaves the store as it is and means that no queue asked for has a ready
  entry (or that none was asked for, or none is available), with one exception: the entry taken was
  of a job that has been deleted. Then the entry is gone and the error wraps \<open>ErrJobNotFound\<close>.
\<close>

theorem Dequeue_error:
  assumes "mem_inv (mg_storage m)" and "mono clk"
    and "mgr_Dequeue (memStorage iter) clk intn queues m = (Err e, m')"
  shows "mem_view (mg_storage m') = mem_view (mg_storage m) \<and>
      (queues = [] \<or> mgr_selectQueue (memStorage iter) intn queues m = Ok '''' \<or>
       (\<forall>q \<in> set queues. ms_paused (mg_storage m) q \<or>
          (\<forall>e \<in> set (ms_queues (mg_storage m) q). qe_Timestamp e > clk 0))) \<or>
    root_cause e = ErrJobNotFound \<and>
      (\<exists>q \<in> set queues. \<exists>jid p t. ms_jobs (mg_storage m) jid = None \<and>
         (jid, p, t) \<in># v_entries (mem_view (mg_storage m)) q \<and>
         mem_view (mg_storage m') = (mem_view (mg_storage m))\<lparr>v_entries := (v_entries (mem_view (mg_storage m)))
           (q := v_entries (mem_view (mg_storage m)) q - {#(jid, p, t)#})\<rparr>)"
  using assms
proof (cases rule: mem.Dequeue_cases)
  case (unready e')
  have "\<forall>x \<in> set (ms_queues (mg_storage m) q). qe_Timestamp x > clk 0"
    if "none_ready (clk 0) q (mem_view (mg_storage m))" "\<not> ms_paused (mg_storage m) q" for q
    using that by (force simp: none_ready_def entry_of_def)
  with unready(6) have "\<forall>q \<in> set queues. ms_paused (mg_storage m) q \<or>
      (\<forall>x \<in> set (ms_queues (mg_storage m) q). qe_Timestamp x > clk 0)" by blast
  with unready(4) show ?thesis by simp
next
  case (taken jid)
  then obtain q i where q: "q \<in> set queues"
    and deq: "spec_Dequeue (clk i) q (mem_view (mg_storage m)) (Ok jid, mem_view (mg_storage m'))"
    by (auto simp: took_def)
  from spec_Dequeue_OkD [OF deq] obtain p t where
    x: "(jid, p, t) \<in># v_entries (mem_view (mg_storage m)) q"
    "mem_view (mg_storage m') = (mem_view (mg_storage m))\<lparr>v_entries := (v_entries (mem_view (mg_storage m)))
         (q := v_entries (mem_view (mg_storage m)) q - {#(jid, p, t)#})\<rparr>"
    by blast
  from taken(4) have j: "ms_jobs (mg_storage m) jid = None"
    and "e = Errorf ''failed to get job'' (Some ErrJobNotFound)" by (simp_all split: option.splits)
  then have "root_cause e = ErrJobNotFound" by (simp add: root_cause.simps)
  with j q x show ?thesis by blast
qed auto

definition dangling_entry :: "MemoryStore Manager" where
  "dangling_entry = one_job_waiting\<lparr>mg_storage := snd (mem_DeleteJob ''a'' (mg_storage one_job_waiting))\<rparr>"

lemma dangling_entry_sel [simp]:
  "mem_inv (mg_storage dangling_entry)" "mg_configs dangling_entry = [''mail'' \<mapsto> sample_config ''mail'']"
  "ms_jobs (mg_storage dangling_entry) = Map.empty" "ms_paused (mg_storage dangling_entry) = (\<lambda>_. False)"
  "ms_queues (mg_storage dangling_entry) =
     (\<lambda>_. [])(''mail'' := [\<lparr>qe_JobID = ''a'', qe_Priority = 5, qe_Timestamp = 0\<rparr>])"
  by (simp_all add: dangling_entry_def inv_job_ops) (simp_all add: mem_DeleteJob_def)

lemma dangling_select:
  "mgr_selectQueue (memStorage iter) intn [''mail''] dangling_entry = Ok ''mail''"
  unfolding mgr_selectQueue_def mem_candidates [of dangling_entry, simplified]
  by (simp add: available_def candidate_of_def max_priority_def priority_defs)

theorem Dequeue_error_witness:
  "\<exists>e m'. mgr_Dequeue (memStorage sorted_list_of_set) (\<lambda>_. 9) (\<lambda>_. 0) [''mail''] dangling_entry = (Err e, m') \<and>
     root_cause e = ErrJobNotFound"
proof -
  obtain r m' where run: "mgr_Dequeue (memStorage sorted_list_of_set) (\<lambda>_. 9) (\<lambda>_. 0) [''mail''] dangling_entry = (r, m')"
    by (cases "mgr_Dequeue (memStorage sorted_list_of_set) (\<lambda>_. 9) (\<lambda>_. 0) [''mail''] dangling_entry")
  have "\<exists>e. r = Err e"
    using mem.Dequeue_unfold [of sorted_list_of_set "\<lambda>_. 9" "\<lambda>_. 0" "[''mail'']" dangling_entry] run
    by (auto simp: dangling_select mem_GetJob_def attempt_def on_storage_def mem_Dequeue_def split: if_splits)
  then obtain e where "r = Err e" by blast
  with run Dequeue_error [of dangling_entry "\<lambda>_. 9" sorted_list_of_set "\<lambda>_. 0" "[''mail'']" e m'] dangling_select
  show ?thesis by (auto simp: mono_def)
qed

text \<open>
  C22: what is enqueued comes out. A new, unscheduled job put into an empty queue that is not paused
  and whose configuration has no negative priority is the next job dequeued from that queue,
  exactly as it was stored.
\<close>

theorem Enqueue_Dequeue_roundtrip:
  assumes "mem_inv (mg_storage m)" and "ms_jobs (mg_storage m) (j_ID j) = None" and "j_ScheduledAt j = None"
    and "ms_queues (mg_storage m) (queue_of j) = []" and "\<not> ms_paused (mg_storage m) (queue_of j)"
    and "0 \<le> qc_Priority (config_for mem_view m (queue_of j))"
    and "mono clk'" and "clk 2 \<le> clk' 0"
  shows "\<exists>m1 m2. mgr_Enqueue (memStorage iter) clk j m =
       (Ok (), enqueued_job (config_for mem_view m (queue_of j)) j, m1) \<and>
     mgr_Dequeue (memStorage iter) clk' intn [queue_of j] m1 =
       (Ok (enqueued_job (config_for mem_view m (queue_of j)) j), m2)"
proof -
  let ?q = "queue_of j" and ?c = "config_for mem_view m (queue_of j)"
  from mem.Enqueue_new [OF assms(1), of j iter clk] assms(2) obtain m1 cf where
    enq: "mgr_Enqueue (memStorage iter) clk j m = (Ok (), enqueued_job ?c j, m1)"
    and inv: "mem_inv (mg_storage m1)" and conf: "mg_configs m1 ?q = Some ?c"
    and v: "mem_view (mg_storage m1) = (mem_view (mg_storage m))
       \<lparr>v_configs := cf,
        v_jobs := (v_jobs (mem_view (mg_storage m)))(j_ID j \<mapsto> enqueued_job ?c j),
        v_entries := (v_entries (mem_view (mg_storage m)))(?q :=
          add_mset (j_ID j, j_Priority j, clk 2 + schedule_delay clk j)
            (v_entries (mem_view (mg_storage m)) ?q))\<rparr>"
    by auto
  have entries: "v_entries (mem_view (mg_storage m1)) ?q = {#(j_ID j, j_Priority j, clk 2)#}"
    and jobs: "ms_jobs (mg_storage m1) (j_ID j) = Some (enqueued_job ?c j)"
    and paused: "\<not> ms_paused (mg_storage m1) ?q"
    using arg_cong [OF v, of v_entries] arg_cong [OF v, of v_jobs] arg_cong [OF v, of v_paused] assms(3-5)
    by (simp_all add: schedule_delay_def)
  then have av: "available m1 ?q" using conf by (auto simp: available_def)
  then have sel: "mgr_selectQueue (memStorage iter) intn [?q] m1 = Ok ?q"
    unfolding mgr_selectQueue_def mem_candidates [OF inv]
    using conf assms(6) by (simp add: candidate_of_def max_priority_def priority_defs)
  obtain r m2 where run: "mgr_Dequeue (memStorage iter) clk' intn [?q] m1 = (r, m2)"
    by (cases "mgr_Dequeue (memStorage iter) clk' intn [?q] m1")
  from inv assms(7) run have "r = Ok (enqueued_job ?c j)"
  proof (cases rule: mem.Dequeue_cases)
    case (unready e)
    then have "none_ready (clk' 0) ?q (mem_view (mg_storage m1))" by simp
    with entries paused assms(8) show ?thesis by (simp add: none_ready_def del: mem_view_sel(2))
  next
    case (taken jid)
    then have "jid = j_ID j" using entries
      by (auto simp: took_def simp del: mem_view_sel(2) dest!: spec_Dequeue_OkD)
    with taken(4) jobs show ?thesis by simp
  qed (use sel in auto)
  with enq run show ?thesis by blast
qed

theorem Enqueue_Dequeue_roundtrip_witness:
  "\<exists>j' m1 m2. mgr_Enqueue (memStorage sorted_list_of_set) (\<lambda>_. 5) (sample_job ''a'') new_manager = (Ok (), j', m1) \<and>
     mgr_Dequeue (memStorage sorted_list_of_set) (\<lambda>_. 6) (\<lambda>_. 0) [''mail''] m1 = (Ok j', m2)"
  using Enqueue_Dequeue_roundtrip [of new_manager "sample_job ''a''" "\<lambda>_. 6" "\<lambda>_. 5" sorted_list_of_set "\<lambda>_. 0"]
  by (auto simp: config_for_def queue_of_def queue_defaults_def enqueue_default_config_def
      zero_QueueConfig_def priority_defs strategy_defs Let_def mono_def)

section \<open>Cancelling\<close>

text \<open>
  C25: cancelling a job that is not terminal succeeds: the job is stored as CANCELLED with its
  completion time set, and a pending job loses an entry of its queue if there is one, so that it
  is not handed out any more. All else stays.
\<close>

theorem CancelJob_cancels:
  assumes "mem_inv (mg_storage m)" and "ms_jobs (mg_storage m) jid = Some j" and "\<not> IsTerminal j"
  shows "\<exists>m' j'. mgr_CancelJob (memStorage iter) clk jid m = (Ok (), m') \<and>
     ms_jobs (mg_storage m') = (ms_jobs (mg_storage m))(jid \<mapsto> j') \<and>
     j_Status j' = StatusCancelled \<and> j_CompletedAt j' \<noteq> None \<and>
     (if j_Status j = StatusPending \<and> jid \<in> qe_JobID ` set (ms_queues (mg_storage m) (j_Queue j))
      then \<exists>p t. (jid, p, t) \<in># v_entries (mem_view (mg_storage m)) (j_Queue j) \<and>
         v_entries (mem_view (mg_storage m')) = (v_entries (mem_view (mg_storage m)))
           (j_Queue j := v_entries (mem_view (mg_storage m)) (j_Queue j) - {#(jid, p, t)#})
      else v_entries (mem_view (mg_storage m')) = v_entries (mem_view (mg_storage m)))"
proof -
  have mem_eq: "jid \<in># image_mset fst (v_entries (mem_view (mg_storage m)) q) \<longleftrightarrow>
      jid \<in> qe_JobID ` set (ms_queues (mg_storage m) q)" for q
    by (simp add: image_image entry_of_def)
  have "v_jobs (mem_view (mg_storage m)) jid = Some j" using assms(2) by simp
  from mem.CancelJob_Ok [OF assms(1) this assms(3), of iter clk, unfolded mem_eq] obtain m' where
    "mgr_CancelJob (memStorage iter) clk jid m = (Ok (), m')"
    "ms_jobs (mg_storage m') = (ms_jobs (mg_storage m))(jid \<mapsto> set_status clk StatusCancelled j)"
    "if j_Status j = StatusPending \<and> jid \<in> qe_JobID ` set (ms_queues (mg_storage m) (j_Queue j))
      then \<exists>p t. (jid, p, t) \<in># v_entries (mem_view (mg_storage m)) (j_Queue j) \<and>
         v_entries (mem_view (mg_storage m')) = (v_entries (mem_view (mg_storage m)))
           (j_Queue j := v_entries (mem_view (mg_storage m)) (j_Queue j) - {#(jid, p, t)#})
      else v_entries (mem_view (mg_storage m')) = v_entries (mem_view (mg_storage m))"
    unfolding mem_view_sel(1) by blast
  moreover have "j_Status (set_status clk StatusCancelled j) = StatusCancelled"
    "j_CompletedAt (set_status clk StatusCancelled j) \<noteq> None"
    by (simp_all add: set_status_def)
  ultimately show ?thesis by blast
qed

theorem CancelJob_cancels_witness:
  "\<exists>m' j'. mgr_CancelJob (memStorage sorted_list_of_set) (\<lambda>_. 9) ''a'' one_job_waiting = (Ok (), m') \<and>
     ms_jobs (mg_storage m') ''a'' = Some j' \<and> j_Status j' = StatusCancelled"
  using CancelJob_cancels [of one_job_waiting "''a''" "sample_job ''a''" sorted_list_of_set "\<lambda>_. 9"]
  by (auto simp: IsTerminal_def)

section \<open>Configurations\<close>

text \<open>Every method of the manager that changes its cache or the saved configurations, in any order.\<close>

inductive mgr_reachable :: "(string set \<Rightarrow> string list) \<Rightarrow> MemoryStore Manager \<Rightarrow> bool" for iter where
  new: "mem_inv s \<Longrightarrow> NewManager (memStorage iter) s = Ok m \<Longrightarrow> mgr_reachable iter m"
| register: "\<lbrakk>mgr_reachable iter m; mgr_RegisterQueue (memStorage iter) c m = (r, c', m')\<rbrakk> \<Longrightarrow> mgr_reachable iter m'"
| update: "\<lbrakk>mgr_reachable iter m; mgr_UpdateQueueConfig (memStorage iter) c m = (r, m')\<rbrakk> \<Longrightarrow> mgr_reachable iter m'"
| get: "\<lbrakk>mgr_reachable iter m; mgr_GetQueueConfig (memStorage iter) q m = (r2, m')\<rbrakk> \<Longrightarrow> mgr_reachable iter m'"
| delete: "\<lbrakk>mgr_reachable iter m; mgr_DeleteQueue (memStorage iter) q m = (r, m')\<rbrakk> \<Longrightarrow> mgr_reachable iter m'"
| enqueue: "\<lbrakk>mgr_reachable iter m; mgr_Enqueue (memStorage iter) clk j m = (r, j', m')\<rbrakk> \<Longrightarrow> mgr_reachable iter m'"
| dequeue: "\<lbrakk>mgr_reachable iter m; mono clk; mgr_Dequeue (memStorage iter) clk intn qs m = (r3, m')\<rbrakk>
    \<Longrightarrow> mgr_reachable iter m'"

context map_iteration
begin

lemmas NewManager_mem = listing.NewManager_Ok

end

lemma mgr_reachable_cache:
  assumes "map_iteration iter"
  shows "mgr_reachable iter m \<Longrightarrow> mem_inv (mg_storage m) \<and> cache_ok mem_view m"
proof (induction rule: mgr_reachable.induct)
  case (new s m)
  from map_iteration.NewManager_mem [OF assms new(1)] new
  show ?case by (auto simp: cache_ok_def)
next
  case (register m c r c' m')
  with mem.RegisterQueue_cache show ?case by blast
next
  case (update m c r m')
  with mem.UpdateQueueConfig_cache show ?case by blast
next
  case (get m q r2 m')
  then have inv: "mem_inv (mg_storage m)" and cache: "cache_ok mem_view m" by auto
  from mem.GetQueueConfig_cache [OF inv cache get(2)] inv show ?case by simp
next
  case (delete m q r m')
  with mem.DeleteQueue_cache show ?case by blast
next
  case (enqueue m clk j r j' m')
  then show ?case
    using mem.Enqueue_new [of m j iter clk] mem.Enqueue_duplicate [of m j iter clk]
    by (cases "ms_jobs (mg_storage m) (j_ID j)") auto
next
  case (dequeue m clk intn qs r3 m')
  then have inv: "mem_inv (mg_storage m)" and cache: "cache_ok mem_view m" by auto
  from inv dequeue(2,3) show ?case
  proof (cases rule: mem.Dequeue_cases)
    case (taken jid)
    then show ?thesis using cache
      by (auto simp: took_def cache_ok_def simp del: mem_view_sel dest!: spec_Dequeue_OkD)
  qed (use inv cache in \<open>auto simp: cache_ok_def simp del: mem_view_sel\<close>)
qed

text \<open>
  C26: the manager's cache of configurations never disagrees with the storage: in every order of
  registering, updating, deleting, loading, enqueuing and dequeuing, what is cached for a queue is
  what is saved for it, so \<open>GetQueueConfig\<close> gives the saved configuration exactly when there
  is one.
\<close>

theorem config_cache_coherent:
  assumes "map_iteration iter" and "mgr_reachable iter m"
  shows "(\<forall>q c. mg_configs m q = Some c \<longrightarrow> ms_queueConfigs (mg_storage m) q = Some c) \<and>
    (\<forall>q c. fst (mgr_GetQueueConfig (memStorage iter) q m) = Ok c \<longleftrightarrow>
       ms_queueConfigs (mg_storage m) q = Some c)"
proof -
  from mgr_reachable_cache [OF assms] have inv: "mem_inv (mg_storage m)" and cache: "cache_ok mem_view m"
    by auto
  have "fst (mgr_GetQueueConfig (memStorage iter) q m) = Ok c \<longleftrightarrow>
      ms_queueConfigs (mg_storage m) q = Some c" for q c
    using mem.GetQueueConfig_cache [OF inv cache, of iter q]
    by (cases "mgr_GetQueueConfig (memStorage iter) q m") (auto split: option.splits)
  with cache show ?thesis by (simp add: cache_ok_def)
qed

theorem config_cache_coherent_witness:
  "\<forall>q c. fst (mgr_GetQueueConfig (memStorage sorted_list_of_set) q
       (snd (snd (mgr_RegisterQueue (memStorage sorted_list_of_set) (sample_config ''mail'') new_manager)))) = Ok c \<longleftrightarrow>
     ms_queueConfigs (mg_storage (snd (snd (mgr_RegisterQueue (memStorage sorted_list_of_set)
       (sample_config ''mail'') new_manager)))) q = Some c"
proof -
  have "NewManager (memStorage sorted_list_of_set) (mg_storage new_manager) = Ok new_manager"
    by (simp add: NewManager_def mgr_loadConfigs_def mem_ListQueueConfigs_def range_map_def
        new_manager_def NewMemoryStore_def)
  then have "mgr_reachable sorted_list_of_set new_manager" by (intro mgr_reachable.new) auto
  then have "mgr_reachable sorted_list_of_set
      (snd (snd (mgr_RegisterQueue (memStorage sorted_list_of_set) (sample_config ''mail'') new_manager)))"
    by (rule mgr_reachable.register) (simp add: prod_eq_iff)
  from config_cache_coherent [OF sorted_keys.map_iteration_axioms this] show ?thesis by blast
qed

text \<open>
  \<open>DeleteQueue\<close> deletes the configuration of a queue, from the cache and from the storage, only
  if no entry is left in the queue; otherwise it fails and changes nothing.
\<close>

theorem DeleteQueue_only_empty:
  assumes "mem_inv (mg_storage m)"
  shows "if ms_queues (mg_storage m) q = []
    then \<exists>m'. mgr_DeleteQueue (memStorage iter) q m = (Ok (), m') \<and> mg_configs m' = (mg_configs m)(q := None) \<and>
      mem_view (mg_storage m') = (mem_view (mg_storage m))\<lparr>v_configs := (ms_queueConfigs (mg_storage m))(q := None)\<rparr>
    else mgr_DeleteQueue (memStorage iter) q m =
      (Err (NewQueueError '''' (''cannot delete non-empty queue: '' @ q) None), m)"
  using mem.DeleteQueue_cases [OF assms, of q iter]
  by (cases "ms_queues (mg_storage m) q = []") simp_all

theorem DeleteQueue_only_empty_witness:
  "mgr_DeleteQueue (memStorage sorted_list_of_set) ''mail'' one_job_waiting =
     (Err (NewQueueError '''' (''cannot delete non-empty queue: mail'') None), one_job_waiting)"
  using DeleteQueue_only_empty [of one_job_waiting "''mail''" sorted_list_of_set] by simp

end
