(* ===== verification/Pool.thy ===== *)
theory Pool
  imports Manager
begin

text \<open>
  The worker pool, \<^verbatim>\<open>internal/worker/pool.go\<close>. The methods that one goroutine runs
  from beginning to end are functions here; how the goroutines interleave is in \<open>PoolSteps\<close>.

  A handler is code of the user. It is given the time limit of its context, the job and the
  manager, and it may change both: changes to the manager are its own calls and those of
  other goroutines while it runs. What is printed is left out, and so is the worker's
  \<open>Metadata\<close>, which no code reads.
\<close>

section \<open>State\<close>

type_synonym 's JobHandler = "duration \<Rightarrow> job \<Rightarrow> 's Manager \<Rightarrow> unit res \<times> job \<times> 's Manager"

record Config =
  cf_ID :: string
  cf_Queues :: "string list"
  cf_Concurrency :: int
  cf_PollInterval :: duration
  cf_HeartbeatInterval :: duration
  cf_ShutdownTimeout :: duration
  cf_Tags :: "string \<rightharpoonup> string"

text \<open>
  A channel is the list of what it buffers, with a flag for closed; \<open>pl_ctxDone\<close> is set once the
  pool's context is cancelled.
\<close>

record 's Pool =
  pl_id :: string
  pl_queueManager :: "'s Manager"
  pl_handlers :: "string \<rightharpoonup> 's JobHandler"
  pl_queues :: "string list"
  pl_concurrency :: int
  pl_pollInterval :: duration
  pl_heartbeatInterval :: duration
  pl_shutdownTimeout :: duration
  pl_worker :: worker
  pl_ctxDone :: bool
  pl_stopCh :: bool
  pl_jobCh :: "job list"
  pl_jobChClosed :: bool

definition pool_defaults :: "string \<Rightarrow> int \<Rightarrow> time \<Rightarrow> Config \<Rightarrow> Config" where
  "pool_defaults hostname numCPU now config =
     (let config = (if cf_ID config = ''''
                    then config\<lparr>cf_ID := hostname @ ''-'' @ decimal (now div Second)\<rparr> else config);
          config = (if cf_Concurrency config = 0 then config\<lparr>cf_Concurrency := numCPU\<rparr> else config);
          config = (if cf_PollInterval config = 0
                    then config\<lparr>cf_PollInterval := 1 * Second\<rparr> else config);
          config = (if cf_HeartbeatInterval config = 0
                    then config\<lparr>cf_HeartbeatInterval := 30 * Second\<rparr> else config);
          config = (if cf_ShutdownTimeout config = 0
                    then config\<lparr>cf_ShutdownTimeout := 30 * Second\<rparr> else config);
          config = (if length (cf_Queues config) = 0
                    then config\<lparr>cf_Queues := [''default'']\<rparr> else config)
      in config)"

text \<open>\<open>make(chan T, n)\<close> panics on a negative size.\<close>

definition NewPool ::
  "string \<Rightarrow> int \<Rightarrow> clock \<Rightarrow> 's Manager \<Rightarrow> Config \<Rightarrow> ('s Pool) res \<times> Config" where
  "NewPool hostname numCPU clk qm config =
     (let config = pool_defaults hostname numCPU (clk 0) config;
          now = clk 1;
          w = \<lparr>w_ID = cf_ID config, w_Hostname = hostname, w_StartedAt = Some now,
               w_LastHeartbeat = Some now, w_CurrentJobID = None, w_ProcessedCount = 0,
               w_FailedCount = 0, w_Status = WorkerStatusIdle, w_Queues = cf_Queues config,
               w_Concurrency = cf_Concurrency config, w_Tags = cf_Tags config,
               w_Version = ''1.0.0''\<rparr>
      in if cf_Concurrency config < 0 then (Panic ''makechan: size out of range'', config)
         else (Ok \<lparr>pl_id = cf_ID config, pl_queueManager = qm, pl_handlers = Map.empty,
                pl_queues = cf_Queues config, pl_concurrency = cf_Concurrency config,
                pl_pollInterval = cf_PollInterval config,
                pl_heartbeatInterval = cf_HeartbeatInterval config,
                pl_shutdownTimeout = cf_ShutdownTimeout config, pl_worker = w,
                pl_ctxDone = False, pl_stopCh = False, pl_jobCh = [], pl_jobChClosed = False\<rparr>,
               config))"

definition RegisterHandler :: "string \<Rightarrow> 's JobHandler \<Rightarrow> 's Pool \<Rightarrow> 's Pool" where
  "RegisterHandler jobType handler p = p\<lparr>pl_handlers := (pl_handlers p)(jobType \<mapsto> handler)\<rparr>"

definition RegisterHandlers ::
  "(string set \<Rightarrow> string list) \<Rightarrow> (string \<rightharpoonup> 's JobHandler) \<Rightarrow> 's Pool \<Rightarrow> 's Pool" where
  "RegisterHandlers iter handlers p =
     p\<lparr>pl_handlers := fold (\<lambda>jobType hs. hs(jobType := handlers jobType))
         (iter (dom handlers)) (pl_handlers p)\<rparr>"

section \<open>Calls whose error is only printed\<close>

text \<open>
  \<open>if err := call(); err != nil { fmt.Printf(\<dots>) }\<close> goes on with the next statement in any
  case; only a panic ends the function.
\<close>

definition and_then ::
  "'a res \<times> 'm \<Rightarrow> ('m \<Rightarrow> unit res \<times> 'm) \<Rightarrow> unit res \<times> 'm" where
  "and_then c f = (case c of (Panic p, m) \<Rightarrow> (Panic p, m) | (_, m) \<Rightarrow> f m)"

section \<open>The delay of a retry\<close>

text \<open>\<open>1 << uint(n)\<close> on \<open>int\<close>: a negative \<open>n\<close> is a huge unsigned number; from 64 on the result is 0.\<close>

definition shift_one :: "int \<Rightarrow> int" where
  "shift_one n = (if 0 \<le> n \<and> n < 64 then wrap64 (2 ^ nat n) else 0)"

definition calculateRetryDelay :: "int \<Rightarrow> QueueConfig \<Rightarrow> duration" where
  "calculateRetryDelay retryCount config =
     (let baseDelay = wrap64 (qc_RetryDelay config * Second);
          maxDelay = wrap64 (qc_MaxRetryDelay config * Second);
          delay = (if qc_RetryStrategy config = RetryStrategyFixed then baseDelay
                   else if qc_RetryStrategy config = RetryStrategyLinear
                   then wrap64 (baseDelay * retryCount)
                   else if qc_RetryStrategy config = RetryStrategyExponential
                   then let multiplier = shift_one (wrap64 (retryCount - 1))
                        in wrap64 (baseDelay * multiplier)
                   else baseDelay)
      in if delay > maxDelay then maxDelay else delay)"

section \<open>Processing a job\<close>

definition executeJob ::
  "(string \<rightharpoonup> 's JobHandler) \<Rightarrow> duration \<Rightarrow> job \<Rightarrow> 's Manager \<Rightarrow> unit res \<times> job \<times> 's Manager" where
  "executeJob handlers timeout j m =
     (case handlers (j_Type j) of
        None \<Rightarrow> (Err (Errorf (''no handler registered for job type: '' @ j_Type j) None), j, m)
      | Some handler \<Rightarrow>
          (case handler timeout j m of
             (Panic r, j, m) \<Rightarrow> (Err (Errorf (''job panicked: '' @ r) None), j, m)
           | res \<Rightarrow> res))"

definition handleJobSuccess ::
  "'s Storage \<Rightarrow> string \<Rightarrow> clock \<Rightarrow> job \<Rightarrow> duration \<Rightarrow> 's Manager \<Rightarrow> unit res \<times> 's Manager" where
  "handleJobSuccess St workerID clk j dur m =
     and_then (mgr_UpdateJobStatus St clk (j_ID j) StatusSuccess m) (\<lambda>m.
     and_then (mgr_UpdateJobProgress St (clock_from 3 clk) (j_ID j) 100 m) (\<lambda>m.
     and_then (on_storage (st_RecordJobCompleted St (j_Queue j) (j_Type j) dur) m) (\<lambda>m.
     and_then (on_storage (st_IncrementProcessed St workerID) m) (\<lambda>m. (Ok (), m)))))"

text \<open>The branch of a job that can be retried; \<open>False\<close> is the early return without a configuration.\<close>

definition retry_job ::
  "'s Storage \<Rightarrow> clock \<Rightarrow> job \<Rightarrow> 's Manager \<Rightarrow> bool res \<times> 's Manager" where
  "retry_job St clk j m =
     (let j = j\<lparr>j_CurrentRetry := wrap64 (j_RetryCount j + 1)\<rparr> in
      case mgr_GetQueueConfig St (j_Queue j) m of
        (Err _, m) \<Rightarrow> (Ok False, m)
      | (Panic p, m) \<Rightarrow> (Panic p, m)
      | (Ok config, m) \<Rightarrow>
          let delay = calculateRetryDelay (j_RetryCount j) config in
          case and_then (mgr_UpdateJobStatus St clk (j_ID j) StatusRetrying m) (\<lambda>m.
               and_then (mgr_Requeue St (clock_from 3 clk) j delay m) (\<lambda>m.
               and_then (on_storage (st_RecordJobRetried St (j_Queue j) (j_Type j)) m) (\<lambda>m.
               (Ok (), m))))
          of (Panic p, m) \<Rightarrow> (Panic p, m) | (_, m) \<Rightarrow> (Ok True, m))"

definition send_to_dlq :: "'s Storage \<Rightarrow> clock \<Rightarrow> job \<Rightarrow> 's Manager \<Rightarrow> unit res \<times> 's Manager" where
  "send_to_dlq St clk j m =
     (case mgr_GetQueueConfig St (j_Queue j) m of
        (Err _, m) \<Rightarrow> (Ok (), m)
      | (Panic p, m) \<Rightarrow> (Panic p, m)
      | (Ok config, m) \<Rightarrow>
          if qc_DeadLetterQueue config \<noteq> ''''
          then case mgr_Enqueue St clk
                 (j\<lparr>j_Queue := qc_DeadLetterQueue config, j_Status := StatusPending\<rparr>) m
               of (r, _, m) \<Rightarrow> and_then (r, m) (\<lambda>m. (Ok (), m))
          else (Ok (), m))"

definition fail_job :: "'s Storage \<Rightarrow> clock \<Rightarrow> job \<Rightarrow> 's Manager \<Rightarrow> unit res \<times> 's Manager" where
  "fail_job St clk j m =
     and_then (mgr_UpdateJobStatus St clk (j_ID j) StatusFailed m) (\<lambda>m.
     and_then (on_storage (st_RecordJobFailed St (j_Queue j) (j_Type j)) m) (\<lambda>m.
     send_to_dlq St (clock_from 3 clk) j m))"

definition handleJobFailure ::
  "'s Storage \<Rightarrow> string \<Rightarrow> clock \<Rightarrow> job \<Rightarrow> err \<Rightarrow> duration \<Rightarrow> 's Manager \<Rightarrow> unit res \<times> 's Manager" where
  "handleJobFailure St workerID clk j jobErr dur m =
     and_then (mgr_SetJobError St clk (j_ID j) (Error jobErr) m) (\<lambda>m.
       let incr = (\<lambda>m. and_then (on_storage (st_IncrementFailed St workerID) m) (\<lambda>m. (Ok (), m))) in
       if CanRetry j
       then case retry_job St (clock_from 1 clk) j m of
                (Ok requeued, m) \<Rightarrow> if requeued then incr m else (Ok (), m)
              | (Err e, m) \<Rightarrow> (Err e, m)
              | (Panic p, m) \<Rightarrow> (Panic p, m)
       else and_then (fail_job St (clock_from 1 clk) j m) incr)"

definition processJob ::
  "'s Storage \<Rightarrow> string \<Rightarrow> (string \<rightharpoonup> 's JobHandler) \<Rightarrow> clock \<Rightarrow> job \<Rightarrow> 's Manager
     \<Rightarrow> unit res \<times> 's Manager" where
  "processJob St workerID handlers clk j m =
     (let startTime = clk 0 in
      case mgr_UpdateJobStatus St (clock_from 1 clk) (j_ID j) StatusRunning m of
        (Err _, m) \<Rightarrow> (Ok (), m)
      | (Panic p, m) \<Rightarrow> (Panic p, m)
      | (Ok _, m) \<Rightarrow>
          and_then (on_storage (st_SetCurrentJob St workerID (j_ID j)) m) (\<lambda>m.
            case executeJob handlers (wrap64 (j_TimeoutSeconds j * Second)) j m of
              (err, j, m) \<Rightarrow>
                and_then (on_storage (st_SetCurrentJob St workerID '''') m) (\<lambda>m.
                  let dur = time_sub (clk 4) startTime in
                  case err of
                    Err e \<Rightarrow> handleJobFailure St workerID (clock_from 5 clk) j e dur m
                  | Ok _ \<Rightarrow> handleJobSuccess St workerID (clock_from 5 clk) j dur m
                  | Panic p \<Rightarrow> (Panic p, m))))"

section \<open>Start and Stop\<close>

definition on_manager :: "('s Manager \<Rightarrow> 'a \<times> 's Manager) \<Rightarrow> 's Pool \<Rightarrow> 'a \<times> 's Pool" where
  "on_manager f p = (case f (pl_queueManager p) of (r, m) \<Rightarrow> (r, p\<lparr>pl_queueManager := m\<rparr>))"

text \<open>What \<open>Start\<close> does before it starts the goroutines.\<close>

definition pool_Start :: "'s Storage \<Rightarrow> 's Pool \<Rightarrow> unit res \<times> 's Pool" where
  "pool_Start St p =
     (case on_manager (on_storage (st_RegisterWorker St (pl_worker p))) p of
        (Err e, p) \<Rightarrow> (Err (Errorf ''failed to register worker'' (Some e)), p)
      | (Panic msg, p) \<Rightarrow> (Panic msg, p)
      | (Ok _, p) \<Rightarrow>
          let p = p\<lparr>pl_worker := (pl_worker p)\<lparr>w_Status := WorkerStatusProcessing\<rparr>\<rparr> in
          case on_manager (on_storage (st_UpdateWorkerStatus St (w_ID (pl_worker p)) WorkerStatusProcessing)) p of
            (Err e, p) \<Rightarrow> (Err (Errorf ''failed to update worker status'' (Some e)), p)
          | (Panic msg, p) \<Rightarrow> (Panic msg, p)
          | (Ok _, p) \<Rightarrow> (Ok (), p))"

text \<open>\<open>close(p.stopCh)\<close>, which panics when the channel is closed already.\<close>

definition pool_close_stopCh :: "'s Pool \<Rightarrow> unit res \<times> 's Pool" where
  "pool_close_stopCh p =
     (if pl_stopCh p then (Panic ''close of closed channel'', p) else (Ok (), p\<lparr>pl_stopCh := True\<rparr>))"

text \<open>What \<open>Stop\<close> does once all goroutines have returned.\<close>

definition pool_Stop_end :: "'s Storage \<Rightarrow> 's Pool \<Rightarrow> unit res \<times> 's Pool" where
  "pool_Stop_end St p =
     (let p = p\<lparr>pl_worker := (pl_worker p)\<lparr>w_Status := WorkerStatusStopped\<rparr>\<rparr> in
      and_then (on_manager (on_storage (st_UpdateWorkerStatus St (w_ID (pl_worker p)) WorkerStatusStopped)) p) (\<lambda>p.
      and_then (on_manager (on_storage (st_UnregisterWorker St (w_ID (pl_worker p)))) p) (\<lambda>p. (Ok (), p))))"

section \<open>Statistics\<close>

record poolStats =
  ps_id :: string
  ps_status :: WorkerStatus
  ps_queues :: "string list"
  ps_concurrency :: int
  ps_processed_count :: int
  ps_failed_count :: int
  ps_success_rate :: real
  ps_uptime :: duration

definition pool_GetStats :: "rounding \<Rightarrow> time \<Rightarrow> 's Pool \<Rightarrow> poolStats" where
  "pool_GetStats rnd now p =
     \<lparr>ps_id = w_ID (pl_worker p), ps_status = w_Status (pl_worker p), ps_queues = w_Queues (pl_worker p),
      ps_concurrency = pl_concurrency p, ps_processed_count = w_ProcessedCount (pl_worker p),
      ps_failed_count = w_FailedCount (pl_worker p), ps_success_rate = SuccessRate rnd (pl_worker p),
      ps_uptime = Uptime now (pl_worker p)\<rparr>"

end
