(* ===== verification/PoolProofs.thy ===== *)
theory PoolProofs
  imports Pool ManagerProofs
begin

text \<open>
  What the pool does with a job: the delay before a retry, and the state of the store after a
  job has been processed, for every way its handler can end.
\<close>

section \<open>The delay of a retry\<close>

text \<open>The delay that the strategies mean, before it is cut off at the maximum; in nanoseconds.\<close>

definition nominal_delay :: "int \<Rightarrow> QueueConfig \<Rightarrow> int" where
  "nominal_delay n c =
     (if qc_RetryStrategy c = RetryStrategyLinear then qc_RetryDelay c * Second * n
      else if qc_RetryStrategy c = RetryStrategyExponential
      then qc_RetryDelay c * Second * 2 ^ nat (n - 1)
      else qc_RetryDelay c * Second)"

lemma strategy_neq [simp]:
  "RetryStrategyFixed \<noteq> RetryStrategyLinear" "RetryStrategyFixed \<noteq> RetryStrategyExponential"
  "RetryStrategyLinear \<noteq> RetryStrategyExponential"
  "RetryStrategyLinear \<noteq> RetryStrategyFixed" "RetryStrategyExponential \<noteq> RetryStrategyFixed"
  "RetryStrategyExponential \<noteq> RetryStrategyLinear"
  by (simp_all add: strategy_defs)

lemma power_below:
  assumes "1 \<le> (b :: int)" and "b * 2 ^ k < 2 ^ 63"
  shows "k < 63" "(2 :: int) ^ k < 2 ^ 63" "b < 2 ^ 63"
proof -
  have "(2 :: int) ^ k \<le> b * 2 ^ k" using assms(1) by simp
  with assms(2) show "(2 :: int) ^ k < 2 ^ 63" by linarith
  then show "k < 63" using power_less_imp_less_exp [of "2 :: int" k 63] by simp
  have "b * 1 \<le> b * 2 ^ k" using assms(1) by (intro mult_left_mono) simp_all
  with assms(2) show "b < 2 ^ 63" by linarith
qed

lemma retry_delay_exact:
  assumes "1 \<le> n" "n < 2 ^ 62" and "1 \<le> qc_RetryDelay c" "0 \<le> qc_MaxRetryDelay c"
    and "nominal_delay n c < 2 ^ 63" and "qc_MaxRetryDelay c * Second < 2 ^ 63"
  shows "calculateRetryDelay n c = min (nominal_delay n c) (qc_MaxRetryDelay c * Second)"
proof -
  let ?b = "qc_RetryDelay c * Second"
  have b: "1 \<le> ?b" using assms(3) by (simp add: Second_def)
  have "0 \<le> qc_MaxRetryDelay c * Second" using assms(4) by (simp add: Second_def)
  then have mx: "wrap64 (qc_MaxRetryDelay c * Second) = qc_MaxRetryDelay c * Second"
    using assms(6) by (simp add: int64_def)
  consider (lin) "qc_RetryStrategy c = RetryStrategyLinear"
    | (ex) "qc_RetryStrategy c = RetryStrategyExponential"
    | (fixed) "qc_RetryStrategy c \<noteq> RetryStrategyLinear" "qc_RetryStrategy c \<noteq> RetryStrategyExponential"
    by blast
  then show ?thesis
  proof cases
    case lin
    with assms(5) have lt: "?b * n < 2 ^ 63" by (simp add: nominal_delay_def)
    have "?b * 1 \<le> ?b * n" using assms(1) b by (intro mult_left_mono) simp_all
    with lt b have "int64 ?b" "int64 (?b * n)" by (simp_all add: int64_def)
    then show ?thesis using lin mx
      by (simp add: calculateRetryDelay_def nominal_delay_def Let_def min_def)
  next
    case ex
    with assms(5) have lt: "?b * 2 ^ nat (n - 1) < 2 ^ 63" by (simp add: nominal_delay_def)
    note k = power_below [OF b lt]
    have "int64 (n - 1)" using assms(1,2) by (simp add: int64_def)
    moreover have "int64 (2 ^ nat (n - 1))" using k(2) zero_le_power [of "2 :: int" "nat (n - 1)"]
      unfolding int64_def by linarith
    moreover have "n - 1 < 64" using k(1) assms(1) by linarith
    ultimately have s: "shift_one (wrap64 (n - 1)) = 2 ^ nat (n - 1)"
      using assms(1) by (simp add: shift_one_def)
    have "0 \<le> ?b * 2 ^ nat (n - 1)" using b by simp
    with lt have "int64 (?b * 2 ^ nat (n - 1))" unfolding int64_def by linarith
    moreover have "int64 ?b" using b k(3) unfolding int64_def by linarith
    ultimately show ?thesis using ex mx s
      by (simp add: calculateRetryDelay_def nominal_delay_def Let_def min_def)
  next
    case fixed
    with assms(5) b have "int64 ?b" by (simp add: nominal_delay_def int64_def)
    with fixed mx show ?thesis
      by (simp add: calculateRetryDelay_def nominal_delay_def Let_def min_def)
  qed
qed

lemma retry_delay_le_max: "calculateRetryDelay n c \<le> wrap64 (qc_MaxRetryDelay c * Second)"
  by (simp add: calculateRetryDelay_def Let_def)

section \<open>Calls of the storage, one after the other\<close>

lemma and_then_simps [simp]:
  "and_then (Ok a, m) f = f m" "and_then (Err e, m) f = f m" "and_then (Panic p, m) f = (Panic p, m)"
  by (simp_all add: and_then_def)

lemma on_refines_ex:
  assumes "refines ok view f g" and "ok (mg_storage m)"
  obtains m' where "on_storage f m = (fst (g (view (mg_storage m))), m')" "ok (mg_storage m')"
    "view (mg_storage m') = snd (g (view (mg_storage m)))" "mg_configs m' = mg_configs m"
  using on_refines [OF assms] by (metis prod.exhaust)

lemma on_frames_ex:
  assumes "frames ok view f" and "ok (mg_storage m)"
  obtains m' where "\<And>h. and_then (on_storage f m) h = h m'" "ok (mg_storage m')"
    "view (mg_storage m') = view (mg_storage m)" "mg_configs m' = mg_configs m"
proof -
  obtain r m' where c: "on_storage f m = (r, m')" by (cases "on_storage f m")
  from on_frames [OF assms c] show thesis
    using that [of m'] c by (cases r) auto
qed

section \<open>After the handler\<close>

context storage
begin

lemma GetQueueConfig_keeps:
  assumes "ok (mg_storage m)"
  obtains r m' where "mgr_GetQueueConfig St q m = (r, m')" "mg_storage m' = mg_storage m"
    "\<And>p. r \<noteq> Panic p" "(\<exists>c. r = Ok c) \<longleftrightarrow> mg_configs m q \<noteq> None \<or> v_configs (view (mg_storage m)) q \<noteq> None"
    "cache_ok view m \<Longrightarrow> cache_ok view m'"
  using assms by (cases rule: GetQueueConfig_cases [of m q]) (auto simp: cache_ok_def)

lemma handleJobSuccess_Ok:
  assumes okm: "ok (mg_storage m)" and sj: "v_jobs (view (mg_storage m)) (j_ID j) = Some sj"
  shows "\<exists>m'. handleJobSuccess St wid clk j d m = (Ok (), m') \<and> ok (mg_storage m') \<and>
    mg_configs m' = mg_configs m \<and>
    view (mg_storage m') = (view (mg_storage m))\<lparr>v_jobs := (v_jobs (view (mg_storage m)))(j_ID j \<mapsto>
      (set_status clk StatusSuccess sj)\<lparr>j_Progress := 100, j_UpdatedAt := clk 3\<rparr>)\<rparr>"
proof -
  obtain m1 where m1: "on_storage (st_UpdateStatus St clk (j_ID j) StatusSuccess) m = (Ok (), m1)"
    "ok (mg_storage m1)" "mg_configs m1 = mg_configs m"
    "view (mg_storage m1) = (view (mg_storage m))\<lparr>v_jobs :=
       (v_jobs (view (mg_storage m)))(j_ID j \<mapsto> set_status clk StatusSuccess sj)\<rparr>"
    using on_refines_ex [OF UpdateStatus okm, of clk "j_ID j" StatusSuccess] sj
    by (auto simp: spec_change_job_def)
  obtain m2 where m2: "on_storage (st_UpdateProgress St (clock_from 3 clk) (j_ID j) 100) m1 = (Ok (), m2)"
    "ok (mg_storage m2)" "mg_configs m2 = mg_configs m"
    "view (mg_storage m2) = (view (mg_storage m))\<lparr>v_jobs := (v_jobs (view (mg_storage m)))(j_ID j \<mapsto>
      (set_status clk StatusSuccess sj)\<lparr>j_Progress := 100, j_UpdatedAt := clk 3\<rparr>)\<rparr>"
    using on_refines_ex [OF UpdateProgress m1(2), of "clock_from 3 clk" "j_ID j" 100] m1
    by (auto simp: spec_change_job_def)
  obtain m3 where m3: "\<And>h. and_then (on_storage (st_RecordJobCompleted St (j_Queue j) (j_Type j) d) m2) h = h m3"
    "ok (mg_storage m3)" "view (mg_storage m3) = view (mg_storage m2)" "mg_configs m3 = mg_configs m2"
    by (rule on_frames_ex [OF metrics_frames(2) [where q = "j_Queue j" and t = "j_Type j" and d = d] m2(2)]) (rule that)
  obtain m4 where m4: "\<And>h. and_then (on_storage (st_IncrementProcessed St wid) m3) h = h m4"
    "ok (mg_storage m4)" "view (mg_storage m4) = view (mg_storage m3)" "mg_configs m4 = mg_configs m3"
    by (rule on_frames_ex [OF worker_frames(6) [where wid = wid] m3(2)]) (rule that)
  show ?thesis using m1 m2 m3 m4
    by (intro exI [of _ m4])
      (simp add: handleJobSuccess_def mgr_UpdateJobStatus_def mgr_UpdateJobProgress_def)
qed

end

context storage
begin

lemma config_of_cache:
  assumes "ok (mg_storage m)" and "cache_ok view m" and "v_configs (view (mg_storage m)) q = Some c"
  obtains m0 where "mgr_GetQueueConfig St q m = (Ok c, m0)" "mg_storage m0 = mg_storage m" "cache_ok view m0"
proof -
  obtain r m0 where get: "mgr_GetQueueConfig St q m = (r, m0)" by (cases "mgr_GetQueueConfig St q m")
  from GetQueueConfig_cache [OF assms(1,2) get] assms(3) show thesis using that get by auto
qed

text \<open>
  A retry: the stored job is replaced by the copy the worker holds, with the counter
  raised, and one entry is queued that is ready after the delay.
\<close>

lemma retry_job_with:
  assumes okm: "ok (mg_storage m)"
    and sj: "v_jobs (view (mg_storage m)) (j_ID j) = Some sj"
    and get: "mgr_GetQueueConfig St (j_Queue j) m = (Ok c, m0)" and m0: "mg_storage m0 = mg_storage m"
  defines "j' \<equiv> j\<lparr>j_CurrentRetry := wrap64 (j_RetryCount j + 1)\<rparr>"
  shows "\<exists>m'. retry_job St clk j m = (Ok True, m') \<and> ok (mg_storage m') \<and> mg_configs m' = mg_configs m0 \<and>
    view (mg_storage m') = (view (mg_storage m))
      \<lparr>v_jobs := (v_jobs (view (mg_storage m)))(j_ID j \<mapsto> j'),
       v_entries := (v_entries (view (mg_storage m)))(j_Queue j :=
         add_mset (j_ID j, j_Priority j, clk 3 + calculateRetryDelay (j_RetryCount j') c)
           (v_entries (view (mg_storage m)) (j_Queue j)))\<rparr>"
proof -
  have "ok (mg_storage m0)" using m0 okm by simp
  then obtain m1 where m1: "on_storage (st_UpdateStatus St clk (j_ID j) StatusRetrying) m0 = (Ok (), m1)"
    "ok (mg_storage m1)" "mg_configs m1 = mg_configs m0"
    "view (mg_storage m1) = (view (mg_storage m))\<lparr>v_jobs :=
       (v_jobs (view (mg_storage m)))(j_ID j \<mapsto> set_status clk StatusRetrying sj)\<rparr>"
    using on_refines_ex [OF UpdateStatus, of m0 clk "j_ID j" StatusRetrying] sj m0
    by (auto simp: spec_change_job_def)
  from Requeue_Ok [OF m1(2), of j' "clock_from 3 clk" "calculateRetryDelay (j_RetryCount j') c"] m1(3,4)
  obtain m2 where m2: "mgr_Requeue St (clock_from 3 clk) j' (calculateRetryDelay (j_RetryCount j') c) m1 = (Ok (), m2)"
    "ok (mg_storage m2)" "mg_configs m2 = mg_configs m0"
    "view (mg_storage m2) = (view (mg_storage m))
      \<lparr>v_jobs := (v_jobs (view (mg_storage m)))(j_ID j \<mapsto> j'),
       v_entries := (v_entries (view (mg_storage m)))(j_Queue j :=
         add_mset (j_ID j, j_Priority j, clk 3 + calculateRetryDelay (j_RetryCount j') c)
           (v_entries (view (mg_storage m)) (j_Queue j)))\<rparr>"
    by (auto simp: j'_def)
  obtain m3 where m3: "\<And>h. and_then (on_storage (st_RecordJobRetried St (j_Queue j) (j_Type j)) m2) h = h m3"
    "ok (mg_storage m3)" "view (mg_storage m3) = view (mg_storage m2)" "mg_configs m3 = mg_configs m2"
    by (rule on_frames_ex [OF metrics_frames(4) [where q = "j_Queue j" and t = "j_Type j"] m2(2)])
      (rule that)
  have "retry_job St clk j m = (Ok True, m3)" using get m1(1) m2(1) m3(1)
    by (simp add: retry_job_def mgr_UpdateJobStatus_def j'_def)
  then show ?thesis using m2 m3 by (intro exI [of _ m3]) simp
qed

lemma retry_job_Ok:
  assumes okm: "ok (mg_storage m)" and cache: "cache_ok view m"
    and sj: "v_jobs (view (mg_storage m)) (j_ID j) = Some sj"
    and conf: "v_configs (view (mg_storage m)) (j_Queue j) = Some c"
  defines "j' \<equiv> j\<lparr>j_CurrentRetry := wrap64 (j_RetryCount j + 1)\<rparr>"
  shows "\<exists>m'. retry_job St clk j m = (Ok True, m') \<and> ok (mg_storage m') \<and> cache_ok view m' \<and>
    view (mg_storage m') = (view (mg_storage m))
      \<lparr>v_jobs := (v_jobs (view (mg_storage m)))(j_ID j \<mapsto> j'),
       v_entries := (v_entries (view (mg_storage m)))(j_Queue j :=
         add_mset (j_ID j, j_Priority j, clk 3 + calculateRetryDelay (j_RetryCount j') c)
           (v_entries (view (mg_storage m)) (j_Queue j)))\<rparr>"
proof -
  obtain m0 where m0: "mgr_GetQueueConfig St (j_Queue j) m = (Ok c, m0)"
    "mg_storage m0 = mg_storage m" "cache_ok view m0"
    by (rule config_of_cache [OF okm cache conf])
  with retry_job_with [OF okm sj m0(1,2), of clk] show ?thesis
    by (force simp: cache_ok_def j'_def)
qed

text \<open>
  A dead letter queue gets nothing: the job is still stored under its identifier, so creating
  it again fails, and no entry is added to any queue.
\<close>

lemma send_to_dlq_keeps:
  assumes okm: "ok (mg_storage m)" and sj: "v_jobs (view (mg_storage m)) (j_ID j) \<noteq> None"
  shows "\<exists>m' cf. send_to_dlq St clk j m = (Ok (), m') \<and> ok (mg_storage m') \<and>
    view (mg_storage m') = (view (mg_storage m))\<lparr>v_configs := cf\<rparr>"
proof -
  obtain r m0 where g: "mgr_GetQueueConfig St (j_Queue j) m = (r, m0)"
    "mg_storage m0 = mg_storage m" "\<And>p. r \<noteq> Panic p"
    by (rule GetQueueConfig_keeps [OF okm]) blast
  have same: "\<exists>cf. view (mg_storage m0) = (view (mg_storage m))\<lparr>v_configs := cf\<rparr>"
    by (rule exI [of _ "v_configs (view (mg_storage m))"]) (simp add: g(2))
  show ?thesis
  proof (cases r)
    case (Ok c)
    show ?thesis
    proof (cases "qc_DeadLetterQueue c = ''''")
      case True
      with g Ok okm same show ?thesis by (auto simp: send_to_dlq_def)
    next
      case False
      let ?j = "j\<lparr>j_Queue := qc_DeadLetterQueue c, j_Status := StatusPending\<rparr>"
      from Enqueue_duplicate [of m0 ?j clk] g(2) okm sj obtain e j1 m1 cf where
        "mgr_Enqueue St clk ?j m0 = (Err e, j1, m1)" "ok (mg_storage m1)"
        "view (mg_storage m1) = (view (mg_storage m))\<lparr>v_configs := cf\<rparr>" by auto
      with g Ok False show ?thesis by (auto simp: send_to_dlq_def)
    qed
  qed (use g okm same in \<open>auto simp: send_to_dlq_def\<close>)
qed

lemma fail_job_Ok:
  assumes okm: "ok (mg_storage m)" and sj: "v_jobs (view (mg_storage m)) (j_ID j) = Some sj"
  shows "\<exists>m' cf. fail_job St clk j m = (Ok (), m') \<and> ok (mg_storage m') \<and>
    view (mg_storage m') = (view (mg_storage m))\<lparr>v_configs := cf, v_jobs :=
      (v_jobs (view (mg_storage m)))(j_ID j \<mapsto> set_status clk StatusFailed sj)\<rparr>"
proof -
  obtain m1 where m1: "on_storage (st_UpdateStatus St clk (j_ID j) StatusFailed) m = (Ok (), m1)"
    "ok (mg_storage m1)" "view (mg_storage m1) = (view (mg_storage m))\<lparr>v_jobs :=
       (v_jobs (view (mg_storage m)))(j_ID j \<mapsto> set_status clk StatusFailed sj)\<rparr>"
    using on_refines_ex [OF UpdateStatus okm, of clk "j_ID j" StatusFailed] sj
    by (auto simp: spec_change_job_def)
  obtain m2 where m2: "\<And>h. and_then (on_storage (st_RecordJobFailed St (j_Queue j) (j_Type j)) m1) h = h m2"
    "ok (mg_storage m2)" "view (mg_storage m2) = view (mg_storage m1)"
    by (rule on_frames_ex [OF metrics_frames(3) [where q = "j_Queue j" and t = "j_Type j"] m1(2)])
      (rule that)
  have "v_jobs (view (mg_storage m2)) (j_ID j) \<noteq> None" using m1(3) m2(3) by simp
  from send_to_dlq_keeps [OF m2(2) this, of "clock_from 3 clk"] obtain m3 cf where
    "send_to_dlq St (clock_from 3 clk) j m2 = (Ok (), m3)" "ok (mg_storage m3)"
    "view (mg_storage m3) = (view (mg_storage m2))\<lparr>v_configs := cf\<rparr>" by blast
  then show ?thesis using m1 m2
    by (intro exI [of _ m3] exI [of _ cf]) (simp add: fail_job_def mgr_UpdateJobStatus_def)
qed

end

context storage
begin

lemma SetJobError_Ok:
  assumes "ok (mg_storage m)" and "v_jobs (view (mg_storage m)) jid = Some sj"
  obtains m1 where "mgr_SetJobError St clk jid e m = (Ok (), m1)" "ok (mg_storage m1)"
    "mg_configs m1 = mg_configs m"
    "view (mg_storage m1) = (view (mg_storage m))\<lparr>v_jobs :=
       (v_jobs (view (mg_storage m)))(jid \<mapsto> sj\<lparr>j_Error := e, j_UpdatedAt := clk 0\<rparr>)\<rparr>"
  using on_refines_ex [OF SetError assms(1), of clk jid e] assms(2)
  by (auto simp: spec_change_job_def mgr_SetJobError_def)

lemma handleJobFailure_retry:
  assumes okm: "ok (mg_storage m)" and cache: "cache_ok view m" and retry: "CanRetry j"
    and sj: "v_jobs (view (mg_storage m)) (j_ID j) = Some sj"
    and conf: "v_configs (view (mg_storage m)) (j_Queue j) = Some c"
  defines "j' \<equiv> j\<lparr>j_CurrentRetry := wrap64 (j_RetryCount j + 1)\<rparr>"
  shows "\<exists>m'. handleJobFailure St wid clk j e d m = (Ok (), m') \<and> ok (mg_storage m') \<and> cache_ok view m' \<and>
    view (mg_storage m') = (view (mg_storage m))
      \<lparr>v_jobs := (v_jobs (view (mg_storage m)))(j_ID j \<mapsto> j'),
       v_entries := (v_entries (view (mg_storage m)))(j_Queue j :=
         add_mset (j_ID j, j_Priority j, clk 4 + calculateRetryDelay (j_RetryCount j') c)
           (v_entries (view (mg_storage m)) (j_Queue j)))\<rparr>"
proof -
  obtain m1 where m1: "mgr_SetJobError St clk (j_ID j) (Error e) m = (Ok (), m1)" "ok (mg_storage m1)"
    "mg_configs m1 = mg_configs m"
    "view (mg_storage m1) = (view (mg_storage m))\<lparr>v_jobs :=
       (v_jobs (view (mg_storage m)))(j_ID j \<mapsto> sj\<lparr>j_Error := Error e, j_UpdatedAt := clk 0\<rparr>)\<rparr>"
    by (rule SetJobError_Ok [OF okm sj]) (rule that)
  have "cache_ok view m1" using cache m1(3,4) by (simp add: cache_ok_def)
  from retry_job_Ok [OF m1(2) this, of j _ c "clock_from 1 clk"] m1(4) conf obtain m2 where
    m2: "retry_job St (clock_from 1 clk) j m1 = (Ok True, m2)" "ok (mg_storage m2)" "cache_ok view m2"
    "view (mg_storage m2) = (view (mg_storage m))
      \<lparr>v_jobs := (v_jobs (view (mg_storage m)))(j_ID j \<mapsto> j'),
       v_entries := (v_entries (view (mg_storage m)))(j_Queue j :=
         add_mset (j_ID j, j_Priority j, clk 4 + calculateRetryDelay (j_RetryCount j') c)
           (v_entries (view (mg_storage m)) (j_Queue j)))\<rparr>"
    by (auto simp: j'_def)
  obtain m3 where m3: "\<And>h. and_then (on_storage (st_IncrementFailed St wid) m2) h = h m3"
    "ok (mg_storage m3)" "view (mg_storage m3) = view (mg_storage m2)" "mg_configs m3 = mg_configs m2"
    by (rule on_frames_ex [OF worker_frames(7) [where wid = wid] m2(2)]) (rule that)
  have "handleJobFailure St wid clk j e d m = (Ok (), m3)" using m1(1) m2(1) m3(1) retry
    by (simp add: handleJobFailure_def Let_def)
  moreover have "cache_ok view m3" using m2(3) m3(3,4) by (simp add: cache_ok_def)
  ultimately show ?thesis using m2 m3 by (intro exI [of _ m3]) simp
qed

lemma handleJobFailure_final:
  assumes okm: "ok (mg_storage m)" and retry: "\<not> CanRetry j"
    and sj: "v_jobs (view (mg_storage m)) (j_ID j) = Some sj"
  shows "\<exists>m' cf. handleJobFailure St wid clk j e d m = (Ok (), m') \<and> ok (mg_storage m') \<and>
    view (mg_storage m') = (view (mg_storage m))\<lparr>v_configs := cf, v_jobs :=
      (v_jobs (view (mg_storage m)))(j_ID j \<mapsto>
         set_status (clock_from 1 clk) StatusFailed (sj\<lparr>j_Error := Error e, j_UpdatedAt := clk 0\<rparr>))\<rparr>"
proof -
  obtain m1 where m1: "mgr_SetJobError St clk (j_ID j) (Error e) m = (Ok (), m1)" "ok (mg_storage m1)"
    "view (mg_storage m1) = (view (mg_storage m))\<lparr>v_jobs :=
       (v_jobs (view (mg_storage m)))(j_ID j \<mapsto> sj\<lparr>j_Error := Error e, j_UpdatedAt := clk 0\<rparr>)\<rparr>"
    by (rule SetJobError_Ok [OF okm sj]) (rule that)
  have "v_jobs (view (mg_storage m1)) (j_ID j) = Some (sj\<lparr>j_Error := Error e, j_UpdatedAt := clk 0\<rparr>)"
    using m1(3) by simp
  from fail_job_Ok [OF m1(2) this, of "clock_from 1 clk"] obtain m2 cf where
    m2: "fail_job St (clock_from 1 clk) j m1 = (Ok (), m2)" "ok (mg_storage m2)"
    "view (mg_storage m2) = (view (mg_storage m1))\<lparr>v_configs := cf, v_jobs :=
       (v_jobs (view (mg_storage m1)))(j_ID j \<mapsto>
         set_status (clock_from 1 clk) StatusFailed (sj\<lparr>j_Error := Error e, j_UpdatedAt := clk 0\<rparr>))\<rparr>"
    by blast
  obtain m3 where m3: "\<And>h. and_then (on_storage (st_IncrementFailed St wid) m2) h = h m3"
    "ok (mg_storage m3)" "view (mg_storage m3) = view (mg_storage m2)"
    by (rule on_frames_ex [OF worker_frames(7) [where wid = wid] m2(2)]) (rule that)
  have "handleJobFailure St wid clk j e d m = (Ok (), m3)" using m1(1) m2(1) m3(1) retry
    by (simp add: handleJobFailure_def Let_def)
  then show ?thesis using m1 m2 m3 by (intro exI [of _ m3] exI [of _ cf]) simp
qed

end

section \<open>Processing a job\<close>

text \<open>
  The manager as the handler sees it: the job is RUNNING. What the handler leaves behind is
  what the rest of \<open>processJob\<close> works on.
\<close>

context storage
begin

lemma processJob_missing:
  assumes "ok (mg_storage m)" and "v_jobs (view (mg_storage m)) (j_ID j) = None"
  shows "\<exists>m'. processJob St wid hs clk j m = (Ok (), m') \<and> ok (mg_storage m') \<and>
    view (mg_storage m') = view (mg_storage m) \<and> mg_configs m' = mg_configs m"
proof -
  obtain m1 where "on_storage (st_UpdateStatus St (clock_from 1 clk) (j_ID j) StatusRunning) m =
      (Err ErrJobNotFound, m1)" "ok (mg_storage m1)" "mg_configs m1 = mg_configs m"
    "view (mg_storage m1) = view (mg_storage m)"
    using on_refines_ex [OF UpdateStatus assms(1), of "clock_from 1 clk" "j_ID j" StatusRunning] assms(2)
    by (auto simp: spec_change_job_def)
  then show ?thesis by (simp add: processJob_def mgr_UpdateJobStatus_def Let_def)
qed

lemma processJob_run:
  assumes okm: "ok (mg_storage m)" and sj: "v_jobs (view (mg_storage m)) (j_ID j) = Some sj"
  obtains m1 where "ok (mg_storage m1)" "mg_configs m1 = mg_configs m"
    "view (mg_storage m1) = (view (mg_storage m))\<lparr>v_jobs :=
       (v_jobs (view (mg_storage m)))(j_ID j \<mapsto> set_status (clock_from 1 clk) StatusRunning sj)\<rparr>"
    "processJob St wid hs clk j m =
       (case executeJob hs (wrap64 (j_TimeoutSeconds j * Second)) j m1 of
          (err, j, m) \<Rightarrow>
            and_then (on_storage (st_SetCurrentJob St wid '''') m) (\<lambda>m.
              let dur = time_sub (clk 4) (clk 0) in
              case err of
                Err e \<Rightarrow> handleJobFailure St wid (clock_from 5 clk) j e dur m
              | Ok _ \<Rightarrow> handleJobSuccess St wid (clock_from 5 clk) j dur m
              | Panic p \<Rightarrow> (Panic p, m)))"
proof -
  obtain m1 where m1: "on_storage (st_UpdateStatus St (clock_from 1 clk) (j_ID j) StatusRunning) m = (Ok (), m1)"
    "ok (mg_storage m1)" "mg_configs m1 = mg_configs m"
    "view (mg_storage m1) = (view (mg_storage m))\<lparr>v_jobs :=
       (v_jobs (view (mg_storage m)))(j_ID j \<mapsto> set_status (clock_from 1 clk) StatusRunning sj)\<rparr>"
    using on_refines_ex [OF UpdateStatus okm, of "clock_from 1 clk" "j_ID j" StatusRunning] sj
    by (auto simp: spec_change_job_def)
  obtain m2 where m2: "\<And>h. and_then (on_storage (st_SetCurrentJob St wid (j_ID j)) m1) h = h m2"
    "ok (mg_storage m2)" "view (mg_storage m2) = view (mg_storage m1)" "mg_configs m2 = mg_configs m1"
    by (rule on_frames_ex [OF worker_frames(5) [where wid = wid and jid = "j_ID j"] m1(2)]) (rule that)
  show thesis using m1 m2 by (intro that [of m2]) (simp_all add: processJob_def mgr_UpdateJobStatus_def)
qed

lemma executeJob_no_Panic: "executeJob hs t j m \<noteq> (Panic p, j', m')"
  by (auto simp: executeJob_def split: option.splits prod.splits outcome.splits)

end

section \<open>Handlers that do not use the queue\<close>

text \<open>
  Such a handler computes its outcome from the job and the time limit, may set the job's
  result, and leaves the manager alone.
\<close>

fun failure :: "unit res \<Rightarrow> err option" where
  "failure (Ok _) = None"
| "failure (Err e) = Some e"
| "failure (Panic p) = Some (Errorf (''job panicked: '' @ p) None)"

locale job_handler =
  fixes h :: "'s JobHandler" and ends :: "duration \<Rightarrow> job \<Rightarrow> unit res" and result :: "duration \<Rightarrow> job \<Rightarrow> bytes"
  assumes runs: "h t j m = (ends t j, j\<lparr>j_Result := result t j\<rparr>, m)"
begin

lemma executeJob_runs:
  assumes "hs (j_Type j) = Some h"
  shows "executeJob hs t j m =
    (case failure (ends t j) of None \<Rightarrow> Ok () | Some e \<Rightarrow> Err e,
     j\<lparr>j_Result := result t j\<rparr>, m)"
  using assms by (cases "ends t j") (simp_all add: executeJob_def runs)

end

locale processing = storage St view ok + job_handler h ends result
  for St :: "'s Storage" and view ok and h :: "'s JobHandler" and ends result
begin

abbreviation limit :: "job \<Rightarrow> duration" where
  "limit j \<equiv> wrap64 (j_TimeoutSeconds j * Second)"

lemma processJob_ends:
  assumes okm: "ok (mg_storage m)" and sj: "v_jobs (view (mg_storage m)) (j_ID j) = Some sj"
    and h: "hs (j_Type j) = Some h"
  obtains m2 where "ok (mg_storage m2)" "mg_configs m2 = mg_configs m"
    "view (mg_storage m2) = (view (mg_storage m))\<lparr>v_jobs :=
       (v_jobs (view (mg_storage m)))(j_ID j \<mapsto> set_status (clock_from 1 clk) StatusRunning sj)\<rparr>"
    "processJob St wid hs clk j m =
       (case failure (ends (limit j) j) of
          None \<Rightarrow> handleJobSuccess St wid (clock_from 5 clk) (j\<lparr>j_Result := result (limit j) j\<rparr>)
                   (time_sub (clk 4) (clk 0)) m2
        | Some e \<Rightarrow> handleJobFailure St wid (clock_from 5 clk) (j\<lparr>j_Result := result (limit j) j\<rparr>) e
                   (time_sub (clk 4) (clk 0)) m2)"
proof -
  obtain m1 where m1: "ok (mg_storage m1)" "mg_configs m1 = mg_configs m"
    "view (mg_storage m1) = (view (mg_storage m))\<lparr>v_jobs :=
       (v_jobs (view (mg_storage m)))(j_ID j \<mapsto> set_status (clock_from 1 clk) StatusRunning sj)\<rparr>"
    and run: "processJob St wid hs clk j m =
       (case executeJob hs (wrap64 (j_TimeoutSeconds j * Second)) j m1 of
          (err, j, m) \<Rightarrow>
            and_then (on_storage (st_SetCurrentJob St wid '''') m) (\<lambda>m.
              let dur = time_sub (clk 4) (clk 0) in
              case err of
                Err e \<Rightarrow> handleJobFailure St wid (clock_from 5 clk) j e dur m
              | Ok _ \<Rightarrow> handleJobSuccess St wid (clock_from 5 clk) j dur m
              | Panic p \<Rightarrow> (Panic p, m)))"
    by (rule processJob_run [OF okm sj])
  obtain m2 where m2: "\<And>h. and_then (on_storage (st_SetCurrentJob St wid '''') m1) h = h m2"
    "ok (mg_storage m2)" "view (mg_storage m2) = view (mg_storage m1)" "mg_configs m2 = mg_configs m1"
    by (rule on_frames_ex [OF worker_frames(5) [where wid = wid and jid = "''''"] m1(1)]) (rule that)
  show thesis using m1 m2 run executeJob_runs [where hs = hs and j = j, OF h]
    by (intro that [of m2]) (simp_all split: option.splits)
qed

text \<open>
  The handler succeeds: the job is SUCCESS with progress 100 and its times set, the queues are
  as before. The result the handler has set is not stored.
\<close>

lemma processJob_success:
  assumes okm: "ok (mg_storage m)" and sj: "v_jobs (view (mg_storage m)) (j_ID j) = Some sj"
    and h: "hs (j_Type j) = Some h" and succ: "failure (ends (limit j) j) = None"
  shows "\<exists>m' sj'. processJob St wid hs clk j m = (Ok (), m') \<and> ok (mg_storage m') \<and>
    view (mg_storage m') = (view (mg_storage m))\<lparr>v_jobs := (v_jobs (view (mg_storage m)))(j_ID j \<mapsto> sj')\<rparr> \<and>
    j_Status sj' = StatusSuccess \<and> j_Progress sj' = 100 \<and> j_StartedAt sj' \<noteq> None \<and>
    j_CompletedAt sj' \<noteq> None \<and> j_Result sj' = j_Result sj \<and> j_CurrentRetry sj' = j_CurrentRetry sj"
proof -
  obtain m2 where m2: "ok (mg_storage m2)" "view (mg_storage m2) = (view (mg_storage m))\<lparr>v_jobs :=
       (v_jobs (view (mg_storage m)))(j_ID j \<mapsto> set_status (clock_from 1 clk) StatusRunning sj)\<rparr>"
    and run: "processJob St wid hs clk j m =
      handleJobSuccess St wid (clock_from 5 clk) (j\<lparr>j_Result := result (limit j) j\<rparr>) (time_sub (clk 4) (clk 0)) m2"
    using processJob_ends [where wid = wid and clk = clk and hs = hs and j = j, OF okm sj h] succ by auto
  from handleJobSuccess_Ok [OF m2(1), of "j\<lparr>j_Result := result (limit j) j\<rparr>"] m2 run
  show ?thesis by (fastforce simp: set_status_def)
qed

lemma processJob_retry:
  assumes okm: "ok (mg_storage m)" and cache: "cache_ok view m"
    and sj: "v_jobs (view (mg_storage m)) (j_ID j) = Some sj"
    and h: "hs (j_Type j) = Some h" and fails: "failure (ends (limit j) j) = Some e" and retry: "CanRetry j"
    and conf: "v_configs (view (mg_storage m)) (j_Queue j) = Some c"
  defines "j' \<equiv> j\<lparr>j_Result := result (limit j) j, j_CurrentRetry := wrap64 (j_RetryCount j + 1)\<rparr>"
  shows "\<exists>m'. processJob St wid hs clk j m = (Ok (), m') \<and> ok (mg_storage m') \<and> cache_ok view m' \<and>
    view (mg_storage m') = (view (mg_storage m))
      \<lparr>v_jobs := (v_jobs (view (mg_storage m)))(j_ID j \<mapsto> j'),
       v_entries := (v_entries (view (mg_storage m)))(j_Queue j :=
         add_mset (j_ID j, j_Priority j, clk 9 + calculateRetryDelay (j_RetryCount j') c)
           (v_entries (view (mg_storage m)) (j_Queue j)))\<rparr>"
proof -
  obtain m2 where m2: "ok (mg_storage m2)" "mg_configs m2 = mg_configs m"
    "view (mg_storage m2) = (view (mg_storage m))\<lparr>v_jobs :=
       (v_jobs (view (mg_storage m)))(j_ID j \<mapsto> set_status (clock_from 1 clk) StatusRunning sj)\<rparr>"
    and run: "processJob St wid hs clk j m =
      handleJobFailure St wid (clock_from 5 clk) (j\<lparr>j_Result := result (limit j) j\<rparr>) e (time_sub (clk 4) (clk 0)) m2"
    using processJob_ends [where wid = wid and clk = clk and hs = hs and j = j, OF okm sj h] fails
    by auto
  have "cache_ok view m2" using cache m2(2,3) by (simp add: cache_ok_def)
  from handleJobFailure_retry [OF m2(1) this, of "j\<lparr>j_Result := result (limit j) j\<rparr>" _ c wid
      "clock_from 5 clk" e] m2(3) run retry conf
  show ?thesis by (auto simp: j'_def CanRetry_def IsTerminal_def)
qed

lemma processJob_final:
  assumes okm: "ok (mg_storage m)" and sj: "v_jobs (view (mg_storage m)) (j_ID j) = Some sj"
    and h: "hs (j_Type j) = Some h" and fails: "failure (ends (limit j) j) = Some e" and retry: "\<not> CanRetry j"
  shows "\<exists>m' cf sj'. processJob St wid hs clk j m = (Ok (), m') \<and> ok (mg_storage m') \<and>
    view (mg_storage m') = (view (mg_storage m))\<lparr>v_configs := cf, v_jobs :=
      (v_jobs (view (mg_storage m)))(j_ID j \<mapsto> sj')\<rparr> \<and>
    j_Status sj' = StatusFailed \<and> j_CompletedAt sj' \<noteq> None \<and>
    j_Error sj' = Error e"
proof -
  obtain m2 where m2: "ok (mg_storage m2)"
    "view (mg_storage m2) = (view (mg_storage m))\<lparr>v_jobs :=
       (v_jobs (view (mg_storage m)))(j_ID j \<mapsto> set_status (clock_from 1 clk) StatusRunning sj)\<rparr>"
    and run: "processJob St wid hs clk j m =
      handleJobFailure St wid (clock_from 5 clk) (j\<lparr>j_Result := result (limit j) j\<rparr>) e (time_sub (clk 4) (clk 0)) m2"
    using processJob_ends [where wid = wid and clk = clk and hs = hs and j = j, OF okm sj h] fails
    by auto
  have nr: "\<not> CanRetry (j\<lparr>j_Result := result (limit j) j\<rparr>)"
    using retry by (simp add: CanRetry_def IsTerminal_def)
  have "v_jobs (view (mg_storage m2)) (j_ID (j\<lparr>j_Result := result (limit j) j\<rparr>)) =
      Some (set_status (clock_from 1 clk) StatusRunning sj)" using m2(2) by simp
  from handleJobFailure_final [OF m2(1) nr this, of wid "clock_from 5 clk" e "time_sub (clk 4) (clk 0)"]
  show ?thesis using m2(2) run by (fastforce simp: set_status_def)
qed

end

section \<open>The effect on the queues\<close>

text \<open>
  Whatever happens to a job, processing it keeps the set of stored jobs, and adds at most one
  entry to the queues, one of this job.
\<close>

definition good_handlers :: "(string \<rightharpoonup> 's JobHandler) \<Rightarrow> bool" where
  "good_handlers hs \<longleftrightarrow>
     (\<forall>jt h t j m. hs jt = Some h \<longrightarrow> (\<exists>r b. h t j m = (r, j\<lparr>j_Result := b\<rparr>, m)))"

lemma good_handlers_execute:
  assumes "good_handlers hs"
  obtains r b where "executeJob hs t j m = (r, j\<lparr>j_Result := b\<rparr>, m)" "\<And>p. r \<noteq> Panic p"
proof (cases "hs (j_Type j)")
  case None
  then show ?thesis using that [of _ "j_Result j"] by (simp add: executeJob_def)
next
  case (Some h)
  with assms obtain r b where h: "h t j m = (r, j\<lparr>j_Result := b\<rparr>, m)"
    unfolding good_handlers_def by blast
  with Some show ?thesis using that [of _ b] by (cases r) (simp_all add: executeJob_def)
qed

definition at_most_requeued :: "string \<Rightarrow> store_view \<Rightarrow> store_view \<Rightarrow> bool" where
  "at_most_requeued jid v v' \<longleftrightarrow> dom (v_jobs v') = dom (v_jobs v) \<and>
     (v_entries v' = v_entries v \<or> v_jobs v jid \<noteq> None \<and>
       (\<exists>q p t. v_entries v' = (v_entries v)(q := add_mset (jid, p, t) (v_entries v q))))"

context storage
begin

lemma handleJobFailure_effect:
  assumes okm: "ok (mg_storage m)" and sj: "v_jobs (view (mg_storage m)) (j_ID j) = Some sj"
  shows "\<exists>m'. handleJobFailure St wid clk j e d m = (Ok (), m') \<and> ok (mg_storage m') \<and>
    at_most_requeued (j_ID j) (view (mg_storage m)) (view (mg_storage m'))"
proof (cases "CanRetry j")
  case False
  from handleJobFailure_final [OF okm False sj, of wid clk e d] sj
  show ?thesis by (fastforce simp: at_most_requeued_def)
next
  case True
  obtain m1 where m1: "mgr_SetJobError St clk (j_ID j) (Error e) m = (Ok (), m1)" "ok (mg_storage m1)"
    "view (mg_storage m1) = (view (mg_storage m))\<lparr>v_jobs :=
       (v_jobs (view (mg_storage m)))(j_ID j \<mapsto> sj\<lparr>j_Error := Error e, j_UpdatedAt := clk 0\<rparr>)\<rparr>"
    by (rule SetJobError_Ok [OF okm sj]) (rule that)
  have sj1: "v_jobs (view (mg_storage m1)) (j_ID j) = Some (sj\<lparr>j_Error := Error e, j_UpdatedAt := clk 0\<rparr>)"
    using m1(3) by simp
  obtain r m0 where g: "mgr_GetQueueConfig St (j_Queue j) m1 = (r, m0)"
    "mg_storage m0 = mg_storage m1" "\<And>p. r \<noteq> Panic p"
    by (rule GetQueueConfig_keeps [OF m1(2)]) blast
  show ?thesis
  proof (cases r)
    case (Ok c)
    from retry_job_with [OF m1(2) sj1 g(1) [unfolded Ok] g(2), of "clock_from 1 clk"] obtain m2 where
      m2: "retry_job St (clock_from 1 clk) j m1 = (Ok True, m2)" "ok (mg_storage m2)"
      "at_most_requeued (j_ID j) (view (mg_storage m)) (view (mg_storage m2))"
      using m1(3) sj by (fastforce simp: at_most_requeued_def)
    obtain m3 where m3: "\<And>h. and_then (on_storage (st_IncrementFailed St wid) m2) h = h m3"
      "ok (mg_storage m3)" "view (mg_storage m3) = view (mg_storage m2)"
      by (rule on_frames_ex [OF worker_frames(7) [where wid = wid] m2(2)]) (rule that)
    show ?thesis using m1(1) m2 m3 True by (simp add: handleJobFailure_def Let_def)
  next
    case (Err e1)
    with g have "retry_job St (clock_from 1 clk) j m1 = (Ok False, m0)" by (simp add: retry_job_def Let_def)
    then have "handleJobFailure St wid clk j e d m = (Ok (), m0)"
      using m1(1) True by (simp add: handleJobFailure_def Let_def)
    then show ?thesis using m1(2,3) g(2) sj by (auto simp: at_most_requeued_def)
  qed (use g(3) in auto)
qed

lemma processJob_effect:
  assumes okm: "ok (mg_storage m)" and good: "good_handlers hs"
  shows "\<exists>m'. processJob St wid hs clk j m = (Ok (), m') \<and> ok (mg_storage m') \<and>
    at_most_requeued (j_ID j) (view (mg_storage m)) (view (mg_storage m'))"
proof (cases "v_jobs (view (mg_storage m)) (j_ID j)")
  case None
  from processJob_missing [OF okm None, of wid hs clk] show ?thesis
    by (auto simp: at_most_requeued_def)
next
  case (Some sj)
  obtain m1 where m1: "ok (mg_storage m1)"
    "view (mg_storage m1) = (view (mg_storage m))\<lparr>v_jobs :=
       (v_jobs (view (mg_storage m)))(j_ID j \<mapsto> set_status (clock_from 1 clk) StatusRunning sj)\<rparr>"
    and run: "processJob St wid hs clk j m =
       (case executeJob hs (wrap64 (j_TimeoutSeconds j * Second)) j m1 of
          (err, j, m) \<Rightarrow>
            and_then (on_storage (st_SetCurrentJob St wid '''') m) (\<lambda>m.
              let dur = time_sub (clk 4) (clk 0) in
              case err of
                Err e \<Rightarrow> handleJobFailure St wid (clock_from 5 clk) j e dur m
              | Ok _ \<Rightarrow> handleJobSuccess St wid (clock_from 5 clk) j dur m
              | Panic p \<Rightarrow> (Panic p, m)))"
    by (rule processJob_run [OF okm Some])
  obtain r b where ex: "executeJob hs (wrap64 (j_TimeoutSeconds j * Second)) j m1 =
      (r, j\<lparr>j_Result := b\<rparr>, m1)" "\<And>p. r \<noteq> Panic p"
    by (rule good_handlers_execute [OF good]) (rule that)
  let ?j = "j\<lparr>j_Result := b\<rparr>"
  obtain m2 where m2: "\<And>h. and_then (on_storage (st_SetCurrentJob St wid '''') m1) h = h m2"
    "ok (mg_storage m2)" "view (mg_storage m2) = view (mg_storage m1)"
    by (rule on_frames_ex [OF worker_frames(5) [where wid = wid and jid = "''''"] m1(1)]) (rule that)
  have sj2: "v_jobs (view (mg_storage m2)) (j_ID ?j) = Some (set_status (clock_from 1 clk) StatusRunning sj)"
    using m1(2) m2(3) by simp
  have same: "at_most_requeued (j_ID j) (view (mg_storage m)) v' "
    if "at_most_requeued (j_ID j) (view (mg_storage m2)) v'" for v'
    using that m1(2) m2(3) Some by (auto simp: at_most_requeued_def)
  show ?thesis
  proof (cases r)
    case (Ok u)
    from handleJobSuccess_Ok [OF m2(2) sj2, of wid "clock_from 5 clk" "time_sub (clk 4) (clk 0)"]
    show ?thesis using run ex(1) m2(1) Ok sj2 m1(2) m2(3) Some
      by (auto simp: at_most_requeued_def)
  next
    case (Err e)
    from handleJobFailure_effect [OF m2(2) sj2, of wid "clock_from 5 clk" e "time_sub (clk 4) (clk 0)"]
    show ?thesis using run ex(1) m2(1) Err same by auto
  qed (use ex(2) in auto)
qed

end

end
