(* ===== verification/PoolSteps.thy ===== *)
theory PoolSteps
  imports PoolProofs
begin

text \<open>
  The goroutines of a running pool as a step relation: the fetcher (\<open>fetchLoop\<close>, \<open>fetchJobs\<close>),
  \<open>concurrency\<close> workers (\<open>workerLoop\<close>), the heartbeat, and the outside world, which enqueues new jobs, closes
  \<open>stopCh\<close> and cancels the context. A step is what a goroutine does between two points where
  another one may run: a dequeue, a send, a receive, the processing of one job. A \<open>select\<close> with
  several ready cases takes any of them, so each case is a rule of its own. When a ticker fires is not
  modelled: a fetch or a heartbeat may happen at any time.
\<close>

section \<open>The steps\<close>

datatype fetcher = FIdle | FSending job | FExited

datatype worker_loop = WIdle | WBusy job | WExited

record 's running =
  rn_pool :: "'s Pool"
  rn_fetcher :: fetcher
  rn_workers :: "worker_loop list"

abbreviation rn_manager :: "'s running \<Rightarrow> 's Manager" where
  "rn_manager s \<equiv> pl_queueManager (rn_pool s)"

definition set_manager :: "'s Manager \<Rightarrow> 's running \<Rightarrow> 's running" where
  "set_manager m s = s\<lparr>rn_pool := (rn_pool s)\<lparr>pl_queueManager := m\<rparr>\<rparr>"

definition set_jobCh :: "job list \<Rightarrow> 's running \<Rightarrow> 's running" where
  "set_jobCh js s = s\<lparr>rn_pool := (rn_pool s)\<lparr>pl_jobCh := js\<rparr>\<rparr>"

text \<open>The goroutines that \<open>Start\<close> has created.\<close>

definition spawn :: "'s Pool \<Rightarrow> 's running" where
  "spawn p = \<lparr>rn_pool = p, rn_fetcher = FIdle, rn_workers = replicate (nat (pl_concurrency p)) WIdle\<rparr>"

inductive pool_step :: "'s Storage \<Rightarrow> 's running \<Rightarrow> 's running \<Rightarrow> bool" for St where
  fetch: "\<lbrakk>rn_fetcher s = FIdle; int (length (pl_jobCh (rn_pool s))) < pl_concurrency (rn_pool s);
    mono clk; mgr_Dequeue St clk intn (pl_queues (rn_pool s)) (rn_manager s) = (Ok j, m)\<rbrakk>
    \<Longrightarrow> pool_step St s ((set_manager m s)\<lparr>rn_fetcher := FSending j\<rparr>)"
| fetch_error: "\<lbrakk>rn_fetcher s = FIdle; int (length (pl_jobCh (rn_pool s))) < pl_concurrency (rn_pool s);
    mono clk; mgr_Dequeue St clk intn (pl_queues (rn_pool s)) (rn_manager s) = (Err e, m)\<rbrakk>
    \<Longrightarrow> pool_step St s (set_manager m s)"
| send: "\<lbrakk>rn_fetcher s = FSending j; int (length (pl_jobCh (rn_pool s))) < pl_concurrency (rn_pool s)\<rbrakk>
    \<Longrightarrow> pool_step St s ((set_jobCh (pl_jobCh (rn_pool s) @ [j]) s)\<lparr>rn_fetcher := FIdle\<rparr>)"
| send_stopped: "\<lbrakk>rn_fetcher s = FSending j; pl_stopCh (rn_pool s);
    mgr_Requeue St clk j 0 (rn_manager s) = (r, m)\<rbrakk>
    \<Longrightarrow> pool_step St s ((set_manager m s)\<lparr>rn_fetcher := FIdle\<rparr>)"
| fetcher_exit: "\<lbrakk>rn_fetcher s = FIdle; pl_stopCh (rn_pool s) \<or> pl_ctxDone (rn_pool s)\<rbrakk>
    \<Longrightarrow> pool_step St s (s\<lparr>rn_fetcher := FExited, rn_pool := (rn_pool s)\<lparr>pl_jobChClosed := True\<rparr>\<rparr>)"
| receive: "\<lbrakk>i < length (rn_workers s); rn_workers s ! i = WIdle; pl_jobCh (rn_pool s) = j # js\<rbrakk>
    \<Longrightarrow> pool_step St s ((set_jobCh js s)\<lparr>rn_workers := (rn_workers s)[i := WBusy j]\<rparr>)"
| process: "\<lbrakk>i < length (rn_workers s); rn_workers s ! i = WBusy j;
    processJob St (w_ID (pl_worker (rn_pool s))) (pl_handlers (rn_pool s)) clk j (rn_manager s) = (Ok (), m)\<rbrakk>
    \<Longrightarrow> pool_step St s ((set_manager m s)\<lparr>rn_workers := (rn_workers s)[i := WIdle]\<rparr>)"
| worker_exit: "\<lbrakk>i < length (rn_workers s); rn_workers s ! i = WIdle;
    pl_stopCh (rn_pool s) \<or> pl_ctxDone (rn_pool s) \<or>
      pl_jobChClosed (rn_pool s) \<and> pl_jobCh (rn_pool s) = []\<rbrakk>
    \<Longrightarrow> pool_step St s (s\<lparr>rn_workers := (rn_workers s)[i := WExited]\<rparr>)"
| heartbeat: "on_storage (st_UpdateHeartbeat St clk (w_ID (pl_worker (rn_pool s)))) (rn_manager s) = (r, m)
    \<Longrightarrow> pool_step St s (set_manager m s)"
| client: "mgr_Enqueue St clk j (rn_manager s) = (r, j', m)
    \<Longrightarrow> pool_step St s (set_manager m s)"
| stop: "\<not> pl_stopCh (rn_pool s)
    \<Longrightarrow> pool_step St s (s\<lparr>rn_pool := (rn_pool s)\<lparr>pl_stopCh := True\<rparr>\<rparr>)"
| cancel: "pl_stopCh (rn_pool s)
    \<Longrightarrow> pool_step St s (s\<lparr>rn_pool := (rn_pool s)\<lparr>pl_ctxDone := True\<rparr>\<rparr>)"

inductive pool_reachable :: "'s Storage \<Rightarrow> 's running \<Rightarrow> 's running \<Rightarrow> bool" for St s0 where
  refl: "pool_reachable St s0 s0"
| step: "pool_reachable St s0 s \<Longrightarrow> pool_step St s s' \<Longrightarrow> pool_reachable St s0 s'"

lemma set_manager_sel [simp]:
  "rn_pool (set_manager m s) = (rn_pool s)\<lparr>pl_queueManager := m\<rparr>"
  "rn_fetcher (set_manager m s) = rn_fetcher s" "rn_workers (set_manager m s) = rn_workers s"
  by (simp_all add: set_manager_def)

lemma set_jobCh_sel [simp]:
  "rn_pool (set_jobCh js s) = (rn_pool s)\<lparr>pl_jobCh := js\<rparr>"
  "rn_fetcher (set_jobCh js s) = rn_fetcher s" "rn_workers (set_jobCh js s) = rn_workers s"
  by (simp_all add: set_jobCh_def)

section \<open>Channels\<close>

text \<open>
  The buffer holds at most \<open>concurrency\<close> jobs, the fetcher that has a job in hand finds room
  for it, and the channel is closed exactly when the fetcher is gone: a send neither blocks nor
  hits a closed channel.
\<close>

definition channel_inv :: "'s running \<Rightarrow> bool" where
  "channel_inv s \<longleftrightarrow>
     int (length (pl_jobCh (rn_pool s))) \<le> pl_concurrency (rn_pool s) \<and>
     (\<forall>j. rn_fetcher s = FSending j \<longrightarrow> int (length (pl_jobCh (rn_pool s))) < pl_concurrency (rn_pool s)) \<and>
     (pl_jobChClosed (rn_pool s) \<longleftrightarrow> rn_fetcher s = FExited) \<and>
     int (length (rn_workers s)) = pl_concurrency (rn_pool s)"

lemma channel_inv_spawn:
  "\<lbrakk>pl_jobCh p = []; \<not> pl_jobChClosed p; 0 \<le> pl_concurrency p\<rbrakk> \<Longrightarrow> channel_inv (spawn p)"
  by (simp add: channel_inv_def spawn_def)

lemma channel_inv_step: "pool_step St s s' \<Longrightarrow> channel_inv s \<Longrightarrow> channel_inv s'"
  by (induction rule: pool_step.induct) (auto simp: channel_inv_def)

lemma channel_inv_reachable: "pool_reachable St s0 s \<Longrightarrow> channel_inv s0 \<Longrightarrow> channel_inv s"
  by (induction rule: pool_reachable.induct) (auto intro: channel_inv_step)

section \<open>No job in two places\<close>

text \<open>The jobs the pool has in hand: with the fetcher, in the channel, with a worker.\<close>

fun fetcher_jobs :: "fetcher \<Rightarrow> job list" where
  "fetcher_jobs (FSending j) = [j]"
| "fetcher_jobs _ = []"

fun busy_jobs :: "worker_loop \<Rightarrow> job list" where
  "busy_jobs (WBusy j) = [j]"
| "busy_jobs _ = []"

definition held :: "'s running \<Rightarrow> string multiset" where
  "held s = image_mset j_ID (mset (fetcher_jobs (rn_fetcher s)) + mset (pl_jobCh (rn_pool s)) +
     mset (concat (map busy_jobs (rn_workers s))))"

lemma mset_busy_update:
  assumes "i < length ws"
  shows "mset (concat (map busy_jobs (ws[i := w]))) + mset (busy_jobs (ws ! i)) =
     mset (concat (map busy_jobs ws)) + mset (busy_jobs w)"
  using assms
proof (induction ws arbitrary: i)
  case Nil
  then show ?case by simp
next
  case (Cons x ws)
  then show ?case by (cases i) (auto simp: algebra_simps)
qed

text \<open>How often a job is queued in \<open>q\<close>.\<close>

definition queued :: "store_view \<Rightarrow> string \<Rightarrow> string \<Rightarrow> nat" where
  "queued v q jid = count (image_mset fst (v_entries v q)) jid"

text \<open>
  For one job: \<open>h\<close> times in hand, \<open>n q\<close> times queued in \<open>q\<close>. It is in one place at most, and
  nowhere unless it is stored.
\<close>

definition one_place :: "nat \<Rightarrow> (string \<Rightarrow> nat) \<Rightarrow> bool \<Rightarrow> bool" where
  "one_place h n stored \<longleftrightarrow>
     (\<forall>q. h + n q \<le> 1) \<and> (\<forall>q q'. q \<noteq> q' \<longrightarrow> n q + n q' \<le> 1) \<and>
     (\<not> stored \<longrightarrow> h = 0 \<and> (\<forall>q. n q = 0))"

lemma one_place_drop: "one_place (Suc h) n s \<Longrightarrow> one_place h n s"
  by (auto simp: one_place_def)

lemma one_place_take:
  assumes "one_place h n s" and "0 < n q"
  shows "one_place (Suc h) (n(q := n q - 1)) s"
proof -
  from assms have "h = 0" "n q = 1"
    unfolding one_place_def by (metis One_nat_def add_is_0 add_is_1 le_Suc_eq le_zero_eq less_numeral_extra(3))+
  moreover have "n q' = 0" if "q' \<noteq> q" for q'
    using assms that \<open>n q = 1\<close> unfolding one_place_def by (metis add_le_same_cancel1 le_zero_eq)
  ultimately show ?thesis using assms(1) by (auto simp: one_place_def)
qed

lemma one_place_put: "one_place (Suc h) n s \<Longrightarrow> one_place h (n(q := Suc (n q))) s"
  by (auto simp: one_place_def)

lemma one_place_new: "one_place h n False \<Longrightarrow> one_place h (n(q := Suc (n q))) True"
  by (auto simp: one_place_def)

lemma one_place_create: "one_place h n False \<Longrightarrow> one_place h n True"
  by (auto simp: one_place_def)

definition exclusive :: "store_view \<Rightarrow> string multiset \<Rightarrow> bool" where
  "exclusive v H \<longleftrightarrow> (\<forall>jid. one_place (count H jid) (\<lambda>q. queued v q jid) (v_jobs v jid \<noteq> None))"

lemma queued_add:
  "v_entries v' = (v_entries v)(q := add_mset (jid, p, t) (v_entries v q)) \<Longrightarrow>
   (\<lambda>q'. queued v' q' x) = (if x = jid then (\<lambda>q'. queued v q' x)(q := Suc (queued v q x)) else (\<lambda>q'. queued v q' x))"
  by (auto simp: queued_def)

lemma queued_remove:
  assumes "(jid, p, t) \<in># v_entries v q"
    and "v_entries v' = (v_entries v)(q := v_entries v q - {#(jid, p, t)#})"
  shows "(\<lambda>q'. queued v' q' x) =
    (if x = jid then (\<lambda>q'. queued v q' x)(q := queued v q x - 1) else (\<lambda>q'. queued v q' x))"
  using assms by (auto simp: queued_def image_mset_Diff)

lemma exclusive_cong:
  assumes "exclusive v H" "v_entries v' = v_entries v" "dom (v_jobs v') = dom (v_jobs v)"
  shows "exclusive v' H"
proof -
  have "v_jobs v' x \<noteq> None \<longleftrightarrow> v_jobs v x \<noteq> None" for x using assms(3) by blast
  with assms(1,2) show ?thesis by (simp add: exclusive_def queued_def)
qed

lemma exclusive_drop: "exclusive v (add_mset jid H) \<Longrightarrow> exclusive v H"
  unfolding exclusive_def by (metis count_add_mset one_place_drop)

lemma exclusive_take:
  assumes "exclusive v H" and e: "(jid, p, t) \<in># v_entries v q"
    and v': "v' = v\<lparr>v_entries := (v_entries v)(q := v_entries v q - {#(jid, p, t)#})\<rparr>"
  shows "exclusive v' (add_mset jid H)"
  unfolding exclusive_def
proof
  fix x
  have "0 < queued v q jid" using e
    by (metis count_greater_zero_iff fst_conv image_eqI queued_def set_image_mset)
  then show "one_place (count (add_mset jid H) x) (\<lambda>q. queued v' q x) (v_jobs v' x \<noteq> None)"
    using assms(1) one_place_take [of "count H jid" "\<lambda>q. queued v q jid" _ q]
    by (subst queued_remove [OF e]) (auto simp: exclusive_def v')
qed

lemma exclusive_put:
  assumes "exclusive v (add_mset jid H)" and d: "dom (v_jobs v') = dom (v_jobs v)"
    and v': "v_entries v' = (v_entries v)(q := add_mset (jid, p, t) (v_entries v q))"
  shows "exclusive v' H"
  unfolding exclusive_def
proof
  fix x
  have "v_jobs v' x \<noteq> None \<longleftrightarrow> v_jobs v x \<noteq> None" using d by blast
  then show "one_place (count H x) (\<lambda>q. queued v' q x) (v_jobs v' x \<noteq> None)"
    using assms(1) one_place_put [of "count H jid" "\<lambda>q. queued v q jid" _ q]
    by (subst queued_add [OF v']) (auto simp: exclusive_def split: if_splits)
qed

lemma exclusive_new:
  assumes "exclusive v H" and "v_jobs v jid = None" and "v_jobs v' = (v_jobs v)(jid \<mapsto> j)"
    and v': "v_entries v' = (v_entries v)(q := add_mset (jid, p, t) (v_entries v q))"
  shows "exclusive v' H"
  unfolding exclusive_def
proof
  fix x
  show "one_place (count H x) (\<lambda>q. queued v' q x) (v_jobs v' x \<noteq> None)"
    using assms(1-3) one_place_new [of "count H jid" "\<lambda>q. queued v q jid" q]
    by (subst queued_add [OF v']) (auto simp: exclusive_def dest: spec [of _ jid])
qed

lemma exclusive_at_most_requeued:
  "\<lbrakk>exclusive v (add_mset jid H); at_most_requeued jid v v'\<rbrakk> \<Longrightarrow> exclusive v' H"
  unfolding at_most_requeued_def
  by (elim conjE disjE exE) (blast intro: exclusive_cong exclusive_drop exclusive_put)+

definition pool_safe :: "('s \<Rightarrow> bool) \<Rightarrow> ('s \<Rightarrow> store_view) \<Rightarrow> 's running \<Rightarrow> bool" where
  "pool_safe ok view s \<longleftrightarrow> ok (mg_storage (rn_manager s)) \<and>
     exclusive (view (mg_storage (rn_manager s))) (held s) \<and> good_handlers (pl_handlers (rn_pool s))"

text \<open>How the steps move jobs in hand.\<close>

lemma held_manager [simp]: "held (set_manager m s) = held s"
  by (simp add: held_def)

lemma held_fetched:
  "rn_fetcher s = FIdle \<Longrightarrow> held (s\<lparr>rn_fetcher := FSending j\<rparr>) = add_mset (j_ID j) (held s)"
  by (simp add: held_def)

lemma held_sent:
  "rn_fetcher s = FSending j \<Longrightarrow>
   held ((set_jobCh (pl_jobCh (rn_pool s) @ [j]) s)\<lparr>rn_fetcher := FIdle\<rparr>) = held s"
  by (simp add: held_def)

lemma held_returned:
  "rn_fetcher s = FSending j \<Longrightarrow> held s = add_mset (j_ID j) (held ((set_manager m s)\<lparr>rn_fetcher := FIdle\<rparr>))"
  by (simp add: held_def)

lemma held_received:
  assumes "i < length (rn_workers s)" "rn_workers s ! i = WIdle" "pl_jobCh (rn_pool s) = j # js"
  shows "held ((set_jobCh js s)\<lparr>rn_workers := (rn_workers s)[i := WBusy j]\<rparr>) = held s"
  using mset_busy_update [OF assms(1), of "WBusy j"] assms(2,3) by (simp add: held_def)

lemma held_processed:
  assumes "i < length (rn_workers s)" "rn_workers s ! i = WBusy j"
  shows "held s = add_mset (j_ID j) (held ((set_manager m s)\<lparr>rn_workers := (rn_workers s)[i := WIdle]\<rparr>))"
proof -
  have "mset (concat (map busy_jobs (rn_workers s))) =
      add_mset j (mset (concat (map busy_jobs ((rn_workers s)[i := WIdle]))))"
    using mset_busy_update [OF assms(1), of WIdle] assms(2) by simp
  then show ?thesis by (simp add: held_def del: mset_concat)
qed

lemma held_exited:
  assumes "i < length (rn_workers s)" "rn_workers s ! i = WIdle"
  shows "held (s\<lparr>rn_workers := (rn_workers s)[i := WExited]\<rparr>) = held s"
  using mset_busy_update [OF assms(1), of WExited] assms(2) by (simp add: held_def)

context storage
begin

lemma took_exclusive:
  assumes "took clk queues v jid v'" and "exclusive v H"
  shows "exclusive v' (add_mset jid H)" "v_jobs v jid \<noteq> None" "v_jobs v' = v_jobs v"
proof -
  from assms(1) obtain q p t where e: "(jid, p, t) \<in># v_entries v q"
    "v' = v\<lparr>v_entries := (v_entries v)(q := v_entries v q - {#(jid, p, t)#})\<rparr>"
    by (auto simp: took_def dest!: spec_Dequeue_OkD)
  from exclusive_take [OF assms(2) e] show x: "exclusive v' (add_mset jid H)" .
  show "v_jobs v' = v_jobs v" using e(2) by simp
  show "v_jobs v jid \<noteq> None" using x e(2)
    by (auto simp: exclusive_def one_place_def dest!: spec [of _ jid])
qed

lemma Dequeue_exclusive:
  assumes okm: "ok (mg_storage m)" and ex: "exclusive (view (mg_storage m)) H" and "mono clk"
    and run: "mgr_Dequeue St clk intn queues m = (r, m')"
  shows "case r of Ok j \<Rightarrow> ok (mg_storage m') \<and> exclusive (view (mg_storage m')) (add_mset (j_ID j) H)
    | _ \<Rightarrow> ok (mg_storage m') \<and> exclusive (view (mg_storage m')) H"
  using okm \<open>mono clk\<close> run
proof (cases rule: Dequeue_cases)
  case (taken jid)
  note t = took_exclusive [OF taken(3) ex]
  then obtain j where j: "v_jobs (view (mg_storage m)) jid = Some j" by blast
  with GetJob_ID [OF okm j] t(1) taken show ?thesis by simp
qed (use okm ex in \<open>auto\<close>)

lemma Enqueue_exclusive:
  assumes okm: "ok (mg_storage m)" and ex: "exclusive (view (mg_storage m)) H"
    and run: "mgr_Enqueue St clk j m = (r, j', m')"
  shows "ok (mg_storage m') \<and> exclusive (view (mg_storage m')) H"
proof (cases "v_jobs (view (mg_storage m)) (j_ID j)")
  case None
  from Enqueue_new [OF okm None, of clk] run show ?thesis
    by (auto intro!: exclusive_new [OF ex None])
next
  case (Some sj)
  then have "v_jobs (view (mg_storage m)) (j_ID j) \<noteq> None" by simp
  from Enqueue_duplicate [OF okm this, of clk] run show ?thesis
    by (auto intro: exclusive_cong [OF ex])
qed

lemma Requeue_exclusive:
  assumes okm: "ok (mg_storage m)" and ex: "exclusive (view (mg_storage m)) (add_mset (j_ID j) H)"
    and run: "mgr_Requeue St clk j d m = (r, m')"
  shows "ok (mg_storage m') \<and> exclusive (view (mg_storage m')) H"
proof (cases "v_jobs (view (mg_storage m)) (j_ID j)")
  case None
  from Requeue_missing [OF okm None, of clk d] run show ?thesis
    by (auto intro: exclusive_cong [OF exclusive_drop [OF ex]])
next
  case (Some sj)
  then have "v_jobs (view (mg_storage m)) (j_ID j) \<noteq> None" by simp
  from Requeue_Ok [OF okm this, of clk d] run Some show ?thesis
    by (auto intro!: exclusive_put [OF ex] split: if_splits)
qed

text \<open>Every step keeps every job in one place.\<close>

lemma pool_safe_step: "pool_step St s s' \<Longrightarrow> pool_safe ok view s \<Longrightarrow> pool_safe ok view s'"
proof (induction rule: pool_step.induct)
  case (fetch s clk intn j m)
  with Dequeue_exclusive [of "rn_manager s" "held s"] show ?case
    by (fastforce simp: pool_safe_def held_fetched)
next
  case (fetch_error s clk intn e m)
  with Dequeue_exclusive [of "rn_manager s" "held s"] show ?case by (fastforce simp: pool_safe_def)
next
  case (send_stopped s j clk r m)
  with Requeue_exclusive [of "rn_manager s" j "held ((set_manager m s)\<lparr>rn_fetcher := FIdle\<rparr>)"]
  show ?case by (simp add: pool_safe_def held_returned [of s j m])
next
  case (process i s j clk m)
  let ?s' = "(set_manager m s)\<lparr>rn_workers := (rn_workers s)[i := WIdle]\<rparr>"
  from process have ok: "ok (mg_storage (rn_manager s))" and good: "good_handlers (pl_handlers (rn_pool s))"
    and ex: "exclusive (view (mg_storage (rn_manager s))) (held s)"
    by (simp_all add: pool_safe_def)
  from processJob_effect [OF ok good, of "w_ID (pl_worker (rn_pool s))" clk j] process(3)
  have "ok (mg_storage m)" "at_most_requeued (j_ID j) (view (mg_storage (rn_manager s))) (view (mg_storage m))"
    by auto
  moreover have "exclusive (view (mg_storage (rn_manager s))) (add_mset (j_ID j) (held ?s'))"
    using ex held_processed [OF process(1,2), of m] by simp
  ultimately show ?case using good exclusive_at_most_requeued by (auto simp: pool_safe_def)
next
  case (heartbeat clk s r m)
  with on_frames [OF worker_frames(3), of "rn_manager s" clk "w_ID (pl_worker (rn_pool s))" r m]
  show ?case by (simp add: pool_safe_def)
next
  case (client clk j s r j' m)
  with Enqueue_exclusive [of "rn_manager s" "held s"] show ?case by (simp add: pool_safe_def)
qed (simp_all add: pool_safe_def held_sent held_received held_exited,
     simp_all add: held_def)

lemma pool_safe_reachable: "pool_reachable St s0 s \<Longrightarrow> pool_safe ok view s0 \<Longrightarrow> pool_safe ok view s"
  by (induction rule: pool_reachable.induct) (auto intro: pool_safe_step)

end

text \<open>Two workers never work on the same job.\<close>

lemma count_busy:
  assumes "i < length ws" and "j \<in> set (busy_jobs (ws ! i))"
  shows "j_ID j \<in># image_mset j_ID (mset (concat (map busy_jobs ws)))"
  using assms by (auto intro!: image_eqI [of _ _ j] bexI [of _ "ws ! i"])

lemma busy_twice:
  assumes "i < k" "k < length ws" and "ws ! i = WBusy j" "ws ! k = WBusy j'" and "j_ID j = j_ID j'"
  shows "2 \<le> count (image_mset j_ID (mset (concat (map busy_jobs ws)))) (j_ID j)"
proof -
  have split: "ws = take k ws @ drop k ws" by simp
  have "j_ID j \<in># image_mset j_ID (mset (concat (map busy_jobs (take k ws))))"
    using assms by (intro count_busy [of i]) auto
  moreover have "j_ID j \<in># image_mset j_ID (mset (concat (map busy_jobs (drop k ws))))"
    using assms count_busy [of 0 "drop k ws" j'] by auto
  ultimately show ?thesis
    by (subst split, subst map_append) (simp only: concat_append mset_append image_mset_union count_union
      count_greater_zero_iff [symmetric])
qed

end
