(* ===== verification/Handlers.thy ===== *)
theory Handlers
  imports PoolSteps
begin

text \<open>
  The job handlers that the worker registers, \<^verbatim>\<open>cmd/worker/main.go\<close>,
  \<open>registerHandlers\<close>. None of them uses the queue, so each one keeps the contract of the locale
  \<open>job_handler\<close>, and what the pool does with their jobs follows from the locale \<open>processing\<close>.

  Parameters: \<open>rnd\<close> rounds the result of a floating-point operation, \<open>showFloat\<close> is the text that
  \<open>json.Marshal\<close> gives for a number, \<open>done t k\<close> is what \<open>ctx.Err()\<close> gives at the \<open>k\<close>-th look at
  a context with time limit \<open>t\<close> (\<open>None\<close> while the context is not done). Printing and sleeping
  have no effect on the state.
\<close>

section \<open>The handlers\<close>

definition echo_handler :: "'s JobHandler" where
  "echo_handler timeout j m = (Ok (), j, m)"

text \<open>The result of the operation, or the error the handler returns.\<close>

definition math_op :: "rounding \<Rightarrow> string \<Rightarrow> real \<Rightarrow> real \<Rightarrow> real res" where
  "math_op rnd operation a b =
     (if operation = ''add'' then Ok (rnd (a + b))
      else if operation = ''subtract'' then Ok (rnd (a - b))
      else if operation = ''multiply'' then Ok (rnd (a * b))
      else if operation = ''divide''
      then (if b = 0 then Err (Errorf ''division by zero'' None) else Ok (rnd (a / b)))
      else Err (Errorf (''unknown operation: '' @ operation) None))"

fun as_string :: "jval option \<Rightarrow> string option" where
  "as_string (Some (JStr s)) = Some s"
| "as_string _ = None"

fun as_float64 :: "jval option \<Rightarrow> real option" where
  "as_float64 (Some (JNum x)) = Some x"
| "as_float64 _ = None"

definition math_result :: "rounding \<Rightarrow> jmap \<Rightarrow> real res" where
  "math_result rnd payload =
     (case as_string (payload ''operation'') of
        None \<Rightarrow> Err (Errorf ''missing or invalid operation'' None)
      | Some operation \<Rightarrow>
          (case as_float64 (payload ''a'') of
             None \<Rightarrow> Err (Errorf ''missing or invalid operand a'' None)
           | Some a \<Rightarrow>
               (case as_float64 (payload ''b'') of
                  None \<Rightarrow> Err (Errorf ''missing or invalid operand b'' None)
                | Some b \<Rightarrow> math_op rnd operation a b)))"

definition math_handler :: "rounding \<Rightarrow> (real \<Rightarrow> string) \<Rightarrow> 's JobHandler" where
  "math_handler rnd showFloat timeout j m =
     (case math_result rnd (j_Payload j) of
        Ok result \<Rightarrow> (Ok (), j\<lparr>j_Result := Some (''{\"result\":'' @ showFloat result @ ''}'')\<rparr>, m)
      | Err e \<Rightarrow> (Err e, j, m)
      | Panic p \<Rightarrow> (Panic p, j, m))"

definition email_handler :: "'s JobHandler" where
  "email_handler timeout j m = (Ok (), j, m)"

text \<open>\<open>for i := 0; i <= 100; i += 20\<close>: \<open>k\<close> counts the looks at the context.\<close>

function report_loop :: "(nat \<Rightarrow> err option) \<Rightarrow> int \<Rightarrow> nat \<Rightarrow> unit res" where
  "report_loop done i k =
     (if i \<le> 100 then (case done k of Some e \<Rightarrow> Err e | None \<Rightarrow> report_loop done (i + 20) (Suc k))
      else Ok ())"
  by pat_completeness auto
termination by (relation "measure (\<lambda>(_, i, _). nat (101 - i))") auto

declare report_loop.simps [simp del]

definition report_handler :: "(duration \<Rightarrow> nat \<Rightarrow> err option) \<Rightarrow> 's JobHandler" where
  "report_handler done timeout j m = (report_loop (done timeout) 0 0, j, m)"

definition registerHandlers ::
  "rounding \<Rightarrow> (real \<Rightarrow> string) \<Rightarrow> (duration \<Rightarrow> nat \<Rightarrow> err option) \<Rightarrow> 's Pool \<Rightarrow> 's Pool" where
  "registerHandlers rnd showFloat done p =
     RegisterHandler ''report'' (report_handler done)
       (RegisterHandler ''email'' email_handler
         (RegisterHandler ''math'' (math_handler rnd showFloat)
           (RegisterHandler ''echo'' echo_handler p)))"

section \<open>The handlers keep the contract\<close>

interpretation echo: job_handler echo_handler "\<lambda>t j. Ok ()" "\<lambda>t. j_Result"
  by unfold_locales (simp add: echo_handler_def)

interpretation email: job_handler email_handler "\<lambda>t j. Ok ()" "\<lambda>t. j_Result"
  by unfold_locales (simp add: email_handler_def)

definition math_ends :: "rounding \<Rightarrow> duration \<Rightarrow> job \<Rightarrow> unit res" where
  "math_ends rnd t j =
     (case math_result rnd (j_Payload j) of Ok _ \<Rightarrow> Ok () | Err e \<Rightarrow> Err e | Panic p \<Rightarrow> Panic p)"

definition math_sets :: "rounding \<Rightarrow> (real \<Rightarrow> string) \<Rightarrow> duration \<Rightarrow> job \<Rightarrow> bytes" where
  "math_sets rnd showFloat t j =
     (case math_result rnd (j_Payload j) of
        Ok x \<Rightarrow> Some (''{\"result\":'' @ showFloat x @ ''}'') | _ \<Rightarrow> j_Result j)"

interpretation math: job_handler "math_handler rnd showFloat" "math_ends rnd" "math_sets rnd showFloat"
  for rnd showFloat
  by unfold_locales
    (simp add: math_handler_def math_ends_def math_sets_def split: outcome.splits)

interpretation report: job_handler "report_handler done" "\<lambda>t j. report_loop (done t) 0 0" "\<lambda>t. j_Result"
  for "done"
  by unfold_locales (simp add: report_handler_def)

text \<open>The pool with these handlers over the memory store.\<close>

interpretation echo_job: processing "memStorage iter" mem_view mem_inv echo_handler "\<lambda>t j. Ok ()" "\<lambda>t. j_Result"
  for iter
  by unfold_locales

interpretation email_job: processing "memStorage iter" mem_view mem_inv email_handler "\<lambda>t j. Ok ()" "\<lambda>t. j_Result"
  for iter
  by unfold_locales

interpretation math_job: processing "memStorage iter" mem_view mem_inv "math_handler rnd showFloat"
    "math_ends rnd" "math_sets rnd showFloat"
  for iter rnd showFloat
  by unfold_locales

interpretation report_job: processing "memStorage iter" mem_view mem_inv "report_handler done"
    "\<lambda>t j. report_loop (done t) 0 0" "\<lambda>t. j_Result"
  for iter "done"
  by unfold_locales

section \<open>The report loop looks at its context six times\<close>

text \<open>With \<open>n\<close> looks left, the first one that finds the context done decides.\<close>

lemma report_loop_find:
  "report_loop done (120 - 20 * int n) k =
     (case find (\<lambda>i. done i \<noteq> None) [k ..< k + n] of None \<Rightarrow> Ok () | Some i \<Rightarrow> Err (the (done i)))"
proof (induction n arbitrary: k)
  case 0
  show ?case by (subst report_loop.simps) simp
next
  case (Suc n)
  have step: "report_loop done (120 - 20 * int (Suc n)) k =
      (case done k of Some e \<Rightarrow> Err e | None \<Rightarrow> report_loop done (120 - 20 * int n) (Suc k))"
    by (subst report_loop.simps) (simp add: algebra_simps split: option.splits)
  have "[k ..< k + Suc n] = k # [Suc k ..< Suc k + n]" by (simp add: upt_rec)
  then show ?case unfolding step Suc.IH by (simp split: option.splits)
qed

lemma report_loop_looks:
  "report_loop done 0 0 =
     (case find (\<lambda>i. done i \<noteq> None) [0 ..< 6] of None \<Rightarrow> Ok () | Some i \<Rightarrow> Err (the (done i)))"
  using report_loop_find [of "done" 6 0] by simp

lemma report_loop_Ok: "report_loop done 0 0 = Ok () \<longleftrightarrow> (\<forall>k < 6. done k = None)"
  unfolding report_loop_looks by (auto simp: find_None_iff find_Some_iff split: option.splits)

end
