(* ===== verification/PoolProperties.thy ===== *)
theory PoolProperties
  imports Handlers ManagerProperties
begin

text \<open>
  What the worker pool promises, over the memory store: the delay before a retry, the
  outcome of a job for each way its handler ends, and the safety of the goroutines.
\<close>

section \<open>The delay of a retry\<close>

text \<open>
  C18: the delay before the \<open>n\<close>-th retry is the one its strategy means (the base delay, \<open>n\<close> times
  it, or \<open>2 ^ (n - 1)\<close> times it), cut off at the maximum, for configurations in which no
  intermediate product leaves the 64-bit range. It is then positive.
\<close>

theorem retry_delay_strategy:
  assumes "1 \<le> n" "n < 2 ^ 62" and "1 \<le> qc_RetryDelay c" "1 \<le> qc_MaxRetryDelay c"
    and "nominal_delay n c < 2 ^ 63" and "qc_MaxRetryDelay c * Second < 2 ^ 63"
  shows "calculateRetryDelay n c =
      min (if qc_RetryStrategy c = RetryStrategyLinear then qc_RetryDelay c * Second * n
           else if qc_RetryStrategy c = RetryStrategyExponential
           then qc_RetryDelay c * Second * 2 ^ nat (n - 1)
           else qc_RetryDelay c * Second)
        (qc_MaxRetryDelay c * Second) \<and>
    0 < calculateRetryDelay n c"
proof -
  have exact: "calculateRetryDelay n c = min (nominal_delay n c) (qc_MaxRetryDelay c * Second)"
    by (rule retry_delay_exact) (use assms in simp_all)
  have "0 < nominal_delay n c" using assms(1,3) by (simp add: nominal_delay_def Second_def)
  with exact assms(4) show ?thesis by (simp add: nominal_delay_def Second_def)
qed

theorem retry_delay_strategy_witness:
  "calculateRetryDelay 3 (sample_config ''mail'') = 240 * Second"
  using retry_delay_strategy [of 3 "sample_config ''mail''"]
  by (simp add: nominal_delay_def Second_def)

text \<open>
  With the defaults that \<open>RegisterQueue\<close> fills in (60 seconds, exponential), the product
  overflows at the 29th retry: the delay is negative, so the job is ready at once instead of
  after the maximum delay. From the 65th retry on the multiplier, and with it the delay, is zero.
\<close>

theorem retry_delay_overflow:
  "calculateRetryDelay 28 (queue_defaults zero_QueueConfig) = 3600 * Second \<and>
   calculateRetryDelay 29 (queue_defaults zero_QueueConfig) < 0 \<and>
   calculateRetryDelay 65 (queue_defaults zero_QueueConfig) = 0"
proof -
  have c: "qc_RetryStrategy (queue_defaults zero_QueueConfig) = RetryStrategyExponential"
    "qc_RetryDelay (queue_defaults zero_QueueConfig) = 60"
    "qc_MaxRetryDelay (queue_defaults zero_QueueConfig) = 3600"
    by (simp_all add: queue_defaults_def zero_QueueConfig_def Let_def)
  have w: "wrap64 x = (x + 2 ^ 63) mod 2 ^ 64 - 2 ^ 63" for x
    by (simp add: wrap64_def signed_take_bit_eq_take_bit_shift take_bit_eq_mod)
  show ?thesis
    by (simp add: calculateRetryDelay_def c Let_def Second_def shift_one_def w)
qed

section \<open>The outcome of a job\<close>

lemma mem_processing:
  "job_handler h ends result \<Longrightarrow> processing (memStorage iter) mem_view mem_inv h ends result"
  by (intro processing.intro mem.storage_axioms)

definition time_limit :: "job \<Rightarrow> duration" where
  "time_limit j = wrap64 (j_TimeoutSeconds j * Second)"

text \<open>
  C9: when the handler of a stored job returns without error, the job ends as SUCCESS with progress
  100 and both times set, and the queues are as they were. What the handler set as the job's
  result is not stored: the stored result stays what it was.
\<close>

theorem processJob_succeeds:
  assumes "job_handler h ends result" and "mem_inv (mg_storage m)"
    and "ms_jobs (mg_storage m) (j_ID j) = Some sj" and "hs (j_Type j) = Some h"
    and "failure (ends (time_limit j) j) = None"
  shows "\<exists>m' sj'. processJob (memStorage iter) wid hs clk j m = (Ok (), m') \<and>
    mem_view (mg_storage m') = (mem_view (mg_storage m))\<lparr>v_jobs := (ms_jobs (mg_storage m))(j_ID j \<mapsto> sj')\<rparr> \<and>
    j_Status sj' = StatusSuccess \<and> j_Progress sj' = 100 \<and> j_StartedAt sj' \<noteq> None \<and>
    j_CompletedAt sj' \<noteq> None \<and> j_Result sj' = j_Result sj"
  using processing.processJob_success [OF mem_processing [OF assms(1)], of m j sj hs iter wid clk] assms
  by (simp add: time_limit_def) blast

theorem processJob_succeeds_witness:
  "\<exists>m' sj'. processJob (memStorage sorted_list_of_set) ''w'' [''echo'' \<mapsto> echo_handler] (\<lambda>_. 9)
      (sample_job ''a'') one_job_waiting = (Ok (), m') \<and>
     ms_jobs (mg_storage m') ''a'' = Some sj' \<and> j_Status sj' = StatusSuccess"
proof -
  from processJob_succeeds [OF echo.job_handler_axioms, of one_job_waiting "sample_job ''a''" "sample_job ''a''"
      "[''echo'' \<mapsto> echo_handler]" sorted_list_of_set "''w''" "\<lambda>_. 9"]
  obtain m' sj' where x: "processJob (memStorage sorted_list_of_set) ''w'' [''echo'' \<mapsto> echo_handler] (\<lambda>_. 9)
      (sample_job ''a'') one_job_waiting = (Ok (), m')" "j_Status sj' = StatusSuccess"
    "mem_view (mg_storage m') = (mem_view (mg_storage one_job_waiting))\<lparr>v_jobs :=
       (ms_jobs (mg_storage one_job_waiting))(''a'' \<mapsto> sj')\<rparr>"
    by auto
  from arg_cong [OF x(3), of v_jobs] x(1,2) show ?thesis by auto
qed

text \<open>
  C8: when the handler fails (an error, or a panic, which is caught) and the job may be retried, the job
  is queued again, once, with its priority, ready after the delay of its next retry, and
  stored as the copy the worker holds with the counter raised. That copy was taken before
  processing began: the status RETRYING, the start time and the error message that had been
  stored meanwhile are lost.
\<close>

theorem processJob_retries:
  assumes "job_handler h ends result" and "mem_inv (mg_storage m)" and "cache_ok mem_view m"
    and "ms_jobs (mg_storage m) (j_ID j) = Some sj" and "hs (j_Type j) = Some h"
    and "failure (ends (time_limit j) j) = Some e" and "CanRetry j"
    and "ms_queueConfigs (mg_storage m) (j_Queue j) = Some c"
  shows "\<exists>m' j'. processJob (memStorage iter) wid hs clk j m = (Ok (), m') \<and>
    j' = j\<lparr>j_Result := result (time_limit j) j, j_CurrentRetry := wrap64 (j_CurrentRetry j + 1)\<rparr> \<and>
    mem_view (mg_storage m') = (mem_view (mg_storage m))
      \<lparr>v_jobs := (ms_jobs (mg_storage m))(j_ID j \<mapsto> j'),
       v_entries := (v_entries (mem_view (mg_storage m)))(j_Queue j :=
         add_mset (j_ID j, j_Priority j, clk 9 + calculateRetryDelay (wrap64 (j_CurrentRetry j + 1)) c)
           (v_entries (mem_view (mg_storage m)) (j_Queue j)))\<rparr>"
  using processing.processJob_retry [OF mem_processing [OF assms(1)], of m j sj hs e c iter wid clk] assms
  by (simp add: time_limit_def) blast

definition math_waiting :: "MemoryStore Manager" where
  "math_waiting = one_job_waiting\<lparr>mg_storage := (mg_storage one_job_waiting)
     \<lparr>ms_jobs := [''a'' \<mapsto> (sample_job ''a'')\<lparr>j_Type := ''math''\<rparr>],
      ms_queueConfigs := [''mail'' \<mapsto> sample_config ''mail'']\<rparr>\<rparr>"

lemma math_waiting_sel [simp]:
  "mem_inv (mg_storage math_waiting)" "mg_configs math_waiting = [''mail'' \<mapsto> sample_config ''mail'']"
  "ms_jobs (mg_storage math_waiting) = [''a'' \<mapsto> (sample_job ''a'')\<lparr>j_Type := ''math''\<rparr>]"
  "ms_queueConfigs (mg_storage math_waiting) = [''mail'' \<mapsto> sample_config ''mail'']"
  "cache_ok mem_view math_waiting"
  using one_job_waiting_sel(1)
  by (simp_all add: math_waiting_def mem_inv_def jobs_inv_def configs_inv_def cache_ok_def)

lemma math_ends_missing: "math_ends rnd t ((sample_job i)\<lparr>j_Type := x\<rparr>) = Err (Errorf ''missing or invalid operation'' None)"
  by (simp add: math_ends_def math_result_def sample_job_def)

theorem processJob_retries_witness:
  "\<exists>m' j'. processJob (memStorage sorted_list_of_set) ''w'' [''math'' \<mapsto> math_handler id (\<lambda>_. ''0'')] (\<lambda>_. 9)
      ((sample_job ''a'')\<lparr>j_Type := ''math''\<rparr>) math_waiting = (Ok (), m') \<and> j_CurrentRetry j' = 1 \<and>
     ms_jobs (mg_storage m') ''a'' = Some j' \<and> j_Status j' = StatusPending"
proof -
  let ?j = "(sample_job ''a'')\<lparr>j_Type := ''math''\<rparr>"
  from processJob_retries [OF math.job_handler_axioms [of id "\<lambda>_. ''0''"], of math_waiting ?j ?j
      "[''math'' \<mapsto> math_handler id (\<lambda>_. ''0'')]" _ "sample_config ''mail''" sorted_list_of_set "''w''" "\<lambda>_. 9"]
  obtain m' es where x: "processJob (memStorage sorted_list_of_set) ''w'' [''math'' \<mapsto> math_handler id (\<lambda>_. ''0'')] (\<lambda>_. 9)
      ?j math_waiting = (Ok (), m')"
    and v: "mem_view (mg_storage m') = (mem_view (mg_storage math_waiting))\<lparr>v_jobs := [''a'' \<mapsto>
      ?j\<lparr>j_Result := math_sets id (\<lambda>_. ''0'') (time_limit ?j) ?j, j_CurrentRetry := 1\<rparr>], v_entries := es\<rparr>"
    by (auto simp: math_ends_missing CanRetry_def IsTerminal_def int64_def)
  from arg_cong [OF v, of v_jobs] x show ?thesis by auto
qed

text \<open>
  C10: when the handler fails and the job may not be retried, the job ends as FAILED with the message
  of the error and its completion time stored. No queue gets an entry, not even a dead letter queue
  that is configured: putting the job there would create it a second time, which fails.
\<close>

theorem processJob_fails_for_good:
  assumes "job_handler h ends result" and "mem_inv (mg_storage m)"
    and "ms_jobs (mg_storage m) (j_ID j) = Some sj" and "hs (j_Type j) = Some h"
    and "failure (ends (time_limit j) j) = Some e" and "\<not> CanRetry j"
  shows "\<exists>m' sj' cf. processJob (memStorage iter) wid hs clk j m = (Ok (), m') \<and>
    mem_view (mg_storage m') = (mem_view (mg_storage m))
      \<lparr>v_configs := cf, v_jobs := (ms_jobs (mg_storage m))(j_ID j \<mapsto> sj')\<rparr> \<and>
    j_Status sj' = StatusFailed \<and> j_CompletedAt sj' \<noteq> None \<and> j_Error sj' = Error e"
  using processing.processJob_final [OF mem_processing [OF assms(1)], of m j sj hs e iter wid clk] assms
  by (simp add: time_limit_def) blast

theorem processJob_fails_for_good_witness:
  "\<exists>m' sj'. processJob (memStorage sorted_list_of_set) ''w'' [''math'' \<mapsto> math_handler id (\<lambda>_. ''0'')] (\<lambda>_. 9)
      ((sample_job ''a'')\<lparr>j_Type := ''math'', j_CurrentRetry := 3\<rparr>) math_waiting = (Ok (), m') \<and>
     ms_jobs (mg_storage m') ''a'' = Some sj' \<and> j_Status sj' = StatusFailed \<and>
     j_Error sj' = ''missing or invalid operation''"
proof -
  let ?j = "(sample_job ''a'')\<lparr>j_Type := ''math'', j_CurrentRetry := 3\<rparr>"
  have ends: "math_ends id t ?j = Err (Errorf ''missing or invalid operation'' None)" for t
    by (simp add: math_ends_def math_result_def sample_job_def)
  from processJob_fails_for_good [OF math.job_handler_axioms [of id "\<lambda>_. ''0''"], of math_waiting ?j
      "(sample_job ''a'')\<lparr>j_Type := ''math''\<rparr>"
      "[''math'' \<mapsto> math_handler id (\<lambda>_. ''0'')]" "Errorf ''missing or invalid operation'' None"
      sorted_list_of_set "''w''" "\<lambda>_. 9"]
  obtain m' sj' cf where x: "processJob (memStorage sorted_list_of_set) ''w'' [''math'' \<mapsto> math_handler id (\<lambda>_. ''0'')] (\<lambda>_. 9)
      ?j math_waiting = (Ok (), m')" "j_Status sj' = StatusFailed" "j_Error sj' = ''missing or invalid operation''"
    "mem_view (mg_storage m') = (mem_view (mg_storage math_waiting))\<lparr>v_configs := cf, v_jobs := [''a'' \<mapsto> sj']\<rparr>"
    by (auto simp: ends CanRetry_def)
  from arg_cong [OF x(4), of v_jobs] x(1-3) show ?thesis by auto
qed

section \<open>The goroutines\<close>

text \<open>
  C27: in every interleaving the job channel stays within its capacity; a fetcher that holds a job
  finds room for it, so its send does not block; and the channel is closed exactly when the
  fetcher has returned, so nothing is sent on a closed channel and it is not closed twice.
\<close>

theorem pool_channel_safe:
  assumes "NewPool host cpus clk qm config = (Ok p, config')" and "pool_reachable St (spawn p) s"
  shows "int (length (pl_jobCh (rn_pool s))) \<le> pl_concurrency (rn_pool s) \<and>
    (\<forall>j. rn_fetcher s = FSending j \<longrightarrow> int (length (pl_jobCh (rn_pool s))) < pl_concurrency (rn_pool s) \<and>
       \<not> pl_jobChClosed (rn_pool s)) \<and>
    (pl_jobChClosed (rn_pool s) \<longleftrightarrow> rn_fetcher s = FExited)"
proof -
  have "channel_inv (spawn p)"
    using assms(1) by (intro channel_inv_spawn) (auto simp: NewPool_def Let_def split: if_splits)
  from channel_inv_reachable [OF assms(2) this] show ?thesis by (auto simp: channel_inv_def)
qed

definition sample_pool :: "MemoryStore Manager \<Rightarrow> MemoryStore Pool" where
  "sample_pool m = (case fst (NewPool ''host'' 4 (\<lambda>_. 0) m
     \<lparr>cf_ID = ''w'', cf_Queues = [''mail''], cf_Concurrency = 2, cf_PollInterval = 0, cf_HeartbeatInterval = 0,
      cf_ShutdownTimeout = 0, cf_Tags = Map.empty\<rparr>) of Ok p \<Rightarrow> p)"

lemma sample_pool_sel [simp]:
  "pl_queueManager (sample_pool m) = m" "pl_handlers (sample_pool m) = Map.empty"
  "pl_queues (sample_pool m) = [''mail'']" "pl_concurrency (sample_pool m) = 2"
  "pl_jobCh (sample_pool m) = []" "\<not> pl_stopCh (sample_pool m)" "\<not> pl_ctxDone (sample_pool m)"
  "\<not> pl_jobChClosed (sample_pool m)"
  by (simp_all add: sample_pool_def NewPool_def pool_defaults_def Let_def)

lemma sample_pool_new:
  "\<exists>c'. NewPool ''host'' 4 (\<lambda>_. 0) m \<lparr>cf_ID = ''w'', cf_Queues = [''mail''], cf_Concurrency = 2,
     cf_PollInterval = 0, cf_HeartbeatInterval = 0, cf_ShutdownTimeout = 0, cf_Tags = Map.empty\<rparr> =
     (Ok (sample_pool m), c')"
  by (simp add: sample_pool_def NewPool_def pool_defaults_def Let_def)

theorem pool_channel_safe_witness:
  "pl_jobChClosed (rn_pool (spawn (sample_pool one_job_waiting))) \<longleftrightarrow>
     rn_fetcher (spawn (sample_pool one_job_waiting)) = FExited"
proof -
  obtain c' where "NewPool ''host'' 4 (\<lambda>_. 0) one_job_waiting \<lparr>cf_ID = ''w'', cf_Queues = [''mail''], cf_Concurrency = 2,
     cf_PollInterval = 0, cf_HeartbeatInterval = 0, cf_ShutdownTimeout = 0, cf_Tags = Map.empty\<rparr> =
     (Ok (sample_pool one_job_waiting), c')" using sample_pool_new by blast
  from pool_channel_safe [OF this pool_reachable.refl] show ?thesis by blast
qed


lemma one_job_fetched:
  "\<exists>m'. mgr_Dequeue (memStorage iter) (\<lambda>_. 9) intn [''mail''] one_job_waiting = (Ok (sample_job ''a''), m') \<and>
     ms_jobs (mg_storage m') = [''a'' \<mapsto> sample_job ''a''] \<and> ms_queues (mg_storage m') = (\<lambda>_. [])"
proof -
  obtain j m' where run: "mgr_Dequeue (memStorage iter) (\<lambda>_. 9) intn [''mail''] one_job_waiting = (Ok j, m')"
    using one_job_waiting_dequeue by blast
  have "mem_inv (mg_storage one_job_waiting)" "mono (\<lambda>_ :: nat. 9 :: int)" by (simp_all add: mono_def)
  from this run show ?thesis
  proof (cases rule: mem.Dequeue_cases)
    case (taken jid)
    then obtain i where "spec_Dequeue ((\<lambda>_. 9) (i :: nat)) ''mail'' (mem_view (mg_storage one_job_waiting))
        (Ok jid, mem_view (mg_storage m'))" by (auto simp: took_def)
    from spec_Dequeue_OkD [OF this] obtain p t where
      e: "(jid, p, t) \<in># v_entries (mem_view (mg_storage one_job_waiting)) ''mail''"
      "mem_view (mg_storage m') = (mem_view (mg_storage one_job_waiting))\<lparr>v_entries :=
         (v_entries (mem_view (mg_storage one_job_waiting)))
         (''mail'' := v_entries (mem_view (mg_storage one_job_waiting)) ''mail'' - {#(jid, p, t)#})\<rparr>"
      by blast
    from e(1) have jid: "(jid, p, t) = (''a'', 5, 0)" by (simp add: entry_of_def)
    have "mset (map entry_of (ms_queues (mg_storage m') q)) = {#}" for q
      using fun_cong [OF arg_cong [OF e(2), of v_entries], of q] jid by (auto simp: entry_of_def)
    then have "ms_queues (mg_storage m') = (\<lambda>_. [])" by (auto simp: fun_eq_iff)
    moreover have "ms_jobs (mg_storage m') = [''a'' \<mapsto> sample_job ''a'']"
      using arg_cong [OF e(2), of v_jobs] by simp
    moreover have "j = sample_job ''a''" using taken(4) jid by simp
    ultimately show ?thesis using run by simp
  qed simp_all
qed

text \<open>A run of the sample pool: fetch the job, send it, stop, and let everybody return.\<close>

lemma sample_fetch_send:
  "\<exists>s m'. pool_reachable (memStorage iter) (spawn (sample_pool one_job_waiting)) s \<and>
     rn_manager s = m' \<and> ms_jobs (mg_storage m') = [''a'' \<mapsto> sample_job ''a''] \<and>
     ms_queues (mg_storage m') = (\<lambda>_. []) \<and> pl_jobCh (rn_pool s) = [sample_job ''a''] \<and>
     rn_fetcher s = FIdle \<and> rn_workers s = [WIdle, WIdle] \<and> \<not> pl_stopCh (rn_pool s)"
proof -
  let ?p = "sample_pool one_job_waiting" and ?St = "memStorage iter"
  let ?s0 = "spawn ?p"
  have ws: "rn_workers ?s0 = [WIdle, WIdle]" by (simp add: spawn_def numeral_2_eq_2)
  obtain m' where m': "mgr_Dequeue ?St (\<lambda>_. 9) (\<lambda>_. 0) [''mail''] one_job_waiting = (Ok (sample_job ''a''), m')"
    "ms_jobs (mg_storage m') = [''a'' \<mapsto> sample_job ''a'']" "ms_queues (mg_storage m') = (\<lambda>_. [])"
    using one_job_fetched by blast
  let ?s1 = "(set_manager m' ?s0)\<lparr>rn_fetcher := FSending (sample_job ''a'')\<rparr>"
  have s1: "pool_step ?St ?s0 ?s1"
    by (rule pool_step.fetch [where clk = "\<lambda>_. 9" and intn = "\<lambda>_. 0"]) (simp_all add: spawn_def m' mono_def)
  let ?s2 = "(set_jobCh (pl_jobCh (rn_pool ?s1) @ [sample_job ''a'']) ?s1)\<lparr>rn_fetcher := FIdle\<rparr>"
  have s2: "pool_step ?St ?s1 ?s2" by (rule pool_step.send) (simp_all add: spawn_def)
  have "pool_reachable ?St ?s0 ?s2"
    by (rule pool_reachable.step [OF pool_reachable.step [OF pool_reachable.refl s1] s2])
  then show ?thesis using m' ws by (intro exI [of _ ?s2] exI [of _ m']) (simp add: spawn_def)
qed



text \<open>
  A graceful stop can lose jobs. From a store with one pending job in the queue, a pool can fetch it
  into its channel and be stopped, after which every goroutine has returned (so \<open>Stop\<close>
  reports a graceful shutdown) while the job is neither queued nor processed: it stays PENDING in the
  store and nothing will ever fetch it again.
\<close>

theorem stop_can_lose_job:
  "\<exists>s. pool_reachable (memStorage iter) (spawn (sample_pool one_job_waiting)) s \<and>
     rn_fetcher s = FExited \<and> set (rn_workers s) = {WExited} \<and>
     ms_jobs (mg_storage (rn_manager s)) ''a'' = Some (sample_job ''a'') \<and>
     (\<forall>q. ms_queues (mg_storage (rn_manager s)) q = [])"
proof -
  let ?St = "memStorage iter"
  obtain s where s: "pool_reachable ?St (spawn (sample_pool one_job_waiting)) s"
    "ms_jobs (mg_storage (rn_manager s)) = [''a'' \<mapsto> sample_job ''a'']"
    "ms_queues (mg_storage (rn_manager s)) = (\<lambda>_. [])"
    "rn_fetcher s = FIdle" "rn_workers s = [WIdle, WIdle]" "\<not> pl_stopCh (rn_pool s)"
    using sample_fetch_send by blast
  let ?s1 = "s\<lparr>rn_pool := (rn_pool s)\<lparr>pl_stopCh := True\<rparr>\<rparr>"
  let ?s2 = "?s1\<lparr>rn_fetcher := FExited, rn_pool := (rn_pool ?s1)\<lparr>pl_jobChClosed := True\<rparr>\<rparr>"
  let ?s3 = "?s2\<lparr>rn_workers := (rn_workers ?s2)[0 := WExited]\<rparr>"
  let ?s4 = "?s3\<lparr>rn_workers := (rn_workers ?s3)[1 := WExited]\<rparr>"
  have "pool_step ?St s ?s1" by (rule pool_step.stop [OF s(6)])
  moreover have "pool_step ?St ?s1 ?s2" by (rule pool_step.fetcher_exit) (simp_all add: s)
  moreover have "pool_step ?St ?s2 ?s3" by (rule pool_step.worker_exit) (simp_all add: s)
  moreover have "pool_step ?St ?s3 ?s4" by (rule pool_step.worker_exit) (simp_all add: s)
  ultimately have "pool_reachable ?St (spawn (sample_pool one_job_waiting)) ?s4"
    using s(1) pool_reachable.step by meson
  then show ?thesis by (rule exI [of _ ?s4, OF conjI]) (simp add: s)
qed

section \<open>The registered handlers\<close>

text \<open>
  A math job whose payload has a known operation and two numbers succeeds, except for a
  division by zero; the number computed is the rounded exact result. Any other payload does not
  succeed.
\<close>

theorem math_result_correct:
  "math_result rnd payload = Ok x \<longleftrightarrow>
     (\<exists>a b. payload ''a'' = Some (JNum a) \<and> payload ''b'' = Some (JNum b) \<and>
        (payload ''operation'' = Some (JStr ''add'') \<and> x = rnd (a + b) \<or>
         payload ''operation'' = Some (JStr ''subtract'') \<and> x = rnd (a - b) \<or>
         payload ''operation'' = Some (JStr ''multiply'') \<and> x = rnd (a * b) \<or>
         payload ''operation'' = Some (JStr ''divide'') \<and> b \<noteq> 0 \<and> x = rnd (a / b)))"
proof -
  have str: "as_string v = Some s \<longleftrightarrow> v = Some (JStr s)" for v s
    by (cases "(v)" rule: as_string.cases) auto
  have num: "as_float64 v = Some a \<longleftrightarrow> v = Some (JNum a)" for v a
    by (cases "(v)" rule: as_float64.cases) auto
  show ?thesis
    by (auto simp: math_result_def math_op_def str num split: option.splits if_splits)
qed

text \<open>
  The report handler looks at its context six times. It succeeds exactly when the context is not
  done at any of them; otherwise it returns the error of the context at the first look that
  finds it done. It always ends.
\<close>

theorem report_handler_outcome:
  "report_handler done timeout j m =
     (case find (\<lambda>k. done timeout k \<noteq> None) [0 ..< 6] of
        None \<Rightarrow> Ok ()
      | Some k \<Rightarrow> Err (the (done timeout k)), j, m)"
  by (simp add: report_handler_def report_loop_looks)

end
