(* ===== verification/Calendar.thy ===== *)
theory Calendar
  imports Prelude
begin

text \<open>
  The calendar of Go's \<open>time\<close> package, as far as the cron scheduler uses it: the proleptic
  Gregorian calendar, with days counted from 1 January of year 1. \<open>days_of\<close> is the day number of
  \<open>time.Date(y, m, d)\<close>, which accepts months and days out of their range and carries them over;
  \<open>date_of\<close> gives year, month and day of a day number.
\<close>

section \<open>From a date to a day number\<close>

definition leap_days :: "int \<Rightarrow> int" where
  "leap_days y = y div 4 - y div 100 + y div 400"

text \<open>Days before 1 January of the year after \<open>y\<close> years.\<close>

definition year_start :: "int \<Rightarrow> int" where
  "year_start y = 365 * (y - 1) + leap_days (y - 1)"

definition leap_year :: "int \<Rightarrow> bool" where
  "leap_year y \<longleftrightarrow> y mod 4 = 0 \<and> (y mod 100 \<noteq> 0 \<or> y mod 400 = 0)"

definition month_start :: "bool \<Rightarrow> int \<Rightarrow> int" where
  "month_start leap m =
     (if m \<le> 2 then (m - 1) * 31
      else (153 * (m - 3) + 2) div 5 + 59 + (if leap then 1 else 0))"

definition days_of :: "int \<Rightarrow> int \<Rightarrow> int \<Rightarrow> int" where
  "days_of y m d =
     (let y = y + (m - 1) div 12; m = (m - 1) mod 12 + 1
      in year_start y + month_start (leap_year y) m + (d - 1))"

section \<open>From a day number to a date\<close>

text \<open>An estimate of the year from the mean length of a year is off by one at most.\<close>

definition year_of :: "int \<Rightarrow> int" where
  "year_of n =
     (let y = (400 * n) div 146097 + 1
      in if year_start (y + 1) \<le> n then y + 1
         else if n < year_start y then y - 1 else y)"

definition month_of :: "bool \<Rightarrow> int \<Rightarrow> int" where
  "month_of leap k = (let f = 59 + (if leap then 1 else 0) in
     if k < f then k div 31 + 1 else (5 * (k - f) + 2) div 153 + 3)"

definition date_of :: "int \<Rightarrow> int \<times> int \<times> int" where
  "date_of n =
     (let y = year_of n; k = n - year_start y; m = month_of (leap_year y) k
      in (y, m, k - month_start (leap_year y) m + 1))"

section \<open>The two agree\<close>

lemma div_pred:
  assumes "0 < (d :: int)"
  shows "y div d = (y - 1) div d + (if y mod d = 0 then 1 else 0)"
proof (cases "y mod d = 0")
  case True
  have "y - 1 = d * (y div d - 1) + (d - 1)"
    using True div_mult_mod_eq [of y d] by (simp add: algebra_simps)
  from int_div_pos_eq [OF this] assms True show ?thesis by simp
next
  case False
  then have r: "0 \<le> y mod d - 1" using pos_mod_sign [OF assms, of y] by linarith
  have "y - 1 = d * (y div d) + (y mod d - 1)" by (simp add: algebra_simps)
  from int_div_pos_eq [OF this r] pos_mod_bound [OF assms, of y] False show ?thesis by simp
qed

lemma leap_step:
  "\<lbrakk>R \<longrightarrow> Q; Q \<longrightarrow> P\<rbrakk>
   \<Longrightarrow> (a + (if P then 1 else 0)) - (b + (if Q then 1 else 0)) + (c + (if R then 1 else 0))
     = a - b + c + (if P \<and> (\<not> Q \<or> R) then 1 else (0 :: int))"
  by (cases P; cases Q; cases R; simp)

lemma leap_days_Suc: "leap_days y = leap_days (y - 1) + (if leap_year y then 1 else 0)"
proof -
  have "y mod 400 = 0 \<Longrightarrow> y mod 100 = 0" "y mod 100 = 0 \<Longrightarrow> y mod 4 = 0"
    using mod_mod_cancel [of 100 400 y] mod_mod_cancel [of 4 100 y] by simp_all
  then have m: "y mod 400 = 0 \<longrightarrow> y mod 100 = 0" "y mod 100 = 0 \<longrightarrow> y mod 4 = 0" by blast+
  have d: "y div 4 = (y - 1) div 4 + (if y mod 4 = 0 then 1 else 0)"
    "y div 100 = (y - 1) div 100 + (if y mod 100 = 0 then 1 else 0)"
    "y div 400 = (y - 1) div 400 + (if y mod 400 = 0 then 1 else 0)"
    by (rule div_pred, simp)+
  show ?thesis unfolding leap_days_def leap_year_def d by (rule leap_step [OF m])
qed

lemma year_start_Suc: "year_start (y + 1) = year_start y + 365 + (if leap_year y then 1 else 0)"
  using leap_days_Suc [of y] by (simp add: year_start_def)

lemma leap_days_bounds: "97 * y - 699 \<le> 400 * leap_days y" "400 * leap_days y \<le> 97 * y + 396"
proof -
  have "100 * (4 * (y div 4)) - 4 * (100 * (y div 100)) + 400 * (y div 400) = 400 * leap_days y"
    by (simp add: leap_days_def)
  moreover have "4 * (y div 4) \<le> y" "y \<le> 4 * (y div 4) + 3" "100 * (y div 100) \<le> y"
    "y \<le> 100 * (y div 100) + 99" "400 * (y div 400) \<le> y" "y \<le> 400 * (y div 400) + 399"
    by linarith+
  ultimately show "97 * y - 699 \<le> 400 * leap_days y" "400 * leap_days y \<le> 97 * y + 396"
    by linarith+
qed

lemma year_of_bounds: "year_start (year_of n) \<le> n" "n < year_start (year_of n + 1)"
proof -
  define y where "y = (400 * n) div 146097 + 1"
  have "y - 1 = (400 * n) div 146097" by (simp add: y_def)
  then have "146097 * (y - 1) \<le> 400 * n" "400 * n < 146097 * (y - 1) + 146097"
    using mult_div_mod_eq [of 146097 "400 * n"] pos_mod_sign [of 146097 "400 * n"]
      pos_mod_bound [of 146097 "400 * n"] by - (simp, linarith?)+
  then have "146097 * y \<le> 400 * n + 146097" "400 * n < 146097 * y" by simp_all
  moreover have "400 * year_start (y - 1) + 292000 = 146000 * y + 400 * leap_days (y - 2)"
    "400 * year_start (y + 2) = 146000 * y + 146000 + 400 * leap_days (y + 1)"
    by (simp_all add: year_start_def add.commute)
  moreover have "400 * leap_days (y - 2) \<le> 97 * y + 202" "97 * y - 602 \<le> 400 * leap_days (y + 1)"
    using leap_days_bounds(2) [of "y - 2"] leap_days_bounds(1) [of "y + 1"] by simp_all
  ultimately have "year_start (y - 1) \<le> n" "n < year_start (y + 2)" by - linarith+
  then show "year_start (year_of n) \<le> n" "n < year_start (year_of n + 1)"
    unfolding year_of_def y_def [symmetric] Let_def by (auto simp: add.commute)
qed

lemma month_of_bounds:
  assumes "0 \<le> k" "k < 365 + (if leap then 1 else 0)"
  shows "1 \<le> month_of leap k" "month_of leap k \<le> 12" "month_start leap (month_of leap k) \<le> k"
    "k < month_start leap (month_of leap k + 1)"
proof -
  define f where "f = 59 + (if leap then 1 else (0 :: int))"
  have f: "f = 59 \<or> f = 60" "k < f + 306" using assms(2) by (auto simp: f_def split: if_splits)
  have ms: "month_start leap m = (if m \<le> 2 then (m - 1) * 31 else (153 * (m - 3) + 2) div 5 + f)" for m
    by (simp add: month_start_def f_def)
  have mo: "month_of leap k = (if k < f then k div 31 + 1 else (5 * (k - f) + 2) div 153 + 3)"
    by (simp add: month_of_def f_def Let_def)
  have "1 \<le> month_of leap k \<and> month_of leap k \<le> 12 \<and>
        month_start leap (month_of leap k) \<le> k \<and> k < month_start leap (month_of leap k + 1)"
  proof (cases "k < f")
    case True
    have q: "31 * (k div 31) \<le> k" "k < 31 * (k div 31) + 31" by linarith+
    with True f(1) assms(1) have "k div 31 = 0 \<or> k div 31 = 1" by linarith
    with True q f(1) show ?thesis
      unfolding ms mo by auto
  next
    case False
    define p where "p = (5 * (k - f) + 2) div 153"
    have p: "153 * p \<le> 5 * (k - f) + 2" "5 * (k - f) + 2 < 153 * p + 153" unfolding p_def by linarith+
    define r where "r = k - f"
    have r: "0 \<le> r" "r \<le> 305" using False f(2) by (simp_all add: r_def)
    have "- 1 < p" "p < 10" using r p [folded r_def] by - linarith+
    then have p09: "0 \<le> p" "p \<le> 9" by simp_all
    have "(153 * p + 2) div 5 \<le> r" using p(1) [folded r_def] by linarith
    moreover have "r < (153 * p + 155) div 5" using p(2) [folded r_def] by linarith
    ultimately have "(153 * p + 2) div 5 \<le> k - f" "k - f < (153 * (p + 1) + 2) div 5"
      by (simp_all add: r_def)
    then show ?thesis
      using False p09 unfolding ms mo p_def [symmetric] by (simp add: algebra_simps)
  qed
  then show "1 \<le> month_of leap k" "month_of leap k \<le> 12" "month_start leap (month_of leap k) \<le> k"
    "k < month_start leap (month_of leap k + 1)" by simp_all
qed

lemma days_of_in_range:
  "1 \<le> m \<Longrightarrow> m \<le> 12 \<Longrightarrow> days_of y m d = year_start y + month_start (leap_year y) m + (d - 1)"
  by (simp add: days_of_def Let_def)

text \<open>Every day number is the day number of its date, and the date is a proper one.\<close>

lemma date_of_valid:
  assumes "date_of n = (y, m, d)"
  shows "1 \<le> m" "m \<le> 12" "1 \<le> d" "d \<le> 31" "days_of y m d = n"
proof -
  let ?k = "n - year_start y"
  have y: "y = year_of n" and m: "m = month_of (leap_year y) ?k"
    and d: "d = ?k - month_start (leap_year y) m + 1"
    using assms by (auto simp: date_of_def Let_def)
  have k: "0 \<le> ?k" "?k < 365 + (if leap_year y then 1 else 0)"
    using year_of_bounds [of n] year_start_Suc [of y] by (simp_all add: y)
  note b = month_of_bounds [OF k, folded m]
  show "1 \<le> m" "m \<le> 12" using b(1,2) .
  show "1 \<le> d" using b(3) d by simp
  show "days_of y m d = n" unfolding days_of_in_range [OF b(1,2)] d by simp
  have "month_start (leap_year y) (m + 1) \<le> month_start (leap_year y) m + 31"
    using b(1,2) unfolding month_start_def by (cases "m \<le> 1"; cases "m = 2"; simp; presburger)
  with b(4) d show "d \<le> 31" by linarith
qed

section \<open>Every proper date is the date of its day number\<close>

lemma year_start_mono: "y \<le> y' \<Longrightarrow> year_start y \<le> year_start y'"
proof (cases "y = y'")
  case False
  assume "y \<le> y'"
  with False have "y + 1 \<le> y'" by simp
  moreover have "400 * year_start y + 146000 = 146000 * y + 400 * leap_days (y - 1)"
    "400 * year_start y' + 146000 = 146000 * y' + 400 * leap_days (y' - 1)"
    by (simp_all add: year_start_def)
  moreover have "400 * leap_days (y - 1) \<le> 97 * y + 299" "97 * y' - 796 \<le> 400 * leap_days (y' - 1)"
    using leap_days_bounds(2) [of "y - 1"] leap_days_bounds(1) [of "y' - 1"] by simp_all
  ultimately show ?thesis by linarith
qed simp

lemma year_of_unique:
  assumes "year_start y \<le> n" "n < year_start (y + 1)"
  shows "year_of n = y"
proof -
  have "\<not> year_of n + 1 \<le> y" "\<not> y + 1 \<le> year_of n"
    using year_start_mono year_of_bounds [of n] assms by (meson leD order_trans)+
  then show ?thesis by linarith
qed

lemma month_start_mono: "m \<le> m' \<Longrightarrow> month_start leap m \<le> month_start leap m'"
proof -
  assume "m \<le> m'"
  then have "(153 * (m - 3) + 2) div 5 \<le> (153 * (m' - 3) + 2) div 5" by (intro zdiv_mono1) simp_all
  moreover have "2 < m' \<Longrightarrow> 0 \<le> (153 * (m' - 3) + 2) div 5" by simp
  ultimately show ?thesis using \<open>m \<le> m'\<close> unfolding month_start_def by auto
qed

lemma month_start_step:
  assumes "1 \<le> m" "m \<le> 12"
  shows "month_start leap m + 28 \<le> month_start leap (m + 1)"
    "month_start leap (m + 1) \<le> month_start leap m + 31"
proof -
  have "a div 5 + 30 \<le> (a + 153) div 5" "(a + 153) div 5 \<le> a div 5 + 31" for a :: int
    by linarith+
  from this [of "153 * (m - 3) + 2"]
  have "(153 * (m - 3) + 2) div 5 + 30 \<le> (153 * (m - 2) + 2) div 5"
    "(153 * (m - 2) + 2) div 5 \<le> (153 * (m - 3) + 2) div 5 + 31"
    by (simp_all add: right_diff_distrib)
  moreover have "m = 1 \<or> m = 2 \<or> 3 \<le> m" using assms(1) by linarith
  ultimately show "month_start leap m + 28 \<le> month_start leap (m + 1)"
    "month_start leap (m + 1) \<le> month_start leap m + 31"
    unfolding month_start_def by auto
qed

lemma month_of_unique:
  assumes "1 \<le> m" "m \<le> 12" "month_start leap m \<le> k" "k < month_start leap (m + 1)"
  shows "month_of leap k = m"
proof -
  have "month_start leap 1 \<le> month_start leap m" "month_start leap (m + 1) \<le> month_start leap 13"
    using assms(1,2) by (simp_all add: month_start_mono)
  then have "0 \<le> k" "k < 365 + (if leap then 1 else 0)"
    using assms(3,4) by (simp_all add: month_start_def)
  note b = month_of_bounds [OF this]
  have "\<not> month_of leap k + 1 \<le> m" "\<not> m + 1 \<le> month_of leap k"
    using month_start_mono b(3,4) assms(3,4) by (meson leD order_trans)+
  then show ?thesis by linarith
qed

definition month_length :: "int \<Rightarrow> int \<Rightarrow> int" where
  "month_length y m = days_of y (m + 1) 1 - days_of y m 1"

lemma days_of_next_month:
  assumes "1 \<le> m" "m \<le> 12"
  shows "days_of y (m + 1) d = year_start y + month_start (leap_year y) (m + 1) + (d - 1)"
proof (cases "m = 12")
  case True
  then show ?thesis using year_start_Suc [of y]
    by (simp add: days_of_def Let_def month_start_def add.commute)
next
  case False
  with assms show ?thesis by (intro days_of_in_range) simp_all
qed

lemma month_length_bounds:
  assumes "1 \<le> m" "m \<le> 12"
  shows "28 \<le> month_length y m" "month_length y m \<le> 31"
  using month_start_step [OF assms, of "leap_year y"]
  by (simp_all add: month_length_def days_of_in_range [OF assms] days_of_next_month [OF assms])

lemma days_of_day: "days_of y m (d + k) = days_of y m d + k"
  by (simp add: days_of_def Let_def)

lemma days_of_carry: "days_of y m d = days_of y (m + 1) (d - month_length y m)"
proof -
  have "days_of y m d = days_of y m 1 + (d - 1)" using days_of_day [of y m 1 "d - 1"] by simp
  moreover have "days_of y (m + 1) (d - month_length y m) =
      days_of y (m + 1) 1 + (d - month_length y m - 1)"
    using days_of_day [of y "m + 1" 1 "d - month_length y m - 1"] by simp
  ultimately show ?thesis by (simp add: month_length_def)
qed

lemma days_of_year: "days_of y (m + 12) d = days_of (y + 1) m d"
proof -
  have "(a + 12) div 12 = a div 12 + 1" "(a + 12) mod 12 = a mod 12" for a :: int
    by simp_all
  moreover have "m + 12 - 1 = m - 1 + 12" by simp
  moreover have "y + 1 + (m - 1) div 12 = y + ((m - 1) div 12 + 1)" by simp
  ultimately show ?thesis by (simp only: days_of_def Let_def)
qed

lemma date_of_days_of:
  assumes "1 \<le> m" "m \<le> 12" "1 \<le> d" "d \<le> month_length y m"
  shows "date_of (days_of y m d) = (y, m, d)"
proof -
  let ?l = "leap_year y" let ?k = "month_start ?l m + (d - 1)"
  have n: "days_of y m d = year_start y + ?k" using days_of_in_range [OF assms(1,2)] by simp
  have k: "month_start ?l m \<le> ?k" "?k < month_start ?l (m + 1)"
    using assms(3,4) unfolding month_length_def days_of_in_range [OF assms(1,2)]
      days_of_next_month [OF assms(1,2)] by simp_all
  have "month_start ?l 1 \<le> month_start ?l m" "month_start ?l (m + 1) \<le> month_start ?l 13"
    using assms(1,2) by (simp_all add: month_start_mono)
  then have "0 \<le> ?k" "?k < 365 + (if ?l then 1 else 0)" using k by (simp_all add: month_start_def)
  then have "year_of (days_of y m d) = y"
    using year_start_Suc [of y] unfolding n by (intro year_of_unique) simp_all
  moreover have "month_of ?l ?k = m" by (rule month_of_unique [OF assms(1,2) k])
  ultimately show ?thesis by (simp add: date_of_def Let_def n)
qed

text \<open>Dates of the months around the turn of a year, whatever month number they are given by.\<close>

lemma date_of_any_month:
  assumes "1 \<le> m" "m \<le> 24" "1 \<le> d" "d \<le> month_length y m"
  shows "date_of (days_of y m d) = (if m \<le> 12 then (y, m, d) else (y + 1, m - 12, d))"
proof (cases "m \<le> 12")
  case False
  have "month_length y m = month_length (y + 1) (m - 12)"
    using days_of_year [of y "m - 12"] days_of_year [of y "m - 11"]
    by (simp add: month_length_def add.commute)
  with assms False date_of_days_of [of "m - 12" d "y + 1"] days_of_year [of y "m - 12" d]
  show ?thesis by simp
qed (use assms date_of_days_of in simp)

lemma date_of_day_bound:
  assumes "date_of n = (y, m, d)"
  shows "d \<le> month_length y m"
proof -
  have k: "0 \<le> n - year_start y" "n - year_start y < 365 + (if leap_year y then 1 else 0)"
    "m = month_of (leap_year y) (n - year_start y)"
    using assms year_of_bounds [of n] year_start_Suc [of "year_of n"]
    by (auto simp: date_of_def Let_def)
  note v = date_of_valid [OF assms]
  have "n < days_of y (m + 1) 1"
    using month_of_bounds(4) [OF k(1,2), folded k(3)] days_of_next_month [OF v(1,2), of y 1] by simp
  then show ?thesis using v(5) days_of_day [of y m 1 "d - 1"] by (simp add: month_length_def)
qed

end
