(* ===== verification/Scheduler.thy ===== *)
theory Scheduler
  imports Calendar Manager
begin

text \<open>
  The cron scheduler, \<^verbatim>\<open>internal/scheduler/scheduler.go\<close>, over a queue manager on any
  backend. Record fields carry the struct field's name after \<open>sc_\<close> (\<open>Schedule\<close>) and \<open>sd_\<close>
  (\<open>Scheduler\<close>). The map of schedules holds the schedules themselves; a method that changes the
  schedule behind its pointer argument also returns it. \<open>uuid.New().String()\<close> is a parameter.

  Instants count from the zero time, 1 January of year 1, UTC. The location of a time is a fixed
  offset \<open>loc\<close> from UTC.
\<close>

section \<open>Cron expressions\<close>

definition Day :: duration where "Day = 24 * Hour"

text \<open>\<open>t.Truncate(d)\<close>: down to a multiple of \<open>d\<close> since the zero time.\<close>

definition time_Truncate :: "time \<Rightarrow> duration \<Rightarrow> time" where
  "time_Truncate t d = (if d \<le> 0 then t else t - t mod d)"

text \<open>The date of an instant in a location, \<open>t.AddDate(years, months, days)\<close>, and midnight of a date.\<close>

definition time_Date :: "duration \<Rightarrow> time \<Rightarrow> int \<times> int \<times> int" where
  "time_Date loc t = date_of ((t + loc) div Day)"

definition time_AddDate :: "duration \<Rightarrow> time \<Rightarrow> int \<Rightarrow> int \<Rightarrow> int \<Rightarrow> time" where
  "time_AddDate loc t years months days =
     (case time_Date loc t of (y, m, d) \<Rightarrow>
        days_of (y + years) (m + months) (d + days) * Day + (t + loc) mod Day - loc)"

definition midnight :: "duration \<Rightarrow> int \<Rightarrow> int \<Rightarrow> int \<Rightarrow> time" where
  "midnight loc y m d = days_of y m d * Day - loc"

definition parseNextCronTime :: "duration \<Rightarrow> string \<Rightarrow> time \<Rightarrow> time res" where
  "parseNextCronTime loc cronExpr from =
     (if cronExpr = ''@minutely'' then Ok (time_Truncate (from + 1 * Minute) Minute)
      else if cronExpr = ''@hourly'' then Ok (time_Truncate (from + 1 * Hour) Hour)
      else if cronExpr = ''@daily'' then
        (case time_Date loc (time_AddDate loc from 0 0 1) of (y, m, d) \<Rightarrow> Ok (midnight loc y m d))
      else if cronExpr = ''@weekly'' then
        (case time_Date loc (time_AddDate loc from 0 0 7) of (y, m, d) \<Rightarrow> Ok (midnight loc y m d))
      else if cronExpr = ''@monthly'' then
        (case time_Date loc (time_AddDate loc from 0 1 0) of (y, m, d) \<Rightarrow> Ok (midnight loc y m 1))
      else Err (Errorf (''unsupported cron expression: '' @ cronExpr) None))"

section \<open>State\<close>

record Schedule =
  sc_ID :: string
  sc_Name :: string
  sc_JobType :: string
  sc_Queue :: string
  sc_Payload :: jmap
  sc_CronExpr :: string
  sc_Interval :: duration
  sc_NextRun :: time
  sc_LastRun :: "time option"
  sc_Enabled :: bool
  sc_MaxRuns :: int
  sc_RunCount :: int
  sc_CreatedAt :: time
  sc_UpdatedAt :: time
  sc_Metadata :: jmap

text \<open>
  \<open>sd_running\<close> is the count of the wait group: how many \<open>run\<close> loops have started and not returned.
  \<open>sd_ticker\<close> is the interval of the ticker, \<open>None\<close> for the nil pointer.
\<close>

record 's Scheduler =
  sd_queueManager :: "'s Manager"
  sd_schedules :: "string \<rightharpoonup> Schedule"
  sd_ticker :: "duration option"
  sd_stopped :: bool
  sd_running :: nat

definition NewScheduler :: "'s Manager \<Rightarrow> 's Scheduler" where
  "NewScheduler qm =
     \<lparr>sd_queueManager = qm, sd_schedules = Map.empty, sd_ticker = None, sd_stopped = False,
      sd_running = 0\<rparr>"

section \<open>Managing schedules\<close>

definition sched_put :: "Schedule \<Rightarrow> 's Scheduler \<Rightarrow> 's Scheduler" where
  "sched_put sc s = s\<lparr>sd_schedules := (sd_schedules s)(sc_ID sc \<mapsto> sc)\<rparr>"

definition AddSchedule ::
  "duration \<Rightarrow> string \<Rightarrow> clock \<Rightarrow> Schedule \<Rightarrow> 's Scheduler \<Rightarrow> unit res \<times> Schedule \<times> 's Scheduler" where
  "AddSchedule loc uuid clk sc s =
     (let sc = (if sc_ID sc = '''' then sc\<lparr>sc_ID := uuid\<rparr> else sc) in
      if sc_JobType sc = '''' then (Err (Errorf ''job type is required'' None), sc, s)
      else
        let sc = (if sc_Queue sc = '''' then sc\<lparr>sc_Queue := ''default''\<rparr> else sc);
            now = clk 0;
            sc = sc\<lparr>sc_CreatedAt := now, sc_UpdatedAt := now\<rparr>
        in if sc_Interval sc > 0 then
             let sc = sc\<lparr>sc_NextRun := now + sc_Interval sc, sc_Enabled := True\<rparr>
             in (Ok (), sc, sched_put sc s)
           else if sc_CronExpr sc \<noteq> '''' then
             (case parseNextCronTime loc (sc_CronExpr sc) now of
                Err e \<Rightarrow> (Err (Errorf ''invalid cron expression'' (Some e)), sc, s)
              | Panic p \<Rightarrow> (Panic p, sc, s)
              | Ok nextRun \<Rightarrow>
                  let sc = sc\<lparr>sc_NextRun := nextRun, sc_Enabled := True\<rparr>
                  in (Ok (), sc, sched_put sc s))
           else (Err (Errorf ''either interval or cron expression is required'' None), sc, s))"

definition schedule_not_found :: "string \<Rightarrow> err" where
  "schedule_not_found i = Errorf (''schedule not found: '' @ i) None"

definition RemoveSchedule :: "string \<Rightarrow> 's Scheduler \<Rightarrow> unit res \<times> 's Scheduler" where
  "RemoveSchedule i s =
     (case sd_schedules s i of
        None \<Rightarrow> (Err (schedule_not_found i), s)
      | Some _ \<Rightarrow> (Ok (), s\<lparr>sd_schedules := (sd_schedules s)(i := None)\<rparr>))"

definition GetSchedule :: "string \<Rightarrow> 's Scheduler \<Rightarrow> Schedule res" where
  "GetSchedule i s =
     (case sd_schedules s i of None \<Rightarrow> Err (schedule_not_found i) | Some sc \<Rightarrow> Ok sc)"

definition ListSchedules ::
  "(string set \<Rightarrow> string list) \<Rightarrow> 's Scheduler \<Rightarrow> Schedule list" where
  "ListSchedules iter s = range_map iter (sd_schedules s)"

definition EnableSchedule :: "clock \<Rightarrow> string \<Rightarrow> 's Scheduler \<Rightarrow> unit res \<times> 's Scheduler" where
  "EnableSchedule clk i s =
     (case sd_schedules s i of
        None \<Rightarrow> (Err (schedule_not_found i), s)
      | Some sc \<Rightarrow>
          (Ok (), s\<lparr>sd_schedules := (sd_schedules s)(i \<mapsto> sc\<lparr>sc_Enabled := True, sc_UpdatedAt := clk 0\<rparr>)\<rparr>))"

definition DisableSchedule :: "clock \<Rightarrow> string \<Rightarrow> 's Scheduler \<Rightarrow> unit res \<times> 's Scheduler" where
  "DisableSchedule clk i s =
     (case sd_schedules s i of
        None \<Rightarrow> (Err (schedule_not_found i), s)
      | Some sc \<Rightarrow>
          (Ok (), s\<lparr>sd_schedules := (sd_schedules s)(i \<mapsto> sc\<lparr>sc_Enabled := False, sc_UpdatedAt := clk 0\<rparr>)\<rparr>))"

section \<open>Running schedules\<close>

text \<open>The job literal of \<open>executeSchedule\<close>; the fields it does not name are zero.\<close>

definition schedule_job :: "string \<Rightarrow> clock \<Rightarrow> Schedule \<Rightarrow> job" where
  "schedule_job uuid clk sc =
     \<lparr>j_ID = uuid, j_Type = sc_JobType sc, j_Payload = sc_Payload sc, j_Priority = PriorityNormal,
      j_Status = StatusPending, j_MaxRetries = 0, j_CurrentRetry = 0, j_Timeout = 0,
      j_ScheduledAt = Some (clk 2), j_CreatedAt = clk 0, j_StartedAt = None, j_CompletedAt = None,
      j_Error = '''', j_Result = None,
      j_Metadata = [''schedule_id'' \<mapsto> JStr (sc_ID sc), ''schedule_name'' \<mapsto> JStr (sc_Name sc)]
        ++ sc_Metadata sc,
      j_Queue = sc_Queue sc, j_Progress = 0, j_WorkerID = '''', j_UpdatedAt = clk 1,
      j_TimeoutSeconds = 0\<rparr>"

definition executeSchedule ::
  "'s Storage \<Rightarrow> string \<Rightarrow> clock \<Rightarrow> Schedule \<Rightarrow> 's Manager \<Rightarrow> unit res \<times> 's Manager" where
  "executeSchedule St uuid clk sc m =
     (case mgr_Enqueue St (clock_from 3 clk) (schedule_job uuid clk sc) m of (r, _, m) \<Rightarrow> (r, m))"

text \<open>
  One turn of the loop of \<open>processDueSchedules\<close>: the schedule and the manager afterwards. The
  error of \<open>executeSchedule\<close> is printed, so only a panic comes out.
\<close>

definition processSchedule ::
  "'s Storage \<Rightarrow> duration \<Rightarrow> time \<Rightarrow> string \<Rightarrow> clock \<Rightarrow> Schedule \<Rightarrow> 's Manager
   \<Rightarrow> unit res \<times> Schedule \<times> 's Manager" where
  "processSchedule St loc now uuid clk sc m =
     (if \<not> sc_Enabled sc then (Ok (), sc, m)
      else if now < sc_NextRun sc then (Ok (), sc, m)
      else if sc_MaxRuns sc > 0 \<and> sc_RunCount sc \<ge> sc_MaxRuns sc
      then (Ok (), sc\<lparr>sc_Enabled := False\<rparr>, m)
      else case executeSchedule St uuid clk sc m of
        (Err e, m) \<Rightarrow> (Ok (), sc, m)
      | (Panic p, m) \<Rightarrow> (Panic p, sc, m)
      | (Ok _, m) \<Rightarrow>
          let sc = sc\<lparr>sc_LastRun := Some now, sc_RunCount := wrap64 (sc_RunCount sc + 1),
                      sc_UpdatedAt := now\<rparr>
          in if sc_Interval sc > 0 then (Ok (), sc\<lparr>sc_NextRun := now + sc_Interval sc\<rparr>, m)
             else if sc_CronExpr sc \<noteq> '''' then
               (case parseNextCronTime loc (sc_CronExpr sc) now of
                  Err e \<Rightarrow> (Ok (), sc\<lparr>sc_Enabled := False\<rparr>, m)
                | Panic p \<Rightarrow> (Panic p, sc, m)
                | Ok nextRun \<Rightarrow> (Ok (), sc\<lparr>sc_NextRun := nextRun\<rparr>, m))
             else (Ok (), sc, m))"

text \<open>
  The loop over the keys; \<open>uuid i\<close> and \<open>clks i\<close> are what \<open>executeSchedule\<close> draws and reads in the
  \<open>i\<close>-th turn.
\<close>

fun process_keys ::
  "'s Storage \<Rightarrow> duration \<Rightarrow> time \<Rightarrow> (nat \<Rightarrow> string) \<Rightarrow> (nat \<Rightarrow> clock) \<Rightarrow> nat \<Rightarrow> string list
   \<Rightarrow> 's Scheduler \<Rightarrow> unit res \<times> 's Scheduler" where
  "process_keys St loc now uuid clks i [] s = (Ok (), s)"
| "process_keys St loc now uuid clks i (k # ks) s =
     (case sd_schedules s k of
        None \<Rightarrow> process_keys St loc now uuid clks (Suc i) ks s
      | Some sc \<Rightarrow>
          (case processSchedule St loc now (uuid i) (clks i) sc (sd_queueManager s) of (r, sc, m) \<Rightarrow>
             let s = s\<lparr>sd_queueManager := m, sd_schedules := (sd_schedules s)(k \<mapsto> sc)\<rparr>
             in case r of
                  Panic p \<Rightarrow> (Panic p, s)
                | _ \<Rightarrow> process_keys St loc now uuid clks (Suc i) ks s))"

definition processDueSchedules ::
  "'s Storage \<Rightarrow> duration \<Rightarrow> (string set \<Rightarrow> string list) \<Rightarrow> clock \<Rightarrow> (nat \<Rightarrow> string) \<Rightarrow> (nat \<Rightarrow> clock)
   \<Rightarrow> 's Scheduler \<Rightarrow> unit res \<times> 's Scheduler" where
  "processDueSchedules St loc iter clk uuid clks s =
     (let now = clk 0 in process_keys St loc now uuid clks 0 (iter (dom (sd_schedules s))) s)"

section \<open>Start, stop and the loop between\<close>

definition sched_Start :: "duration \<Rightarrow> 's Scheduler \<Rightarrow> unit res \<times> 's Scheduler" where
  "sched_Start tickInterval s =
     (let tickInterval = (if tickInterval = 0 then 1 * Second else tickInterval) in
      if tickInterval \<le> 0 then (Panic ''non-positive interval for NewTicker'', s)
      else (Ok (), s\<lparr>sd_ticker := Some tickInterval, sd_running := sd_running s + 1\<rparr>))"

text \<open>
  What \<open>run\<close> finds ready in its \<open>select\<close>: the context is done, the stop channel is closed, or a
  tick with the readings of its call of \<open>processDueSchedules\<close>. A list of them is one course
  of the loop; a panic in a tick ends the goroutine and with it the program.
\<close>

datatype run_event =
    CtxDone
  | StopClosed
  | Tick "string set \<Rightarrow> string list" clock "nat \<Rightarrow> string" "nat \<Rightarrow> clock"

fun sched_run ::
  "'s Storage \<Rightarrow> duration \<Rightarrow> run_event list \<Rightarrow> 's Scheduler \<Rightarrow> unit res \<times> 's Scheduler" where
  "sched_run St loc [] s = (Ok (), s)"
| "sched_run St loc (CtxDone # evs) s = (Ok (), s\<lparr>sd_running := sd_running s - 1\<rparr>)"
| "sched_run St loc (StopClosed # evs) s = (Ok (), s\<lparr>sd_running := sd_running s - 1\<rparr>)"
| "sched_run St loc (Tick iter clk uuid clks # evs) s =
     (case processDueSchedules St loc iter clk uuid clks s of
        (Panic p, s) \<Rightarrow> (Panic p, s)
      | (_, s) \<Rightarrow> sched_run St loc evs s)"

text \<open>
  \<open>Stop\<close> closes the channel, stops the ticker and waits for the loops: closing a closed channel
  panics, and when it returns no loop runs.
\<close>

definition sched_Stop :: "'s Scheduler \<Rightarrow> unit res \<times> 's Scheduler" where
  "sched_Stop s =
     (if sd_stopped s then (Panic ''close of closed channel'', s)
      else (Ok (), s\<lparr>sd_stopped := True, sd_running := 0\<rparr>))"

section \<open>Statistics\<close>

record ScheduleStats =
  ss_total_schedules :: int
  ss_enabled_schedules :: int
  ss_disabled_schedules :: int
  ss_total_runs :: int

definition GetScheduleStats ::
  "(string set \<Rightarrow> string list) \<Rightarrow> 's Scheduler \<Rightarrow> ScheduleStats" where
  "GetScheduleStats iter s =
     fold (\<lambda>sc st.
         let st = (if sc_Enabled sc
                   then st\<lparr>ss_enabled_schedules := ss_enabled_schedules st + 1\<rparr>
                   else st\<lparr>ss_disabled_schedules := ss_disabled_schedules st + 1\<rparr>)
         in st\<lparr>ss_total_runs := wrap64 (ss_total_runs st + sc_RunCount sc)\<rparr>)
       (range_map iter (sd_schedules s))
       \<lparr>ss_total_schedules = int (card (dom (sd_schedules s))), ss_enabled_schedules = 0,
        ss_disabled_schedules = 0, ss_total_runs = 0\<rparr>"

end
