(* ===== verification/CronProofs.thy ===== *)
theory CronProofs
  imports Scheduler
begin

text \<open>
  The next run of a cron expression: where it lies, and the boundary it is aligned to.
\<close>

section \<open>Cron expressions\<close>

lemma Day_pos [simp]: "0 < Day"
  by (simp add: Day_def duration_units)

lemma Day_nonzero [simp]: "Day \<noteq> 0"
  by (rule less_imp_neq [OF Day_pos, symmetric])

lemma time_Date_midnight [simp]: "time_Date loc (midnight loc y m d) = date_of (days_of y m d)"
  by (simp add: time_Date_def midnight_def)

lemma day_number: "(n * Day + t mod Day) div Day = n"
  by (rule int_div_pos_eq [of _ _ _ "t mod Day"]) simp_all

lemma day_bounds: "t div Day * Day \<le> t" "t < t div Day * Day + Day"
  using div_mult_mod_eq [of t Day] pos_mod_sign [OF Day_pos, of t] pos_mod_bound [OF Day_pos, of t]
  by linarith+

lemma time_AddDate_days: "time_AddDate loc t 0 0 k = t + k * Day"
proof -
  obtain y m d where ymd: "time_Date loc t = (y, m, d)" by (cases "time_Date loc t")
  then have "days_of y m d = (t + loc) div Day" unfolding time_Date_def by (rule date_of_valid)
  then show ?thesis using div_mult_mod_eq [of "t + loc" Day]
    by (simp add: time_AddDate_def ymd days_of_day algebra_simps)
qed

lemma midnight_of_date:
  "time_Date loc t = (y, m, d) \<Longrightarrow> midnight loc y m d = (t + loc) div Day * Day - loc"
  unfolding time_Date_def midnight_def by (simp add: date_of_valid(5))

lemma midnight_days_on:
  "(case time_Date loc (time_AddDate loc t 0 0 k) of (y, m, d) \<Rightarrow> midnight loc y m d) =
   ((t + loc) div Day + k) * Day - loc"
proof -
  have "t + k * Day + loc = t + loc + k * Day" by simp
  then have "(t + k * Day + loc) div Day = (t + loc) div Day + k"
    by (simp only: div_mult_self1 Day_pos less_imp_neq [symmetric] not_False_eq_True)
  then show ?thesis
    by (cases "time_Date loc (t + k * Day)") (simp add: time_AddDate_days midnight_of_date)
qed

lemma month_length_any:
  assumes "1 \<le> m" "m \<le> 24"
  shows "28 \<le> month_length y m" "month_length y m \<le> 31"
proof -
  have "m \<le> 12 \<or> month_length y m = month_length (y + 1) (m - 12)"
    using days_of_year [of y "m - 12"] days_of_year [of y "m - 11"]
    by (simp add: month_length_def add.commute)
  then show "28 \<le> month_length y m" "month_length y m \<le> 31"
    using month_length_bounds [of m y] month_length_bounds [of "m - 12" "y + 1"] assms by force+
qed

lemma first_of_month:
  assumes "1 \<le> m" "m \<le> 24" "1 \<le> d" "d \<le> month_length y m" "n = days_of y m d"
  shows "(case date_of n of (y', m', d') \<Rightarrow> midnight loc y' m' 1) = midnight loc y m 1"
  using days_of_year [of y "m - 12" 1] unfolding assms(5) date_of_any_month [OF assms(1-4)]
  by (simp add: midnight_def)

lemma monthly_next:
  assumes "time_Date loc from = (y, m, d)"
  shows "parseNextCronTime loc ''@monthly'' from =
    Ok (midnight loc y (if d \<le> month_length y (m + 1) then m + 1 else m + 2) 1)"
proof -
  note v = date_of_valid [OF assms [unfolded time_Date_def]]
  define n where "n = days_of y (m + 1) d"
  have "(time_AddDate loc from 0 1 0 + loc) div Day = n"
    by (simp add: time_AddDate_def assms n_def [symmetric] day_number)
  then have "parseNextCronTime loc ''@monthly'' from =
      Ok (case date_of n of (y', m', d') \<Rightarrow> midnight loc y' m' 1)"
    by (simp add: parseNextCronTime_def time_Date_def split: prod.splits)
  also have "(case date_of n of (y', m', d') \<Rightarrow> midnight loc y' m' 1) =
      midnight loc y (if d \<le> month_length y (m + 1) then m + 1 else m + 2) 1"
  proof (cases "d \<le> month_length y (m + 1)")
    case True
    then show ?thesis using v by (simp add: first_of_month [OF _ _ _ _ n_def])
  next
    case False
    let ?d = "d - month_length y (m + 1)"
    have n': "n = days_of y (m + 2) ?d"
      using days_of_carry [of y "m + 1" d] by (simp add: n_def add.commute)
    have "1 \<le> ?d" "?d \<le> month_length y (m + 2)"
      using False v month_length_any [of "m + 1" y] month_length_any [of "m + 2" y] by simp_all
    with False v show ?thesis by (simp add: first_of_month [OF _ _ _ _ n'])
  qed
  finally show ?thesis .
qed

definition cron_period :: "string \<Rightarrow> duration" where
  "cron_period e =
     (if e = ''@minutely'' then Minute else if e = ''@hourly'' then Hour
      else if e = ''@daily'' then Day else if e = ''@weekly'' then 7 * Day else 31 * Day)"

text \<open>The boundary a cron expression is aligned to.\<close>

definition cron_aligned :: "string \<Rightarrow> duration \<Rightarrow> time \<Rightarrow> bool" where
  "cron_aligned e loc t \<longleftrightarrow>
     (if e = ''@minutely'' then t mod Minute = 0 else if e = ''@hourly'' then t mod Hour = 0
      else (t + loc) mod Day = 0 \<and> (e = ''@monthly'' \<longrightarrow> snd (snd (time_Date loc t)) = 1))"

lemma truncate_next:
  fixes "from" :: time
  assumes "0 < p"
  shows "from < time_Truncate (from + p) p" "time_Truncate (from + p) p \<le> from + p"
    "time_Truncate (from + p) p mod p = 0"
proof -
  have "time_Truncate (from + p) p = from + p - from mod p"
    using assms by (simp add: time_Truncate_def)
  moreover have "from + p - (from + p) mod p = p * ((from + p) div p)"
    by (rule minus_mod_eq_mult_div)
  ultimately show "from < time_Truncate (from + p) p" "time_Truncate (from + p) p \<le> from + p"
    "time_Truncate (from + p) p mod p = 0"
    using assms pos_mod_bound [OF assms, of "from"] pos_mod_sign [OF assms, of "from"] by simp_all
qed

lemma day_next:
  assumes "1 \<le> (k :: int)" "t = ((from + loc) div Day + k) * Day - loc"
  shows "from < t" "t \<le> from + k * Day" "(t + loc) mod Day = 0"
proof -
  note day_bounds [of "from + loc"]
  moreover have "t = (from + loc) div Day * Day + k * Day - loc"
    using assms(2) by (simp add: distrib_right)
  moreover have "1 * Day \<le> k * Day" using assms(1) by (intro mult_right_mono) (simp_all add: less_imp_le)
  ultimately show "from < t" "t \<le> from + k * Day" by linarith+
  show "(t + loc) mod Day = 0" using assms(2) by simp
qed

lemma month_next:
  assumes "time_Date loc from = (y, m, d)"
    and "m' = (if d \<le> month_length y (m + 1) then m + 1 else m + 2)"
  shows "\<exists>k. 1 \<le> k \<and> k \<le> 31 \<and> midnight loc y m' 1 = ((from + loc) div Day + k) * Day - loc"
proof -
  note v = date_of_valid [OF assms(1) [unfolded time_Date_def]]
  let ?k = "days_of y m' 1 - days_of y m d"
  have d: "days_of y m d = days_of y m 1 + (d - 1)" using days_of_day [of y m 1 "d - 1"] by simp
  have len: "days_of y (m + 1) 1 = days_of y m 1 + month_length y m"
    "days_of y (m + 2) 1 = days_of y (m + 1) 1 + month_length y (m + 1)"
    by (simp_all add: month_length_def add.commute)
  have "d \<le> month_length y m"
    using assms(1) unfolding time_Date_def by (rule date_of_day_bound)
  then have "1 \<le> ?k" "?k \<le> 31"
    using v assms(2) len d month_length_any [of m y] month_length_any [of "m + 1" y]
    by (auto split: if_splits)
  moreover have "midnight loc y m' 1 = ((from + loc) div Day + ?k) * Day - loc"
    by (simp add: midnight_def v(5))
  ultimately show ?thesis by blast
qed

end
