(* ===== verification/SchedulerProofs.thy ===== *)
theory SchedulerProofs
  imports CronProofs ManagerProofs Samples
begin

text \<open>
  The loop of \<open>processDueSchedules\<close> on any backend that keeps the contract of the locale
  \<open>storage\<close>: what one turn does, and what the whole loop does to schedules and jobs.
\<close>

section \<open>One turn\<close>

definition exhausted :: "Schedule \<Rightarrow> bool" where
  "exhausted sc \<longleftrightarrow> sc_MaxRuns sc > 0 \<and> sc_RunCount sc \<ge> sc_MaxRuns sc"

text \<open>The schedules that run in a tick at \<open>now\<close>, and what becomes of a schedule in it.\<close>

definition due :: "time \<Rightarrow> Schedule \<Rightarrow> bool" where
  "due now sc \<longleftrightarrow> sc_Enabled sc \<and> sc_NextRun sc \<le> now \<and> \<not> exhausted sc"

definition advanced :: "duration \<Rightarrow> time \<Rightarrow> Schedule \<Rightarrow> Schedule" where
  "advanced loc now sc =
     (let sc = sc\<lparr>sc_LastRun := Some now, sc_RunCount := wrap64 (sc_RunCount sc + 1),
                  sc_UpdatedAt := now\<rparr>
      in if sc_Interval sc > 0 then sc\<lparr>sc_NextRun := now + sc_Interval sc\<rparr>
         else if sc_CronExpr sc = '''' then sc
         else case parseNextCronTime loc (sc_CronExpr sc) now of
             Ok nextRun \<Rightarrow> sc\<lparr>sc_NextRun := nextRun\<rparr>
           | _ \<Rightarrow> sc\<lparr>sc_Enabled := False\<rparr>)"

definition schedule_after :: "duration \<Rightarrow> time \<Rightarrow> Schedule \<Rightarrow> Schedule" where
  "schedule_after loc now sc =
     (if due now sc then advanced loc now sc
      else if sc_Enabled sc \<and> sc_NextRun sc \<le> now then sc\<lparr>sc_Enabled := False\<rparr>
      else sc)"

lemma parseNextCronTime_no_Panic: "parseNextCronTime loc e t \<noteq> Panic p"
  by (simp add: parseNextCronTime_def split: prod.splits)

lemma advanced_sel [simp]:
  "sc_MaxRuns (advanced loc now sc) = sc_MaxRuns sc" "sc_ID (advanced loc now sc) = sc_ID sc"
  "sc_RunCount (advanced loc now sc) = wrap64 (sc_RunCount sc + 1)"
  "sc_LastRun (advanced loc now sc) = Some now"
  by (simp_all add: advanced_def Let_def split: outcome.splits)

text \<open>The job of a schedule, as it is stored: with the name of the default queue and its defaults.\<close>

definition job_of_schedule :: "Schedule \<Rightarrow> string \<Rightarrow> job \<Rightarrow> bool" where
  "job_of_schedule sc jid j \<longleftrightarrow>
     j_ID j = jid \<and> j_Type j = sc_JobType sc \<and> j_Payload j = sc_Payload sc \<and>
     j_Queue j = (if sc_Queue sc = '''' then ''default'' else sc_Queue sc) \<and>
     j_Priority j = PriorityNormal \<and> j_Status j = StatusPending \<and>
     j_Metadata j = [''schedule_id'' \<mapsto> JStr (sc_ID sc), ''schedule_name'' \<mapsto> JStr (sc_Name sc)]
        ++ sc_Metadata sc"

lemma job_of_schedule_enqueued:
  "job_of_schedule sc uuid (enqueued_job c (schedule_job uuid clk sc))"
  by (simp add: job_of_schedule_def enqueued_job_def schedule_job_def)

lemma processSchedule_skips:
  "\<not> due now sc \<Longrightarrow> processSchedule St loc now uuid clk sc m = (Ok (), schedule_after loc now sc, m)"
  by (auto simp: processSchedule_def schedule_after_def due_def exhausted_def)

lemma processSchedule_runs:
  assumes "due now sc" "executeSchedule St uuid clk sc m = (Ok (), m')"
  shows "processSchedule St loc now uuid clk sc m = (Ok (), schedule_after loc now sc, m')"
  using assms parseNextCronTime_no_Panic
  by (auto simp: processSchedule_def schedule_after_def advanced_def due_def exhausted_def Let_def
      split: outcome.splits)

context storage
begin

lemma executeSchedule_Ok:
  assumes "ok (mg_storage m)" and "v_jobs (view (mg_storage m)) uuid = None" and "mono clk"
  shows "\<exists>m' cf j. executeSchedule St uuid clk sc m = (Ok (), m') \<and> ok (mg_storage m') \<and>
     job_of_schedule sc uuid j \<and>
     view (mg_storage m') = (view (mg_storage m))
       \<lparr>v_configs := cf, v_jobs := (v_jobs (view (mg_storage m)))(uuid \<mapsto> j),
        v_entries := (v_entries (view (mg_storage m)))(j_Queue j :=
          add_mset (uuid, PriorityNormal, clk 5) (v_entries (view (mg_storage m)) (j_Queue j)))\<rparr>"
proof -
  let ?j = "schedule_job uuid clk sc"
  have id: "j_ID ?j = uuid" "j_Priority ?j = PriorityNormal" by (simp_all add: schedule_job_def)
  have "clk 2 \<le> clk 3" using assms(3) by (simp add: mono_def)
  then have delay: "schedule_delay (clock_from 3 clk) ?j = 0"
    by (simp add: schedule_delay_def schedule_job_def)
  from Enqueue_new [OF assms(1), of ?j "clock_from 3 clk"] assms(2) obtain c m' cf where
    "mgr_Enqueue St (clock_from 3 clk) ?j m = (Ok (), enqueued_job c ?j, m')"
    "ok (mg_storage m')"
    "view (mg_storage m') = (view (mg_storage m))
       \<lparr>v_configs := cf, v_jobs := (v_jobs (view (mg_storage m)))(uuid \<mapsto> enqueued_job c ?j),
        v_entries := (v_entries (view (mg_storage m)))(queue_of ?j :=
          add_mset (uuid, PriorityNormal, clk 5) (v_entries (view (mg_storage m)) (queue_of ?j)))\<rparr>"
    unfolding id delay by auto
  then show ?thesis using job_of_schedule_enqueued [of sc uuid c clk]
    by (intro exI [of _ m'] exI [of _ cf] exI [of _ "enqueued_job c ?j"])
      (simp add: executeSchedule_def)
qed

end

section \<open>The loop\<close>

definition due_keys :: "time \<Rightarrow> (string \<rightharpoonup> Schedule) \<Rightarrow> string set" where
  "due_keys now scs = {k. \<exists>sc. scs k = Some sc \<and> due now sc}"

text \<open>
  What the store has gained is one job for each key in \<open>K\<close>, made from the schedule of that key,
  under its own identifier \<open>ident k\<close> and with an entry in its queue.
\<close>

definition gained ::
  "string set \<Rightarrow> (string \<rightharpoonup> Schedule) \<Rightarrow> (string \<Rightarrow> string) \<Rightarrow> store_view \<Rightarrow> store_view \<Rightarrow> bool" where
  "gained K scs ident v v' \<longleftrightarrow>
     inj_on ident K \<and> dom (v_jobs v') = dom (v_jobs v) \<union> ident ` K \<and>
     v_jobs v \<subseteq>\<^sub>m v_jobs v' \<and> (\<forall>q. v_entries v q \<subseteq># v_entries v' q) \<and>
     (\<forall>k \<in> K. v_jobs v (ident k) = None \<and>
        (\<exists>j t. v_jobs v' (ident k) = Some j \<and> job_of_schedule (the (scs k)) (ident k) j \<and>
           (ident k, PriorityNormal, t) \<in># v_entries v' (j_Queue j)))"

lemma gained_refl: "gained {} scs ident v v"
  by (simp add: gained_def)

lemma gained_cong:
  assumes "gained K scs ident v v'" "\<And>k. k \<in> K \<Longrightarrow> scs' k = scs k"
  shows "gained K scs' ident v v'"
  using assms by (simp add: gained_def)

lemma gained_insert:
  assumes "gained K scs ident v1 v'" and "k \<notin> K" and new: "v_jobs v u = None" and "u \<notin> ident ` K"
    and v1: "v_jobs v1 = (v_jobs v)(u \<mapsto> j)"
      "v_entries v1 = (v_entries v)(j_Queue j := add_mset (u, PriorityNormal, t) (v_entries v (j_Queue j)))"
    and j: "job_of_schedule (the (scs k)) u j"
  shows "gained (insert k K) scs (ident(k := u)) v v'"
proof -
  have g: "inj_on ident K" "dom (v_jobs v') = insert u (dom (v_jobs v)) \<union> ident ` K"
    "(v_jobs v)(u \<mapsto> j) \<subseteq>\<^sub>m v_jobs v'" "\<And>q. v_entries v1 q \<subseteq># v_entries v' q"
    using assms(1) by (simp_all add: gained_def v1(1))
  have img: "(ident(k := u)) ` K = ident ` K" using assms(2) by auto
  have "inj_on (ident(k := u)) K" using g(1) assms(2) by (auto simp: inj_on_def)
  then have "inj_on (ident(k := u)) (insert k K)"
    using assms(4) img Diff_insert0 [OF assms(2), of "{}"]
    unfolding inj_on_insert by (simp only: Diff_empty fun_upd_same simp_thms)
  moreover have "v_jobs v \<subseteq>\<^sub>m (v_jobs v)(u \<mapsto> j)" using new by (auto simp: map_le_def)
  then have "v_jobs v \<subseteq>\<^sub>m v_jobs v'" using g(3) by (rule map_le_trans)
  moreover have "v_jobs v' u = Some j" using g(3) by (simp add: map_le_def)
  moreover have le: "v_entries v q \<subseteq># v_entries v1 q" for q
    by (simp add: v1(2) subseteq_mset_def)
  have "\<forall>q. v_entries v q \<subseteq># v_entries v' q"
    using subset_mset.order_trans [OF le g(4)] by blast
  moreover have "(u, PriorityNormal, t) \<in># v_entries v' (j_Queue j)"
    using mset_subset_eqD [OF g(4), of _ "j_Queue j"] by (simp add: v1(2))
  moreover have "\<forall>k' \<in> K. v_jobs v (ident k') = None" "\<forall>k' \<in> K. \<exists>j t. v_jobs v' (ident k') = Some j \<and>
      job_of_schedule (the (scs k')) (ident k') j \<and>
      (ident k', PriorityNormal, t) \<in># v_entries v' (j_Queue j)"
    using assms(1) by (auto simp: gained_def v1(1) split: if_splits)
  ultimately show ?thesis
    using new j g(2) assms(2) unfolding gained_def by (auto simp: img)
qed

lemma due_keys_restrict:
  "due_keys now scs \<inter> insert k K =
     (if \<exists>sc. scs k = Some sc \<and> due now sc then insert k (due_keys now scs \<inter> K)
      else due_keys now scs \<inter> K)"
  by (auto simp: due_keys_def)

lemma due_keys_upd: "k \<notin> K \<Longrightarrow> due_keys now (scs(k \<mapsto> sc)) \<inter> K = due_keys now scs \<inter> K"
  by (auto simp: due_keys_def)

text \<open>What a loop over \<open>ks\<close> that starts with turn \<open>i\<close> does to schedules and store.\<close>

definition swept ::
  "duration \<Rightarrow> time \<Rightarrow> (nat \<Rightarrow> string) \<Rightarrow> nat \<Rightarrow> string list \<Rightarrow> (string \<rightharpoonup> Schedule) \<Rightarrow> (string \<rightharpoonup> Schedule)
   \<Rightarrow> (string \<Rightarrow> string) \<Rightarrow> store_view \<Rightarrow> store_view \<Rightarrow> bool" where
  "swept loc now uuid i ks scs scs' ident v v' \<longleftrightarrow>
     (\<forall>k. scs' k = (if k \<in> set ks then map_option (schedule_after loc now) (scs k) else scs k)) \<and>
     (\<forall>k. ident k \<in> uuid ` {i..}) \<and> gained (due_keys now scs \<inter> set ks) scs ident v v'"

lemma swept_Nil: "swept loc now uuid i [] scs scs (\<lambda>_. uuid i) v v"
  by (simp add: swept_def gained_refl)

lemma uuid_later: "\<forall>k. ident k \<in> uuid ` {Suc i..} \<Longrightarrow> \<forall>k. ident k \<in> uuid ` {i..}"
  using image_mono [of "{Suc i..}" "{i..}" uuid] by auto

lemma swept_none:
  "\<lbrakk>scs k = None; swept loc now uuid (Suc i) ks scs scs' ident v v'\<rbrakk>
   \<Longrightarrow> swept loc now uuid i (k # ks) scs scs' ident v v'"
  using uuid_later [of ident uuid i] by (auto simp: swept_def due_keys_restrict)

lemma swept_skip:
  assumes "scs k = Some sc" "\<not> due now sc" "k \<notin> set ks"
    and "swept loc now uuid (Suc i) ks (scs(k \<mapsto> schedule_after loc now sc)) scs' ident v v'"
  shows "swept loc now uuid i (k # ks) scs scs' ident v v'"
proof -
  have g: "gained (due_keys now scs \<inter> set ks) (scs(k \<mapsto> schedule_after loc now sc)) ident v v'"
    using assms(4) by (simp add: swept_def due_keys_upd [OF assms(3)])
  have "gained (due_keys now scs \<inter> set ks) scs ident v v'"
    by (rule gained_cong [OF g]) (use assms(3) in auto)
  moreover have "due_keys now scs \<inter> insert k (set ks) = due_keys now scs \<inter> set ks"
    using assms(1,2) by (simp add: due_keys_restrict)
  moreover have "\<forall>k. ident k \<in> uuid ` {i..}"
    by (rule uuid_later) (use assms(4) in \<open>simp add: swept_def\<close>)
  ultimately show ?thesis using assms by (auto simp: swept_def)
qed

lemma swept_run:
  assumes "scs k = Some sc" "due now sc" "k \<notin> set ks" and "inj uuid" and "v_jobs v (uuid i) = None"
    and "swept loc now uuid (Suc i) ks (scs(k \<mapsto> schedule_after loc now sc)) scs' ident v1 v'"
    and "v_jobs v1 = (v_jobs v)(uuid i \<mapsto> j)" "v_entries v1 = (v_entries v)(j_Queue j :=
        add_mset (uuid i, PriorityNormal, t) (v_entries v (j_Queue j)))"
    and "job_of_schedule sc (uuid i) j"
  shows "swept loc now uuid i (k # ks) scs scs' (ident(k := uuid i)) v v'"
proof -
  have g: "gained (due_keys now scs \<inter> set ks) (scs(k \<mapsto> schedule_after loc now sc)) ident v1 v'"
    and later: "\<forall>k. ident k \<in> uuid ` {Suc i..}"
    using assms(6) by (simp_all add: swept_def due_keys_upd [OF assms(3)])
  have "gained (due_keys now scs \<inter> set ks) scs ident v1 v'"
    by (rule gained_cong [OF g]) (use assms(3) in auto)
  moreover have "uuid i \<notin> ident ` (due_keys now scs \<inter> set ks)"
  proof
    assume "uuid i \<in> ident ` (due_keys now scs \<inter> set ks)"
    then have "uuid i \<in> uuid ` {Suc i..}" using later by auto
    then show False using injD [OF assms(4), of i] by auto
  qed
  ultimately have "gained (insert k (due_keys now scs \<inter> set ks)) scs (ident(k := uuid i)) v v'"
    using assms(1,3,5,7-9) by (intro gained_insert [of _ _ _ v1]) auto
  moreover have "due_keys now scs \<inter> set (k # ks) = insert k (due_keys now scs \<inter> set ks)"
    using assms(1,2) by (simp add: due_keys_restrict)
  moreover have "\<forall>k'. (ident(k := uuid i)) k' \<in> uuid ` {i..}"
    using uuid_later [OF later] by auto
  moreover have sweep: "scs' k' = (if k' \<in> set ks
      then map_option (schedule_after loc now) ((scs(k \<mapsto> schedule_after loc now sc)) k')
      else (scs(k \<mapsto> schedule_after loc now sc)) k')" for k'
    using assms(6) unfolding swept_def by blast
  have "scs' k' = (if k' \<in> set (k # ks)
      then map_option (schedule_after loc now) (scs k') else scs k')" for k'
    using assms(1,3) by (cases "k' = k") (simp_all add: sweep)
  ultimately show ?thesis unfolding swept_def by simp
qed

context storage
begin

lemma process_keys_Ok:
  assumes "distinct ks" and "ok (mg_storage (sd_queueManager s))" and "inj uuid"
    and "\<And>n. i \<le> n \<Longrightarrow> v_jobs (view (mg_storage (sd_queueManager s))) (uuid n) = None"
    and "\<And>n. mono (clks n)"
  shows "\<exists>s' ident. process_keys St loc now uuid clks i ks s = (Ok (), s') \<and>
     ok (mg_storage (sd_queueManager s')) \<and>
     swept loc now uuid i ks (sd_schedules s) (sd_schedules s') ident
       (view (mg_storage (sd_queueManager s))) (view (mg_storage (sd_queueManager s')))"
  using assms(1,2,4)
proof (induction ks arbitrary: i s)
  case Nil
  then show ?case using swept_Nil by fastforce
next
  case (Cons k ks)
  let ?scs = "sd_schedules s" let ?m = "sd_queueManager s"
  have k: "k \<notin> set ks" "distinct ks" using Cons.prems(1) by simp_all
  show ?case
  proof (cases "?scs k")
    case None
    then show ?thesis
      using Cons.IH [OF k(2) Cons.prems(2), of "Suc i"] Cons.prems(3) swept_none
      by (simp, meson Suc_leD)
  next
    case (Some sc)
    define s1 where "s1 m = s\<lparr>sd_queueManager := m,
      sd_schedules := ?scs(k \<mapsto> schedule_after loc now sc)\<rparr>" for m
    have run: "process_keys St loc now uuid clks i (k # ks) s =
        process_keys St loc now uuid clks (Suc i) ks (s1 m)"
      if "processSchedule St loc now (uuid i) (clks i) sc ?m = (Ok (), schedule_after loc now sc, m)" for m
      using that Some by (simp add: s1_def)
    have s1: "sd_queueManager (s1 m) = m" "sd_schedules (s1 m) = ?scs(k \<mapsto> schedule_after loc now sc)" for m
      by (simp_all add: s1_def)
    show ?thesis
    proof (cases "due now sc")
      case False
      show ?thesis
        using Cons.IH [OF k(2), of "s1 ?m" "Suc i"] Cons.prems(2,3)           swept_skip [where scs = ?scs and k = k and sc = sc and ks = ks and now = now, OF Some False k(1)]
        unfolding s1 run [OF processSchedule_skips [OF False]] by (meson Suc_leD)
    next
      case True
      from executeSchedule_Ok [OF Cons.prems(2), of "uuid i" "clks i" sc] Cons.prems(3) assms(5)
      obtain m' j where e: "executeSchedule St (uuid i) (clks i) sc ?m = (Ok (), m')"
          "ok (mg_storage m')" "job_of_schedule sc (uuid i) j" and
        v1: "v_jobs (view (mg_storage m')) = (v_jobs (view (mg_storage ?m)))(uuid i \<mapsto> j)"
          "v_entries (view (mg_storage m')) = (v_entries (view (mg_storage ?m)))
             (j_Queue j := add_mset (uuid i, PriorityNormal, clks i 5)
               (v_entries (view (mg_storage ?m)) (j_Queue j)))"
        by fastforce
      have fresh: "v_jobs (view (mg_storage m')) (uuid n) = None" if "Suc i \<le> n" for n
        using Cons.prems(3) [of n] injD [OF assms(3), of n i] that by (auto simp: v1(1))
      show ?thesis
        using Cons.IH [OF k(2), of "s1 m'" "Suc i"] e(2) fresh
          swept_run [where scs = ?scs and k = k and sc = sc and ks = ks and now = now,
            OF Some True k(1) assms(3) Cons.prems(3) [OF order_refl] _ v1 e(3)]
        unfolding s1 run [OF processSchedule_runs [OF True e(1)]] by meson
    qed
  qed
qed

end

end
