(* ===== verification/SchedulerProperties.thy ===== *)
theory SchedulerProperties
  imports SchedulerProofs ManagerProperties
begin

text \<open>
  What the cron scheduler promises: where the next run of a cron expression lies, what a tick does
  to the schedules and to the job store, and that a schedule does not run more often than allowed.
\<close>

section \<open>Cron expressions\<close>

text \<open>
  C28: the next run of a supported cron expression is after the given instant, within the period of the
  expression, and on its boundary: a full minute or hour, local midnight, or local midnight of the
  first of a month.
\<close>

theorem cron_next_run:
  assumes "parseNextCronTime loc e t = Ok next"
  shows "t < next \<and> next \<le> t + cron_period e \<and> cron_aligned e loc next"
proof -
  have units: "0 < Minute" "0 < Hour" by (simp_all add: duration_units)
  consider "e = ''@minutely''" | "e = ''@hourly''" | "e = ''@daily''" | "e = ''@weekly''" | "e = ''@monthly''"
    using assms unfolding parseNextCronTime_def by (metis outcome.distinct(1))
  then show ?thesis
  proof cases
    case 1
    with assms truncate_next [OF units(1), of t] show ?thesis
      by (auto simp: parseNextCronTime_def cron_period_def cron_aligned_def)
  next
    case 2
    with assms truncate_next [OF units(2), of t] show ?thesis
      by (auto simp: parseNextCronTime_def cron_period_def cron_aligned_def)
  next
    case 3
    then have "next = ((t + loc) div Day + 1) * Day - loc"
      using assms midnight_days_on [of loc t 1] by (simp add: parseNextCronTime_def split: prod.splits)
    from day_next [OF _ this] 3 show ?thesis by (simp add: cron_period_def cron_aligned_def)
  next
    case 4
    then have "next = ((t + loc) div Day + 7) * Day - loc"
      using assms midnight_days_on [of loc t 7] by (simp add: parseNextCronTime_def split: prod.splits)
    from day_next [OF _ this] 4 show ?thesis by (simp add: cron_period_def cron_aligned_def)
  next
    case 5
    obtain y m d where ymd: "time_Date loc t = (y, m, d)" by (cases "time_Date loc t")
    define m' where "m' = (if d \<le> month_length y (m + 1) then m + 1 else m + 2)"
    have eq: "next = midnight loc y m' 1"
      using assms monthly_next [OF ymd] by (simp add: 5 m'_def)
    obtain k where k: "1 \<le> k" "k \<le> 31" "next = ((t + loc) div Day + k) * Day - loc"
      using month_next [OF ymd m'_def] eq by blast
    have "k * Day \<le> 31 * Day" using k(2) by (intro mult_right_mono) (simp_all add: less_imp_le)
    then have "t < next \<and> next \<le> t + 31 * Day" using day_next(1,2) [OF k(1,3)] by linarith
    moreover have "snd (snd (time_Date loc next)) = 1"
    proof -
      have m': "1 \<le> m'" "m' \<le> 24"
        using date_of_valid [OF ymd [unfolded time_Date_def]] by (auto simp: m'_def)
      show ?thesis unfolding eq
        using date_of_any_month [OF m', of 1 y] month_length_any [OF m', of y] by simp
    qed
    ultimately show ?thesis
      using day_next(3) [OF k(1,3)] 5 by (simp add: cron_period_def cron_aligned_def)
  qed
qed

theorem cron_next_run_witness:
  "(5 :: time) < 60000000000 \<and> 60000000000 \<le> 5 + cron_period ''@minutely'' \<and>
   cron_aligned ''@minutely'' 0 60000000000"
  using cron_next_run [of 0 "''@minutely''" 5 60000000000]
  by (simp add: parseNextCronTime_def time_Truncate_def duration_units)

text \<open>
  a monthly schedule runs on the first of the next month if that month has the day of the given
  date; otherwise adding one month runs over into the month after, and the next month is left out.
\<close>

theorem monthly_next_month:
  assumes "time_Date loc t = (y, m, d)"
  shows "parseNextCronTime loc ''@monthly'' t =
    Ok (midnight loc y (if d \<le> month_length y (m + 1) then m + 1 else m + 2) 1)"
  using assms by (rule monthly_next)

theorem monthly_next_month_witness:
  "parseNextCronTime 0 ''@monthly'' (midnight 0 2023 1 31) = Ok (midnight 0 2023 3 1)"
proof -
  have "time_Date 0 (midnight 0 2023 1 31) = (2023, 1, 31)"
    using date_of_days_of [of 1 31 2023]
    by (simp add: month_length_def days_of_def month_start_def leap_year_def Let_def)
  from monthly_next_month [OF this] show ?thesis
    by (simp add: month_length_def days_of_def month_start_def leap_year_def Let_def)
qed

section \<open>A tick\<close>


definition sample_schedule :: "string \<Rightarrow> time \<Rightarrow> Schedule" where
  "sample_schedule i t =
     \<lparr>sc_ID = i, sc_Name = ''report'', sc_JobType = ''echo'', sc_Queue = ''mail'',
      sc_Payload = Map.empty, sc_CronExpr = '''', sc_Interval = Minute, sc_NextRun = t,
      sc_LastRun = None, sc_Enabled = True, sc_MaxRuns = 2, sc_RunCount = 0, sc_CreatedAt = 0,
      sc_UpdatedAt = 0, sc_Metadata = Map.empty\<rparr>"


section \<open>The number of runs\<close>

text \<open>
  A schedule is handed to \<open>AddSchedule\<close> with machine integers and no more runs than it may make.
\<close>

definition runs_ok :: "Schedule \<Rightarrow> bool" where
  "runs_ok sc \<longleftrightarrow> int64 (sc_MaxRuns sc) \<and> int64 (sc_RunCount sc) \<and>
     (sc_MaxRuns sc > 0 \<longrightarrow> sc_RunCount sc \<le> sc_MaxRuns sc)"

definition schedules_inv :: "'s Scheduler \<Rightarrow> bool" where
  "schedules_inv s \<longleftrightarrow>
     (\<forall>k sc. sd_schedules s k = Some sc \<longrightarrow> sc_ID sc = k \<and> sc_JobType sc \<noteq> '''' \<and> runs_ok sc)"

text \<open>
  The states a scheduler can reach by its methods, on any backend, while other clients of the
  queue manager do what they want with it.
\<close>

inductive sched_reachable :: "'s Storage \<Rightarrow> duration \<Rightarrow> 's Scheduler \<Rightarrow> bool"
  for St :: "'s Storage" and loc :: duration where
  reach_new: "sched_reachable St loc (NewScheduler qm)"
| reach_add: "sched_reachable St loc s \<Longrightarrow> runs_ok sc \<Longrightarrow>
    sched_reachable St loc (snd (snd (AddSchedule loc uuid clk sc s)))"
| reach_remove: "sched_reachable St loc s \<Longrightarrow> sched_reachable St loc (snd (RemoveSchedule i s))"
| reach_enable: "sched_reachable St loc s \<Longrightarrow> sched_reachable St loc (snd (EnableSchedule clk i s))"
| reach_disable: "sched_reachable St loc s \<Longrightarrow> sched_reachable St loc (snd (DisableSchedule clk i s))"
| reach_start: "sched_reachable St loc s \<Longrightarrow> sched_reachable St loc (snd (sched_Start d s))"
| reach_stop: "sched_reachable St loc s \<Longrightarrow> sched_reachable St loc (snd (sched_Stop s))"
| reach_run: "sched_reachable St loc s \<Longrightarrow> sched_reachable St loc (snd (sched_run St loc evs s))"
| reach_clients: "sched_reachable St loc s \<Longrightarrow> sched_reachable St loc (s\<lparr>sd_queueManager := m\<rparr>)"

lemma runs_ok_count:
  assumes "runs_ok sc" "\<not> exhausted sc"
  shows "runs_ok (advanced loc now sc)"
proof (cases "sc_MaxRuns sc > 0")
  case True
  with assms have "sc_RunCount sc + 1 \<le> sc_MaxRuns sc" "int64 (sc_RunCount sc + 1)"
    by (auto simp: runs_ok_def exhausted_def int64_def)
  with assms(1) show ?thesis by (simp add: runs_ok_def)
next
  case False
  with assms(1) show ?thesis by (simp add: runs_ok_def)
qed

lemma processSchedule_inv:
  assumes "processSchedule St loc now uuid clk sc m = (r, sc', m')" "runs_ok sc"
  shows "runs_ok sc' \<and> sc_ID sc' = sc_ID sc \<and> sc_JobType sc' = sc_JobType sc"
proof (cases "due now sc")
  case False
  with assms processSchedule_skips [OF False, of St loc uuid clk m] show ?thesis
    by (auto simp: schedule_after_def runs_ok_def)
next
  case True
  show ?thesis
  proof (cases "\<exists>m1. executeSchedule St uuid clk sc m = (Ok (), m1)")
    case ex: True
    then obtain m1 where "executeSchedule St uuid clk sc m = (Ok (), m1)" by blast
    from processSchedule_runs [OF True this, of loc] assms True runs_ok_count [OF assms(2)]
    show ?thesis
      by (auto simp: schedule_after_def due_def) (simp add: advanced_def Let_def split: outcome.splits)
  next
    case False
    then have "sc' = sc" using assms(1) True
      by (auto simp: processSchedule_def due_def exhausted_def split: prod.splits outcome.splits)
    then show ?thesis using assms(2) by simp
  qed
qed

lemma process_keys_inv:
  "\<lbrakk>process_keys St loc now uuid clks i ks s = (r, s'); schedules_inv s\<rbrakk> \<Longrightarrow> schedules_inv s'"
proof (induction ks arbitrary: i s)
  case (Cons k ks)
  show ?case
  proof (cases "sd_schedules s k")
    case None
    with Cons show ?thesis by simp
  next
    case (Some sc)
    obtain r1 sc1 m1 where p:
      "processSchedule St loc now (uuid i) (clks i) sc (sd_queueManager s) = (r1, sc1, m1)"
      by (cases "processSchedule St loc now (uuid i) (clks i) sc (sd_queueManager s)")
    let ?s = "s\<lparr>sd_queueManager := m1, sd_schedules := (sd_schedules s)(k \<mapsto> sc1)\<rparr>"
    have inv: "schedules_inv ?s"
      using processSchedule_inv [OF p] Cons.prems(2) Some by (auto simp: schedules_inv_def)
    show ?thesis using Cons.prems(1) Cons.IH [OF _ inv] inv Some p
      by (cases r1) auto
  qed
qed simp

lemma sched_run_inv:
  "schedules_inv s \<Longrightarrow> schedules_inv (snd (sched_run St loc evs s))"
proof (induction evs arbitrary: s)
  case (Cons ev evs)
  show ?case
  proof (cases ev)
    case (Tick iter clk uuid clks)
    obtain r s1 where t: "processDueSchedules St loc iter clk uuid clks s = (r, s1)"
      by (cases "processDueSchedules St loc iter clk uuid clks s")
    then have "schedules_inv s1"
      using process_keys_inv Cons.prems by (simp add: processDueSchedules_def Let_def) blast
    with t Tick Cons.IH show ?thesis by (cases r) simp_all
  qed (use Cons.prems in \<open>simp_all add: schedules_inv_def\<close>)
qed simp

lemma AddSchedule_inv:
  assumes "schedules_inv s" "runs_ok sc"
  shows "schedules_inv (snd (snd (AddSchedule loc uuid clk sc s)))"
  using assms by (auto simp: AddSchedule_def schedules_inv_def sched_put_def runs_ok_def Let_def
      split: outcome.splits if_splits)

text \<open>
  C15: in every state a scheduler can reach, each schedule is filed under its own identifier, has a
  job type, and has not run more often than its limit allows.
\<close>

theorem runs_within_limit:
  assumes "sched_reachable St loc s" and "sd_schedules s k = Some sc"
  shows "sc_ID sc = k \<and> sc_JobType sc \<noteq> '''' \<and> (sc_MaxRuns sc > 0 \<longrightarrow> sc_RunCount sc \<le> sc_MaxRuns sc)"
proof -
  from assms(1) have "schedules_inv s"
  proof (induction rule: sched_reachable.induct)
    case (reach_add s sc uuid clk)
    then show ?case by (intro AddSchedule_inv)
  next
    case (reach_run s evs)
    then show ?case by (intro sched_run_inv)
  qed (auto simp: schedules_inv_def NewScheduler_def RemoveSchedule_def EnableSchedule_def
      DisableSchedule_def sched_Start_def sched_Stop_def Let_def runs_ok_def split: option.splits if_splits)
  with assms(2) show ?thesis by (simp add: schedules_inv_def runs_ok_def)
qed

theorem runs_within_limit_witness:
  "sd_schedules (snd (snd (AddSchedule 0 ''x'' (\<lambda>_. 7) (sample_schedule ''a'' 40) (NewScheduler new_manager)))) ''a'' =
     Some ((sample_schedule ''a'' (7 + Minute))\<lparr>sc_CreatedAt := 7, sc_UpdatedAt := 7\<rparr>) \<and>
   sc_RunCount ((sample_schedule ''a'' (7 + Minute))\<lparr>sc_CreatedAt := 7, sc_UpdatedAt := 7\<rparr>) \<le>
     sc_MaxRuns ((sample_schedule ''a'' (7 + Minute))\<lparr>sc_CreatedAt := 7, sc_UpdatedAt := 7\<rparr>)"
proof -
  have ok: "runs_ok (sample_schedule ''a'' 40)"
    by (simp add: runs_ok_def sample_schedule_def int64_def)
  have eq: "sd_schedules (snd (snd (AddSchedule 0 ''x'' (\<lambda>_. 7) (sample_schedule ''a'' 40) (NewScheduler new_manager)))) ''a'' =
     Some ((sample_schedule ''a'' (7 + Minute))\<lparr>sc_CreatedAt := 7, sc_UpdatedAt := 7\<rparr>)"
    by (simp add: AddSchedule_def sched_put_def sample_schedule_def Let_def duration_units)
  from runs_within_limit [OF reach_add [OF reach_new ok] eq] eq show ?thesis
    by (simp add: sample_schedule_def)
qed

end
