(* ===== verification/RateLimit.thy ===== *)
theory RateLimit
  imports Errors
begin

text \<open>
  The rate limiters, \<^verbatim>\<open>internal/features/ratelimit.go\<close>: the token bucket over rounded
  arithmetic, the sliding window, and the rate-limited queue. The state maps a queue name to its
  bucket or window; a queue without one is not limited. Record fields carry the struct field's name
  after \<open>tb_\<close>, \<open>rl_\<close>, \<open>wd_\<close>, \<open>sw_\<close> and \<open>rq_\<close>.
\<close>

section \<open>Token bucket\<close>

record tokenBucket =
  tb_tokens :: real
  tb_maxTokens :: real
  tb_refillRate :: real
  tb_lastRefill :: time

record RateLimiter =
  rl_limiters :: "string \<rightharpoonup> tokenBucket"

definition NewRateLimiter :: RateLimiter where
  "NewRateLimiter = \<lparr>rl_limiters = Map.empty\<rparr>"

text \<open>\<open>d.Seconds()\<close>: whole seconds and the rest are converted apart and added.\<close>

definition Seconds :: "rounding \<Rightarrow> duration \<Rightarrow> real" where
  "Seconds rnd d =
     rnd (rnd (of_int (d sdiv Second)) + rnd (rnd (of_int (d smod Second)) / 1000000000))"

definition rl_SetLimit ::
  "rounding \<Rightarrow> clock \<Rightarrow> string \<Rightarrow> real \<Rightarrow> int \<Rightarrow> RateLimiter \<Rightarrow> RateLimiter" where
  "rl_SetLimit rnd clk queue rate burst rl =
     rl\<lparr>rl_limiters := (rl_limiters rl)(queue \<mapsto>
       \<lparr>tb_tokens = rnd (of_int burst), tb_maxTokens = rnd (of_int burst),
        tb_refillRate = rate, tb_lastRefill = clk 0\<rparr>)\<rparr>"

definition refill :: "rounding \<Rightarrow> time \<Rightarrow> tokenBucket \<Rightarrow> tokenBucket" where
  "refill rnd now tb =
     (let elapsed = Seconds rnd (time_sub now (tb_lastRefill tb));
          tokens = rnd (tb_tokens tb + rnd (elapsed * tb_refillRate tb));
          tokens = (if tokens > tb_maxTokens tb then tb_maxTokens tb else tokens)
      in tb\<lparr>tb_tokens := tokens, tb_lastRefill := now\<rparr>)"

definition take_token :: "rounding \<Rightarrow> tokenBucket \<Rightarrow> bool \<times> tokenBucket" where
  "take_token rnd tb =
     (if tb_tokens tb \<ge> 1 then (True, tb\<lparr>tb_tokens := rnd (tb_tokens tb - 1)\<rparr>) else (False, tb))"

definition rl_Allow ::
  "rounding \<Rightarrow> clock \<Rightarrow> string \<Rightarrow> RateLimiter \<Rightarrow> bool \<times> RateLimiter" where
  "rl_Allow rnd clk queue rl =
     (case rl_limiters rl queue of
        None \<Rightarrow> (True, rl)
      | Some tb \<Rightarrow>
          (case take_token rnd (refill rnd (clk 0) tb) of
             (r, tb) \<Rightarrow> (r, rl\<lparr>rl_limiters := (rl_limiters rl)(queue \<mapsto> tb)\<rparr>)))"

text \<open>
  \<open>Wait\<close> polls until it is allowed or its context is done. The \<open>i\<close>-th poll reads the clock as
  \<open>clk i\<close>; \<open>ctx i\<close> is the error of the context if the \<open>select\<close> after it takes \<open>ctx.Done()\<close>. The loop
  may run for ever: then the result is \<open>None\<close>.
\<close>

partial_function (option) wait_from ::
  "rounding \<Rightarrow> clock \<Rightarrow> (nat \<Rightarrow> err option) \<Rightarrow> string \<Rightarrow> nat \<Rightarrow> RateLimiter
   \<Rightarrow> (unit res \<times> RateLimiter) option" where
  "wait_from rnd clk ctx queue i rl =
     (case rl_Allow rnd (clock_from i clk) queue rl of (r, rl) \<Rightarrow>
        if r then Some (Ok (), rl)
        else (case ctx i of
            Some e \<Rightarrow> Some (Err e, rl)
          | None \<Rightarrow> wait_from rnd clk ctx queue (Suc i) rl))"

definition rl_Wait ::
  "rounding \<Rightarrow> clock \<Rightarrow> (nat \<Rightarrow> err option) \<Rightarrow> string \<Rightarrow> RateLimiter \<Rightarrow> (unit res \<times> RateLimiter) option"
  where
  "rl_Wait rnd clk ctx queue rl = wait_from rnd clk ctx queue 0 rl"

definition rl_GetTokens :: "string \<Rightarrow> RateLimiter \<Rightarrow> real" where
  "rl_GetTokens queue rl =
     (case rl_limiters rl queue of None \<Rightarrow> -1 | Some tb \<Rightarrow> tb_tokens tb)"

section \<open>Sliding window\<close>

record slidingWindow =
  wd_limit :: int
  wd_window :: duration
  wd_requests :: "time list"

record SlidingWindowRateLimiter =
  sw_windows :: "string \<rightharpoonup> slidingWindow"

definition NewSlidingWindowRateLimiter :: SlidingWindowRateLimiter where
  "NewSlidingWindowRateLimiter = \<lparr>sw_windows = Map.empty\<rparr>"

text \<open>\<open>make\<close> panics on a negative capacity.\<close>

definition sw_SetLimit ::
  "string \<Rightarrow> int \<Rightarrow> duration \<Rightarrow> SlidingWindowRateLimiter \<Rightarrow> unit res \<times> SlidingWindowRateLimiter" where
  "sw_SetLimit queue limit window sw =
     (if limit < 0 then (Panic ''makeslice: cap out of range'', sw)
      else (Ok (), sw\<lparr>sw_windows := (sw_windows sw)(queue \<mapsto>
        \<lparr>wd_limit = limit, wd_window = window, wd_requests = []\<rparr>)\<rparr>))"

text \<open>
  \<open>now.Add(-w.window)\<close>; the negation of the least duration wraps around.
\<close>

definition window_cutoff :: "time \<Rightarrow> slidingWindow \<Rightarrow> time" where
  "window_cutoff now w = now + wrap64 (- wd_window w)"

definition window_Allow :: "time \<Rightarrow> slidingWindow \<Rightarrow> bool \<times> slidingWindow" where
  "window_Allow now w =
     (let w = w\<lparr>wd_requests := filter (\<lambda>req. req > window_cutoff now w) (wd_requests w)\<rparr> in
      if int (length (wd_requests w)) < wd_limit w
      then (True, w\<lparr>wd_requests := wd_requests w @ [now]\<rparr>)
      else (False, w))"

definition sw_Allow ::
  "clock \<Rightarrow> string \<Rightarrow> SlidingWindowRateLimiter \<Rightarrow> bool \<times> SlidingWindowRateLimiter" where
  "sw_Allow clk queue sw =
     (case sw_windows sw queue of
        None \<Rightarrow> (True, sw)
      | Some w \<Rightarrow>
          (case window_Allow (clk 0) w of
             (r, w) \<Rightarrow> (r, sw\<lparr>sw_windows := (sw_windows sw)(queue \<mapsto> w)\<rparr>)))"

definition sw_GetCount :: "clock \<Rightarrow> string \<Rightarrow> SlidingWindowRateLimiter \<Rightarrow> int" where
  "sw_GetCount clk queue sw =
     (case sw_windows sw queue of
        None \<Rightarrow> 0
      | Some w \<Rightarrow> int (length (filter (\<lambda>req. req > window_cutoff (clk 0) w) (wd_requests w))))"

section \<open>The rate-limited queue\<close>

record RateLimitedQueue =
  rq_queueName :: string
  rq_rateLimiter :: RateLimiter

definition NewRateLimitedQueue :: "rounding \<Rightarrow> clock \<Rightarrow> string \<Rightarrow> real \<Rightarrow> int \<Rightarrow> RateLimitedQueue" where
  "NewRateLimitedQueue rnd clk queue rps burst =
     \<lparr>rq_queueName = queue, rq_rateLimiter = rl_SetLimit rnd clk queue rps burst NewRateLimiter\<rparr>"

definition EnqueueWithLimit ::
  "rounding \<Rightarrow> clock \<Rightarrow> RateLimitedQueue \<Rightarrow> unit res \<times> RateLimitedQueue" where
  "EnqueueWithLimit rnd clk rq =
     (case rl_Allow rnd clk (rq_queueName rq) (rq_rateLimiter rq) of (r, rl) \<Rightarrow>
        (if r then Ok ()
         else Err (NewQueueError '''' (''rate limit exceeded for queue: '' @ rq_queueName rq) None),
         rq\<lparr>rq_rateLimiter := rl\<rparr>))"

definition WaitAndEnqueue ::
  "rounding \<Rightarrow> clock \<Rightarrow> (nat \<Rightarrow> err option) \<Rightarrow> RateLimitedQueue \<Rightarrow> (unit res \<times> RateLimitedQueue) option"
  where
  "WaitAndEnqueue rnd clk ctx rq =
     map_option (\<lambda>(r, rl). (r, rq\<lparr>rq_rateLimiter := rl\<rparr>))
       (rl_Wait rnd clk ctx (rq_queueName rq) (rq_rateLimiter rq))"

end
