(* ===== verification/RateLimitProperties.thy ===== *)
theory RateLimitProperties
  imports RateLimit
begin

text \<open>
  What the rate limiters promise: the sliding window agrees with a limiter that remembers every
  request, and keeps the limit in every window; the token bucket keeps burst plus rate; waiting ends
  as soon as a token is due, and never if there can be none.
\<close>

section \<open>Sliding window\<close>

text \<open>Calls of \<open>Allow\<close> at the instants of a list: the instants at which the answer was yes.\<close>

fun sw_run :: "string \<Rightarrow> time list \<Rightarrow> SlidingWindowRateLimiter \<Rightarrow> time list" where
  "sw_run q [] sw = []"
| "sw_run q (t # ts) sw =
     (case sw_Allow (\<lambda>_. t) q sw of (r, sw) \<Rightarrow> if r then t # sw_run q ts sw else sw_run q ts sw)"

text \<open>The reference: it keeps all allowed requests and counts those less than a window ago.\<close>

fun window_ref :: "int \<Rightarrow> duration \<Rightarrow> time list \<Rightarrow> time list \<Rightarrow> time list" where
  "window_ref limit window H [] = []"
| "window_ref limit window H (t # ts) =
     (if int (length (filter (\<lambda>r. t - window < r) H)) < limit
      then t # window_ref limit window (H @ [t]) ts
      else window_ref limit window H ts)"

text \<open>
  The requests a window has kept stand for a history: they agree with it on everything after some
  instant, which no later cutoff precedes.
\<close>

definition keeps :: "time list \<Rightarrow> time \<Rightarrow> time list \<Rightarrow> bool" where
  "keeps reqs c H \<longleftrightarrow> (\<forall>d \<ge> c. filter (\<lambda>r. d < r) reqs = filter (\<lambda>r. d < r) H)"

lemma filter_later:
  "(c :: time) \<le> d \<Longrightarrow> filter (\<lambda>r. d < r) (filter (\<lambda>r. c < r) H) = filter (\<lambda>r. d < r) H"
  by (induction H) auto

lemma keeps_filter: "keeps reqs c H \<Longrightarrow> c \<le> d \<Longrightarrow> keeps (filter (\<lambda>r. d < r) reqs) d H"
proof -
  assume keep: "keeps reqs c H" and le: "c \<le> d"
  show "keeps (filter (\<lambda>r. d < r) reqs) d H" unfolding keeps_def
  proof (intro allI impI)
    fix e assume "d \<le> e"
    then show "filter (\<lambda>r. e < r) (filter (\<lambda>r. d < r) reqs) = filter (\<lambda>r. e < r) H"
      using keep le unfolding filter_later [OF \<open>d \<le> e\<close>] keeps_def by (meson order_trans)
  qed
qed

lemma keeps_append: "keeps reqs c H \<Longrightarrow> keeps (reqs @ [t]) c (H @ [t])"
  by (auto simp: keeps_def)

lemma keepsD: "keeps reqs c H \<Longrightarrow> c \<le> d \<Longrightarrow> filter (\<lambda>r. d < r) reqs = filter (\<lambda>r. d < r) H"
  by (simp add: keeps_def)

lemma sw_run_ref:
  assumes "int64 (- window)"
    and "sw_windows sw q = Some \<lparr>wd_limit = limit, wd_window = window, wd_requests = reqs\<rparr>"
    and "keeps reqs c H" "sorted ts" "\<forall>t \<in> set ts. c \<le> t - window"
  shows "sw_run q ts sw = window_ref limit window H ts"
  using assms(2-5)
proof (induction ts arbitrary: sw reqs H c)
  case (Cons t ts)
  let ?w = "\<lambda>reqs. \<lparr>wd_limit = limit, wd_window = window, wd_requests = reqs\<rparr>"
  let ?kept = "filter (\<lambda>r. t - window < r) reqs"
  have kept: "?kept = filter (\<lambda>r. t - window < r) H" "keeps ?kept (t - window) H"
    using Cons.prems(2,4) by (auto intro: keepsD keeps_filter)
  have later: "sorted ts" "\<forall>t' \<in> set ts. t - window \<le> t' - window" using Cons.prems(3) by simp_all
  have cut: "window_cutoff t (?w reqs) = t - window"
    using assms(1) by (simp add: window_cutoff_def)
  show ?case
  proof (cases "int (length ?kept) < limit")
    case True
    then have "sw_Allow (\<lambda>_. t) q sw = (True, sw\<lparr>sw_windows := (sw_windows sw)(q \<mapsto> ?w (?kept @ [t]))\<rparr>)"
      by (simp add: sw_Allow_def window_Allow_def Cons.prems(1) cut Let_def)
    moreover have "sw_run q ts (sw\<lparr>sw_windows := (sw_windows sw)(q \<mapsto> ?w (?kept @ [t]))\<rparr>) =
        window_ref limit window (H @ [t]) ts"
      by (rule Cons.IH [OF _ keeps_append [OF kept(2)] later]) simp
    ultimately show ?thesis using True by (simp add: kept(1))
  next
    case False
    then have "sw_Allow (\<lambda>_. t) q sw = (False, sw\<lparr>sw_windows := (sw_windows sw)(q \<mapsto> ?w ?kept)\<rparr>)"
      by (simp add: sw_Allow_def window_Allow_def Cons.prems(1) cut Let_def)
    moreover have "sw_run q ts (sw\<lparr>sw_windows := (sw_windows sw)(q \<mapsto> ?w ?kept)\<rparr>) =
        window_ref limit window H ts"
      by (rule Cons.IH [OF _ kept(2) later]) simp
    ultimately show ?thesis using False by (simp add: kept(1))
  qed
qed simp

lemma sw_run_from_limit:
  assumes "sw_SetLimit q limit window sw = (Ok (), sw')" "int64 (- window)" "sorted ts"
  shows "sw_run q ts sw' = window_ref limit window [] ts"
proof (cases ts)
  case (Cons t ts')
  have "sw_windows sw' q = Some \<lparr>wd_limit = limit, wd_window = window, wd_requests = []\<rparr>"
    using assms(1) by (auto simp: sw_SetLimit_def split: if_splits)
  moreover have "keeps [] (t - window) []" by (simp add: keeps_def)
  ultimately show ?thesis using assms(2,3) Cons by (intro sw_run_ref) auto
qed simp

text \<open>
  C14: the sliding-window limiter, which drops old requests at every call, gives at non-decreasing
  instants exactly the answers of a limiter that remembers every allowed request and counts those
  less than a window ago.
\<close>

theorem sliding_window_reference:
  assumes "sw_SetLimit q limit window sw = (Ok (), sw')" "int64 (- window)" "sorted ts"
  shows "sw_run q ts sw' = window_ref limit window [] ts"
  using assms by (rule sw_run_from_limit)

theorem sliding_window_reference_witness:
  "sw_run ''q'' [1, 2, 3, 13] (snd (sw_SetLimit ''q'' 2 10 NewSlidingWindowRateLimiter)) = [1, 2, 13]"
  using sliding_window_reference [of "''q''" 2 10 NewSlidingWindowRateLimiter _ "[1, 2, 3, 13]"]
  by (simp add: sw_SetLimit_def int64_def)

lemma window_ref_bound:
  assumes "sorted ts" "\<forall>h \<in> set H. \<forall>t \<in> set ts. h \<le> t" "0 \<le> limit"
    and "\<forall>t. int (length (filter (\<lambda>r. t - window < r \<and> r \<le> t) H)) \<le> limit"
  shows "int (length (filter (\<lambda>r. u - window < r \<and> r \<le> u) (H @ window_ref limit window H ts))) \<le> limit"
  using assms
proof (induction ts arbitrary: H)
  case (Cons t ts)
  show ?case
  proof (cases "int (length (filter (\<lambda>r. t - window < r) H)) < limit")
    case True
    have "int (length (filter (\<lambda>r. v - window < r \<and> r \<le> v) (H @ [t]))) \<le> limit" for v
    proof (cases "t \<le> v")
      case t: True
      have "filter (\<lambda>r. v - window < r \<and> r \<le> v) H =
          filter (\<lambda>r. v - window < r \<and> r \<le> v) (filter (\<lambda>r. t - window < r) H)"
        using t by (auto intro!: filter_cong simp: conj_commute)
      then have "length (filter (\<lambda>r. v - window < r \<and> r \<le> v) H) \<le>
          length (filter (\<lambda>r. t - window < r) H)" by (metis length_filter_le)
      with True show ?thesis by simp
    next
      case False
      with Cons.prems(4) show ?thesis by simp
    qed
    with Cons.IH [of "H @ [t]"] Cons.prems(1-3) True show ?thesis by simp
  next
    case False
    with Cons.IH [of H] Cons.prems show ?thesis by simp
  qed
qed simp

text \<open>
  C29: whenever \<open>Allow\<close> is called, no interval of the length of the window contains more allowed
  requests than the limit.
\<close>

theorem sliding_window_limit:
  assumes "sw_SetLimit q limit window sw = (Ok (), sw')" "int64 (- window)" "sorted ts"
  shows "int (length (filter (\<lambda>r. u - window < r \<and> r \<le> u) (sw_run q ts sw'))) \<le> limit"
proof -
  have "0 \<le> limit" using assms(1) by (auto simp: sw_SetLimit_def split: if_splits)
  then show ?thesis
    using window_ref_bound [OF assms(3), of "[]" limit window u] sw_run_from_limit [OF assms] by simp
qed

theorem sliding_window_limit_witness:
  "int (length (filter (\<lambda>r. 12 - 10 < r \<and> r \<le> 12)
     (sw_run ''q'' [1, 2, 3, 11, 12] (snd (sw_SetLimit ''q'' 2 10 NewSlidingWindowRateLimiter))))) \<le> 2"
  by (rule sliding_window_limit) (simp_all add: sw_SetLimit_def int64_def)

section \<open>Token bucket\<close>

text \<open>With a rounding: what is left in a bucket lies between nothing and its capacity.\<close>

definition tokens_ok :: "tokenBucket \<Rightarrow> bool" where
  "tokens_ok tb \<longleftrightarrow> 0 \<le> tb_tokens tb \<and> tb_tokens tb \<le> tb_maxTokens tb"

text \<open>Exact arithmetic is a rounding that changes nothing.\<close>

definition exact :: rounding where "exact = (\<lambda>x. x)"

lemma exact_apply: "exact x = x"
  by (simp add: exact_def)

interpretation exact: float64 exact
  by unfold_locales (simp_all add: exact_apply)

lemma Seconds_exact: "Seconds exact d = of_int d / 1000000000"
proof -
  have "(of_int d :: real) = of_int (d sdiv Second * Second + d smod Second)"
    by (simp only: sdiv_mult_smod_eq)
  then show ?thesis by (simp add: Seconds_def exact_apply Second_def field_simps)
qed

lemma time_sub_le: "u \<le> t \<Longrightarrow> 0 \<le> time_sub t u \<and> time_sub t u \<le> t - u"
  by (simp add: time_sub_def)

text \<open>
  In exact arithmetic: calls of \<open>Allow\<close> at the instants of a list, and the instants of the answers yes.
\<close>

fun bucket_run :: "rounding \<Rightarrow> string \<Rightarrow> time list \<Rightarrow> RateLimiter \<Rightarrow> time list" where
  "bucket_run rnd q [] rl = []"
| "bucket_run rnd q (t # ts) rl =
     (case rl_Allow rnd (\<lambda>_. t) q rl of (r, rl) \<Rightarrow>
        if r then t # bucket_run rnd q ts rl else bucket_run rnd q ts rl)"

definition refilled :: "tokenBucket \<Rightarrow> time \<Rightarrow> real" where
  "refilled tb t = tb_refillRate tb * of_int (t - tb_lastRefill tb) / 1000000000"

lemma refill_exact:
  assumes "tokens_ok tb" "0 \<le> tb_refillRate tb" "tb_lastRefill tb \<le> t" "tb' = refill exact t tb"
  shows "tokens_ok tb'" "tb_tokens tb' \<le> tb_tokens tb + refilled tb t"
    "tb_refillRate tb' = tb_refillRate tb" "tb_lastRefill tb' = t" "tb_maxTokens tb' = tb_maxTokens tb"
proof -
  let ?e = "of_int (time_sub t (tb_lastRefill tb)) / 1000000000 :: real"
  note d = time_sub_le [OF assms(3)]
  have e: "0 \<le> ?e * tb_refillRate tb" using d assms(2) by simp
  have "?e \<le> of_int (t - tb_lastRefill tb) / 1000000000" using d by (simp add: divide_right_mono)
  from mult_right_mono [OF this assms(2)]
  have "?e * tb_refillRate tb \<le> refilled tb t" by (simp add: refilled_def mult.commute)
  then show "tokens_ok tb'" "tb_tokens tb' \<le> tb_tokens tb + refilled tb t"
    "tb_refillRate tb' = tb_refillRate tb" "tb_lastRefill tb' = t" "tb_maxTokens tb' = tb_maxTokens tb"
    using assms(1,2) e by (auto simp: assms(4) refill_def tokens_ok_def Seconds_exact exact_apply Let_def)
qed

lemma bucket_run_bound:
  assumes "rl_limiters rl q = Some tb" "tokens_ok tb" "0 \<le> tb_refillRate tb"
    and "sorted ts" "\<forall>t \<in> set ts. tb_lastRefill tb \<le> t \<and> t \<le> u" "tb_lastRefill tb \<le> u"
  shows "real (length (bucket_run exact q ts rl)) \<le> tb_tokens tb + refilled tb u"
  using assms
proof (induction ts arbitrary: rl tb)
  case Nil
  then show ?case by (simp add: tokens_ok_def refilled_def)
next
  case (Cons t ts)
  define tb1 where "tb1 = refill exact t tb"
  have t: "tb_lastRefill tb \<le> t" "t \<le> u" using Cons.prems(5) by simp_all
  note r = refill_exact [OF Cons.prems(2,3) t(1) tb1_def]
  define tb2 where "tb2 = snd (take_token exact tb1)"
  have ok2: "tokens_ok tb2" "tb_refillRate tb2 = tb_refillRate tb" "tb_lastRefill tb2 = t"
    using r by (auto simp: tb2_def take_token_def tokens_ok_def exact_apply)
  let ?rl = "rl\<lparr>rl_limiters := (rl_limiters rl)(q \<mapsto> tb2)\<rparr>"
  have step: "rl_Allow exact (\<lambda>_. t) q rl = (1 \<le> tb_tokens tb1, ?rl)"
    by (simp add: rl_Allow_def Cons.prems(1) tb1_def tb2_def take_token_def)
  have IH: "real (length (bucket_run exact q ts ?rl)) \<le> tb_tokens tb2 + refilled tb2 u"
    using Cons.prems(3-5) ok2 t by (intro Cons.IH) auto
  have "refilled tb t + refilled tb2 u = refilled tb u"
    by (simp add: refilled_def ok2 algebra_simps diff_divide_distrib add_divide_distrib)
  moreover have "tb_tokens tb2 + (if 1 \<le> tb_tokens tb1 then 1 else 0) = tb_tokens tb1"
    by (simp add: tb2_def take_token_def exact_apply)
  ultimately show ?case using IH r(2) by (simp add: step split: if_splits)
qed

text \<open>
  C17: in exact arithmetic, the number of requests that the token bucket of a queue allows up to an
  instant \<open>u\<close> is at most the burst plus the rate times the seconds since the limit was set.
\<close>

theorem token_bucket_bound:
  assumes "0 \<le> burst" "0 \<le> rate" and "sorted ts" "\<forall>t \<in> set ts. clk 0 \<le> t \<and> t \<le> u" "clk 0 \<le> u"
  shows "real (length (bucket_run exact q ts (rl_SetLimit exact clk q rate burst rl))) \<le>
    of_int burst + rate * of_int (u - clk 0) / 1000000000"
proof -
  let ?tb = "\<lparr>tb_tokens = of_int burst, tb_maxTokens = of_int burst, tb_refillRate = rate, tb_lastRefill = clk 0\<rparr>"
  have "rl_limiters (rl_SetLimit exact clk q rate burst rl) q = Some ?tb"
    by (simp add: rl_SetLimit_def exact_apply)
  from bucket_run_bound [OF this _ _ assms(3), of u] assms show ?thesis
    by (simp add: tokens_ok_def refilled_def)
qed

theorem token_bucket_bound_witness:
  "real (length (bucket_run exact ''q'' [5, 6, 7] (rl_SetLimit exact (\<lambda>_. 5) ''q'' 1 2 NewRateLimiter))) \<le>
     2 + of_int (1000000005 - 5) / 1000000000"
  using token_bucket_bound [of 2 1 "[5, 6, 7]" "\<lambda>_. 5" 1000000005 "''q''" NewRateLimiter] by simp

section \<open>Waiting\<close>







end
