(* ===== verification/Batching.thy ===== *)
theory Batching
  imports Manager
begin

text \<open>
  Batch processing of jobs, \<^verbatim>\<open>internal/features/batching.go\<close>. A job type with a handler has a
  batch of waiting jobs; a run of \<open>processBatch\<close> takes the whole batch, hands it to the processor
  and stores the jobs with their new status. Timers have numbers; \<open>bt_timer\<close> is the number of the
  timer last started for the batch. A processor may change the jobs it is given, so it returns them.
\<close>

section \<open>State\<close>

type_synonym batch_handler = "job list \<Rightarrow> err option \<times> job list"

record batch =
  bt_jobs :: "job list"
  bt_timer :: "nat option"
  bt_processor :: batch_handler

record 's BatchProcessor =
  bp_queueManager :: "'s Manager"
  bp_batchSize :: int
  bp_batchTimeout :: duration
  bp_batches :: "string \<rightharpoonup> batch"
  bp_stopCh :: bool

definition NewBatchProcessor :: "'s Manager \<Rightarrow> int \<Rightarrow> duration \<Rightarrow> 's BatchProcessor" where
  "NewBatchProcessor qm batchSize batchTimeout =
     \<lparr>bp_queueManager = qm,
      bp_batchSize = (if batchSize = 0 then 10 else batchSize),
      bp_batchTimeout = (if batchTimeout = 0 then 5 * Second else batchTimeout),
      bp_batches = Map.empty, bp_stopCh = False\<rparr>"

definition RegisterBatchHandler ::
  "string \<Rightarrow> batch_handler \<Rightarrow> 's BatchProcessor \<Rightarrow> unit res \<times> 's BatchProcessor" where
  "RegisterBatchHandler jobType processor bp =
     (if bp_batchSize bp < 0 then (Panic ''makeslice: cap out of range'', bp)
      else (Ok (), bp\<lparr>bp_batches := (bp_batches bp)(jobType \<mapsto>
        \<lparr>bt_jobs = [], bt_timer = None, bt_processor = processor\<rparr>)\<rparr>))"

section \<open>Adding a job\<close>

text \<open>
  What \<open>AddJob\<close> does outside the batch: a timer started, a timer stopped, and whether it starts a
  goroutine that runs \<open>processBatch\<close>. \<open>tid\<close> is the number of the next timer.
\<close>

record batch_effects =
  be_started :: "nat option"
  be_stopped :: "nat option"
  be_spawned :: bool

definition no_effects :: batch_effects where
  "no_effects = \<lparr>be_started = None, be_stopped = None, be_spawned = False\<rparr>"

definition AddJob :: "nat \<Rightarrow> job \<Rightarrow> 's BatchProcessor \<Rightarrow> batch_effects \<times> 's BatchProcessor" where
  "AddJob tid j bp =
     (case bp_batches bp (j_Type j) of
        None \<Rightarrow> (no_effects, bp)
      | Some b \<Rightarrow>
          let b = b\<lparr>bt_jobs := bt_jobs b @ [j]\<rparr>;
              first = (length (bt_jobs b) = 1);
              b = (if first then b\<lparr>bt_timer := Some tid\<rparr> else b);
              full = (int (length (bt_jobs b)) \<ge> bp_batchSize bp)
          in (\<lparr>be_started = (if first then Some tid else None),
               be_stopped = (if full then bt_timer b else None), be_spawned = full\<rparr>,
              bp\<lparr>bp_batches := (bp_batches bp)(j_Type j \<mapsto> b)\<rparr>))"

section \<open>Processing a batch\<close>

text \<open>The first half of \<open>processBatch\<close>, under the locks: the jobs taken and their processor.\<close>

definition take_batch ::
  "string \<Rightarrow> 's BatchProcessor \<Rightarrow> (job list \<times> batch_handler) option \<times> 's BatchProcessor" where
  "take_batch jobType bp =
     (case bp_batches bp jobType of
        None \<Rightarrow> (None, bp)
      | Some b \<Rightarrow>
          if bt_jobs b = [] then (None, bp)
          else (Some (bt_jobs b, bt_processor b),
                bp\<lparr>bp_batches := (bp_batches bp)(jobType \<mapsto> b\<lparr>bt_jobs := []\<rparr>)\<rparr>))"

text \<open>The second half: the processor, then each job with its status into the store; errors are ignored.\<close>

definition batch_result :: "err option \<Rightarrow> job \<Rightarrow> job" where
  "batch_result err j =
     (case err of
        Some e \<Rightarrow> j\<lparr>j_Status := StatusFailed, j_Error := Error e\<rparr>
      | None \<Rightarrow> j\<lparr>j_Status := StatusSuccess\<rparr>)"

fun update_jobs :: "'s Storage \<Rightarrow> err option \<Rightarrow> job list \<Rightarrow> 's Manager \<Rightarrow> unit res \<times> 's Manager" where
  "update_jobs St err [] m = (Ok (), m)"
| "update_jobs St err (j # js) m =
     (case mgr_UpdateJob St (batch_result err j) m of
        (Panic p, m) \<Rightarrow> (Panic p, m)
      | (_, m) \<Rightarrow> update_jobs St err js m)"

definition finish_batch ::
  "'s Storage \<Rightarrow> job list \<times> batch_handler \<Rightarrow> 's BatchProcessor \<Rightarrow> unit res \<times> 's BatchProcessor" where
  "finish_batch St b bp =
     (case snd b (fst b) of (err, js) \<Rightarrow>
        (case update_jobs St err js (bp_queueManager bp) of
           (r, m) \<Rightarrow> (r, bp\<lparr>bp_queueManager := m\<rparr>)))"

definition processBatch ::
  "'s Storage \<Rightarrow> string \<Rightarrow> 's BatchProcessor \<Rightarrow> unit res \<times> 's BatchProcessor" where
  "processBatch St jobType bp =
     (case take_batch jobType bp of
        (None, bp) \<Rightarrow> (Ok (), bp)
      | (Some b, bp) \<Rightarrow> finish_batch St b bp)"

section \<open>Stop\<close>

text \<open>\<open>Stop\<close> runs \<open>processBatch\<close> for every type, in the order of the map.\<close>

fun process_all :: "'s Storage \<Rightarrow> string list \<Rightarrow> 's BatchProcessor \<Rightarrow> unit res \<times> 's BatchProcessor" where
  "process_all St [] bp = (Ok (), bp)"
| "process_all St (ty # tys) bp =
     (case processBatch St ty bp of
        (Panic p, bp) \<Rightarrow> (Panic p, bp)
      | (_, bp) \<Rightarrow> process_all St tys bp)"

definition batch_Stop ::
  "'s Storage \<Rightarrow> (string set \<Rightarrow> string list) \<Rightarrow> 's BatchProcessor \<Rightarrow> unit res \<times> 's BatchProcessor" where
  "batch_Stop St iter bp =
     (if bp_stopCh bp then (Panic ''close of closed channel'', bp)
      else let bp = bp\<lparr>bp_stopCh := True\<rparr> in process_all St (iter (dom (bp_batches bp))) bp)"

section \<open>Timers and goroutines\<close>

text \<open>
  The processor together with what runs beside it: the armed timers with the job type each is for,
  the calls of \<open>processBatch\<close> that are due but have not taken their batch, and the batches taken
  and not finished.
\<close>

record 's batching =
  bn_bp :: "'s BatchProcessor"
  bn_armed :: "nat \<rightharpoonup> string"
  bn_next :: nat
  bn_pending :: "string multiset"
  bn_running :: "(job list \<times> batch_handler) multiset"

definition apply_effects :: "string \<Rightarrow> batch_effects \<Rightarrow> 's batching \<Rightarrow> 's batching" where
  "apply_effects ty e s =
     (let s = (case be_started e of None \<Rightarrow> s
               | Some t \<Rightarrow> s\<lparr>bn_armed := (bn_armed s)(t \<mapsto> ty), bn_next := bn_next s + 1\<rparr>);
          s = (case be_stopped e of None \<Rightarrow> s | Some t \<Rightarrow> s\<lparr>bn_armed := (bn_armed s)(t := None)\<rparr>)
      in if be_spawned e then s\<lparr>bn_pending := add_mset ty (bn_pending s)\<rparr> else s)"

text \<open>
  A step, with the jobs it adds to a batch, finishes, and drops. \<open>Stop\<close> calls \<open>processBatch\<close> for one
  type after the other, which is one of the orders in which the calls it makes due can run.
\<close>

inductive batch_step ::
  "'s Storage \<Rightarrow> 's batching \<Rightarrow> job list \<Rightarrow> job list \<Rightarrow> job list \<Rightarrow> 's batching \<Rightarrow> bool" for St where
  register: "RegisterBatchHandler ty h (bn_bp s) = (Ok (), bp) \<Longrightarrow>
    batch_step St s [] [] (case bp_batches (bn_bp s) ty of None \<Rightarrow> [] | Some b \<Rightarrow> bt_jobs b) (s\<lparr>bn_bp := bp\<rparr>)"
| add: "AddJob (bn_next s) j (bn_bp s) = (e, bp) \<Longrightarrow>
    batch_step St s (if bp_batches (bn_bp s) (j_Type j) = None then [] else [j]) [] []
      (apply_effects (j_Type j) e (s\<lparr>bn_bp := bp\<rparr>))"
| fire: "bn_armed s t = Some ty \<Longrightarrow>
    batch_step St s [] [] [] (s\<lparr>bn_armed := (bn_armed s)(t := None), bn_pending := add_mset ty (bn_pending s)\<rparr>)"
| take_none: "ty \<in># bn_pending s \<Longrightarrow> take_batch ty (bn_bp s) = (None, bp) \<Longrightarrow>
    batch_step St s [] [] [] (s\<lparr>bn_bp := bp, bn_pending := bn_pending s - {#ty#}\<rparr>)"
| take_some: "ty \<in># bn_pending s \<Longrightarrow> take_batch ty (bn_bp s) = (Some b, bp) \<Longrightarrow>
    batch_step St s [] [] [] (s\<lparr>bn_bp := bp, bn_pending := bn_pending s - {#ty#},
      bn_running := add_mset b (bn_running s)\<rparr>)"
| finish: "b \<in># bn_running s \<Longrightarrow> finish_batch St b (bn_bp s) = (Ok (), bp) \<Longrightarrow>
    batch_step St s [] (fst b) [] (s\<lparr>bn_bp := bp, bn_running := bn_running s - {#b#}\<rparr>)"
| stop: "\<not> bp_stopCh (bn_bp s) \<Longrightarrow> set tys = dom (bp_batches (bn_bp s)) \<Longrightarrow>
    batch_step St s [] [] [] (s\<lparr>bn_bp := (bn_bp s)\<lparr>bp_stopCh := True\<rparr>, bn_pending := bn_pending s + mset tys\<rparr>)"
| clients: "batch_step St s [] [] [] (s\<lparr>bn_bp := (bn_bp s)\<lparr>bp_queueManager := m\<rparr>\<rparr>)"

definition batching_new :: "'s BatchProcessor \<Rightarrow> 's batching" where
  "batching_new bp =
     \<lparr>bn_bp = bp, bn_armed = Map.empty, bn_next = 0, bn_pending = {#}, bn_running = {#}\<rparr>"

inductive batch_reach ::
  "'s Storage \<Rightarrow> 's batching \<Rightarrow> job multiset \<Rightarrow> job multiset \<Rightarrow> job multiset \<Rightarrow> 's batching \<Rightarrow> bool"
  for St s0 where
  reach_refl: "batch_reach St s0 {#} {#} {#} s0"
| reach_step: "batch_reach St s0 added finished dropped s \<Longrightarrow> batch_step St s a f d s' \<Longrightarrow>
    batch_reach St s0 (added + mset a) (finished + mset f) (dropped + mset d) s'"

end
