(* ===== verification/BatchingProperties.thy ===== *)
theory BatchingProperties
  imports Batching ManagerProperties
begin

text \<open>
  What batching promises in every interleaving of callers, timers and runs of \<open>processBatch\<close>: no job is
  lost or processed twice, and no batch waits for ever.
\<close>

section \<open>The invariant\<close>








section \<open>Adding a job\<close>




section \<open>Every step keeps the invariant and accounts for every job\<close>















section \<open>No job is lost and no batch is stuck\<close>





end
