(* ===== verification/Tenancy.thy ===== *)
theory Tenancy
  imports Manager
begin

text \<open>
  Multi-tenancy, \<^verbatim>\<open>internal/features/tenancy.go\<close>, over a queue manager on any backend. A
  tenant's resource limit is a pointer: \<open>None\<close> is nil, and reading a field of it panics. A method
  that changes the tenant behind its pointer argument also returns the tenant. Record fields carry
  the struct field's name after \<open>rs_\<close>, \<open>tn_\<close> and \<open>tm_\<close>.
\<close>

section \<open>State\<close>

record ResourceLimit =
  rs_MaxJobs :: int
  rs_MaxQueues :: int
  rs_MaxWorkers :: int
  rs_MaxConcurrency :: int
  rs_RateLimit :: real
  rs_StorageQuotaMB :: int

record Tenant =
  tn_ID :: string
  tn_Name :: string
  tn_Queues :: "string list"
  tn_ResourceLimit :: "ResourceLimit option"
  tn_Metadata :: jmap

record 's TenantManager =
  tm_tenants :: "string \<rightharpoonup> Tenant"
  tm_queueManager :: "'s Manager"

definition NewTenantManager :: "'s Manager \<Rightarrow> 's TenantManager" where
  "NewTenantManager qm = \<lparr>tm_tenants = Map.empty, tm_queueManager = qm\<rparr>"

definition nil_dereference :: string where
  "nil_dereference = ''invalid memory address or nil pointer dereference''"

definition tenant_not_found :: "string \<Rightarrow> err" where
  "tenant_not_found t = Errorf (''tenant not found: '' @ t) None"

section \<open>Creating and deleting tenants\<close>

definition default_limits :: ResourceLimit where
  "default_limits =
     \<lparr>rs_MaxJobs = 10000, rs_MaxQueues = 10, rs_MaxWorkers = 100, rs_MaxConcurrency = 10,
      rs_RateLimit = 100, rs_StorageQuotaMB = 1024\<rparr>"

definition tenant_queue :: "Tenant \<Rightarrow> ResourceLimit \<Rightarrow> QueueConfig" where
  "tenant_queue tn limits =
     zero_QueueConfig\<lparr>qc_Name := tn_ID tn @ ''_default'', qc_MaxWorkers := rs_MaxWorkers limits,
       qc_MaxRetries := 3, qc_RetryStrategy := RetryStrategyExponential, qc_Priority := PriorityNormal\<rparr>"

definition CreateTenant ::
  "'s Storage \<Rightarrow> Tenant \<Rightarrow> 's TenantManager \<Rightarrow> unit res \<times> Tenant \<times> 's TenantManager" where
  "CreateTenant St tn tm =
     (if tn_ID tn = '''' then (Err (Errorf ''tenant ID is required'' None), tn, tm)
      else if tm_tenants tm (tn_ID tn) \<noteq> None
      then (Err (Errorf (''tenant already exists: '' @ tn_ID tn) None), tn, tm)
      else
        let limits = (case tn_ResourceLimit tn of None \<Rightarrow> default_limits | Some l \<Rightarrow> l);
            tn = tn\<lparr>tn_ResourceLimit := Some limits\<rparr>;
            tm = tm\<lparr>tm_tenants := (tm_tenants tm)(tn_ID tn \<mapsto> tn)\<rparr>
        in case mgr_RegisterQueue St (tenant_queue tn limits) (tm_queueManager tm) of
             (Err e, _, m) \<Rightarrow>
               (Err (Errorf ''failed to create default queue'' (Some e)), tn, tm\<lparr>tm_queueManager := m\<rparr>)
           | (Panic p, _, m) \<Rightarrow> (Panic p, tn, tm\<lparr>tm_queueManager := m\<rparr>)
           | (Ok _, config, m) \<Rightarrow>
               let tn = tn\<lparr>tn_Queues := [qc_Name config]\<rparr>
               in (Ok (), tn, tm\<lparr>tm_queueManager := m, tm_tenants := (tm_tenants tm)(tn_ID tn \<mapsto> tn)\<rparr>))"

definition GetTenant :: "string \<Rightarrow> 's TenantManager \<Rightarrow> Tenant res" where
  "GetTenant t tm =
     (case tm_tenants tm t of None \<Rightarrow> Err (tenant_not_found t) | Some tn \<Rightarrow> Ok tn)"

definition ListTenants :: "(string set \<Rightarrow> string list) \<Rightarrow> 's TenantManager \<Rightarrow> Tenant list" where
  "ListTenants iter tm = range_map iter (tm_tenants tm)"

text \<open>The loop over the queues of a deleted tenant ignores the errors of \<open>DeleteQueue\<close>.\<close>

fun delete_queues :: "'s Storage \<Rightarrow> string list \<Rightarrow> 's Manager \<Rightarrow> unit res \<times> 's Manager" where
  "delete_queues St [] m = (Ok (), m)"
| "delete_queues St (q # qs) m =
     (case mgr_DeleteQueue St q m of
        (Panic p, m) \<Rightarrow> (Panic p, m)
      | (_, m) \<Rightarrow> delete_queues St qs m)"

definition DeleteTenant :: "'s Storage \<Rightarrow> string \<Rightarrow> 's TenantManager \<Rightarrow> unit res \<times> 's TenantManager" where
  "DeleteTenant St t tm =
     (case tm_tenants tm t of
        None \<Rightarrow> (Err (tenant_not_found t), tm)
      | Some tn \<Rightarrow>
          (case delete_queues St (tn_Queues tn) (tm_queueManager tm) of
             (Panic p, m) \<Rightarrow> (Panic p, tm\<lparr>tm_queueManager := m\<rparr>)
           | (_, m) \<Rightarrow>
               (Ok (), tm\<lparr>tm_queueManager := m, tm_tenants := (tm_tenants tm)(t := None)\<rparr>)))"

section \<open>Limits and queues\<close>

definition CheckResourceLimit :: "string \<Rightarrow> int \<Rightarrow> 's TenantManager \<Rightarrow> unit res" where
  "CheckResourceLimit t jobCount tm =
     (case GetTenant t tm of
        Err e \<Rightarrow> Err e
      | Panic p \<Rightarrow> Panic p
      | Ok tn \<Rightarrow>
          (case tn_ResourceLimit tn of
             None \<Rightarrow> Panic nil_dereference
           | Some l \<Rightarrow>
               if jobCount \<ge> rs_MaxJobs l
               then Err (Errorf (''tenant job limit exceeded: '' @ decimal jobCount @ ''/'' @
                 decimal (rs_MaxJobs l)) None)
               else Ok ()))"

definition UpdateResourceLimit ::
  "string \<Rightarrow> ResourceLimit option \<Rightarrow> 's TenantManager \<Rightarrow> unit res \<times> 's TenantManager" where
  "UpdateResourceLimit t limits tm =
     (case tm_tenants tm t of
        None \<Rightarrow> (Err (tenant_not_found t), tm)
      | Some tn \<Rightarrow>
          (Ok (), tm\<lparr>tm_tenants := (tm_tenants tm)(t \<mapsto> tn\<lparr>tn_ResourceLimit := limits\<rparr>)\<rparr>))"

definition GetTenantQueues :: "string \<Rightarrow> 's TenantManager \<Rightarrow> string list res" where
  "GetTenantQueues t tm =
     (case GetTenant t tm of Err e \<Rightarrow> Err e | Panic p \<Rightarrow> Panic p | Ok tn \<Rightarrow> Ok (tn_Queues tn))"

definition AddQueueToTenant ::
  "string \<Rightarrow> string \<Rightarrow> 's TenantManager \<Rightarrow> unit res \<times> 's TenantManager" where
  "AddQueueToTenant t queueName tm =
     (case tm_tenants tm t of
        None \<Rightarrow> (Err (tenant_not_found t), tm)
      | Some tn \<Rightarrow>
          (case tn_ResourceLimit tn of
             None \<Rightarrow> (Panic nil_dereference, tm)
           | Some l \<Rightarrow>
               if int (length (tn_Queues tn)) \<ge> rs_MaxQueues l
               then (Err (Errorf (''tenant queue limit exceeded: '' @
                  decimal (int (length (tn_Queues tn))) @ ''/'' @ decimal (rs_MaxQueues l)) None), tm)
               else (Ok (), tm\<lparr>tm_tenants := (tm_tenants tm)(t \<mapsto>
                  tn\<lparr>tn_Queues := tn_Queues tn @ [queueName]\<rparr>)\<rparr>)))"

section \<open>The tenant of a context\<close>

text \<open>
  A context is a chain of values under keys; the key of the tenant is a type of its own, so no other
  package can set a value under it. The nearest value wins.
\<close>

datatype ctx_key = tenantContextKey | OtherKey string

type_synonym ctx_values = "(ctx_key \<times> string) list"

definition WithTenant :: "ctx_values \<Rightarrow> string \<Rightarrow> ctx_values" where
  "WithTenant ctx t = (tenantContextKey, t) # ctx"

text \<open>The empty string stands in when there is none, as the failed type assertion gives it.\<close>

definition GetTenantFromContext :: "ctx_values \<Rightarrow> string \<times> bool" where
  "GetTenantFromContext ctx =
     (case map_of ctx tenantContextKey of Some t \<Rightarrow> (t, True) | None \<Rightarrow> ('''', False))"

end
