(* ===== verification/TenancyProperties.thy ===== *)
theory TenancyProperties
  imports Tenancy ManagerProperties
begin

text \<open>
  What tenancy promises: which queues go with a tenant, that tenants do not touch each other, and
  the limit on queues.
\<close>

section \<open>The queues of a tenant\<close>

text \<open>The configurations left after deleting the queues \<open>qs\<close>: those of queues with entries stay.\<close>

definition without_empty :: "string list \<Rightarrow> (string \<Rightarrow> entry multiset) \<Rightarrow> (string \<rightharpoonup> QueueConfig) \<Rightarrow> (string \<rightharpoonup> QueueConfig)"
  where
  "without_empty qs entries cfs = (\<lambda>q. if q \<in> set qs \<and> entries q = {#} then None else cfs q)"

lemma without_empty_Cons:
  "without_empty (q # qs) es cfs = without_empty qs es (if es q = {#} then cfs(q := None) else cfs)"
  by (auto simp: without_empty_def fun_eq_iff)

context storage
begin

lemma DeleteQueue_view:
  assumes "ok (mg_storage m)"
  shows "\<exists>r m'. mgr_DeleteQueue St q m = (r, m') \<and> (\<forall>p. r \<noteq> Panic p) \<and> ok (mg_storage m') \<and>
    view (mg_storage m') = (view (mg_storage m))\<lparr>v_configs := (if v_entries (view (mg_storage m)) q = {#}
      then (v_configs (view (mg_storage m)))(q := None) else v_configs (view (mg_storage m)))\<rparr>"
proof -
  obtain r1 m1 where c1: "on_storage (st_DeleteQueueConfig St q) m = (r1, m1)"
    by (cases "on_storage (st_DeleteQueueConfig St q) m")
  from on_refines [OF DeleteQueueConfig assms c1] c1 show ?thesis
    by (auto simp: mgr_DeleteQueue_def Length assms spec_set_config_def)
qed

lemma delete_queues_view:
  "ok (mg_storage m) \<Longrightarrow> \<exists>m'. delete_queues St qs m = (Ok (), m') \<and> ok (mg_storage m') \<and>
     view (mg_storage m') = (view (mg_storage m))\<lparr>v_configs :=
       without_empty qs (v_entries (view (mg_storage m))) (v_configs (view (mg_storage m)))\<rparr>"
proof (induction qs arbitrary: m)
  case Nil
  then show ?case by (simp add: without_empty_def)
next
  case (Cons q qs)
  obtain r m1 where d: "mgr_DeleteQueue St q m = (r, m1)" "\<forall>p. r \<noteq> Panic p" "ok (mg_storage m1)"
    "view (mg_storage m1) = (view (mg_storage m))\<lparr>v_configs := (if v_entries (view (mg_storage m)) q = {#}
      then (v_configs (view (mg_storage m)))(q := None) else v_configs (view (mg_storage m)))\<rparr>"
    using DeleteQueue_view [OF Cons.prems, of q] by blast
  have step: "delete_queues St (q # qs) m = delete_queues St qs m1"
    using d(1,2) by (cases r) simp_all
  from Cons.IH [OF d(3)] show ?case unfolding step d(4) without_empty_Cons by simp
qed

lemma CreateTenant_Ok:
  assumes "ok (mg_storage (tm_queueManager tm))" "tn_ID tn \<noteq> ''''" "tm_tenants tm (tn_ID tn) = None"
    and "limits = (case tn_ResourceLimit tn of None \<Rightarrow> default_limits | Some l \<Rightarrow> l)"
    and "c = queue_defaults (tenant_queue tn limits)"
  shows "\<exists>m'. CreateTenant St tn tm =
      (Ok (), tn\<lparr>tn_ResourceLimit := Some limits, tn_Queues := [tn_ID tn @ ''_default'']\<rparr>,
       tm\<lparr>tm_queueManager := m', tm_tenants := (tm_tenants tm)(tn_ID tn \<mapsto>
          tn\<lparr>tn_ResourceLimit := Some limits, tn_Queues := [tn_ID tn @ ''_default'']\<rparr>)\<rparr>) \<and>
     ok (mg_storage m') \<and> view (mg_storage m') = (view (mg_storage (tm_queueManager tm)))\<lparr>v_configs :=
       (v_configs (view (mg_storage (tm_queueManager tm))))(tn_ID tn @ ''_default'' \<mapsto> c)\<rparr>"
proof -
  let ?tn = "tn\<lparr>tn_ResourceLimit := Some limits\<rparr>"
  have name: "qc_Name (tenant_queue ?tn limits) = tn_ID tn @ ''_default''"
    "tenant_queue ?tn limits = tenant_queue tn limits"
    "qc_Name c = tn_ID tn @ ''_default''"
    by (simp_all add: tenant_queue_def assms(5) queue_defaults_def Let_def)
  from RegisterQueue_Ok [OF assms(1), of "tenant_queue ?tn limits"] name assms(5) obtain m' where
    "mgr_RegisterQueue St (tenant_queue tn limits) (tm_queueManager tm) = (Ok (), c, m')"
    "ok (mg_storage m')" "view (mg_storage m') = (view (mg_storage (tm_queueManager tm)))\<lparr>v_configs :=
       (v_configs (view (mg_storage (tm_queueManager tm))))(tn_ID tn @ ''_default'' \<mapsto> c)\<rparr>"
    by auto
  with assms(2-4) name show ?thesis
    by (intro exI [of _ m']) (simp add: CreateTenant_def Let_def)
qed

end

text \<open>
  deleting a tenant removes it, and of its queues exactly those without entries; a queue that
  still has entries keeps its configuration and its entries and belongs to no one afterwards. Jobs,
  entries, paused flags and other tenants are left alone.
\<close>

theorem DeleteTenant_queues:
  assumes "mem_inv (mg_storage (tm_queueManager tm))" and "tm_tenants tm t = Some tn"
  shows "\<exists>m'. DeleteTenant (memStorage iter) t tm =
      (Ok (), tm\<lparr>tm_queueManager := m', tm_tenants := (tm_tenants tm)(t := None)\<rparr>) \<and>
    mem_inv (mg_storage m') \<and>
    mem_view (mg_storage m') = (mem_view (mg_storage (tm_queueManager tm)))\<lparr>v_configs := (\<lambda>q.
      if q \<in> set (tn_Queues tn) \<and> ms_queues (mg_storage (tm_queueManager tm)) q = [] then None
      else ms_queueConfigs (mg_storage (tm_queueManager tm)) q)\<rparr>"
  using mem.delete_queues_view [OF assms(1), of iter "tn_Queues tn"] assms(2)
  by (auto simp: DeleteTenant_def without_empty_def)

text \<open>Of two queues, the one with a job in it survives its tenant.\<close>

definition sample_tenant :: Tenant where
  "sample_tenant = \<lparr>tn_ID = ''t'', tn_Name = ''T'', tn_Queues = [''mail'', ''idle''], tn_ResourceLimit = None,
     tn_Metadata = Map.empty\<rparr>"

definition tenant_store :: "MemoryStore Manager" where
  "tenant_store = one_job_waiting\<lparr>mg_storage := (mg_storage one_job_waiting)
     \<lparr>ms_queueConfigs := [''mail'' \<mapsto> sample_config ''mail'', ''idle'' \<mapsto> sample_config ''idle'']\<rparr>\<rparr>"

lemma tenant_store_sel:
  "mem_inv (mg_storage tenant_store)" "ms_queues (mg_storage tenant_store) ''mail'' \<noteq> []"
  "ms_queues (mg_storage tenant_store) ''idle'' = []"
  "ms_queueConfigs (mg_storage tenant_store) = [''mail'' \<mapsto> sample_config ''mail'', ''idle'' \<mapsto> sample_config ''idle'']"
  using one_job_waiting_sel(1) by (simp_all add: tenant_store_def mem_inv_def configs_inv_def)

theorem DeleteTenant_queues_witness:
  "\<exists>m'. DeleteTenant (memStorage sorted_list_of_set) ''t''
      \<lparr>tm_tenants = [''t'' \<mapsto> sample_tenant], tm_queueManager = tenant_store\<rparr> =
      (Ok (), \<lparr>tm_tenants = Map.empty, tm_queueManager = m'\<rparr>) \<and>
    ms_queueConfigs (mg_storage m') = [''mail'' \<mapsto> sample_config ''mail'']"
proof -
  let ?tm = "\<lparr>tm_tenants = [''t'' \<mapsto> sample_tenant], tm_queueManager = tenant_store\<rparr>"
  obtain m' where d: "DeleteTenant (memStorage sorted_list_of_set) ''t'' ?tm =
      (Ok (), \<lparr>tm_tenants = Map.empty, tm_queueManager = m'\<rparr>)"
    and v: "mem_view (mg_storage m') = (mem_view (mg_storage tenant_store))\<lparr>v_configs := (\<lambda>q.
      if q \<in> set (tn_Queues sample_tenant) \<and> ms_queues (mg_storage tenant_store) q = [] then None
      else ms_queueConfigs (mg_storage tenant_store) q)\<rparr>"
    using DeleteTenant_queues [of ?tm "''t''" sample_tenant sorted_list_of_set] tenant_store_sel(1)
    by (auto cong: if_cong)
  have "ms_queueConfigs (mg_storage m') = [''mail'' \<mapsto> sample_config ''mail'']"
    using arg_cong [OF v, of v_configs] tenant_store_sel(2,3)
    by (auto simp: tenant_store_sel(4) sample_tenant_def fun_eq_iff)
  with d show ?thesis by blast
qed

end
