(* ===== verification/HttpApi.thy ===== *)
theory HttpApi
  imports Scheduler
begin

text \<open>
  The HTTP API, \<^verbatim>\<open>internal/api/http/server.go\<close>: each handler as a function from a request
  and the state of the server to a response and the next state. The server and its scheduler share one
  queue manager, as the server command wires them, so the state is that of the scheduler.

  A response is its status and the value that is encoded as JSON. Decoding a request body is a
  parameter for each type; \<open>None\<close> is a body that does not decode. A panic in a handler is
  \<open>Panic\<close>. A path slice beyond the end of the path panics.
\<close>

section \<open>Requests and responses\<close>

type_synonym http_method = string

definition MethodGet :: http_method where "MethodGet = ''GET''"
definition MethodPost :: http_method where "MethodPost = ''POST''"
definition MethodPut :: http_method where "MethodPut = ''PUT''"
definition MethodDelete :: http_method where "MethodDelete = ''DELETE''"

lemmas method_defs = MethodGet_def MethodPost_def MethodPut_def MethodDelete_def

lemma method_neq [simp]:
  "MethodGet \<noteq> MethodPost" "MethodPost \<noteq> MethodGet" "MethodGet \<noteq> MethodPut" "MethodPut \<noteq> MethodGet"
  "MethodGet \<noteq> MethodDelete" "MethodDelete \<noteq> MethodGet" "MethodPost \<noteq> MethodPut"
  "MethodPut \<noteq> MethodPost" "MethodPost \<noteq> MethodDelete" "MethodDelete \<noteq> MethodPost"
  "MethodPut \<noteq> MethodDelete" "MethodDelete \<noteq> MethodPut"
  by (simp_all add: method_defs)

record request =
  hr_Method :: http_method
  hr_Path :: string
  hr_Query :: "(string \<times> string) list"
  hr_Body :: string

datatype body =
    BodyError string
  | BodyMessage string
  | BodyHealth string time
  | BodyJobs "job list" int int int
  | BodyJob job
  | BodyQueues "QueueConfig list" int
  | BodyQueue QueueConfig
  | BodyStats QueueStats
  | BodySchedules "Schedule list" int
  | BodySchedule Schedule
  | BodyMetrics "string \<rightharpoonup> QueueStats" ScheduleStats time
  | BodyFile string
  | BodyNotFound

record response =
  ht_status :: int
  ht_body :: body

definition StatusOK :: int where "StatusOK = 200"
definition StatusCreated :: int where "StatusCreated = 201"
definition StatusBadRequest :: int where "StatusBadRequest = 400"
definition StatusNotFound :: int where "StatusNotFound = 404"
definition StatusMethodNotAllowed :: int where "StatusMethodNotAllowed = 405"
definition StatusInternalServerError :: int where "StatusInternalServerError = 500"

lemmas http_status_defs = StatusOK_def StatusCreated_def StatusBadRequest_def StatusNotFound_def
  StatusMethodNotAllowed_def StatusInternalServerError_def

definition writeJSON :: "int \<Rightarrow> body \<Rightarrow> response res" where
  "writeJSON status data = Ok \<lparr>ht_status = status, ht_body = data\<rparr>"

definition writeError :: "int \<Rightarrow> string \<Rightarrow> response res" where
  "writeError status message = writeJSON status (BodyError message)"

text \<open>The first value of a query key.\<close>

definition query_Get :: "request \<Rightarrow> string \<Rightarrow> string" where
  "query_Get r k = (case map_of (hr_Query r) k of None \<Rightarrow> '''' | Some v \<Rightarrow> v)"

text \<open>\<open>path[n:]\<close> and \<open>path[:len(path)-n]\<close>.\<close>

definition slice_from :: "nat \<Rightarrow> string \<Rightarrow> string res" where
  "slice_from n s = (if n \<le> length s then Ok (drop n s) else Panic ''slice bounds out of range'')"

definition slice_upto_end :: "nat \<Rightarrow> string \<Rightarrow> string res" where
  "slice_upto_end n s =
     (if n \<le> length s then Ok (take (length s - n) s) else Panic ''slice bounds out of range'')"

definition jobs_path :: string where "jobs_path = ''/api/v1/jobs/''"
definition queues_path :: string where "queues_path = ''/api/v1/queues/''"
definition schedules_path :: string where "schedules_path = ''/api/v1/schedules/''"

text \<open>The name between a prefix and an action at the end of the path.\<close>

definition action_name :: "string \<Rightarrow> string \<Rightarrow> request \<Rightarrow> string res" where
  "action_name prefix action r =
     (case slice_from (length prefix) (hr_Path r) of
        Ok i \<Rightarrow> slice_upto_end (length action) i
      | Err e \<Rightarrow> Err e
      | Panic p \<Rightarrow> Panic p)"

text \<open>A call of the manager by a handler.\<close>

definition on_manager :: "('s Manager \<Rightarrow> 'a \<times> 's Manager) \<Rightarrow> 's Scheduler \<Rightarrow> 'a \<times> 's Scheduler" where
  "on_manager f s = (case f (sd_queueManager s) of (r, m) \<Rightarrow> (r, s\<lparr>sd_queueManager := m\<rparr>))"

text \<open>The answer for the result of a call: an error becomes \<open>status\<close> with \<open>message\<close> made of it.\<close>

fun respond :: "(err \<Rightarrow> response res) \<Rightarrow> ('a \<Rightarrow> response res) \<Rightarrow> 'a res \<times> 's \<Rightarrow> response res \<times> 's" where
  "respond fail done (Ok a, s) = (done a, s)"
| "respond fail done (Err e, s) = (fail e, s)"
| "respond fail done (Panic p, s) = (Panic p, s)"

definition internal_error :: "err \<Rightarrow> response res" where
  "internal_error e = writeError StatusInternalServerError (Error e)"

definition method_not_allowed :: "response res" where
  "method_not_allowed = writeError StatusMethodNotAllowed ''method not allowed''"

section \<open>Health and dashboard\<close>

definition handleHealth :: "clock \<Rightarrow> response res" where
  "handleHealth clk = writeJSON StatusOK (BodyHealth ''healthy'' (clk 0))"

definition handleReady :: "clock \<Rightarrow> response res" where
  "handleReady clk = writeJSON StatusOK (BodyHealth ''ready'' (clk 0))"

definition handleDashboard :: "request \<Rightarrow> response res" where
  "handleDashboard r =
     (if hr_Path r \<noteq> ''/'' then Ok \<lparr>ht_status = StatusNotFound, ht_body = BodyNotFound\<rparr>
      else Ok \<lparr>ht_status = StatusOK, ht_body = BodyFile ''./web/index.html''\<rparr>)"

section \<open>Jobs\<close>

text \<open>\<open>t.UnixNano()\<close>: nanoseconds since 1 January 1970, UTC.\<close>

definition UnixNano :: "time \<Rightarrow> int" where
  "UnixNano t = wrap64 (t - days_of 1970 1 1 * Day)"

definition job_for_enqueue :: "clock \<Rightarrow> job \<Rightarrow> job" where
  "job_for_enqueue clk j =
     (let j = (if j_ID j = '''' then j\<lparr>j_ID := ''job_'' @ decimal (UnixNano (clk 0))\<rparr> else j);
          j = j\<lparr>j_Status := StatusPending, j_CreatedAt := clk 1, j_UpdatedAt := clk 2\<rparr>;
          j = (if j_ScheduledAt j = None then j\<lparr>j_ScheduledAt := Some (clk 3)\<rparr> else j)
      in j)"

definition handleJobs ::
  "'s Storage \<Rightarrow> (string \<Rightarrow> job option) \<Rightarrow> clock \<Rightarrow> request \<Rightarrow> 's Scheduler \<Rightarrow> response res \<times> 's Scheduler"
  where
  "handleJobs St decode clk r s =
     (if hr_Method r = MethodGet then
        let queue = query_Get r ''queue''; status = query_Get r ''status'';
            limit = Atoi (query_Get r ''limit''); offset = Atoi (query_Get r ''offset'');
            limit = (if limit = 0 then 50 else limit)
        in respond internal_error
             (\<lambda>jobs. writeJSON StatusOK (BodyJobs jobs (int (length jobs)) limit offset))
             (mgr_ListJobs St queue status limit offset (sd_queueManager s), s)
      else if hr_Method r = MethodPost then
        (case decode (hr_Body r) of
           None \<Rightarrow> (writeError StatusBadRequest ''invalid request body'', s)
         | Some j \<Rightarrow>
             (case mgr_Enqueue St (clock_from 4 clk) (job_for_enqueue clk j) (sd_queueManager s) of
                (res, j, m) \<Rightarrow>
                  respond internal_error (\<lambda>_. writeJSON StatusCreated (BodyJob j))
                    (res, s\<lparr>sd_queueManager := m\<rparr>)))
      else (method_not_allowed, s))"

definition handleJob ::
  "'s Storage \<Rightarrow> request \<Rightarrow> 's Scheduler \<Rightarrow> response res \<times> 's Scheduler" where
  "handleJob St r s =
     (case slice_from (length jobs_path) (hr_Path r) of
        Err e \<Rightarrow> (Err e, s)
      | Panic p \<Rightarrow> (Panic p, s)
      | Ok i \<Rightarrow>
          if hr_Method r = MethodGet then
            respond (\<lambda>_. writeError StatusNotFound ''job not found'') (\<lambda>j. writeJSON StatusOK (BodyJob j))
              (mgr_GetJob St i (sd_queueManager s), s)
          else if hr_Method r = MethodDelete then
            respond internal_error (\<lambda>_. writeJSON StatusOK (BodyMessage ''job deleted''))
              (on_manager (mgr_DeleteJob St i) s)
          else (method_not_allowed, s))"

text \<open>The action handlers: one method, a name in the path, one call.\<close>

definition action_handler ::
  "http_method \<Rightarrow> string \<Rightarrow> string \<Rightarrow> (string \<Rightarrow> 's Scheduler \<Rightarrow> 'a res \<times> 's Scheduler)
   \<Rightarrow> ('a \<Rightarrow> response res) \<Rightarrow> request \<Rightarrow> 's Scheduler \<Rightarrow> response res \<times> 's Scheduler" where
  "action_handler meth prefix action call done r s =
     (if hr_Method r \<noteq> meth then (method_not_allowed, s)
      else case action_name prefix action r of
        Err e \<Rightarrow> (Err e, s)
      | Panic p \<Rightarrow> (Panic p, s)
      | Ok i \<Rightarrow> respond internal_error done (call i s))"

definition handleCancelJob ::
  "'s Storage \<Rightarrow> clock \<Rightarrow> request \<Rightarrow> 's Scheduler \<Rightarrow> response res \<times> 's Scheduler" where
  "handleCancelJob St clk =
     action_handler MethodPost jobs_path ''/cancel'' (\<lambda>i. on_manager (mgr_CancelJob St clk i))
       (\<lambda>_. writeJSON StatusOK (BodyMessage ''job cancelled''))"

section \<open>Queues\<close>

definition handleQueues ::
  "'s Storage \<Rightarrow> (string set \<Rightarrow> string list) \<Rightarrow> (string \<Rightarrow> QueueConfig option) \<Rightarrow> request
   \<Rightarrow> 's Scheduler \<Rightarrow> response res \<times> 's Scheduler" where
  "handleQueues St iter decode r s =
     (if hr_Method r = MethodGet then
        respond internal_error (\<lambda>queues. writeJSON StatusOK (BodyQueues queues (int (length queues))))
          (mgr_ListQueues iter (sd_queueManager s), s)
      else if hr_Method r = MethodPost then
        (case decode (hr_Body r) of
           None \<Rightarrow> (writeError StatusBadRequest ''invalid request body'', s)
         | Some config \<Rightarrow>
             (case mgr_RegisterQueue St config (sd_queueManager s) of
                (res, config, m) \<Rightarrow>
                  respond internal_error (\<lambda>_. writeJSON StatusCreated (BodyQueue config))
                    (res, s\<lparr>sd_queueManager := m\<rparr>)))
      else (method_not_allowed, s))"

definition handleQueue ::
  "'s Storage \<Rightarrow> (string \<Rightarrow> QueueConfig option) \<Rightarrow> request \<Rightarrow> 's Scheduler \<Rightarrow> response res \<times> 's Scheduler"
  where
  "handleQueue St decode r s =
     (case slice_from (length queues_path) (hr_Path r) of
        Err e \<Rightarrow> (Err e, s)
      | Panic p \<Rightarrow> (Panic p, s)
      | Ok name \<Rightarrow>
          if hr_Method r = MethodGet then
            respond (\<lambda>_. writeError StatusNotFound ''queue not found'')
              (\<lambda>config. writeJSON StatusOK (BodyQueue config)) (on_manager (mgr_GetQueueConfig St name) s)
          else if hr_Method r = MethodPut then
            (case decode (hr_Body r) of
               None \<Rightarrow> (writeError StatusBadRequest ''invalid request body'', s)
             | Some config \<Rightarrow>
                 let config = config\<lparr>qc_Name := name\<rparr>
                 in respond internal_error (\<lambda>_. writeJSON StatusOK (BodyQueue config))
                      (on_manager (mgr_UpdateQueueConfig St config) s))
          else if hr_Method r = MethodDelete then
            respond internal_error (\<lambda>_. writeJSON StatusOK (BodyMessage ''queue deleted''))
              (on_manager (mgr_DeleteQueue St name) s)
          else (method_not_allowed, s))"

definition handlePauseQueue ::
  "'s Storage \<Rightarrow> request \<Rightarrow> 's Scheduler \<Rightarrow> response res \<times> 's Scheduler" where
  "handlePauseQueue St =
     action_handler MethodPost queues_path ''/pause'' (\<lambda>name. on_manager (mgr_PauseQueue St name))
       (\<lambda>_. writeJSON StatusOK (BodyMessage ''queue paused''))"

definition handleResumeQueue ::
  "'s Storage \<Rightarrow> request \<Rightarrow> 's Scheduler \<Rightarrow> response res \<times> 's Scheduler" where
  "handleResumeQueue St =
     action_handler MethodPost queues_path ''/resume'' (\<lambda>name. on_manager (mgr_ResumeQueue St name))
       (\<lambda>_. writeJSON StatusOK (BodyMessage ''queue resumed''))"

definition handleQueueStats ::
  "'s Storage \<Rightarrow> request \<Rightarrow> 's Scheduler \<Rightarrow> response res \<times> 's Scheduler" where
  "handleQueueStats St =
     action_handler MethodGet queues_path ''/stats''
       (\<lambda>name s. (mgr_GetQueueStats St name (sd_queueManager s), s))
       (\<lambda>stats. writeJSON StatusOK (BodyStats stats))"

section \<open>Schedules and metrics\<close>

definition handleSchedules ::
  "(string set \<Rightarrow> string list) \<Rightarrow> duration \<Rightarrow> string \<Rightarrow> (string \<Rightarrow> Schedule option) \<Rightarrow> clock \<Rightarrow> request
   \<Rightarrow> 's Scheduler \<Rightarrow> response res \<times> 's Scheduler" where
  "handleSchedules iter loc uuid decode clk r s =
     (if hr_Method r = MethodGet then
        let schedules = ListSchedules iter s
        in (writeJSON StatusOK (BodySchedules schedules (int (length schedules))), s)
      else if hr_Method r = MethodPost then
        (case decode (hr_Body r) of
           None \<Rightarrow> (writeError StatusBadRequest ''invalid request body'', s)
         | Some schedule \<Rightarrow>
             (case AddSchedule loc uuid clk schedule s of
                (res, schedule, s) \<Rightarrow>
                  respond internal_error (\<lambda>_. writeJSON StatusCreated (BodySchedule schedule)) (res, s)))
      else (method_not_allowed, s))"

definition handleSchedule :: "request \<Rightarrow> 's Scheduler \<Rightarrow> response res \<times> 's Scheduler" where
  "handleSchedule r s =
     (case slice_from (length schedules_path) (hr_Path r) of
        Err e \<Rightarrow> (Err e, s)
      | Panic p \<Rightarrow> (Panic p, s)
      | Ok i \<Rightarrow>
          if hr_Method r = MethodGet then
            respond (\<lambda>_. writeError StatusNotFound ''schedule not found'')
              (\<lambda>schedule. writeJSON StatusOK (BodySchedule schedule)) (GetSchedule i s, s)
          else if hr_Method r = MethodDelete then
            respond internal_error (\<lambda>_. writeJSON StatusOK (BodyMessage ''schedule deleted''))
              (RemoveSchedule i s)
          else (method_not_allowed, s))"

definition handleMetrics ::
  "'s Storage \<Rightarrow> (string set \<Rightarrow> string list) \<Rightarrow> clock \<Rightarrow> request \<Rightarrow> 's Scheduler \<Rightarrow> response res \<times> 's Scheduler"
  where
  "handleMetrics St iter clk r s =
     (if hr_Method r \<noteq> MethodGet then (method_not_allowed, s)
      else respond internal_error
        (\<lambda>allStats. writeJSON StatusOK (BodyMetrics allStats (GetScheduleStats iter s) (clk 0)))
        (mgr_GetAllQueueStats St (sd_queueManager s), s))"

section \<open>Routing\<close>

text \<open>
  The patterns of \<open>setupRoutes\<close>, as \<open>http.ServeMux\<close> matches them on a clean path: a pattern that ends
  in a slash matches what starts with it, a wildcard matches one segment, and of two patterns the more
  specific one wins.
\<close>

definition has_prefix :: "string \<Rightarrow> string \<Rightarrow> bool" where
  "has_prefix p s \<longleftrightarrow> take (length p) s = p"

definition is_action :: "string \<Rightarrow> string \<Rightarrow> string \<Rightarrow> bool" where
  "is_action prefix action path \<longleftrightarrow> has_prefix prefix path \<and>
     (let rest = drop (length prefix) path; name = take (length rest - length action) rest
      in name \<noteq> [] \<and> CHR ''/'' \<notin> set name \<and> rest = name @ action)"

datatype route =
    RHealth | RReady | RJobs | RJob | RCancelJob | RQueues | RQueue | RPauseQueue | RResumeQueue
  | RQueueStats | RSchedules | RSchedule | RMetrics | RWeb | RDashboard

definition setupRoutes :: "string \<Rightarrow> route" where
  "setupRoutes path =
     (if path = ''/health'' then RHealth
      else if path = ''/ready'' then RReady
      else if path = ''/api/v1/jobs'' then RJobs
      else if is_action jobs_path ''/cancel'' path then RCancelJob
      else if has_prefix jobs_path path then RJob
      else if path = ''/api/v1/queues'' then RQueues
      else if is_action queues_path ''/pause'' path then RPauseQueue
      else if is_action queues_path ''/resume'' path then RResumeQueue
      else if is_action queues_path ''/stats'' path then RQueueStats
      else if has_prefix queues_path path then RQueue
      else if path = ''/api/v1/schedules'' then RSchedules
      else if has_prefix schedules_path path then RSchedule
      else if path = ''/api/v1/metrics'' then RMetrics
      else if has_prefix ''/web/'' path then RWeb
      else RDashboard)"

text \<open>What a handler is given beside request and state.\<close>

record environment =
  en_iter :: "string set \<Rightarrow> string list"
  en_clock :: clock
  en_loc :: duration
  en_uuid :: string
  en_decode_job :: "string \<Rightarrow> job option"
  en_decode_queue :: "string \<Rightarrow> QueueConfig option"
  en_decode_schedule :: "string \<Rightarrow> Schedule option"

definition serve ::
  "'s Storage \<Rightarrow> environment \<Rightarrow> request \<Rightarrow> 's Scheduler \<Rightarrow> response res \<times> 's Scheduler" where
  "serve St en r s =
     (case setupRoutes (hr_Path r) of
        RHealth \<Rightarrow> (handleHealth (en_clock en), s)
      | RReady \<Rightarrow> (handleReady (en_clock en), s)
      | RJobs \<Rightarrow> handleJobs St (en_decode_job en) (en_clock en) r s
      | RJob \<Rightarrow> handleJob St r s
      | RCancelJob \<Rightarrow> handleCancelJob St (en_clock en) r s
      | RQueues \<Rightarrow> handleQueues St (en_iter en) (en_decode_queue en) r s
      | RQueue \<Rightarrow> handleQueue St (en_decode_queue en) r s
      | RPauseQueue \<Rightarrow> handlePauseQueue St r s
      | RResumeQueue \<Rightarrow> handleResumeQueue St r s
      | RQueueStats \<Rightarrow> handleQueueStats St r s
      | RSchedules \<Rightarrow> handleSchedules (en_iter en) (en_loc en) (en_uuid en) (en_decode_schedule en) (en_clock en) r s
      | RSchedule \<Rightarrow> handleSchedule r s
      | RMetrics \<Rightarrow> handleMetrics St (en_iter en) (en_clock en) r s
      | RWeb \<Rightarrow> (Ok \<lparr>ht_status = StatusOK, ht_body = BodyFile (''./web/'' @ drop 5 (hr_Path r))\<rparr>, s)
      | RDashboard \<Rightarrow> (handleDashboard r, s))"

section \<open>The server command\<close>

text \<open>
  What \<^verbatim>\<open>cmd/server/main.go\<close> sets up on the backend it has opened: a manager, the default
  queue, and a scheduler that is started. A failure of \<open>NewManager\<close> ends the program, one of
  \<open>RegisterQueue\<close> is a warning.
\<close>

definition default_queue :: QueueConfig where
  "default_queue =
     zero_QueueConfig\<lparr>qc_Name := ''default'', qc_MaxWorkers := 10, qc_MaxRetries := 3,
       qc_RetryStrategy := RetryStrategyExponential, qc_RetryDelay := 60, qc_MaxRetryDelay := 3600,
       qc_Timeout := 300, qc_Priority := PriorityNormal, qc_Weight := 1\<rparr>"

definition server_main :: "'s Storage \<Rightarrow> 's \<Rightarrow> ('s Scheduler) res" where
  "server_main St store =
     (case NewManager St store of
        Err e \<Rightarrow> Err e
      | Panic p \<Rightarrow> Panic p
      | Ok m \<Rightarrow>
          (case mgr_RegisterQueue St default_queue m of
             (Panic p, _, _) \<Rightarrow> Panic p
           | (_, _, m) \<Rightarrow>
               (case sched_Start (1 * Second) (NewScheduler m) of
                  (Err e, _) \<Rightarrow> Err e
                | (Panic p, _) \<Rightarrow> Panic p
                | (Ok _, s) \<Rightarrow> Ok s)))"

end
