(* ===== verification/HttpProperties.thy ===== *)
theory HttpProperties
  imports HttpApi SchedulerProperties
begin

text \<open>
  What the HTTP API promises its clients: reading changes nothing, and a job that was posted can be
  read back; and how the set-up of the server command leaves the state.
\<close>

section \<open>Reading\<close>

lemma respond_snd [simp]: "snd (respond fail done x) = snd x"
  by (cases "(fail, done, x)" rule: respond.cases) auto

lemma GetQueueConfig_storage: "mg_storage (snd (mgr_GetQueueConfig St q m)) = mg_storage m"
  by (simp add: mgr_GetQueueConfig_def split: option.split outcome.split)

lemma action_handler_other_method:
  "meth \<noteq> hr_Method r \<Longrightarrow> action_handler meth prefix action call done r s = (method_not_allowed, s)"
  by (simp add: action_handler_def)

lemma action_handler_reads:
  "(\<And>i. snd (call i s) = s) \<Longrightarrow> snd (action_handler meth prefix action call done r s) = s"
  by (simp add: action_handler_def split: outcome.split)

text \<open>The part of the state that reading must leave alone: all but the cache of configurations.\<close>

definition same_data :: "'s Scheduler \<Rightarrow> 's Scheduler \<Rightarrow> bool" where
  "same_data s s' \<longleftrightarrow> sd_schedules s' = sd_schedules s \<and> sd_running s' = sd_running s \<and>
     sd_stopped s' = sd_stopped s \<and> mg_storage (sd_queueManager s') = mg_storage (sd_queueManager s)"

lemma same_data_refl [simp]: "same_data s s"
  by (simp add: same_data_def)

lemma same_data_GetQueueConfig: "same_data s (snd (on_manager (mgr_GetQueueConfig St name) s))"
  using GetQueueConfig_storage [of St name "sd_queueManager s"]
  by (cases "mgr_GetQueueConfig St name (sd_queueManager s)") (simp add: on_manager_def same_data_def)

text \<open>
  C16: a GET request to any path of the API leaves the storage, the schedules and the scheduler as
  they were, on every backend and whatever it answers.
\<close>

theorem GET_is_safe:
  assumes "hr_Method r = MethodGet" and "serve St en r s = (res, s')"
  shows "same_data s s'"
proof -
  have "same_data s (snd (serve St en r s))"
    using same_data_GetQueueConfig [of s St]
    by (auto simp: serve_def assms(1) handleJobs_def handleJob_def handleCancelJob_def handleQueues_def
        handleQueue_def handlePauseQueue_def handleResumeQueue_def handleQueueStats_def
        handleSchedules_def handleSchedule_def handleMetrics_def action_handler_other_method
        action_handler_reads Let_def split: route.split outcome.split)
  with assms(2) show ?thesis by simp
qed

definition get_request :: "string \<Rightarrow> request" where
  "get_request path = \<lparr>hr_Method = MethodGet, hr_Path = path, hr_Query = [], hr_Body = ''''\<rparr>"

theorem GET_is_safe_witness:
  "same_data (NewScheduler one_job_waiting) (snd (serve (memStorage sorted_list_of_set)
     \<lparr>en_iter = sorted_list_of_set, en_clock = (\<lambda>_. 0), en_loc = 0, en_uuid = ''u'', en_decode_job = (\<lambda>_. None),
       en_decode_queue = (\<lambda>_. None), en_decode_schedule = (\<lambda>_. None)\<rparr>
     (get_request ''/api/v1/queues/mail'') (NewScheduler one_job_waiting)))"
  by (rule GET_is_safe [OF _ prod.collapse [symmetric]]) (simp add: get_request_def)

section \<open>Posting a job\<close>

lemma jobs_path_routes:
  "setupRoutes ''/api/v1/jobs'' = RJobs"
  "\<not> is_action jobs_path ''/cancel'' (jobs_path @ i) \<Longrightarrow> setupRoutes (jobs_path @ i) = RJob"
  by (simp_all add: setupRoutes_def has_prefix_def jobs_path_def)

lemma slice_jobs_path [simp]: "slice_from (length jobs_path) (jobs_path @ i) = Ok i"
  by (simp add: slice_from_def)

lemma job_for_enqueue_sel:
  "j_ID j \<noteq> '''' \<Longrightarrow> j_ID (job_for_enqueue clk j) = j_ID j"
  "j_Status (job_for_enqueue clk j) = StatusPending" "j_Type (job_for_enqueue clk j) = j_Type j"
  "j_Queue (job_for_enqueue clk j) = j_Queue j" "j_Payload (job_for_enqueue clk j) = j_Payload j"
  by (simp_all add: job_for_enqueue_def Let_def)

text \<open>
  C13: posting a job under a new identifier answers 201 with the job as it was stored: pending,
  with the defaults of its queue. A GET for that identifier then answers 200 with the same job.
\<close>

theorem POST_then_GET:
  assumes "mem_inv (mg_storage (sd_queueManager s))"
    and "hr_Method r = MethodPost" "hr_Path r = ''/api/v1/jobs''" "en_decode_job en (hr_Body r) = Some j"
    and "j_ID j \<noteq> ''''" "ms_jobs (mg_storage (sd_queueManager s)) (j_ID j) = None"
    and "\<not> is_action jobs_path ''/cancel'' (jobs_path @ j_ID j)"
  shows "\<exists>j' s'. serve (memStorage iter) en r s =
      (Ok \<lparr>ht_status = StatusCreated, ht_body = BodyJob j'\<rparr>, s') \<and>
    j' = enqueued_job (config_for mem_view (sd_queueManager s) (queue_of j)) (job_for_enqueue (en_clock en) j) \<and>
    serve (memStorage iter) en' (get_request (jobs_path @ j_ID j)) s' =
      (Ok \<lparr>ht_status = StatusOK, ht_body = BodyJob j'\<rparr>, s')"
proof -
  let ?j = "job_for_enqueue (en_clock en) j"
  let ?j' = "enqueued_job (config_for mem_view (sd_queueManager s) (queue_of j)) ?j"
  have sel: "j_ID ?j = j_ID j" "queue_of ?j = queue_of j"
    using assms(5) by (simp_all add: job_for_enqueue_sel queue_of_def)
  from mem.Enqueue_new [OF assms(1), of ?j iter "clock_from 4 (en_clock en)"] assms(6)
  obtain m' cf where enq: "mgr_Enqueue (memStorage iter) (clock_from 4 (en_clock en)) ?j (sd_queueManager s) =
      (Ok (), ?j', m')" and inv: "mem_inv (mg_storage m')" and
    v: "mem_view (mg_storage m') = (mem_view (mg_storage (sd_queueManager s)))
       \<lparr>v_configs := cf, v_jobs := (v_jobs (mem_view (mg_storage (sd_queueManager s))))(j_ID ?j \<mapsto> ?j'),
        v_entries := (v_entries (mem_view (mg_storage (sd_queueManager s))))(queue_of ?j :=
          add_mset (j_ID ?j, j_Priority ?j, clock_from 4 (en_clock en) 2 + schedule_delay (clock_from 4 (en_clock en)) ?j)
            (v_entries (mem_view (mg_storage (sd_queueManager s))) (queue_of ?j)))\<rparr>"
    unfolding sel by auto
  let ?s' = "s\<lparr>sd_queueManager := m'\<rparr>"
  have "serve (memStorage iter) en r s = (Ok \<lparr>ht_status = StatusCreated, ht_body = BodyJob ?j'\<rparr>, ?s')"
    using assms(2-4) enq by (simp add: serve_def jobs_path_routes handleJobs_def writeJSON_def)
  moreover have "ms_jobs (mg_storage m') (j_ID j) = Some ?j'"
    using arg_cong [OF v, of v_jobs] sel(1) by simp
  then have "serve (memStorage iter) en' (get_request (jobs_path @ j_ID j)) ?s' =
      (Ok \<lparr>ht_status = StatusOK, ht_body = BodyJob ?j'\<rparr>, ?s')"
    using jobs_path_routes(2) [OF assms(7)]
    by (simp add: serve_def get_request_def handleJob_def mgr_GetJob_def mem_GetJob_def writeJSON_def)
  ultimately show ?thesis by blast
qed

definition post_env :: environment where
  "post_env = \<lparr>en_iter = sorted_list_of_set, en_clock = (\<lambda>_. 5), en_loc = 0, en_uuid = ''u'',
     en_decode_job = (\<lambda>b. if b = ''J'' then Some (sample_job ''a'') else None),
     en_decode_queue = (\<lambda>_. None), en_decode_schedule = (\<lambda>_. None)\<rparr>"

theorem POST_then_GET_witness:
  "\<exists>j' s'. serve (memStorage sorted_list_of_set) post_env
       \<lparr>hr_Method = MethodPost, hr_Path = ''/api/v1/jobs'', hr_Query = [], hr_Body = ''J''\<rparr> (NewScheduler new_manager) =
       (Ok \<lparr>ht_status = StatusCreated, ht_body = BodyJob j'\<rparr>, s') \<and> j_Status j' = StatusPending \<and>
     serve (memStorage sorted_list_of_set) post_env (get_request (jobs_path @ ''a'')) s' =
       (Ok \<lparr>ht_status = StatusOK, ht_body = BodyJob j'\<rparr>, s')"
proof -
  have "\<not> is_action jobs_path ''/cancel'' (jobs_path @ ''a'')"
    by (simp add: is_action_def jobs_path_def Let_def)
  then show ?thesis
    using POST_then_GET [of "NewScheduler new_manager"
      "\<lparr>hr_Method = MethodPost, hr_Path = ''/api/v1/jobs'', hr_Query = [], hr_Body = ''J''\<rparr>"
      post_env "sample_job ''a''" sorted_list_of_set post_env]
    by (fastforce simp: NewScheduler_def post_env_def job_for_enqueue_sel)
qed

text \<open>
  A listing with a negative offset is passed on to the store as it is, and the handler panics.
\<close>

lemma negative_offset_panics:
  "serve (memStorage iter) en \<lparr>hr_Method = MethodGet, hr_Path = ''/api/v1/jobs'',
     hr_Query = [(''offset'', ''-1'')], hr_Body = ''''\<rparr> s = (Panic ''slice bounds out of range'', s)"
proof -
  have "Atoi ''-1'' = - 1" "Atoi '''' = 0"
    by (simp_all add: Atoi_def is_digit_def digits_value_def)
  moreover have "mgr_ListJobs (memStorage iter) q st 50 (- 1) m = Panic ''slice bounds out of range''" for q st m
    by (simp add: mgr_ListJobs_def mem_ListJobs_def Let_def)
  ultimately show ?thesis
    by (simp add: serve_def jobs_path_routes handleJobs_def query_Get_def Let_def)
qed

text \<open>The server command starts on an empty memory store: its default queue is there, and the scheduler runs.\<close>

lemma server_main_new:
  "\<exists>s. server_main (memStorage sorted_list_of_set) (NewMemoryStore clk) = Ok s \<and> sd_running s = 1 \<and>
     mg_configs (sd_queueManager s) = [''default'' \<mapsto> queue_defaults default_queue]"
proof -
  have new: "NewManager (memStorage sorted_list_of_set) (NewMemoryStore clk) =
      Ok \<lparr>mg_storage = NewMemoryStore clk, mg_configs = Map.empty\<rparr>"
    by (simp add: NewManager_def mgr_loadConfigs_def mem_ListQueueConfigs_def NewMemoryStore_def range_map_def Let_def)
  let ?m = "\<lparr>mg_storage = NewMemoryStore clk, mg_configs = Map.empty\<rparr> :: MemoryStore Manager"
  have name: "qc_Name default_queue = ''default''" by (simp add: default_queue_def)
  from mem.RegisterQueue_Ok [of ?m default_queue sorted_list_of_set] obtain m' where
    "mgr_RegisterQueue (memStorage sorted_list_of_set) default_queue ?m = (Ok (), queue_defaults default_queue, m')"
    "mg_configs m' = [''default'' \<mapsto> queue_defaults default_queue]"
    by (auto simp: mem_inv_new name)
  with new show ?thesis
    by (simp add: server_main_def sched_Start_def NewScheduler_def duration_units Let_def)
qed

end
