(* ===== verification/Poller.thy ===== *)
theory Poller
  imports Manager
begin

text \<open>
  The poller of delayed jobs, \<^verbatim>\<open>internal/queue/scheduler.go\<close>. It asks the storage for the
  scheduled jobs of every configured queue and prints one line for each; the jobs themselves stay
  where they are, since a queue holds them with the time from which they are ready. What it prints
  is its result, a number of jobs and a queue for each line; the manager is only read.
\<close>

record 's ScheduledJobProcessor =
  sp_manager :: "'s Manager"
  sp_interval :: duration
  sp_stopCh :: bool

definition NewScheduledJobProcessor :: "'s Manager \<Rightarrow> duration \<Rightarrow> 's ScheduledJobProcessor" where
  "NewScheduledJobProcessor manager interval =
     \<lparr>sp_manager = manager, sp_interval = (if interval = 0 then 1 * Second else interval), sp_stopCh = False\<rparr>"

fun poll_queues :: "'s Storage \<Rightarrow> time \<Rightarrow> 's \<Rightarrow> string list \<Rightarrow> (int \<times> string) list res" where
  "poll_queues St now store [] = Ok []"
| "poll_queues St now store (qName # queues) =
     (case st_GetScheduled St qName now store of
        Err _ \<Rightarrow> poll_queues St now store queues
      | Panic p \<Rightarrow> Panic p
      | Ok jobIDs \<Rightarrow>
          (case poll_queues St now store queues of
             Ok rest \<Rightarrow> Ok (map (\<lambda>_. (int (length jobIDs), qName)) jobIDs @ rest)
           | r \<Rightarrow> r))"

definition processScheduledJobs ::
  "'s Storage \<Rightarrow> (string set \<Rightarrow> string list) \<Rightarrow> clock \<Rightarrow> 's ScheduledJobProcessor \<Rightarrow> (int \<times> string) list res"
  where
  "processScheduledJobs St iter clk p =
     poll_queues St (clk 0) (mg_storage (sp_manager p)) (iter (dom (mg_configs (sp_manager p))))"

definition poller_Stop :: "'s ScheduledJobProcessor \<Rightarrow> unit res \<times> 's ScheduledJobProcessor" where
  "poller_Stop p =
     (if sp_stopCh p then (Panic ''close of closed channel'', p) else (Ok (), p\<lparr>sp_stopCh := True\<rparr>))"

text \<open>
  What the \<open>select\<close> of \<open>Start\<close> finds ready; the list ends the loop at the first event that does. Each
  tick sees the manager as it is at that time. \<open>None\<close> is a loop that is still running.
\<close>

datatype 's poll_event = PollCtxDone err | PollStopped | PollTick "'s Manager" clock

fun poller_Start ::
  "'s Storage \<Rightarrow> (string set \<Rightarrow> string list) \<Rightarrow> 's poll_event list \<Rightarrow> 's ScheduledJobProcessor
   \<Rightarrow> (int \<times> string) list \<times> unit res option" where
  "poller_Start St iter [] p = ([], None)"
| "poller_Start St iter (PollCtxDone e # evs) p = ([], Some (Err e))"
| "poller_Start St iter (PollStopped # evs) p = ([], Some (Ok ()))"
| "poller_Start St iter (PollTick m clk # evs) p =
     (case processScheduledJobs St iter clk (p\<lparr>sp_manager := m\<rparr>) of
        Panic msg \<Rightarrow> ([], Some (Panic msg))
      | Ok out \<Rightarrow> (case poller_Start St iter evs p of (out', r) \<Rightarrow> (out @ out', r))
      | Err _ \<Rightarrow> poller_Start St iter evs p)"

end
