(* ===== verification/Redis.thy ===== *)
theory Redis
  imports Storage "HOL-Library.Product_Lexorder"
begin

text \<open>
  The redis client as the redis backend uses it (\<^verbatim>\<open>internal/storage/redis\<close> imports it as a third-party
  package). The client is a parameter of the backend: a record with one function per command, over
  a state \<open>'r\<close> of the connection and the server behind it. The locale \<open>redis\<close> names what the
  backend relies on: each command does to the key space of the server what the command reference
  documents, which the functions \<open>db_\<dots>\<close> write out. Keys have a kind, and a command on a key of
  another kind fails with \<open>WRONGTYPE\<close>.
\<close>

section \<open>The client\<close>

text \<open>
  The two commands that the backend puts into pipelines. The values it stores in hashes are integers,
  which the client sends in decimal.
\<close>

datatype pipe_cmd = HIncrBy string string int | HSet string string int

text \<open>\<open>Get\<close> and \<open>HGet\<close> give \<open>None\<close> for \<open>redis.Nil\<close>. \<open>Scan\<close> takes a cursor, a pattern and a count.\<close>

record 'r redis_client =
  rc_Ping :: "'r \<Rightarrow> unit res"
  rc_Set :: "string \<Rightarrow> string \<Rightarrow> 'r \<Rightarrow> unit res \<times> 'r"
  rc_SetNX :: "string \<Rightarrow> string \<Rightarrow> 'r \<Rightarrow> bool res \<times> 'r"
  rc_Get :: "string \<Rightarrow> 'r \<Rightarrow> string option res"
  rc_Exists :: "string \<Rightarrow> 'r \<Rightarrow> int res"
  rc_Del :: "string \<Rightarrow> 'r \<Rightarrow> int res \<times> 'r"
  rc_ZAdd :: "string \<Rightarrow> real \<Rightarrow> string \<Rightarrow> 'r \<Rightarrow> int res \<times> 'r"
  rc_ZRem :: "string \<Rightarrow> string \<Rightarrow> 'r \<Rightarrow> int res \<times> 'r"
  rc_ZRange :: "string \<Rightarrow> int \<Rightarrow> int \<Rightarrow> 'r \<Rightarrow> string list res"
  rc_ZRangeByScore :: "string \<Rightarrow> string \<Rightarrow> string \<Rightarrow> int \<Rightarrow> 'r \<Rightarrow> string list res"
  rc_ZCard :: "string \<Rightarrow> 'r \<Rightarrow> int res"
  rc_SAdd :: "string \<Rightarrow> string \<Rightarrow> 'r \<Rightarrow> int res \<times> 'r"
  rc_SRem :: "string \<Rightarrow> string \<Rightarrow> 'r \<Rightarrow> int res \<times> 'r"
  rc_SMembers :: "string \<Rightarrow> 'r \<Rightarrow> string list res"
  rc_HIncrBy :: "string \<Rightarrow> string \<Rightarrow> int \<Rightarrow> 'r \<Rightarrow> int res \<times> 'r"
  rc_HGet :: "string \<Rightarrow> string \<Rightarrow> 'r \<Rightarrow> string option res"
  rc_HGetAll :: "string \<Rightarrow> 'r \<Rightarrow> (string \<rightharpoonup> string) res"
  rc_Exec :: "pipe_cmd list \<Rightarrow> 'r \<Rightarrow> unit res \<times> 'r"
  rc_Scan :: "int \<Rightarrow> string \<Rightarrow> int \<Rightarrow> 'r \<Rightarrow> (string list \<times> int) res"

section \<open>The key space\<close>

text \<open>
  A sorted set is kept as the list of its (score, member) pairs in the order of the server: by
  score, then by the bytes of the member. A collection that becomes empty is removed.
\<close>

type_synonym zset = "(real \<times> string) list"

datatype rvalue = RString string | RZSet zset | RSet "string set" | RHash "string \<rightharpoonup> string"

type_synonym keyspace = "string \<rightharpoonup> rvalue"

definition WRONGTYPE :: err where
  "WRONGTYPE = Errorf ''WRONGTYPE Operation against a key holding the wrong kind of value'' None"

fun as_string :: "rvalue option \<Rightarrow> string option res" where
  "as_string None = Ok None"
| "as_string (Some (RString v)) = Ok (Some v)"
| "as_string (Some _) = Err WRONGTYPE"

fun as_zset :: "rvalue option \<Rightarrow> zset res" where
  "as_zset None = Ok []"
| "as_zset (Some (RZSet z)) = Ok z"
| "as_zset (Some _) = Err WRONGTYPE"

fun as_set :: "rvalue option \<Rightarrow> string set res" where
  "as_set None = Ok {}"
| "as_set (Some (RSet A)) = Ok A"
| "as_set (Some _) = Err WRONGTYPE"

fun as_hash :: "rvalue option \<Rightarrow> (string \<rightharpoonup> string) res" where
  "as_hash None = Ok Map.empty"
| "as_hash (Some (RHash h)) = Ok h"
| "as_hash (Some _) = Err WRONGTYPE"

text \<open>A command that reads a key as some kind and, if it has that kind, answers and replaces it.\<close>

definition on_key ::
  "(rvalue option \<Rightarrow> 'k res) \<Rightarrow> string \<Rightarrow> ('k \<Rightarrow> 'a \<times> rvalue option) \<Rightarrow> keyspace \<Rightarrow> 'a res \<times> keyspace" where
  "on_key as k f d =
     (case as (d k) of
        Ok x \<Rightarrow> (case f x of (a, v) \<Rightarrow> (Ok a, d(k := v)))
      | Err e \<Rightarrow> (Err e, d)
      | Panic p \<Rightarrow> (Panic p, d))"

definition zset_value :: "zset \<Rightarrow> rvalue option" where
  "zset_value z = (if z = [] then None else Some (RZSet z))"

definition set_value :: "string set \<Rightarrow> rvalue option" where
  "set_value A = (if A = {} then None else Some (RSet A))"

definition zremove :: "string \<Rightarrow> zset \<Rightarrow> zset" where
  "zremove m z = filter (\<lambda>e. snd e \<noteq> m) z"

definition zput :: "real \<Rightarrow> string \<Rightarrow> zset \<Rightarrow> zset" where
  "zput sc m z = insort (sc, m) (zremove m z)"

section \<open>The commands\<close>

definition db_Set :: "string \<Rightarrow> string \<Rightarrow> keyspace \<Rightarrow> unit res \<times> keyspace" where
  "db_Set k v d = (Ok (), d(k \<mapsto> RString v))"

definition db_SetNX :: "string \<Rightarrow> string \<Rightarrow> keyspace \<Rightarrow> bool res \<times> keyspace" where
  "db_SetNX k v d = (if d k = None then (Ok True, d(k \<mapsto> RString v)) else (Ok False, d))"

definition db_Exists :: "string \<Rightarrow> keyspace \<Rightarrow> int res" where
  "db_Exists k d = Ok (if d k = None then 0 else 1)"

definition db_Del :: "string \<Rightarrow> keyspace \<Rightarrow> int res \<times> keyspace" where
  "db_Del k d = (Ok (if d k = None then 0 else 1), d(k := None))"

definition db_ZAdd :: "string \<Rightarrow> real \<Rightarrow> string \<Rightarrow> keyspace \<Rightarrow> int res \<times> keyspace" where
  "db_ZAdd k sc m =
     on_key as_zset k (\<lambda>z. (if m \<in> snd ` set z then 0 else 1, zset_value (zput sc m z)))"

definition db_ZRem :: "string \<Rightarrow> string \<Rightarrow> keyspace \<Rightarrow> int res \<times> keyspace" where
  "db_ZRem k m =
     on_key as_zset k (\<lambda>z. (if m \<in> snd ` set z then 1 else 0, zset_value (zremove m z)))"

definition db_SAdd :: "string \<Rightarrow> string \<Rightarrow> keyspace \<Rightarrow> int res \<times> keyspace" where
  "db_SAdd k m = on_key as_set k (\<lambda>A. (if m \<in> A then 0 else 1, set_value (insert m A)))"

definition db_SRem :: "string \<Rightarrow> string \<Rightarrow> keyspace \<Rightarrow> int res \<times> keyspace" where
  "db_SRem k m = on_key as_set k (\<lambda>A. (if m \<in> A then 1 else 0, set_value (A - {m})))"

text \<open>
  \<open>HINCRBY\<close> takes a missing field as 0, and refuses a value that is not the decimal of a 64-bit
  integer and a sum that is none.
\<close>

definition field_int :: "(string \<rightharpoonup> string) \<Rightarrow> string \<Rightarrow> int option" where
  "field_int h f = (case h f of None \<Rightarrow> Some 0
     | Some v \<Rightarrow> if decimal (Atoi v) = v then Some (Atoi v) else None)"

definition db_HIncrBy :: "string \<Rightarrow> string \<Rightarrow> int \<Rightarrow> keyspace \<Rightarrow> int res \<times> keyspace" where
  "db_HIncrBy k f n d =
     (case as_hash (d k) of
        Ok h \<Rightarrow> (case field_int h f of
            None \<Rightarrow> (Err (Errorf ''ERR hash value is not an integer'' None), d)
          | Some i \<Rightarrow>
              if int64 (i + n) then (Ok (i + n), d(k \<mapsto> RHash (h(f \<mapsto> decimal (i + n)))))
              else (Err (Errorf ''ERR increment or decrement would overflow'' None), d))
      | Err e \<Rightarrow> (Err e, d)
      | Panic p \<Rightarrow> (Panic p, d))"

definition db_HSet :: "string \<Rightarrow> string \<Rightarrow> int \<Rightarrow> keyspace \<Rightarrow> int res \<times> keyspace" where
  "db_HSet k f n =
     on_key as_hash k (\<lambda>h. (if h f = None then 1 else 0, Some (RHash (h(f \<mapsto> decimal n)))))"

text \<open>A pipeline runs all of its commands; its result is the first error among theirs.\<close>

fun db_pipe_cmd :: "pipe_cmd \<Rightarrow> keyspace \<Rightarrow> int res \<times> keyspace" where
  "db_pipe_cmd (HIncrBy k f n) d = db_HIncrBy k f n d"
| "db_pipe_cmd (HSet k f n) d = db_HSet k f n d"

fun db_Exec :: "pipe_cmd list \<Rightarrow> keyspace \<Rightarrow> unit res \<times> keyspace" where
  "db_Exec [] d = (Ok (), d)"
| "db_Exec (c # cs) d =
     (case db_pipe_cmd c d of (r, d) \<Rightarrow>
      case db_Exec cs d of (r', d) \<Rightarrow> (case r of Ok _ \<Rightarrow> r' | Err e \<Rightarrow> Err e | Panic p \<Rightarrow> Panic p, d))"

section \<open>Scanning\<close>

text \<open>
  A scan runs from cursor 0 until it is back at cursor 0. On a key space that does not change it
  ends, and gives every matching key at least once, in any order. \<open>scan_trace\<close> relates a cursor to
  the pages from there on.
\<close>

inductive scan_trace :: "'r redis_client \<Rightarrow> string \<Rightarrow> 'r \<Rightarrow> int \<Rightarrow> string list list \<Rightarrow> bool"
  for C pattern s where
  last: "rc_Scan C cursor pattern 100 s = Ok (keys, 0) \<Longrightarrow> scan_trace C pattern s cursor [keys]"
| more: "rc_Scan C cursor pattern 100 s = Ok (keys, cursor') \<Longrightarrow> cursor' \<noteq> 0 \<Longrightarrow>
    scan_trace C pattern s cursor' pages \<Longrightarrow> scan_trace C pattern s cursor (keys # pages)"

definition glob_free :: "string \<Rightarrow> bool" where
  "glob_free p \<longleftrightarrow> list_all (\<lambda>c. c \<notin> {CHR ''*'', CHR ''?'', CHR ''['', CHR 0x5C}) p"

definition keys_with :: "string \<Rightarrow> keyspace \<Rightarrow> string set" where
  "keys_with p d = {k \<in> dom d. take (length p) k = p}"

section \<open>What the backend relies on\<close>

text \<open>
  \<open>ok\<close> says that the server can be reached and no other client writes to it; \<open>db\<close> is its key space.
  Only those cases of the range commands are used that the backend sends.
\<close>

locale redis =
  fixes C :: "'r redis_client" and db :: "'r \<Rightarrow> keyspace" and ok :: "'r \<Rightarrow> bool"
  assumes Ping: "ok s \<Longrightarrow> rc_Ping C s = Ok ()"
    and Set: "refines ok db (rc_Set C k v) (db_Set k v)"
    and SetNX: "refines ok db (rc_SetNX C k v) (db_SetNX k v)"
    and Get: "ok s \<Longrightarrow> rc_Get C k s = as_string (db s k)"
    and Exists: "ok s \<Longrightarrow> rc_Exists C k s = db_Exists k (db s)"
    and Del: "refines ok db (rc_Del C k) (db_Del k)"
    and ZAdd: "refines ok db (rc_ZAdd C k sc m) (db_ZAdd k sc m)"
    and ZRem: "refines ok db (rc_ZRem C k m) (db_ZRem k m)"
    and ZRange_first: "ok s \<Longrightarrow> rc_ZRange C k 0 0 s = map_res (\<lambda>z. map snd (take 1 z)) (as_zset (db s k))"
    and ZRangeByScore_none: "ok s \<Longrightarrow> db s k = None \<Longrightarrow> rc_ZRangeByScore C k lo hi n s = Ok []"
    and ZCard: "ok s \<Longrightarrow> rc_ZCard C k s = map_res (\<lambda>z. int (length z)) (as_zset (db s k))"
    and SAdd: "refines ok db (rc_SAdd C k m) (db_SAdd k m)"
    and SRem: "refines ok db (rc_SRem C k m) (db_SRem k m)"
    and SMembers: "ok s \<Longrightarrow> as_set (db s k) = Ok A \<Longrightarrow>
      \<exists>ms. rc_SMembers C k s = Ok ms \<and> set ms = A \<and> distinct ms"
    and SMembers_WRONGTYPE: "ok s \<Longrightarrow> as_set (db s k) = Err e \<Longrightarrow> rc_SMembers C k s = Err e"
    and HIncrBy: "refines ok db (rc_HIncrBy C k f n) (db_HIncrBy k f n)"
    and HGet: "ok s \<Longrightarrow> rc_HGet C k f s = map_res (\<lambda>h. h f) (as_hash (db s k))"
    and HGetAll: "ok s \<Longrightarrow> rc_HGetAll C k s = as_hash (db s k)"
    and Exec: "refines ok db (rc_Exec C cmds) (db_Exec cmds)"
    and Scan: "ok s \<Longrightarrow> glob_free p \<Longrightarrow>
      \<exists>pages. scan_trace C (p @ ''*'') s 0 pages \<and> set (concat pages) = keys_with p (db s)"

end
