(* ===== verification/StorageConfig.thy ===== *)
theory StorageConfig
  imports Prelude
begin

text \<open>
  The configuration of the storage backends, \<^verbatim>\<open>internal/storage/common.go\<close>. A context with a deadline
  is the instant of its deadline.
\<close>

definition DefaultTimeout :: duration where "DefaultTimeout = 30 * Second"
definition DefaultPoolSize :: int where "DefaultPoolSize = 10"
definition DefaultMaxRetries :: int where "DefaultMaxRetries = 3"

record RedisConfig =
  rcf_Addr :: string
  rcf_Password :: string
  rcf_DB :: int
  rcf_PoolSize :: int
  rcf_MinIdleConns :: int
  rcf_MaxRetries :: int

record PostgresConfig =
  pcf_DSN :: string
  pcf_MaxConnections :: int
  pcf_MaxIdleConnections :: int
  pcf_ConnectionLifetime :: duration

record Config =
  cf_Type :: string
  cf_Redis :: "RedisConfig option"
  cf_Postgres :: "PostgresConfig option"
  cf_MaxRetries :: int
  cf_OperationTimeout :: duration

definition DefaultConfig :: Config where
  "DefaultConfig =
     \<lparr>cf_Type = ''memory'', cf_Redis = None, cf_Postgres = None, cf_MaxRetries = DefaultMaxRetries,
      cf_OperationTimeout = DefaultTimeout\<rparr>"

text \<open>A context has the deadline of its parent if that comes first.\<close>

definition WithContext :: "clock \<Rightarrow> time option \<Rightarrow> duration \<Rightarrow> time option" where
  "WithContext clk deadline timeout =
     (let timeout = (if timeout = 0 then DefaultTimeout else timeout);
          new = clk 0 + timeout
      in case deadline of None \<Rightarrow> Some new | Some t \<Rightarrow> Some (min t new))"

lemma WithContext_bounded:
  "\<exists>t. WithContext clk deadline timeout = Some t \<and>
     t \<le> clk 0 + (if timeout = 0 then DefaultTimeout else timeout)"
  by (auto simp: WithContext_def Let_def split: option.splits)

end
