(* ===== verification/RedisStore.thy ===== *)
theory RedisStore
  imports Redis StorageConfig
begin

text \<open>
  The redis backend, \<^verbatim>\<open>internal/storage/redis\<close>: jobs as JSON under \<open>job:\<close>, queues as sorted sets under
  \<open>zset:\<close>, pause flags, workers and the set of their identifiers, statistics in hashes,
  configurations. Every method takes the client \<open>C\<close> and the state \<open>s\<close> behind it. The methods of
  \<^verbatim>\<open>worker.go\<close> that have the names of job methods carry \<open>Worker\<close> in theirs.

  Encoding and decoding of JSON is the parameter \<open>cd\<close>.
\<close>

section \<open>Encoding\<close>

record codec =
  marshal_job :: "job \<Rightarrow> string res"
  unmarshal_job :: "string \<Rightarrow> job res"
  marshal_worker :: "worker \<Rightarrow> string res"
  unmarshal_worker :: "string \<Rightarrow> worker res"
  marshal_config :: "QueueConfig \<Rightarrow> string res"
  unmarshal_config :: "string \<Rightarrow> QueueConfig res"

section \<open>Keys\<close>

definition keyPrefixJob :: string where "keyPrefixJob = ''job:''"
definition keyPrefixScheduled :: string where "keyPrefixScheduled = ''scheduled:''"
definition keyPrefixWorker :: string where "keyPrefixWorker = ''worker:''"
definition keyPrefixQueueStats :: string where "keyPrefixQueueStats = ''stats:queue:''"
definition keyPrefixJobType :: string where "keyPrefixJobType = ''stats:jobtype:''"
definition keyPrefixConfig :: string where "keyPrefixConfig = ''config:queue:''"
definition keyPrefixQueuePause :: string where "keyPrefixQueuePause = ''pause:queue:''"
definition keyQueueZSet :: string where "keyQueueZSet = ''zset:''"

lemmas key_defs =
  keyPrefixJob_def keyPrefixScheduled_def keyPrefixWorker_def keyPrefixQueueStats_def
  keyPrefixJobType_def keyPrefixConfig_def keyPrefixQueuePause_def keyQueueZSet_def

definition NewRedisStore ::
  "(RedisConfig \<Rightarrow> 'r redis_client) \<Rightarrow> RedisConfig option \<Rightarrow> 'r \<Rightarrow> ('r redis_client \<times> RedisConfig) res" where
  "NewRedisStore NewClient config s =
     (case config of
        None \<Rightarrow> Err ErrInvalidConfiguration
      | Some config \<Rightarrow>
          read_ok (wrap_err ''failed to connect to Redis'' (rc_Ping (NewClient config) s))
            (\<lambda>_. Ok (NewClient config, config)))"

section \<open>Scanning\<close>

text \<open>
  The loop around \<open>Scan\<close>: \<open>page\<close> is what the body does with the keys of a page. Against a server whose
  cursor never returns to 0 the loop does not end, and the result is \<open>None\<close>.
\<close>

partial_function (option) scan_loop ::
  "'r redis_client \<Rightarrow> string \<Rightarrow> string \<Rightarrow> (string list \<Rightarrow> 'a \<Rightarrow> 'a) \<Rightarrow> 'r \<Rightarrow> int \<Rightarrow> 'a \<Rightarrow> ('a res) option" where
  "scan_loop C msg pattern page s cursor acc =
     (case wrap_err msg (rc_Scan C cursor pattern 100 s) of
        Err e \<Rightarrow> Some (Err e)
      | Panic p \<Rightarrow> Some (Panic p)
      | Ok kc \<Rightarrow>
          (let acc = page (fst kc) acc in
           if snd kc = 0 then Some (Ok acc) else scan_loop C msg pattern page s (snd kc) acc))"

lemma scan_loop_trace:
  "scan_trace C pattern s cursor pages \<Longrightarrow>
   scan_loop C msg pattern page s cursor acc = Some (Ok (fold page pages acc))"
  by (induction arbitrary: acc rule: scan_trace.induct) (simp_all add: scan_loop.simps)

section \<open>Jobs\<close>

definition red_Create :: "codec \<Rightarrow> 'r redis_client \<Rightarrow> job option \<Rightarrow> 'r \<Rightarrow> unit res \<times> 'r" where
  "red_Create cd C j s =
     (case j of None \<Rightarrow> (Err ErrInvalidValue, s) | Some j \<Rightarrow>
      if j_ID j = '''' then (Err ErrInvalidValue, s)
      else with_ok (wrap_err ''failed to marshal job'' (marshal_job cd j)) s (\<lambda>data.
        then_ok (wrapped ''failed to create job'' (rc_SetNX C (keyPrefixJob @ j_ID j) data s)) (\<lambda>set s.
          if \<not> set then (Err ErrJobAlreadyExists, s) else (Ok (), s))))"

definition red_Get :: "codec \<Rightarrow> 'r redis_client \<Rightarrow> string \<Rightarrow> 'r \<Rightarrow> job res" where
  "red_Get cd C jobID s =
     (if jobID = '''' then Err ErrInvalidValue
      else read_ok (wrap_err ''failed to get job'' (rc_Get C (keyPrefixJob @ jobID) s)) (\<lambda>data.
        case data of
          None \<Rightarrow> Err ErrJobNotFound
        | Some data \<Rightarrow> wrap_err ''failed to unmarshal job'' (unmarshal_job cd data)))"

definition red_Update :: "codec \<Rightarrow> 'r redis_client \<Rightarrow> job option \<Rightarrow> 'r \<Rightarrow> unit res \<times> 'r" where
  "red_Update cd C j s =
     (case j of None \<Rightarrow> (Err ErrInvalidValue, s) | Some j \<Rightarrow>
      if j_ID j = '''' then (Err ErrInvalidValue, s)
      else with_ok (wrap_err ''failed to check job existence'' (rc_Exists C (keyPrefixJob @ j_ID j) s)) s (\<lambda>exists.
        if exists = 0 then (Err ErrJobNotFound, s)
        else with_ok (wrap_err ''failed to marshal job'' (marshal_job cd j)) s (\<lambda>data.
          wrapped ''failed to update job'' (rc_Set C (keyPrefixJob @ j_ID j) data s))))"

definition red_Delete :: "'r redis_client \<Rightarrow> string \<Rightarrow> 'r \<Rightarrow> unit res \<times> 'r" where
  "red_Delete C jobID s =
     (if jobID = '''' then (Err ErrInvalidValue, s)
      else then_ok (wrapped ''failed to delete job'' (rc_Del C (keyPrefixJob @ jobID) s)) (\<lambda>result s.
        if result = 0 then (Err ErrJobNotFound, s) else (Ok (), s)))"

record JobFilter =
  jf_Queue :: string
  jf_Status :: "Status list"
  jf_Type :: string
  jf_WorkerID :: string
  jf_CreatedAfter :: "time option"
  jf_CreatedBefore :: "time option"
  jf_Limit :: int
  jf_Offset :: int
  jf_SortBy :: string
  jf_SortDesc :: bool

definition filter_matches :: "JobFilter \<Rightarrow> job \<Rightarrow> bool" where
  "filter_matches f j \<longleftrightarrow>
     \<not> (jf_Queue f \<noteq> '''' \<and> j_Queue j \<noteq> jf_Queue f) \<and>
     \<not> (jf_Type f \<noteq> '''' \<and> j_Type j \<noteq> jf_Type f) \<and>
     \<not> (jf_WorkerID f \<noteq> '''' \<and> j_WorkerID j \<noteq> jf_WorkerID f) \<and>
     (length (jf_Status f) > 0 \<longrightarrow> j_Status j \<in> set (jf_Status f)) \<and>
     (case jf_CreatedAfter f of None \<Rightarrow> True | Some t \<Rightarrow> \<not> j_CreatedAt j < t) \<and>
     (case jf_CreatedBefore f of None \<Rightarrow> True | Some t \<Rightarrow> \<not> j_CreatedAt j > t)"

text \<open>A key that cannot be read or decoded is skipped.\<close>

definition list_key :: "codec \<Rightarrow> 'r redis_client \<Rightarrow> JobFilter \<Rightarrow> 'r \<Rightarrow> string \<Rightarrow> job option" where
  "list_key cd C f s key =
     (case rc_Get C key s of
        Ok (Some data) \<Rightarrow>
          (case unmarshal_job cd data of
             Ok j \<Rightarrow> if filter_matches f j then Some j else None
           | _ \<Rightarrow> None)
      | _ \<Rightarrow> None)"

definition paginate :: "JobFilter \<Rightarrow> job list \<Rightarrow> job list" where
  "paginate f jobs =
     (if jf_Offset f > 0 \<and> jf_Offset f \<ge> int (length jobs) then []
      else let jobs = (if jf_Offset f > 0 then drop (nat (jf_Offset f)) jobs else jobs)
        in if jf_Limit f > 0 \<and> int (length jobs) > jf_Limit f then take (nat (jf_Limit f)) jobs else jobs)"

definition red_List :: "codec \<Rightarrow> 'r redis_client \<Rightarrow> JobFilter \<Rightarrow> 'r \<Rightarrow> (job list res) option" where
  "red_List cd C f s =
     map_option (map_res (paginate f))
       (scan_loop C ''failed to scan jobs'' (keyPrefixJob @ ''*'')
          (\<lambda>keys jobs. jobs @ List.map_filter (list_key cd C f s) keys) s 0 [])"

definition red_UpdateStatus ::
  "codec \<Rightarrow> 'r redis_client \<Rightarrow> clock \<Rightarrow> string \<Rightarrow> Status \<Rightarrow> 'r \<Rightarrow> unit res \<times> 'r" where
  "red_UpdateStatus cd C clk jobID status s =
     with_ok (red_Get cd C jobID s) s (\<lambda>j.
       let j = j\<lparr>j_Status := status\<rparr>;
           j = (if status = StatusRunning \<and> j_StartedAt j = None then j\<lparr>j_StartedAt := Some (clk 0)\<rparr> else j);
           j = (if IsTerminal j \<and> j_CompletedAt j = None then j\<lparr>j_CompletedAt := Some (clk 1)\<rparr> else j)
       in red_Update cd C (Some j) s)"

definition red_UpdateProgress :: "codec \<Rightarrow> 'r redis_client \<Rightarrow> string \<Rightarrow> int \<Rightarrow> 'r \<Rightarrow> unit res \<times> 'r" where
  "red_UpdateProgress cd C jobID progress s =
     with_ok (red_Get cd C jobID s) s (\<lambda>j. red_Update cd C (Some (j\<lparr>j_Progress := progress\<rparr>)) s)"

definition red_SetResult :: "codec \<Rightarrow> 'r redis_client \<Rightarrow> string \<Rightarrow> bytes \<Rightarrow> 'r \<Rightarrow> unit res \<times> 'r" where
  "red_SetResult cd C jobID result s =
     with_ok (red_Get cd C jobID s) s (\<lambda>j. red_Update cd C (Some (j\<lparr>j_Result := result\<rparr>)) s)"

definition red_SetError :: "codec \<Rightarrow> 'r redis_client \<Rightarrow> string \<Rightarrow> string \<Rightarrow> 'r \<Rightarrow> unit res \<times> 'r" where
  "red_SetError cd C jobID errMsg s =
     with_ok (red_Get cd C jobID s) s (\<lambda>j. red_Update cd C (Some (j\<lparr>j_Error := errMsg\<rparr>)) s)"

definition red_Health :: "'r redis_client \<Rightarrow> 'r \<Rightarrow> unit res" where
  "red_Health C s = rc_Ping C s"

end
