(* ===== verification/RedisQueue.thy ===== *)
theory RedisQueue
  imports RedisStore
begin

text \<open>
  The queues of the redis backend, \<^verbatim>\<open>internal/storage/redis/queue.go\<close>: a queue is a sorted set whose
  scores combine priority and time. The script of \<open>Dequeue\<close> runs on the server as one step. Instants
  count from the Unix epoch here, and lie within the 64 bits of \<open>UnixNano\<close>.
\<close>

section \<open>Pause flags\<close>

definition red_PauseQueue :: "'r redis_client \<Rightarrow> string \<Rightarrow> 'r \<Rightarrow> unit res \<times> 'r" where
  "red_PauseQueue C q s =
     (if q = '''' then (Err ErrInvalidValue, s) else rc_Set C (keyPrefixQueuePause @ q) ''1'' s)"

definition red_ResumeQueue :: "'r redis_client \<Rightarrow> string \<Rightarrow> 'r \<Rightarrow> unit res \<times> 'r" where
  "red_ResumeQueue C q s =
     (if q = '''' then (Err ErrInvalidValue, s) else discard (rc_Del C (keyPrefixQueuePause @ q) s))"

definition red_IsQueuePaused :: "'r redis_client \<Rightarrow> string \<Rightarrow> 'r \<Rightarrow> bool res" where
  "red_IsQueuePaused C q s =
     (if q = '''' then Err ErrInvalidValue
      else read_ok (wrap_err ''failed to check queue pause status'' (rc_Exists C (keyPrefixQueuePause @ q) s))
        (\<lambda>exists. Ok (exists > 0)))"

section \<open>Entries\<close>

text \<open>\<open>float64(-int(priority))*1e10 + float64(time.Now().UnixNano())\<close>, each operation rounded.\<close>

definition queue_score :: "rounding \<Rightarrow> Priority \<Rightarrow> time \<Rightarrow> real" where
  "queue_score rnd priority now =
     rnd (rnd (rnd (of_int (wrap64 (- priority))) * 10000000000) + rnd (of_int now))"

definition red_Enqueue ::
  "rounding \<Rightarrow> 'r redis_client \<Rightarrow> clock \<Rightarrow> string \<Rightarrow> string \<Rightarrow> Priority \<Rightarrow> 'r \<Rightarrow> unit res \<times> 'r" where
  "red_Enqueue rnd C clk q jobID priority s =
     (if q = '''' \<or> jobID = '''' then (Err ErrInvalidValue, s)
      else with_ok (red_IsQueuePaused C q s) s (\<lambda>paused.
        if paused then (Err ErrQueuePaused, s)
        else discard (wrapped ''failed to enqueue job''
          (rc_ZAdd C (keyQueueZSet @ q) (queue_score rnd priority (clk 0)) jobID s))))"

text \<open>The script: the reply to \<open>nil\<close> is \<open>None\<close>.\<close>

definition pop_script :: "'r redis_client \<Rightarrow> string \<Rightarrow> 'r \<Rightarrow> string option res \<times> 'r" where
  "pop_script C key s =
     with_ok (rc_ZRange C key 0 0 s) s (\<lambda>jobs.
       if length jobs > 0
       then then_ok (rc_ZRem C key (jobs ! 0) s) (\<lambda>_ s. (Ok (Some (jobs ! 0)), s))
       else (Ok None, s))"

text \<open>The worker is only checked to be named; nothing records who took the job.\<close>

definition red_Dequeue :: "'r redis_client \<Rightarrow> string \<Rightarrow> string \<Rightarrow> 'r \<Rightarrow> string res \<times> 'r" where
  "red_Dequeue C q workerID s =
     (if q = '''' \<or> workerID = '''' then (Err ErrInvalidValue, s)
      else with_ok (red_IsQueuePaused C q s) s (\<lambda>paused.
        if paused then (Err ErrQueuePaused, s)
        else then_ok (wrapped ''failed to dequeue job'' (pop_script C (keyQueueZSet @ q) s)) (\<lambda>result s.
          case result of None \<Rightarrow> (Err ErrEmptyQueue, s) | Some jobID \<Rightarrow> (Ok jobID, s))))"

definition red_Requeue ::
  "rounding \<Rightarrow> 'r redis_client \<Rightarrow> clock \<Rightarrow> string \<Rightarrow> string \<Rightarrow> Priority \<Rightarrow> 'r \<Rightarrow> unit res \<times> 'r" where
  "red_Requeue rnd C clk q jobID priority s = red_Enqueue rnd C clk q jobID priority s"

definition red_Remove :: "'r redis_client \<Rightarrow> string \<Rightarrow> string \<Rightarrow> 'r \<Rightarrow> unit res \<times> 'r" where
  "red_Remove C q jobID s =
     (if q = '''' \<or> jobID = '''' then (Err ErrInvalidValue, s)
      else then_ok (wrapped ''failed to remove job from queue'' (rc_ZRem C (keyQueueZSet @ q) jobID s)) (\<lambda>result s.
        if result = 0 then (Err ErrJobNotFound, s) else (Ok (), s)))"

definition red_Length :: "'r redis_client \<Rightarrow> string \<Rightarrow> 'r \<Rightarrow> int res" where
  "red_Length C q s =
     (if q = '''' then Err ErrInvalidValue
      else wrap_err ''failed to get queue length'' (rc_ZCard C (keyQueueZSet @ q) s))"

definition red_Peek :: "'r redis_client \<Rightarrow> string \<Rightarrow> 'r \<Rightarrow> string res" where
  "red_Peek C q s =
     (if q = '''' then Err ErrInvalidValue
      else read_ok (wrap_err ''failed to peek queue'' (rc_ZRange C (keyQueueZSet @ q) 0 0 s)) (\<lambda>jobs.
        if length jobs = 0 then Err ErrEmptyQueue else Ok (jobs ! 0)))"

text \<open>\<open>before.Unix()\<close> is the whole number of seconds, rounded down.\<close>

definition red_GetScheduled :: "codec \<Rightarrow> 'r redis_client \<Rightarrow> time \<Rightarrow> int \<Rightarrow> 'r \<Rightarrow> job list res" where
  "red_GetScheduled cd C before limit s =
     read_ok (wrap_err ''failed to get scheduled jobs''
       (rc_ZRangeByScore C (keyPrefixScheduled @ ''jobs'') ''-inf'' (decimal (before div Second)) limit s)) (\<lambda>jobIDs.
       Ok (List.map_filter (\<lambda>jobID. case red_Get cd C jobID s of Ok j \<Rightarrow> Some j | _ \<Rightarrow> None) jobIDs))"

text \<open>The keys of a scan match the pattern, so each is at least as long as the prefix that is cut off.\<close>

definition red_ListQueues :: "'r redis_client \<Rightarrow> 'r \<Rightarrow> (string list res) option" where
  "red_ListQueues C s =
     scan_loop C ''failed to scan queues'' (keyQueueZSet @ ''*'')
       (\<lambda>keys queues. queues @ map (\<lambda>key. drop (length keyQueueZSet) key) keys) s 0 []"

end
