(* ===== verification/RedisWorkers.thy ===== *)
theory RedisWorkers
  imports RedisQueue
begin

text \<open>
  Workers, statistics and configurations of the redis backend: \<^verbatim>\<open>worker.go\<close> and \<^verbatim>\<open>metrics.go\<close> of
  \<^verbatim>\<open>internal/storage/redis\<close>. Statistics are hashes of decimal numbers, written by pipelines.
\<close>

section \<open>Workers\<close>

definition worker_set :: string where "worker_set = keyPrefixWorker @ ''set''"

definition red_Register :: "codec \<Rightarrow> 'r redis_client \<Rightarrow> worker option \<Rightarrow> 'r \<Rightarrow> unit res \<times> 'r" where
  "red_Register cd C w s =
     (case w of None \<Rightarrow> (Err ErrInvalidValue, s) | Some w \<Rightarrow>
      if w_ID w = '''' then (Err ErrInvalidValue, s)
      else with_ok (wrap_err ''failed to marshal worker'' (marshal_worker cd w)) s (\<lambda>data.
        then_ok (wrapped ''failed to register worker'' (rc_Set C (keyPrefixWorker @ w_ID w) data s)) (\<lambda>_ s.
          discard (wrapped ''failed to add worker to set'' (rc_SAdd C worker_set (w_ID w) s)))))"

definition red_Unregister :: "'r redis_client \<Rightarrow> string \<Rightarrow> 'r \<Rightarrow> unit res \<times> 'r" where
  "red_Unregister C workerID s =
     (if workerID = '''' then (Err ErrInvalidValue, s)
      else then_ok (wrapped ''failed to unregister worker'' (rc_Del C (keyPrefixWorker @ workerID) s)) (\<lambda>_ s.
        discard (wrapped ''failed to remove worker from set'' (rc_SRem C worker_set workerID s))))"

definition red_GetWorker :: "codec \<Rightarrow> 'r redis_client \<Rightarrow> string \<Rightarrow> 'r \<Rightarrow> worker res" where
  "red_GetWorker cd C workerID s =
     (if workerID = '''' then Err ErrInvalidValue
      else read_ok (wrap_err ''failed to get worker'' (rc_Get C (keyPrefixWorker @ workerID) s)) (\<lambda>data.
        case data of
          None \<Rightarrow> Err ErrWorkerNotFound
        | Some data \<Rightarrow> wrap_err ''failed to unmarshal worker'' (unmarshal_worker cd data)))"

definition red_ListWorkers :: "codec \<Rightarrow> 'r redis_client \<Rightarrow> 'r \<Rightarrow> worker list res" where
  "red_ListWorkers cd C s =
     read_ok (wrap_err ''failed to list workers'' (rc_SMembers C worker_set s)) (\<lambda>workerIDs.
       Ok (List.map_filter (\<lambda>workerID. case red_GetWorker cd C workerID s of Ok w \<Rightarrow> Some w | _ \<Rightarrow> None) workerIDs))"

text \<open>The five methods that read a worker, change it and write it back.\<close>

definition red_with_worker ::
  "codec \<Rightarrow> 'r redis_client \<Rightarrow> string \<Rightarrow> (worker \<Rightarrow> worker) \<Rightarrow> 'r \<Rightarrow> unit res \<times> 'r" where
  "red_with_worker cd C workerID f s =
     with_ok (red_GetWorker cd C workerID s) s (\<lambda>w.
       with_ok (wrap_err ''failed to marshal worker'' (marshal_worker cd (f w))) s (\<lambda>data.
         rc_Set C (keyPrefixWorker @ workerID) data s))"

definition red_UpdateHeartbeat :: "codec \<Rightarrow> 'r redis_client \<Rightarrow> clock \<Rightarrow> string \<Rightarrow> 'r \<Rightarrow> unit res \<times> 'r" where
  "red_UpdateHeartbeat cd C clk workerID =
     red_with_worker cd C workerID (\<lambda>w. w\<lparr>w_LastHeartbeat := Some (clk 0)\<rparr>)"

definition red_UpdateWorkerStatus :: "codec \<Rightarrow> 'r redis_client \<Rightarrow> string \<Rightarrow> WorkerStatus \<Rightarrow> 'r \<Rightarrow> unit res \<times> 'r" where
  "red_UpdateWorkerStatus cd C workerID status =
     red_with_worker cd C workerID (\<lambda>w. w\<lparr>w_Status := status\<rparr>)"

text \<open>An empty identifier is the one of no job, which the record keeps as \<open>None\<close>.\<close>

definition red_SetCurrentJob :: "codec \<Rightarrow> 'r redis_client \<Rightarrow> string \<Rightarrow> string \<Rightarrow> 'r \<Rightarrow> unit res \<times> 'r" where
  "red_SetCurrentJob cd C workerID jobID =
     red_with_worker cd C workerID (\<lambda>w.
       if jobID \<noteq> '''' then w\<lparr>w_CurrentJobID := Some jobID, w_Status := WorkerStatusProcessing\<rparr>
       else w\<lparr>w_CurrentJobID := None, w_Status := WorkerStatusIdle\<rparr>)"

definition red_IncrementProcessed :: "codec \<Rightarrow> 'r redis_client \<Rightarrow> string \<Rightarrow> 'r \<Rightarrow> unit res \<times> 'r" where
  "red_IncrementProcessed cd C workerID =
     red_with_worker cd C workerID (\<lambda>w. w\<lparr>w_ProcessedCount := wrap64 (w_ProcessedCount w + 1)\<rparr>)"

definition red_IncrementFailed :: "codec \<Rightarrow> 'r redis_client \<Rightarrow> string \<Rightarrow> 'r \<Rightarrow> unit res \<times> 'r" where
  "red_IncrementFailed cd C workerID =
     red_with_worker cd C workerID (\<lambda>w. w\<lparr>w_FailedCount := wrap64 (w_FailedCount w + 1)\<rparr>)"

text \<open>\<open>IsAlive\<close> reads the clock for each worker: \<open>clk i\<close> for the one at position \<open>i\<close>.\<close>

definition red_GetStaleWorkers ::
  "codec \<Rightarrow> 'r redis_client \<Rightarrow> clock \<Rightarrow> duration \<Rightarrow> 'r \<Rightarrow> worker list res" where
  "red_GetStaleWorkers cd C clk timeout s =
     read_ok (red_ListWorkers cd C s) (\<lambda>workers.
       Ok (map snd (filter (\<lambda>(i, w). \<not> IsAlive (clk i) timeout w) (zip [0..<length workers] workers))))"

section \<open>Recording\<close>

text \<open>\<open>time.Now().Unix()\<close> and \<open>duration.Milliseconds()\<close>.\<close>

definition unix_seconds :: "time \<Rightarrow> int" where "unix_seconds t = t div Second"

definition milliseconds :: "duration \<Rightarrow> int" where "milliseconds d = d sdiv Millisecond"

definition red_RecordJobCreated ::
  "'r redis_client \<Rightarrow> clock \<Rightarrow> string \<Rightarrow> string \<Rightarrow> 'r \<Rightarrow> unit res \<times> 'r" where
  "red_RecordJobCreated C clk q jobType s =
     (if q = '''' then (Err ErrInvalidValue, s)
      else let k = keyPrefixQueueStats @ q; tk = keyPrefixJobType @ jobType;
             pipe = [HIncrBy k ''pending_count'' 1, HSet k ''last_job_at'' (unix_seconds (clk 0))];
             pipe = (if jobType \<noteq> ''''
               then pipe @ [HIncrBy tk ''total_count'' 1, HSet tk ''last_executed_at'' (unix_seconds (clk 1))]
               else pipe)
        in rc_Exec C pipe s)"

text \<open>\<open>HGet(\<dots>).Int64()\<close> with its error ignored.\<close>

definition HGet_Int64 :: "'r redis_client \<Rightarrow> string \<Rightarrow> string \<Rightarrow> 'r \<Rightarrow> int" where
  "HGet_Int64 C k f s = (case rc_HGet C k f s of Ok (Some v) \<Rightarrow> Atoi v | _ \<Rightarrow> 0)"

definition red_RecordJobCompleted ::
  "'r redis_client \<Rightarrow> clock \<Rightarrow> string \<Rightarrow> string \<Rightarrow> duration \<Rightarrow> 'r \<Rightarrow> unit res \<times> 'r" where
  "red_RecordJobCompleted C clk q jobType dur s =
     (if q = '''' then (Err ErrInvalidValue, s)
      else let k = keyPrefixQueueStats @ q; tk = keyPrefixJobType @ jobType;
             pipe = [HIncrBy k ''success_count'' 1, HIncrBy k ''running_count'' (-1),
               HSet k ''last_job_at'' (unix_seconds (clk 0)),
               HIncrBy k ''total_duration_ms'' (milliseconds dur), HIncrBy k ''completed_count'' 1];
             pipe = (if jobType \<noteq> '''' then
               (let pipe = pipe @ [HIncrBy tk ''success_count'' 1,
                      HIncrBy tk ''total_duration_ms'' (milliseconds dur)];
                    minDur = HGet_Int64 C tk ''min_duration_ms'' s;
                    maxDur = HGet_Int64 C tk ''max_duration_ms'' s;
                    durationMs = milliseconds dur;
                    pipe = (if minDur = 0 \<or> durationMs < minDur
                      then pipe @ [HSet tk ''min_duration_ms'' durationMs] else pipe)
                in if durationMs > maxDur then pipe @ [HSet tk ''max_duration_ms'' durationMs] else pipe)
               else pipe)
        in rc_Exec C pipe s)"

definition red_RecordJobFailed ::
  "'r redis_client \<Rightarrow> clock \<Rightarrow> string \<Rightarrow> string \<Rightarrow> string \<Rightarrow> 'r \<Rightarrow> unit res \<times> 'r" where
  "red_RecordJobFailed C clk q jobType errType s =
     (if q = '''' then (Err ErrInvalidValue, s)
      else let k = keyPrefixQueueStats @ q; tk = keyPrefixJobType @ jobType;
             pipe = [HIncrBy k ''failed_count'' 1, HIncrBy k ''running_count'' (-1),
               HSet k ''last_job_at'' (unix_seconds (clk 0))];
             pipe = (if jobType \<noteq> '''' then pipe @ [HIncrBy tk ''failed_count'' 1] else pipe)
        in rc_Exec C pipe s)"

definition red_RecordJobRetried :: "'r redis_client \<Rightarrow> string \<Rightarrow> string \<Rightarrow> 'r \<Rightarrow> unit res \<times> 'r" where
  "red_RecordJobRetried C q jobType s =
     (if q = '''' then (Err ErrInvalidValue, s)
      else discard (rc_HIncrBy C (keyPrefixQueueStats @ q) ''retried_count'' 1 s))"

section \<open>Reading statistics\<close>

text \<open>
  \<open>fmt.Sscanf(val, "%d", &x)\<close>: spaces, a sign, then digits; what follows is not looked at. A text without
  a number, or with one beyond 64 bits, leaves \<open>x\<close> as it was.
\<close>

definition Sscanf_d :: "string \<Rightarrow> int \<Rightarrow> int" where
  "Sscanf_d val x =
     (let cs = dropWhile (\<lambda>c. c \<in> {CHR 0x20, CHR 0x09, CHR 0x0B, CHR 0x0C, CHR 0x0D}) val;
          (neg, cs) = (case cs of c # ds \<Rightarrow> if c = CHR ''-'' then (True, ds) else if c = CHR ''+'' then (False, ds) else (False, cs)
             | [] \<Rightarrow> (False, []));
          ds = takeWhile is_digit cs;
          v = (if neg then - digits_value ds else digits_value ds)
      in if ds = [] \<or> \<not> int64 v then x else v)"

text \<open>A field of the hash, or the zero value of the variable.\<close>

definition scan_field :: "(string \<rightharpoonup> string) \<Rightarrow> string \<Rightarrow> int" where
  "scan_field h f = (case h f of Some v \<Rightarrow> Sscanf_d v 0 | None \<Rightarrow> 0)"

definition busy_workers :: "string \<Rightarrow> worker list \<Rightarrow> int" where
  "busy_workers q ws =
     fold (\<lambda>w n. fold (\<lambda>p n. if p = q \<and> w_Status w = WorkerStatusProcessing then wrap64 (n + 1) else n)
       (w_Queues w) n) ws 0"

definition red_GetQueueStats :: "codec \<Rightarrow> 'r redis_client \<Rightarrow> string \<Rightarrow> 'r \<Rightarrow> QueueStats res" where
  "red_GetQueueStats cd C q s =
     (if q = '''' then Err ErrInvalidValue
      else read_ok (wrap_err ''failed to get queue stats'' (rc_HGetAll C (keyPrefixQueueStats @ q) s)) (\<lambda>data.
        let stats = (zero_QueueStats q)
              \<lparr>qs_PendingCount := scan_field data ''pending_count'',
               qs_RunningCount := scan_field data ''running_count'',
               qs_SuccessCount := scan_field data ''success_count'',
               qs_FailedCount := scan_field data ''failed_count''\<rparr>;
            totalDuration = scan_field data ''total_duration_ms'';
            completedCount = scan_field data ''completed_count'';
            stats = (if completedCount > 0
              then stats\<lparr>qs_AvgProcessingTime := wrap64 (totalDuration sdiv completedCount * Millisecond)\<rparr>
              else stats);
            stats = (if data ''last_job_at'' \<noteq> None
              then stats\<lparr>qs_LastJobAt := Some (scan_field data ''last_job_at'' * Second)\<rparr> else stats);
            workers = (case red_ListWorkers cd C s of Ok ws \<Rightarrow> ws | _ \<Rightarrow> [])
        in Ok (stats\<lparr>qs_ActiveWorkers := busy_workers q workers\<rparr>)))"

definition red_GetQueueStatsAll ::
  "codec \<Rightarrow> 'r redis_client \<Rightarrow> 'r \<Rightarrow> ((string \<rightharpoonup> QueueStats) res) option" where
  "red_GetQueueStatsAll cd C s =
     map_option (map_res (\<lambda>queues. fold (\<lambda>q stats. case red_GetQueueStats cd C q s of
         Ok st \<Rightarrow> stats(q \<mapsto> st) | _ \<Rightarrow> stats) queues Map.empty))
       (red_ListQueues C s)"

record JobTypeStats =
  js_JobType :: string
  js_TotalCount :: int
  js_SuccessCount :: int
  js_FailedCount :: int
  js_AvgDuration :: duration
  js_MinDuration :: duration
  js_MaxDuration :: duration
  js_LastExecutedAt :: "time option"

definition job_type_stat :: "string \<Rightarrow> (string \<rightharpoonup> string) \<Rightarrow> JobTypeStats" where
  "job_type_stat jobType data =
     (let success = scan_field data ''success_count'' in
      \<lparr>js_JobType = jobType, js_TotalCount = scan_field data ''total_count'', js_SuccessCount = success,
       js_FailedCount = scan_field data ''failed_count'',
       js_AvgDuration = (if data ''total_duration_ms'' \<noteq> None \<and> success > 0
         then wrap64 (scan_field data ''total_duration_ms'' sdiv success * Millisecond) else 0),
       js_MinDuration = wrap64 (scan_field data ''min_duration_ms'' * Millisecond),
       js_MaxDuration = wrap64 (scan_field data ''max_duration_ms'' * Millisecond),
       js_LastExecutedAt = (if data ''last_executed_at'' \<noteq> None
         then Some (scan_field data ''last_executed_at'' * Second) else None)\<rparr>)"

text \<open>The argument \<open>since\<close> of \<open>GetJobTypeStats\<close> is not used.\<close>

definition red_GetJobTypeStats ::
  "'r redis_client \<Rightarrow> time \<Rightarrow> 'r \<Rightarrow> ((string \<rightharpoonup> JobTypeStats) res) option" where
  "red_GetJobTypeStats C since s =
     scan_loop C ''failed to scan job type stats'' (keyPrefixJobType @ ''*'')
       (fold (\<lambda>key stats. case rc_HGetAll C key s of
            Ok data \<Rightarrow> let jobType = drop (length keyPrefixJobType) key
              in stats(jobType \<mapsto> job_type_stat jobType data)
          | _ \<Rightarrow> stats)) s 0 Map.empty"

section \<open>Configurations\<close>

definition red_SaveQueueConfig :: "codec \<Rightarrow> 'r redis_client \<Rightarrow> QueueConfig option \<Rightarrow> 'r \<Rightarrow> unit res \<times> 'r" where
  "red_SaveQueueConfig cd C config s =
     (case config of None \<Rightarrow> (Err ErrInvalidValue, s) | Some config \<Rightarrow>
      if qc_Name config = '''' then (Err ErrInvalidValue, s)
      else with_ok (wrap_err ''failed to marshal queue config'' (marshal_config cd config)) s (\<lambda>data.
        rc_Set C (keyPrefixConfig @ qc_Name config) data s))"

definition red_GetQueueConfig :: "codec \<Rightarrow> 'r redis_client \<Rightarrow> string \<Rightarrow> 'r \<Rightarrow> QueueConfig res" where
  "red_GetQueueConfig cd C q s =
     (if q = '''' then Err ErrInvalidValue
      else read_ok (wrap_err ''failed to get queue config'' (rc_Get C (keyPrefixConfig @ q) s)) (\<lambda>data.
        case data of
          None \<Rightarrow> Err ErrQueueNotFound
        | Some data \<Rightarrow> wrap_err ''failed to unmarshal queue config'' (unmarshal_config cd data)))"

definition red_DeleteQueueConfig :: "'r redis_client \<Rightarrow> string \<Rightarrow> 'r \<Rightarrow> unit res \<times> 'r" where
  "red_DeleteQueueConfig C q s =
     (if q = '''' then (Err ErrInvalidValue, s)
      else then_ok (wrapped ''failed to delete queue config'' (rc_Del C (keyPrefixConfig @ q) s)) (\<lambda>result s.
        if result = 0 then (Err ErrQueueNotFound, s) else (Ok (), s)))"

definition red_ListQueueConfigs :: "codec \<Rightarrow> 'r redis_client \<Rightarrow> 'r \<Rightarrow> (QueueConfig list res) option" where
  "red_ListQueueConfigs cd C s =
     scan_loop C ''failed to scan queue configs'' (keyPrefixConfig @ ''*'')
       (\<lambda>keys configs. configs @ List.map_filter (\<lambda>key. case rc_Get C key s of
            Ok (Some data) \<Rightarrow> (case unmarshal_config cd data of Ok c \<Rightarrow> Some c | _ \<Rightarrow> None)
          | _ \<Rightarrow> None) keys) s 0 []"

end
