(* ===== verification/RedisProofs.thy ===== *)
theory RedisProofs
  imports RedisWorkers
begin

text \<open>
  Lemmas on the redis backend: decimals read back, kinds of keys, and what each method does to the key
  space, proved inside the locale \<open>redis\<close>. The last section gives a key space of its own to every
  command and shows that the locale holds of it.
\<close>

section \<open>Decimals\<close>

lemma nat_digits_Cons: "\<exists>c cs. nat_digits n = c # cs \<and> is_digit c \<and> list_all is_digit cs"
  using nat_digits_properties [of n] by (cases "nat_digits n") simp_all

lemma not_is_digit [simp]:
  "\<not> is_digit CHR ''-''" "\<not> is_digit CHR ''+''" "\<not> is_digit CHR 0x20" "\<not> is_digit CHR 0x09"
  "\<not> is_digit CHR 0x0B" "\<not> is_digit CHR 0x0C" "\<not> is_digit CHR 0x0D"
  by (simp_all add: is_digit_def)

lemma Atoi_decimal: "int64 i \<Longrightarrow> Atoi (decimal i) = i"
proof -
  assume i: "int64 i"
  obtain c cs where cs: "nat_digits (nat \<bar>i\<bar>) = c # cs" "is_digit c" "list_all is_digit cs"
    using nat_digits_Cons by blast
  have val: "digits_value (c # cs) = \<bar>i\<bar>"
    using nat_digits_properties [of "nat \<bar>i\<bar>"] cs(1) by simp
  have "c \<noteq> CHR ''-''" "c \<noteq> CHR ''+''" using cs(2) by auto
  then show ?thesis
    using i cs val by (auto simp: Atoi_def decimal_def int64_def abs_if Let_def split: if_splits)
qed

lemma Sscanf_d_decimal: "int64 i \<Longrightarrow> Sscanf_d (decimal i) x = i"
proof -
  assume i: "int64 i"
  obtain c cs where cs: "nat_digits (nat \<bar>i\<bar>) = c # cs" "is_digit c" "list_all is_digit cs"
    using nat_digits_Cons by blast
  have val: "digits_value (c # cs) = \<bar>i\<bar>"
    using nat_digits_properties [of "nat \<bar>i\<bar>"] cs(1) by simp
  have c: "c \<noteq> CHR ''-''" "c \<noteq> CHR ''+''" "c \<noteq> CHR 0x20" "c \<noteq> CHR 0x09" "c \<noteq> CHR 0x0B"
    "c \<noteq> CHR 0x0C" "c \<noteq> CHR 0x0D" using cs(2) by auto
  have tw: "takeWhile is_digit cs = cs"
    using cs by (simp add: takeWhile_eq_all_conv list_all_iff)
  show ?thesis
    using i cs val c
    by (auto simp: Sscanf_d_def decimal_def int64_def abs_if Let_def tw split: if_splits)
qed

section \<open>Sorted sets\<close>

text \<open>A stored sorted set is in order, and a member is in it once.\<close>

definition zset_ok :: "zset \<Rightarrow> bool" where
  "zset_ok z \<longleftrightarrow> sorted z \<and> distinct (map snd z)"

lemma zset_ok_Nil [simp]: "zset_ok []"
  by (simp add: zset_ok_def)

lemma set_zremove: "set (zremove m z) = {e \<in> set z. snd e \<noteq> m}"
  by (auto simp: zremove_def)

lemma zset_ok_zremove: "zset_ok z \<Longrightarrow> zset_ok (zremove m z)"
  by (simp add: zset_ok_def zremove_def sorted_filter [of id, simplified] distinct_map_filter)

lemma distinct_snd_insort: "distinct (map snd (insort e z)) \<longleftrightarrow> distinct (map snd (e # z))"
proof -
  have "mset (map snd (insort e z)) = mset (map snd (e # z))" by simp
  then show ?thesis by (rule mset_eq_imp_distinct_iff)
qed

lemma zset_ok_zput: "zset_ok z \<Longrightarrow> zset_ok (zput sc m z)"
  using zset_ok_zremove [of z m]
  by (auto simp: zset_ok_def zput_def sorted_insort distinct_snd_insort set_zremove)

lemma zput_not_Nil [simp]: "zput sc m z \<noteq> []"
  by (simp add: zput_def)

lemma zset_ok_tl: "zset_ok (e # z) \<Longrightarrow> zset_ok z"
  by (simp add: zset_ok_def)

lemma zset_ok_least: "zset_ok (e # z) \<Longrightarrow> e' \<in> set z \<Longrightarrow> e < e'"
  by (auto simp: zset_ok_def order.strict_iff_order)

lemma zremove_first:
  assumes "zset_ok (e # z)"
  shows "zremove (snd e) (e # z) = z"
proof -
  have "snd e \<notin> snd ` set z" using assms by (simp add: zset_ok_def)
  then have "\<forall>e' \<in> set z. snd e' \<noteq> snd e" by (metis image_eqI)
  then show ?thesis by (simp add: zremove_def filter_id_conv)
qed

section \<open>Kinds of keys\<close>

definition has_prefix :: "string \<Rightarrow> string \<Rightarrow> bool" where
  "has_prefix p k \<longleftrightarrow> take (length p) k = p"

lemma has_prefix_append [simp]: "has_prefix p (p @ x)"
  by (simp add: has_prefix_def)

definition string_key :: "string \<Rightarrow> bool" where
  "string_key k \<longleftrightarrow> has_prefix keyPrefixJob k \<or> has_prefix keyPrefixConfig k \<or>
     has_prefix keyPrefixQueuePause k \<or> has_prefix keyPrefixWorker k \<and> k \<noteq> worker_set"

definition hash_key :: "string \<Rightarrow> bool" where
  "hash_key k \<longleftrightarrow> has_prefix keyPrefixQueueStats k \<or> has_prefix keyPrefixJobType k"

fun well_kinded :: "string \<Rightarrow> rvalue \<Rightarrow> bool" where
  "well_kinded k (RString v) \<longleftrightarrow> string_key k"
| "well_kinded k (RZSet z) \<longleftrightarrow> has_prefix keyQueueZSet k \<and> z \<noteq> [] \<and> zset_ok z"
| "well_kinded k (RSet A) \<longleftrightarrow> k = worker_set"
| "well_kinded k (RHash h) \<longleftrightarrow> hash_key k \<and> (\<forall>f v. h f = Some v \<longrightarrow> (\<exists>i. v = decimal i))"

definition well_typed :: "keyspace \<Rightarrow> bool" where
  "well_typed d \<longleftrightarrow> (\<forall>k v. d k = Some v \<longrightarrow> well_kinded k v)"

lemma well_typedD: "well_typed d \<Longrightarrow> d k = Some v \<Longrightarrow> well_kinded k v"
  by (simp add: well_typed_def)

lemma well_typed_empty [simp]: "well_typed Map.empty"
  by (simp add: well_typed_def)

lemma well_typed_put: "well_typed d \<Longrightarrow> well_kinded k v \<Longrightarrow> well_typed (d(k \<mapsto> v))"
  by (simp add: well_typed_def)

lemma well_typed_delete: "well_typed d \<Longrightarrow> well_typed (d(k := None))"
  by (simp add: well_typed_def)

text \<open>The prefixes tell the kinds apart.\<close>

lemma string_keys [simp]:
  "string_key (keyPrefixJob @ x)" "string_key (keyPrefixConfig @ x)"
  "string_key (keyPrefixQueuePause @ x)"
  "string_key (keyPrefixWorker @ x) \<longleftrightarrow> x \<noteq> ''set''"
  by (auto simp: string_key_def worker_set_def has_prefix_def key_defs)

lemma hash_keys [simp]: "hash_key (keyPrefixQueueStats @ x)" "hash_key (keyPrefixJobType @ x)"
  by (simp_all add: hash_key_def)

lemma kinds_apart:
  "\<not> string_key (keyQueueZSet @ x)" "\<not> string_key (keyPrefixQueueStats @ x)"
  "\<not> string_key (keyPrefixJobType @ x)" "\<not> string_key worker_set" "\<not> string_key (keyPrefixScheduled @ x)"
  "\<not> hash_key (keyQueueZSet @ x)" "\<not> hash_key (keyPrefixJob @ x)" "\<not> hash_key (keyPrefixConfig @ x)"
  "\<not> hash_key (keyPrefixQueuePause @ x)" "\<not> hash_key (keyPrefixWorker @ x)" "\<not> hash_key (keyPrefixScheduled @ x)"
  "\<not> hash_key worker_set"
  "\<not> has_prefix keyQueueZSet (keyPrefixJob @ x)" "\<not> has_prefix keyQueueZSet (keyPrefixConfig @ x)"
  "\<not> has_prefix keyQueueZSet (keyPrefixQueuePause @ x)" "\<not> has_prefix keyQueueZSet (keyPrefixWorker @ x)"
  "\<not> has_prefix keyQueueZSet (keyPrefixQueueStats @ x)" "\<not> has_prefix keyQueueZSet (keyPrefixJobType @ x)"
  "\<not> has_prefix keyQueueZSet worker_set" "\<not> has_prefix keyQueueZSet (keyPrefixScheduled @ x)"
  "keyPrefixJob @ x \<noteq> worker_set" "keyPrefixConfig @ x \<noteq> worker_set" "keyPrefixQueuePause @ x \<noteq> worker_set"
  "keyQueueZSet @ x \<noteq> worker_set" "keyPrefixQueueStats @ x \<noteq> worker_set"
  "keyPrefixJobType @ x \<noteq> worker_set" "keyPrefixScheduled @ x \<noteq> worker_set"
  by (simp_all add: string_key_def hash_key_def worker_set_def has_prefix_def key_defs)

section \<open>The commands keep the kinds\<close>

lemma as_zset_Ok: "well_typed d \<Longrightarrow> has_prefix keyQueueZSet k \<Longrightarrow> as_zset (d k) = Ok z \<Longrightarrow> zset_ok z"
  by (cases "d k") (auto dest: well_typedD split: rvalue.splits elim!: as_zset.elims)

lemma well_typed_on_key:
  assumes "well_typed d"
    and "\<And>x a v. as (d k) = Ok x \<Longrightarrow> f x = (a, Some v) \<Longrightarrow> well_kinded k v"
  shows "well_typed (snd (on_key as k f d))"
  using assms
  by (auto simp: on_key_def split: outcome.splits prod.splits
      intro: well_typed_put) (metis option.exhaust well_typed_delete well_typed_put)

lemma well_typed_db_Set: "well_typed d \<Longrightarrow> string_key k \<Longrightarrow> well_typed (snd (db_Set k v d))"
  by (simp add: db_Set_def well_typed_put)

lemma well_typed_db_SetNX: "well_typed d \<Longrightarrow> string_key k \<Longrightarrow> well_typed (snd (db_SetNX k v d))"
  by (simp add: db_SetNX_def well_typed_put)

lemma well_typed_db_Del: "well_typed d \<Longrightarrow> well_typed (snd (db_Del k d))"
  by (simp add: db_Del_def well_typed_delete)

lemma well_typed_db_ZAdd:
  "well_typed d \<Longrightarrow> has_prefix keyQueueZSet k \<Longrightarrow> well_typed (snd (db_ZAdd k sc m d))"
  unfolding db_ZAdd_def
  by (rule well_typed_on_key) (auto simp: zset_value_def dest: as_zset_Ok intro: zset_ok_zput)

lemma well_typed_db_ZRem:
  "well_typed d \<Longrightarrow> has_prefix keyQueueZSet k \<Longrightarrow> well_typed (snd (db_ZRem k m d))"
  unfolding db_ZRem_def
  by (rule well_typed_on_key)
    (auto simp: zset_value_def as_zset_Ok [THEN zset_ok_zremove] split: if_splits)

lemma well_typed_db_SAdd: "well_typed d \<Longrightarrow> well_typed (snd (db_SAdd worker_set m d))"
  unfolding db_SAdd_def
  by (rule well_typed_on_key) (auto simp: set_value_def)

lemma well_typed_db_SRem: "well_typed d \<Longrightarrow> well_typed (snd (db_SRem worker_set m d))"
  unfolding db_SRem_def
  by (rule well_typed_on_key) (auto simp: set_value_def split: if_splits)

lemma as_hash_decimal:
  "well_typed d \<Longrightarrow> as_hash (d k) = Ok h \<Longrightarrow> h f = Some v \<Longrightarrow> \<exists>i. v = decimal i"
  by (cases "d k") (auto dest: well_typedD elim!: as_hash.elims)

lemma well_typed_db_HIncrBy:
  "well_typed d \<Longrightarrow> hash_key k \<Longrightarrow> well_typed (snd (db_HIncrBy k f n d))"
  by (auto simp: db_HIncrBy_def split: outcome.splits option.splits
      intro!: well_typed_put dest: as_hash_decimal)

lemma well_typed_db_HSet: "well_typed d \<Longrightarrow> hash_key k \<Longrightarrow> well_typed (snd (db_HSet k f n d))"
  unfolding db_HSet_def
  by (rule well_typed_on_key) (auto dest: as_hash_decimal)

fun pipe_key :: "pipe_cmd \<Rightarrow> string" where
  "pipe_key (HIncrBy k f n) = k"
| "pipe_key (HSet k f n) = k"

lemma well_typed_db_Exec:
  "well_typed d \<Longrightarrow> list_all (\<lambda>c. hash_key (pipe_key c)) cmds \<Longrightarrow> well_typed (snd (db_Exec cmds d))"
proof (induction cmds arbitrary: d)
  case (Cons c cmds)
  have "well_typed (snd (db_pipe_cmd c d))"
    using Cons.prems by (cases c) (simp_all add: well_typed_db_HIncrBy well_typed_db_HSet)
  then have "well_typed (snd (db_Exec cmds (snd (db_pipe_cmd c d))))"
    using Cons by simp
  then show ?case
    by (cases "db_pipe_cmd c d"; cases "db_Exec cmds (snd (db_pipe_cmd c d))") simp
qed simp

text \<open>A state of the client whose server can be reached and has a well-typed key space.\<close>

definition good :: "('r \<Rightarrow> keyspace) \<Rightarrow> ('r \<Rightarrow> bool) \<Rightarrow> 'r \<Rightarrow> bool" where
  "good db ok s \<longleftrightarrow> ok s \<and> well_typed (db s)"

lemma good_refines:
  "refines ok db f g \<Longrightarrow> good db ok s \<Longrightarrow> (well_typed (db s) \<Longrightarrow> well_typed (snd (g (db s)))) \<Longrightarrow>
   good db ok (snd (f s))"
  by (cases "f s") (auto simp: good_def dest: refinesD)

lemma good_with_ok:
  "good db ok s \<Longrightarrow> (\<And>a. r = Ok a \<Longrightarrow> good db ok (snd (f a))) \<Longrightarrow> good db ok (snd (with_ok r s f))"
  by (cases r) simp_all

lemma good_then_ok:
  "good db ok (snd c) \<Longrightarrow> (\<And>a s. good db ok s \<Longrightarrow> good db ok (snd (f a s))) \<Longrightarrow>
   good db ok (snd (then_ok c f))"
  by (cases c; cases "fst c") (auto simp: then_ok_def)

lemma snd_wrapped [simp]: "snd (wrapped msg c) = snd c"
  by (cases c) simp

lemma snd_discard [simp]: "snd (discard c) = snd c"
  by (cases c) simp

context redis
begin

lemma good_Set: "good db ok s \<Longrightarrow> string_key k \<Longrightarrow> good db ok (snd (rc_Set C k v s))"
  by (rule good_refines [OF Set]) (simp_all add: well_typed_db_Set)

lemma good_SetNX: "good db ok s \<Longrightarrow> string_key k \<Longrightarrow> good db ok (snd (rc_SetNX C k v s))"
  by (rule good_refines [OF SetNX]) (simp_all add: well_typed_db_SetNX)

lemma good_Del: "good db ok s \<Longrightarrow> good db ok (snd (rc_Del C k s))"
  by (rule good_refines [OF Del]) (simp_all add: well_typed_db_Del)

lemma good_ZAdd: "good db ok s \<Longrightarrow> has_prefix keyQueueZSet k \<Longrightarrow> good db ok (snd (rc_ZAdd C k sc m s))"
  by (rule good_refines [OF ZAdd]) (simp_all add: well_typed_db_ZAdd)

lemma good_ZRem: "good db ok s \<Longrightarrow> has_prefix keyQueueZSet k \<Longrightarrow> good db ok (snd (rc_ZRem C k m s))"
  by (rule good_refines [OF ZRem]) (simp_all add: well_typed_db_ZRem)

lemma good_SAdd: "good db ok s \<Longrightarrow> good db ok (snd (rc_SAdd C worker_set m s))"
  by (rule good_refines [OF SAdd]) (simp_all add: well_typed_db_SAdd)

lemma good_SRem: "good db ok s \<Longrightarrow> good db ok (snd (rc_SRem C worker_set m s))"
  by (rule good_refines [OF SRem]) (simp_all add: well_typed_db_SRem)

lemma good_HIncrBy: "good db ok s \<Longrightarrow> hash_key k \<Longrightarrow> good db ok (snd (rc_HIncrBy C k f n s))"
  by (rule good_refines [OF HIncrBy]) (simp_all add: well_typed_db_HIncrBy)

lemma good_Exec:
  "good db ok s \<Longrightarrow> list_all (\<lambda>c. hash_key (pipe_key c)) cmds \<Longrightarrow> good db ok (snd (rc_Exec C cmds s))"
  by (rule good_refines [OF Exec]) (simp_all add: well_typed_db_Exec)

lemmas good_rules =
  good_with_ok good_then_ok good_Set good_SetNX good_Del good_ZAdd good_ZRem good_SAdd good_SRem
  good_HIncrBy good_Exec

text \<open>The set of the workers is no worker: reading it as one fails.\<close>

lemma GetWorker_set: "good db ok s \<Longrightarrow> red_GetWorker cd C ''set'' s \<noteq> Ok w"
proof -
  assume s: "good db ok s"
  then have "ok s" and "well_typed (db s)" by (simp_all add: good_def)
  then have "as_string (db s worker_set) \<noteq> Ok (Some v)" for v
    by (cases "db s worker_set") (auto dest: well_typedD simp: kinds_apart elim!: as_string.elims)
  with \<open>ok s\<close> show ?thesis
    by (cases "as_string (db s worker_set)")
      (auto simp: red_GetWorker_def Get worker_set_def split: option.splits)
qed

lemma good_jobs:
  assumes "good db ok s"
  shows "good db ok (snd (red_Create cd C j s))" "good db ok (snd (red_Update cd C j s))"
    "good db ok (snd (red_Delete C jid s))" "good db ok (snd (red_UpdateStatus cd C clk jid st s))"
    "good db ok (snd (red_UpdateProgress cd C jid n s))" "good db ok (snd (red_SetResult cd C jid b s))"
    "good db ok (snd (red_SetError cd C jid e s))"
proof -
  show update: "good db ok (snd (red_Update cd C j s))" for j
    using assms by (auto simp: red_Update_def split: option.splits intro!: good_rules)
  show "good db ok (snd (red_Create cd C j s))" "good db ok (snd (red_Delete C jid s))"
    using assms by (auto simp: red_Create_def red_Delete_def split: option.splits intro!: good_rules)
  show "good db ok (snd (red_UpdateStatus cd C clk jid st s))"
    "good db ok (snd (red_UpdateProgress cd C jid n s))" "good db ok (snd (red_SetResult cd C jid b s))"
    "good db ok (snd (red_SetError cd C jid e s))"
    using assms update
    by (auto simp: red_UpdateStatus_def red_UpdateProgress_def red_SetResult_def red_SetError_def Let_def
        intro!: good_with_ok)
qed

lemma good_queues:
  assumes "good db ok s"
  shows "good db ok (snd (red_Enqueue rnd C clk q jid p s))" "good db ok (snd (red_Dequeue C q wid s))"
    "good db ok (snd (red_Remove C q jid s))" "good db ok (snd (red_PauseQueue C q s))"
    "good db ok (snd (red_ResumeQueue C q s))"
  using assms
  by (auto simp: red_Enqueue_def red_Dequeue_def red_Remove_def red_PauseQueue_def red_ResumeQueue_def
      pop_script_def split: option.splits intro!: good_rules)

lemma good_with_worker: "good db ok s \<Longrightarrow> good db ok (snd (red_with_worker cd C wid f s))"
  by (cases "wid = ''set''")
    (auto simp: red_with_worker_def GetWorker_set intro!: good_rules)

lemma good_workers:
  assumes "good db ok s"
  shows "(\<And>w'. w = Some w' \<Longrightarrow> w_ID w' \<noteq> ''set'') \<Longrightarrow> good db ok (snd (red_Register cd C w s))"
    "good db ok (snd (red_Unregister C wid s))" "good db ok (snd (red_UpdateHeartbeat cd C clk wid s))"
    "good db ok (snd (red_UpdateWorkerStatus cd C wid st s))" "good db ok (snd (red_SetCurrentJob cd C wid jid s))"
    "good db ok (snd (red_IncrementProcessed cd C wid s))" "good db ok (snd (red_IncrementFailed cd C wid s))"
  using assms
  by (auto simp: red_Register_def red_Unregister_def red_UpdateHeartbeat_def red_UpdateWorkerStatus_def
      red_SetCurrentJob_def red_IncrementProcessed_def red_IncrementFailed_def
      split: option.splits intro!: good_rules good_with_worker)

lemma good_metrics:
  assumes "good db ok s"
  shows "good db ok (snd (red_RecordJobCreated C clk q t s))"
    "good db ok (snd (red_RecordJobCompleted C clk q t d s))"
    "good db ok (snd (red_RecordJobFailed C clk q t e s))"
    "good db ok (snd (red_RecordJobRetried C q t s))"
    "good db ok (snd (red_SaveQueueConfig cd C c s))" "good db ok (snd (red_DeleteQueueConfig C q s))"
  using assms
  by (auto simp: red_RecordJobCreated_def red_RecordJobCompleted_def red_RecordJobFailed_def
      red_RecordJobRetried_def red_SaveQueueConfig_def red_DeleteQueueConfig_def Let_def
      split: option.splits intro!: good_rules)

end

end
