(* ===== verification/RedisFacts.thy ===== *)
theory RedisFacts
  imports RedisProofs
begin

text \<open>
  What the methods of the redis backend do to the key space, over the locale \<open>redis\<close>: queues, jobs,
  statistics, scans. The last section is a key space of its own as the server, and the proof that
  the locale holds of it.
\<close>

section \<open>Queues\<close>

text \<open>The sorted set and the pause flag of a queue.\<close>

definition zq :: "keyspace \<Rightarrow> string \<Rightarrow> zset" where
  "zq d q = (case as_zset (d (keyQueueZSet @ q)) of Ok z \<Rightarrow> z | _ \<Rightarrow> [])"

definition rpaused :: "keyspace \<Rightarrow> string \<Rightarrow> bool" where
  "rpaused d q \<longleftrightarrow> d (keyPrefixQueuePause @ q) \<noteq> None"

lemma as_zset_zq: "well_typed d \<Longrightarrow> as_zset (d (keyQueueZSet @ q)) = Ok (zq d q)"
proof (cases "d (keyQueueZSet @ q)")
  case (Some a)
  moreover assume "well_typed d"
  ultimately have "well_kinded (keyQueueZSet @ q) a" by (blast dest: well_typedD)
  with Some show ?thesis by (cases a) (auto simp: zq_def kinds_apart)
qed (simp add: zq_def)

lemma zset_ok_zq: "well_typed d \<Longrightarrow> zset_ok (zq d q)"
  using as_zset_Ok as_zset_zq by (metis has_prefix_append)

lemma key_neq [simp]:
  "keyPrefixQueuePause @ x \<noteq> keyQueueZSet @ y" "keyQueueZSet @ y \<noteq> keyPrefixQueuePause @ x"
  "keyPrefixQueueStats @ x \<noteq> keyPrefixJobType @ y" "keyPrefixJobType @ y \<noteq> keyPrefixQueueStats @ x"
  by (simp_all add: key_defs)

lemma zq_put [simp]:
  "zq (d(keyQueueZSet @ q := zset_value z)) q' = (if q' = q then z else zq d q')"
  by (simp add: zq_def zset_value_def)

lemma rpaused_zset [simp]: "rpaused (d(keyQueueZSet @ q := v)) q' = rpaused d q'"
  by (simp add: rpaused_def)

context redis
begin

lemma goodD: "good db ok s \<Longrightarrow> ok s" "good db ok s \<Longrightarrow> well_typed (db s)"
  by (simp_all add: good_def)

lemma IsQueuePaused: "ok s \<Longrightarrow> q \<noteq> '''' \<Longrightarrow> red_IsQueuePaused C q s = Ok (rpaused (db s) q)"
  by (simp add: red_IsQueuePaused_def Exists db_Exists_def rpaused_def)

lemma red_Enqueue_Ok:
  assumes "good db ok s" "q \<noteq> ''''" "jid \<noteq> ''''" "\<not> rpaused (db s) q"
  obtains s' where "red_Enqueue rnd C clk q jid p s = (Ok (), s')" "good db ok s'"
    "db s' = (db s)(keyQueueZSet @ q := zset_value (zput (queue_score rnd p (clk 0)) jid (zq (db s) q)))"
proof -
  let ?k = "keyQueueZSet @ q" and ?sc = "queue_score rnd p (clk 0)"
  obtain r s' where run: "rc_ZAdd C ?k ?sc jid s = (r, s')" by fastforce
  from refinesD [OF ZAdd goodD(1) [OF assms(1)] run]
  have step: "db_ZAdd ?k ?sc jid (db s) = (r, db s')" by simp
  have "red_Enqueue rnd C clk q jid p s = (Ok (), s')"
    using step run assms by (auto simp: red_Enqueue_def IsQueuePaused goodD db_ZAdd_def on_key_def as_zset_zq)
  moreover have "good db ok s'" using good_ZAdd [OF assms(1), of ?k ?sc jid] run by simp
  moreover have "db s' = (db s)(?k := zset_value (zput ?sc jid (zq (db s) q)))"
    using step assms by (auto simp: db_ZAdd_def on_key_def as_zset_zq goodD)
  ultimately show thesis by (rule that)
qed

lemma red_Dequeue_cases:
  assumes "good db ok s" "q \<noteq> ''''" "wid \<noteq> ''''"
  shows "rpaused (db s) q \<Longrightarrow> red_Dequeue C q wid s = (Err ErrQueuePaused, s)"
    and "\<not> rpaused (db s) q \<Longrightarrow> zq (db s) q = [] \<Longrightarrow> red_Dequeue C q wid s = (Err ErrEmptyQueue, s)"
    and "\<not> rpaused (db s) q \<Longrightarrow> zq (db s) q = e # z \<Longrightarrow>
      \<exists>s'. red_Dequeue C q wid s = (Ok (snd e), s') \<and> good db ok s' \<and>
        db s' = (db s)(keyQueueZSet @ q := zset_value z)"
proof -
  let ?k = "keyQueueZSet @ q"
  note facts = assms IsQueuePaused goodD ZRange_first as_zset_zq
  show "rpaused (db s) q \<Longrightarrow> red_Dequeue C q wid s = (Err ErrQueuePaused, s)"
    using facts by (simp add: red_Dequeue_def)
  show "\<not> rpaused (db s) q \<Longrightarrow> zq (db s) q = [] \<Longrightarrow> red_Dequeue C q wid s = (Err ErrEmptyQueue, s)"
    using facts by (simp add: red_Dequeue_def pop_script_def)
  assume first: "\<not> rpaused (db s) q" "zq (db s) q = e # z"
  have "zset_ok (e # z)" using zset_ok_zq [OF goodD(2) [OF assms(1)], of q] first by simp
  then have rest: "zremove (snd e) (e # z) = z" by (rule zremove_first)
  obtain r s' where run: "rc_ZRem C ?k (snd e) s = (r, s')" by fastforce
  from refinesD [OF ZRem goodD(1) [OF assms(1)] run]
  have step: "db_ZRem ?k (snd e) (db s) = (r, db s')" by simp
  have "r = Ok 1" "db s' = (db s)(?k := zset_value z)"
    using step first rest assms by (auto simp: db_ZRem_def on_key_def as_zset_zq goodD)
  moreover have "good db ok s'" using good_ZRem [OF assms(1), of ?k "snd e"] run by simp
  ultimately show "\<exists>s'. red_Dequeue C q wid s = (Ok (snd e), s') \<and> good db ok s' \<and>
      db s' = (db s)(?k := zset_value z)"
    using run first facts by (simp add: red_Dequeue_def pop_script_def)
qed

end

text \<open>Enqueuing a list of jobs, each with its priority and instant, and dequeuing \<open>n\<close> times.\<close>

fun red_enqueues ::
  "rounding \<Rightarrow> 'r redis_client \<Rightarrow> string \<Rightarrow> (string \<times> Priority \<times> time) list \<Rightarrow> 'r \<Rightarrow> 'r" where
  "red_enqueues rnd C q [] s = s"
| "red_enqueues rnd C q ((jid, p, t) # js) s =
     red_enqueues rnd C q js (snd (red_Enqueue rnd C (\<lambda>_. t) q jid p s))"

fun red_dequeues :: "'r redis_client \<Rightarrow> string \<Rightarrow> string \<Rightarrow> nat \<Rightarrow> 'r \<Rightarrow> string res list" where
  "red_dequeues C q wid 0 s = []"
| "red_dequeues C q wid (Suc n) s =
     (case red_Dequeue C q wid s of (r, s) \<Rightarrow> r # red_dequeues C q wid n s)"

definition scored :: "rounding \<Rightarrow> string \<times> Priority \<times> time \<Rightarrow> real \<times> string" where
  "scored rnd e = (case e of (jid, p, t) \<Rightarrow> (queue_score rnd p t, jid))"

lemma zput_new: "m \<notin> snd ` set z \<Longrightarrow> zput sc m z = insort (sc, m) z"
proof -
  assume "m \<notin> snd ` set z"
  then have "\<forall>e \<in> set z. snd e \<noteq> m" by (metis image_eqI)
  then show ?thesis by (simp add: zput_def zremove_def filter_id_conv)
qed

lemma scored_simp [simp]: "scored rnd (jid, p, t) = (queue_score rnd p t, jid)"
  by (simp add: scored_def)

context redis
begin

lemma enqueues_zq:
  assumes "good db ok s" "q \<noteq> ''''" "\<not> rpaused (db s) q" "'''' \<notin> fst ` set js"
    and "distinct (map fst js)" "fst ` set js \<inter> snd ` set (zq (db s) q) = {}"
  shows "good db ok (red_enqueues rnd C q js s) \<and> \<not> rpaused (db (red_enqueues rnd C q js s)) q \<and>
    mset (zq (db (red_enqueues rnd C q js s)) q) = mset (map (scored rnd) js) + mset (zq (db s) q)"
  using assms
proof (induction js arbitrary: s)
  case (Cons j js)
  obtain jid p t where j: "j = (jid, p, t)" by (cases j) auto
  have jid: "jid \<noteq> ''''" using Cons.prems(4) j by auto
  obtain s' where s': "red_Enqueue rnd C (\<lambda>_. t) q jid p s = (Ok (), s')" "good db ok s'"
    "db s' = (db s)(keyQueueZSet @ q := zset_value (zput (queue_score rnd p t) jid (zq (db s) q)))"
    using red_Enqueue_Ok [OF Cons.prems(1,2) jid Cons.prems(3), of rnd "\<lambda>_. t" p] by metis
  have new: "zq (db s') q = insort (queue_score rnd p t, jid) (zq (db s) q)"
    using Cons.prems(6) j s'(3) by (simp add: zput_new)
  have "fst ` set js \<inter> snd ` set (zq (db s') q) = {}"
    using Cons.prems(5,6) j new by (auto simp: set_insort_key)
  moreover have "\<not> rpaused (db s') q" using s'(3) Cons.prems(3) by simp
  moreover have "'''' \<notin> fst ` set js" "distinct (map fst js)" using Cons.prems(4,5) by simp_all
  ultimately show ?case
    using Cons.IH [OF s'(2) Cons.prems(2)] j s'(1) new by simp
qed simp

lemma dequeues_zq:
  assumes "good db ok s" "q \<noteq> ''''" "wid \<noteq> ''''" "\<not> rpaused (db s) q"
  shows "red_dequeues C q wid (length (zq (db s) q)) s = map (Ok \<circ> snd) (zq (db s) q)"
  using assms
proof (induction "zq (db s) q" arbitrary: s)
  case (Cons e z)
  then obtain s' where "red_Dequeue C q wid s = (Ok (snd e), s')" "good db ok s'"
    "db s' = (db s)(keyQueueZSet @ q := zset_value z)"
    using red_Dequeue_cases(3) by metis
  then show ?case
    using Cons.hyps(1) [of s'] Cons.hyps(2) [symmetric] Cons.prems by simp
qed simp

end

section \<open>Nothing is ever scheduled\<close>

lemma scheduled_key_None: "well_typed d \<Longrightarrow> d (keyPrefixScheduled @ x) = None"
proof (rule ccontr)
  assume "well_typed d" "d (keyPrefixScheduled @ x) \<noteq> None"
  then obtain v where "well_kinded (keyPrefixScheduled @ x) v" by (auto dest: well_typedD)
  then show False by (cases v) (simp_all add: kinds_apart)
qed

context redis
begin

lemma GetScheduled_empty: "good db ok s \<Longrightarrow> red_GetScheduled cd C before limit s = Ok []"
  using ZRangeByScore_none scheduled_key_None
  by (simp add: red_GetScheduled_def good_def map_filter_simps)

end

section \<open>Jobs\<close>

context redis
begin

lemma red_Get_Ok_iff:
  "ok s \<Longrightarrow> red_Get cd C jid s = Ok j \<longleftrightarrow>
     jid \<noteq> '''' \<and> (\<exists>v. db s (keyPrefixJob @ jid) = Some (RString v) \<and> unmarshal_job cd v = Ok j)"
proof -
  assume "ok s"
  then have "red_Get cd C jid s = (if jid = '''' then Err ErrInvalidValue
      else read_ok (wrap_err ''failed to get job'' (as_string (db s (keyPrefixJob @ jid)))) (\<lambda>data. case data of
          None \<Rightarrow> Err ErrJobNotFound
        | Some data \<Rightarrow> wrap_err ''failed to unmarshal job'' (unmarshal_job cd data)))"
    by (simp add: red_Get_def Get)
  then show ?thesis
    by (cases "db s (keyPrefixJob @ jid)" rule: as_string.cases) (simp_all add: wrap_err_iff)
qed

text \<open>Storing a job over one that exists.\<close>

lemma Update_Ok:
  assumes "ok s" "j_ID j \<noteq> ''''" "db s (keyPrefixJob @ j_ID j) \<noteq> None" "marshal_job cd j = Ok v"
  shows "\<exists>s'. red_Update cd C (Some j) s = (Ok (), s') \<and> ok s' \<and>
    db s' = (db s)(keyPrefixJob @ j_ID j \<mapsto> RString v)"
proof -
  obtain r s' where run: "rc_Set C (keyPrefixJob @ j_ID j) v s = (r, s')" by fastforce
  from refinesD [OF Set assms(1) run]
  have "ok s'" "r = Ok ()" "db s' = (db s)(keyPrefixJob @ j_ID j \<mapsto> RString v)" by (simp_all add: db_Set_def)
  with run assms show ?thesis by (simp add: red_Update_def Exists db_Exists_def)
qed

lemma change_job:
  assumes "ok s" "red_Get cd C jid s = Ok j" "j_ID j' = jid"
    and "marshal_job cd j' = Ok v" "unmarshal_job cd v = Ok j'"
  shows "\<exists>s'. red_Update cd C (Some j') s = (Ok (), s') \<and> ok s' \<and> red_Get cd C jid s' = Ok j' \<and>
    (\<forall>k. k \<noteq> keyPrefixJob @ jid \<longrightarrow> db s' k = db s k)"
proof -
  have "jid \<noteq> ''''" "db s (keyPrefixJob @ jid) \<noteq> None"
    using assms(2) red_Get_Ok_iff [OF assms(1)] by auto
  then obtain s' where "red_Update cd C (Some j') s = (Ok (), s')" "ok s'"
    "db s' = (db s)(keyPrefixJob @ jid \<mapsto> RString v)"
    using Update_Ok [of s j' cd v] assms by auto
  then show ?thesis using red_Get_Ok_iff assms(5) \<open>jid \<noteq> ''''\<close> by auto
qed

lemma Create_cases:
  assumes "ok s" "j_ID j \<noteq> ''''" "marshal_job cd j = Ok v"
  shows "db s (keyPrefixJob @ j_ID j) \<noteq> None \<Longrightarrow>
      \<exists>s'. red_Create cd C (Some j) s = (Err ErrJobAlreadyExists, s') \<and> ok s' \<and> db s' = db s"
    and "db s (keyPrefixJob @ j_ID j) = None \<Longrightarrow>
      \<exists>s'. red_Create cd C (Some j) s = (Ok (), s') \<and> ok s' \<and>
        db s' = (db s)(keyPrefixJob @ j_ID j \<mapsto> RString v)"
proof -
  obtain r s' where run: "rc_SetNX C (keyPrefixJob @ j_ID j) v s = (r, s')" by fastforce
  from refinesD [OF SetNX assms(1) run]
  have "ok s'" "db_SetNX (keyPrefixJob @ j_ID j) v (db s) = (r, db s')" by simp_all
  then show "db s (keyPrefixJob @ j_ID j) \<noteq> None \<Longrightarrow>
      \<exists>s'. red_Create cd C (Some j) s = (Err ErrJobAlreadyExists, s') \<and> ok s' \<and> db s' = db s"
    "db s (keyPrefixJob @ j_ID j) = None \<Longrightarrow>
      \<exists>s'. red_Create cd C (Some j) s = (Ok (), s') \<and> ok s' \<and>
        db s' = (db s)(keyPrefixJob @ j_ID j \<mapsto> RString v)"
    using run assms by (auto simp: red_Create_def db_SetNX_def)
qed

end

section \<open>Scans\<close>

lemma fold_append: "fold (\<lambda>ks acc. acc @ f ks) pages acc = acc @ concat (map f pages)"
  by (induction pages arbitrary: acc) simp_all

lemma set_map_filter: "set (List.map_filter f xs) = {y. \<exists>x \<in> set xs. f x = Some y}"
  by (force simp: List.map_filter_def)

lemma keys_with_image: "keys_with p d = (\<lambda>x. p @ x) ` {x. d (p @ x) \<noteq> None}"
proof -
  have "\<exists>x. k = p @ x \<and> d (p @ x) \<noteq> None" if "take (length p) k = p" "d k \<noteq> None" for k
    using that append_take_drop_id [of "length p" k] by (intro exI [of _ "drop (length p) k"]) simp
  then have "k \<in> keys_with p d \<longleftrightarrow> (\<exists>x. k = p @ x \<and> d (p @ x) \<noteq> None)" for k
    unfolding keys_with_def dom_def by auto
  then show ?thesis by blast
qed

lemma glob_free_prefixes [simp]: "glob_free keyPrefixJob" "glob_free keyQueueZSet"
  by (simp_all add: glob_free_def key_defs)

context redis
begin

lemma scan_collects:
  assumes "ok s" "glob_free p"
  shows "\<exists>pages. scan_loop C msg (p @ ''*'') (\<lambda>keys acc. acc @ f keys) s 0 [] = Some (Ok (concat (map f pages))) \<and>
    set (concat pages) = keys_with p (db s)"
proof -
  obtain pages where "scan_trace C (p @ ''*'') s 0 pages" "set (concat pages) = keys_with p (db s)"
    using Scan [OF assms] by blast
  then show ?thesis
    using scan_loop_trace [of C "p @ ''*''" s 0 pages msg "\<lambda>keys acc. acc @ f keys" "[]"]
    by (auto simp: fold_append)
qed

lemma List_all:
  assumes "ok s"
  shows "\<exists>js. red_List cd C f s = Some (Ok (paginate f js)) \<and>
    set js = {j. \<exists>x v. db s (keyPrefixJob @ x) = Some (RString v) \<and> unmarshal_job cd v = Ok j \<and> filter_matches f j}"
    (is "\<exists>js. _ \<and> set js = ?J")
proof -
  let ?f = "\<lambda>keys. List.map_filter (list_key cd C f s) keys"
  obtain pages where pages: "scan_loop C ''failed to scan jobs'' (keyPrefixJob @ ''*'')
        (\<lambda>keys acc. acc @ ?f keys) s 0 [] = Some (Ok (concat (map ?f pages)))"
    "set (concat pages) = keys_with keyPrefixJob (db s)"
    using scan_collects [OF assms, of keyPrefixJob] by (metis glob_free_prefixes(1))
  have key: "list_key cd C f s k = Some j \<longleftrightarrow>
      (\<exists>v. db s k = Some (RString v) \<and> unmarshal_job cd v = Ok j \<and> filter_matches f j)" for k j
    using assms by (cases "db s k" rule: as_string.cases)
      (auto simp: list_key_def Get split: outcome.splits)
  have "set (concat (map ?f pages)) = {j. \<exists>k \<in> set (concat pages). list_key cd C f s k = Some j}"
    by (auto simp: set_map_filter)
  also have "\<dots> = ?J"
    unfolding pages(2) key keys_with_image by auto
  finally show ?thesis
    using pages(1) by (intro exI [of _ "concat (map ?f pages)"]) (simp add: red_List_def)
qed

lemma ListQueues_nonempty:
  assumes "good db ok s"
  shows "\<exists>qs. red_ListQueues C s = Some (Ok qs) \<and> set qs = {q. zq (db s) q \<noteq> []}"
proof -
  let ?f = "map (drop (length keyQueueZSet))"
  obtain pages where pages: "scan_loop C ''failed to scan queues'' (keyQueueZSet @ ''*'')
        (\<lambda>keys acc. acc @ ?f keys) s 0 [] = Some (Ok (concat (map ?f pages)))"
    "set (concat pages) = keys_with keyQueueZSet (db s)"
    using scan_collects [of s keyQueueZSet] assms by (metis glob_free_prefixes(2) goodD(1))
  have nonempty: "db s (keyQueueZSet @ q) \<noteq> None \<longleftrightarrow> zq (db s) q \<noteq> []" for q
  proof (cases "db s (keyQueueZSet @ q)")
    case (Some v)
    then have "well_kinded (keyQueueZSet @ q) v" using goodD(2) [OF assms] by (blast dest: well_typedD)
    with Some show ?thesis by (cases v) (auto simp: zq_def kinds_apart)
  qed (simp add: zq_def)
  have "set (concat (map ?f pages)) = drop (length keyQueueZSet) ` keys_with keyQueueZSet (db s)"
    unfolding pages(2) [symmetric] by auto
  also have "\<dots> = {q. db s (keyQueueZSet @ q) \<noteq> None}"
    by (simp add: keys_with_image image_image)
  finally show ?thesis using pages(1) nonempty by (simp add: red_ListQueues_def)
qed

end

end
