(* ===== verification/RedisStats.thy ===== *)
theory RedisStats
  imports RedisFacts
begin

text \<open>
  The statistics of the redis backend: what the pipelines do to the fields of one hash, and how the
  counters of a queue add up over a sequence of events.
\<close>

section \<open>Pipelines, one hash at a time\<close>

fun hash_cmd :: "pipe_cmd \<Rightarrow> (string \<rightharpoonup> string) \<Rightarrow> string \<rightharpoonup> string" where
  "hash_cmd (HIncrBy k f n) h =
     (case field_int h f of
        Some i \<Rightarrow> if int64 (i + n) then h(f \<mapsto> decimal (i + n)) else h
      | None \<Rightarrow> h)"
| "hash_cmd (HSet k f n) h = h(f \<mapsto> decimal n)"

lemma pipe_cmd_hash:
  "as_hash (d k) = Ok h \<Longrightarrow>
   as_hash (snd (db_pipe_cmd c d) k) = Ok (if pipe_key c = k then hash_cmd c h else h)"
  by (cases c) (auto simp: db_HIncrBy_def db_HSet_def on_key_def split: outcome.splits option.splits)

lemma Exec_hash:
  "as_hash (d k) = Ok h \<Longrightarrow>
   as_hash (snd (db_Exec cmds d) k) = Ok (fold hash_cmd (filter (\<lambda>c. pipe_key c = k) cmds) h)"
proof (induction cmds arbitrary: d h)
  case (Cons c cmds)
  have "snd (db_Exec (c # cmds) d) = snd (db_Exec cmds (snd (db_pipe_cmd c d)))"
    by (simp split: prod.splits)
  then show ?case using Cons.IH [where d = "snd (db_pipe_cmd c d)", OF pipe_cmd_hash [where d = d, OF Cons.prems]] by simp
qed simp

lemma field_int_decimal: "int64 i \<Longrightarrow> field_int (h(f \<mapsto> decimal i)) f = Some i"
  by (simp add: field_int_def Atoi_decimal)

lemma field_int_other [simp]: "f' \<noteq> f \<Longrightarrow> field_int (h(f \<mapsto> v)) f' = field_int h f'"
  by (simp add: field_int_def)

lemma int64_Atoi [simp]: "int64 (Atoi s)"
  by (auto simp: Atoi_def int64_def Let_def split: prod.splits)

lemma scan_field_int: "field_int h f = Some i \<Longrightarrow> scan_field h f = i"
  by (auto simp: field_int_def scan_field_def split: option.splits if_splits)
    (metis Sscanf_d_decimal int64_Atoi)

text \<open>The effect of an increment on the integer in a field; \<open>plus64\<close> stops at the ends of the range.\<close>

definition plus64 :: "int \<Rightarrow> int option \<Rightarrow> int option" where
  "plus64 n x = map_option (\<lambda>i. if int64 (i + n) then i + n else i) x"

lemma plus64_Some: "int64 (i + n) \<Longrightarrow> plus64 n (Some i) = Some (i + n)"
  by (simp add: plus64_def)

lemma hash_cmd_HIncrBy:
  "field_int (hash_cmd (HIncrBy k f n) h) f' = (if f' = f then plus64 n (field_int h f') else field_int h f')"
  by (auto simp: plus64_def field_int_decimal split: option.splits)

lemma hash_cmd_HSet: "f' \<noteq> f \<Longrightarrow> field_int (hash_cmd (HSet k f n) h) f' = field_int h f'"
  by simp

section \<open>The counters of a queue\<close>

datatype red_event = Created | Completed duration | Failed | Retried

fun red_record :: "'r redis_client \<Rightarrow> string \<Rightarrow> string \<Rightarrow> clock \<Rightarrow> red_event \<Rightarrow> 'r \<Rightarrow> unit res \<times> 'r" where
  "red_record C q t clk Created s = red_RecordJobCreated C clk q t s"
| "red_record C q t clk (Completed d) s = red_RecordJobCompleted C clk q t d s"
| "red_record C q t clk Failed s = red_RecordJobFailed C clk q t '''' s"
| "red_record C q t clk Retried s = red_RecordJobRetried C q t s"

text \<open>The events of a queue, each with the job type and the clock of its call.\<close>

fun red_records :: "'r redis_client \<Rightarrow> string \<Rightarrow> (string \<times> clock \<times> red_event) list \<Rightarrow> 'r \<Rightarrow> 'r" where
  "red_records C q [] s = s"
| "red_records C q ((t, clk, e) # es) s = red_records C q es (snd (red_record C q t clk e s))"

text \<open>What an event adds to a counter.\<close>

definition counters :: "string set" where
  "counters = {''pending_count'', ''running_count'', ''success_count'', ''failed_count'',
     ''total_duration_ms'', ''completed_count''}"

fun event_adds :: "red_event \<Rightarrow> string \<Rightarrow> int" where
  "event_adds Created f = (if f = ''pending_count'' then 1 else 0)"
| "event_adds (Completed d) f =
     (if f \<in> {''success_count'', ''completed_count''} then 1
      else if f = ''running_count'' then -1
      else if f = ''total_duration_ms'' then milliseconds d else 0)"
| "event_adds Failed f =
     (if f = ''failed_count'' then 1 else if f = ''running_count'' then -1 else 0)"
| "event_adds Retried f = 0"

definition added :: "(string \<times> clock \<times> red_event) list \<Rightarrow> string \<Rightarrow> int" where
  "added es f = (\<Sum>(t, clk, e) \<leftarrow> es. event_adds e f)"

text \<open>No counter leaves 64 bits on the way if the absolute changes add up to less.\<close>

definition event_size :: "(string \<times> clock \<times> red_event) list \<Rightarrow> int" where
  "event_size es = (\<Sum>(t, clk, e) \<leftarrow> es. case e of Completed d \<Rightarrow> 1 + \<bar>milliseconds d\<bar> | _ \<Rightarrow> 1)"

text \<open>The counters in terms of the events.\<close>

fun durations :: "(string \<times> clock \<times> red_event) list \<Rightarrow> duration list" where
  "durations [] = []"
| "durations ((t, clk, Completed d) # es) = d # durations es"
| "durations ((t, clk, e) # es) = durations es"

lemma added_counters:
  "added es ''pending_count'' = int (length (filter (\<lambda>(t, clk, e). e = Created) es))"
  "added es ''success_count'' = int (length (durations es))"
  "added es ''completed_count'' = int (length (durations es))"
  "added es ''failed_count'' = int (length (filter (\<lambda>(t, clk, e). e = Failed) es))"
  "added es ''running_count'' =
     - (int (length (durations es)) + int (length (filter (\<lambda>(t, clk, e). e = Failed) es)))"
  "added es ''total_duration_ms'' = sum_list (map milliseconds (durations es))"
  by (induction es rule: durations.induct) (simp_all add: added_def)

definition qhash :: "keyspace \<Rightarrow> string \<Rightarrow> string \<rightharpoonup> string" where
  "qhash d q = (case as_hash (d (keyPrefixQueueStats @ q)) of Ok h \<Rightarrow> h | _ \<Rightarrow> Map.empty)"

lemma as_hash_qhash: "well_typed d \<Longrightarrow> as_hash (d (keyPrefixQueueStats @ q)) = Ok (qhash d q)"
proof (cases "d (keyPrefixQueueStats @ q)")
  case (Some a)
  moreover assume "well_typed d"
  ultimately have "well_kinded (keyPrefixQueueStats @ q) a" by (blast dest: well_typedD)
  with Some show ?thesis
    by (cases a) (auto simp: qhash_def kinds_apart)
qed (simp add: qhash_def)

lemma qhash_eq: "as_hash (d (keyPrefixQueueStats @ q)) = Ok h \<Longrightarrow> qhash d q = h"
  by (simp add: qhash_def)

text \<open>The commands of an event on the hash of its queue.\<close>

fun queue_cmds :: "string \<Rightarrow> clock \<Rightarrow> red_event \<Rightarrow> pipe_cmd list" where
  "queue_cmds k clk Created =
     [HIncrBy k ''pending_count'' 1, HSet k ''last_job_at'' (unix_seconds (clk 0))]"
| "queue_cmds k clk (Completed d) =
     [HIncrBy k ''success_count'' 1, HIncrBy k ''running_count'' (-1),
      HSet k ''last_job_at'' (unix_seconds (clk 0)),
      HIncrBy k ''total_duration_ms'' (milliseconds d), HIncrBy k ''completed_count'' 1]"
| "queue_cmds k clk Failed =
     [HIncrBy k ''failed_count'' 1, HIncrBy k ''running_count'' (-1),
      HSet k ''last_job_at'' (unix_seconds (clk 0))]"
| "queue_cmds k clk Retried = [HIncrBy k ''retried_count'' 1]"

lemma queue_cmds_add:
  assumes "f \<in> counters" "field_int h f = Some i" "int64 (i + event_adds e f)"
  shows "field_int (fold hash_cmd (queue_cmds k clk e) h) f = Some (i + event_adds e f)"
proof -
  have f: "f \<noteq> ''last_job_at''" "f \<noteq> ''retried_count''" using assms(1) by (auto simp: counters_def)
  note rules = hash_cmd_HIncrBy hash_cmd_HSet plus64_Some assms(2)
  show ?thesis
  proof (cases e)
    case Created
    with f assms show ?thesis
      by (cases "f = ''pending_count''") (simp_all add: rules del: hash_cmd.simps)
  next
    case (Completed d)
    then consider "f = ''success_count''" | "f = ''running_count''" | "f = ''total_duration_ms''"
      | "f = ''completed_count''"
      | "f \<notin> {''success_count'', ''running_count'', ''total_duration_ms'', ''completed_count''}"
      by blast
    then show ?thesis
      using f assms Completed by cases (simp_all add: rules del: hash_cmd.simps)
  next
    case Failed
    then consider "f = ''failed_count''" | "f = ''running_count''"
      | "f \<notin> {''failed_count'', ''running_count''}" by blast
    then show ?thesis
      using f assms Failed by cases (simp_all add: rules del: hash_cmd.simps)
  next
    case Retried
    with f assms show ?thesis by (simp add: rules del: hash_cmd.simps)
  qed
qed

context redis
begin

lemma Exec_qhash:
  assumes "good db ok s" "rc_Exec C cmds s = (r, s')"
  shows "qhash (db s') q =
    fold hash_cmd (filter (\<lambda>c. pipe_key c = keyPrefixQueueStats @ q) cmds) (qhash (db s) q)"
proof -
  have "db_Exec cmds (db s) = (r, db s')"
    using refinesD [OF Exec goodD(1) [OF assms(1)] assms(2)] by simp
  then have "db s' = snd (db_Exec cmds (db s))" by simp
  then show ?thesis
    using Exec_hash [where d = "db s", OF as_hash_qhash [OF goodD(2) [OF assms(1)]]] qhash_eq by metis
qed

text \<open>What follows the commands on the hash of the queue goes to the hash of the job type.\<close>

lemma record_pipe:
  assumes "q \<noteq> ''''" "e \<noteq> Retried"
  shows "\<exists>extra. red_record C q t clk e s = rc_Exec C (queue_cmds (keyPrefixQueueStats @ q) clk e @ extra) s \<and>
    (\<forall>c \<in> set extra. pipe_key c = keyPrefixJobType @ t)"
proof (cases e)
  case Created
  let ?tk = "keyPrefixJobType @ t"
  show ?thesis
    using assms Created
    by (intro exI [of _ "if t \<noteq> '''' then [HIncrBy ?tk ''total_count'' 1,
        HSet ?tk ''last_executed_at'' (unix_seconds (clk 1))] else []"])
      (simp add: red_RecordJobCreated_def Let_def)
next
  case (Completed d)
  let ?tk = "keyPrefixJobType @ t"
  let ?min = "HGet_Int64 C ?tk ''min_duration_ms'' s" and ?max = "HGet_Int64 C ?tk ''max_duration_ms'' s"
  show ?thesis
    using assms Completed
    by (intro exI [of _ "if t \<noteq> '''' then [HIncrBy ?tk ''success_count'' 1,
         HIncrBy ?tk ''total_duration_ms'' (milliseconds d)] @
        (if ?min = 0 \<or> milliseconds d < ?min then [HSet ?tk ''min_duration_ms'' (milliseconds d)] else []) @
        (if milliseconds d > ?max then [HSet ?tk ''max_duration_ms'' (milliseconds d)] else [])
      else []"]) (simp add: red_RecordJobCompleted_def Let_def)
next
  case Failed
  show ?thesis
    using assms Failed
    by (intro exI [of _ "if t \<noteq> '''' then [HIncrBy (keyPrefixJobType @ t) ''failed_count'' 1] else []"])
      (simp add: red_RecordJobFailed_def Let_def)
qed (use assms in simp)

lemma queue_cmds_keys: "filter (\<lambda>c. pipe_key c = k) (queue_cmds k clk e) = queue_cmds k clk e"
  by (cases e) simp_all

lemma record_qhash:
  assumes "good db ok s" "q \<noteq> ''''"
  shows "good db ok (snd (red_record C q t clk e s)) \<and>
    qhash (db (snd (red_record C q t clk e s))) q =
      fold hash_cmd (queue_cmds (keyPrefixQueueStats @ q) clk e) (qhash (db s) q)"
proof
  show "good db ok (snd (red_record C q t clk e s))"
    using assms(1) by (cases e) (simp_all add: good_metrics)
  have run: "qhash (db (snd (rc_Exec C cmds s))) q =
      fold hash_cmd (filter (\<lambda>c. pipe_key c = keyPrefixQueueStats @ q) cmds) (qhash (db s) q)" for cmds
    using Exec_qhash [OF assms(1)] by (cases "rc_Exec C cmds s") simp
  have incr: "qhash (db (snd (rc_HIncrBy C (keyPrefixQueueStats @ q) f n s))) q =
      hash_cmd (HIncrBy (keyPrefixQueueStats @ q) f n) (qhash (db s) q)" (is "_ = hash_cmd ?c _") for f n
  proof -
    obtain r s' where s': "rc_HIncrBy C (keyPrefixQueueStats @ q) f n s = (r, s')" by fastforce
    then have "map_prod id db (rc_HIncrBy C (keyPrefixQueueStats @ q) f n s) =
        db_HIncrBy (keyPrefixQueueStats @ q) f n (db s)"
      using refinesD [OF HIncrBy goodD(1) [OF assms(1)] s'] by simp
    then have step: "snd (db_pipe_cmd ?c (db s)) = db s'"
      using s' by (metis db_pipe_cmd.simps(1) map_prod_simp snd_conv)
    have "as_hash (db s' (keyPrefixQueueStats @ q)) =
        Ok (if pipe_key ?c = keyPrefixQueueStats @ q then hash_cmd ?c (qhash (db s) q) else qhash (db s) q)"
      unfolding step [symmetric]
      by (rule pipe_cmd_hash [OF as_hash_qhash]) (rule goodD(2) [OF assms(1)])
    then show ?thesis by (simp add: s' qhash_eq del: hash_cmd.simps)
  qed
  show "qhash (db (snd (red_record C q t clk e s))) q =
      fold hash_cmd (queue_cmds (keyPrefixQueueStats @ q) clk e) (qhash (db s) q)"
  proof (cases "e = Retried")
    case True
    with assms(2) show ?thesis by (simp add: red_RecordJobRetried_def incr del: hash_cmd.simps)
  next
    case False
    then obtain extra where extra:
      "red_record C q t clk e s = rc_Exec C (queue_cmds (keyPrefixQueueStats @ q) clk e @ extra) s"
      "\<forall>c \<in> set extra. pipe_key c = keyPrefixJobType @ t"
      using record_pipe [OF assms(2)] by blast
    then have "filter (\<lambda>c. pipe_key c = keyPrefixQueueStats @ q) extra = []"
      by (simp add: filter_empty_conv)
    with extra(1) show ?thesis by (simp add: run queue_cmds_keys)
  qed
qed

lemma records_counters:
  assumes "good db ok s" "q \<noteq> ''''" "f \<in> counters" "field_int (qhash (db s) q) f = Some i"
    and "\<bar>i\<bar> + event_size es < 2 ^ 63"
  shows "good db ok (red_records C q es s) \<and>
    field_int (qhash (db (red_records C q es s)) q) f = Some (i + added es f)"
  using assms
proof (induction es arbitrary: s i)
  case (Cons x es)
  obtain t clk e where x: "x = (t, clk, e)" by (cases x) auto
  let ?s = "snd (red_record C q t clk e s)" and ?i = "i + event_adds e f"
  have "0 \<le> event_size es" unfolding event_size_def
    by (intro sum_list_nonneg) (auto split: red_event.splits)
  moreover have "\<bar>event_adds e f\<bar> + event_size es \<le> event_size (x # es)"
    using x by (cases e) (auto simp: event_size_def)
  ultimately have bound: "int64 ?i" "\<bar>?i\<bar> + event_size es < 2 ^ 63"
    using Cons.prems(5) by (auto simp: int64_def)
  note step = record_qhash [OF Cons.prems(1,2), of t clk e]
  have "field_int (qhash (db ?s) q) f = Some ?i"
    using step queue_cmds_add [OF Cons.prems(3,4) bound(1)] by simp
  then show ?case
    using Cons.IH [of ?s ?i] step Cons.prems bound(2) x by (simp add: added_def)
qed (simp add: added_def)

lemma GetQueueStats_counters:
  assumes "good db ok s" "q \<noteq> ''''" "\<And>f. f \<in> counters \<Longrightarrow> field_int (qhash (db s) q) f = Some (n f)"
  shows "\<exists>st. red_GetQueueStats cd C q s = Ok st \<and>
    qs_PendingCount st = n ''pending_count'' \<and> qs_RunningCount st = n ''running_count'' \<and>
    qs_SuccessCount st = n ''success_count'' \<and> qs_FailedCount st = n ''failed_count'' \<and>
    qs_AvgProcessingTime st = (if n ''completed_count'' > 0
      then wrap64 (n ''total_duration_ms'' sdiv n ''completed_count'' * Millisecond) else 0)"
proof -
  have "scan_field (qhash (db s) q) f = n f" if "f \<in> counters" for f
    using assms(3) [OF that] by (rule scan_field_int)
  then show ?thesis
    using assms HGetAll as_hash_qhash
    by (simp add: red_GetQueueStats_def goodD Let_def zero_QueueStats_def counters_def)
qed

end

section \<open>The least duration of a job type\<close>

definition thash :: "keyspace \<Rightarrow> string \<Rightarrow> string \<rightharpoonup> string" where
  "thash d t = (case as_hash (d (keyPrefixJobType @ t)) of Ok h \<Rightarrow> h | _ \<Rightarrow> Map.empty)"

lemma as_hash_thash: "well_typed d \<Longrightarrow> as_hash (d (keyPrefixJobType @ t)) = Ok (thash d t)"
proof (cases "d (keyPrefixJobType @ t)")
  case (Some a)
  moreover assume "well_typed d"
  ultimately have "well_kinded (keyPrefixJobType @ t) a" by (blast dest: well_typedD)
  with Some show ?thesis by (cases a) (auto simp: thash_def kinds_apart)
qed (simp add: thash_def)

lemma thash_eq: "as_hash (d (keyPrefixJobType @ t)) = Ok h \<Longrightarrow> thash d t = h"
  by (simp add: thash_def)

text \<open>A least duration of 0 stands for none as well, so whatever comes next replaces it.\<close>

definition next_min :: "int \<Rightarrow> int \<Rightarrow> int" where
  "next_min ms m = (if m = 0 \<or> ms < m then ms else m)"

fun type_completions ::
  "'r redis_client \<Rightarrow> string \<Rightarrow> string \<Rightarrow> (clock \<times> duration) list \<Rightarrow> 'r \<Rightarrow> 'r" where
  "type_completions C q t [] s = s"
| "type_completions C q t ((clk, d) # ds) s =
     type_completions C q t ds (snd (red_RecordJobCompleted C clk q t d s))"

context redis
begin

lemma HGet_Int64_field:
  "good db ok s \<Longrightarrow> field_int (thash (db s) t) f = Some m \<Longrightarrow> HGet_Int64 C (keyPrefixJobType @ t) f s = m"
  by (auto simp: HGet_Int64_def HGet goodD as_hash_thash field_int_def split: option.splits if_splits)

lemma RecordJobCompleted_min:
  assumes "good db ok s" "q \<noteq> ''''" "t \<noteq> ''''" "int64 (milliseconds d)"
    and m: "field_int (thash (db s) t) ''min_duration_ms'' = Some m"
  shows "field_int (thash (db (snd (red_RecordJobCompleted C clk q t d s))) t) ''min_duration_ms'' =
    Some (next_min (milliseconds d) m)"
proof -
  let ?k = "keyPrefixQueueStats @ q" and ?tk = "keyPrefixJobType @ t" and ?ms = "milliseconds d"
  let ?max = "HGet_Int64 C ?tk ''max_duration_ms'' s"
  define own where "own = [HIncrBy ?tk ''success_count'' 1, HIncrBy ?tk ''total_duration_ms'' ?ms] @
    (if m = 0 \<or> ?ms < m then [HSet ?tk ''min_duration_ms'' ?ms] else []) @
    (if ?ms > ?max then [HSet ?tk ''max_duration_ms'' ?ms] else [])"
  have call: "red_RecordJobCompleted C clk q t d s = rc_Exec C (queue_cmds ?k clk (Completed d) @ own) s"
    using assms(2,3) HGet_Int64_field [OF assms(1) m]
    by (simp add: red_RecordJobCompleted_def Let_def own_def)
  obtain r s' where run: "rc_Exec C (queue_cmds ?k clk (Completed d) @ own) s = (r, s')" by fastforce
  have "db_Exec (queue_cmds ?k clk (Completed d) @ own) (db s) = (r, db s')"
    using refinesD [OF Exec goodD(1) [OF assms(1)] run] by simp
  then have d': "db s' = snd (db_Exec (queue_cmds ?k clk (Completed d) @ own) (db s))" by simp
  have "thash (db s') t = fold hash_cmd (filter (\<lambda>c. pipe_key c = ?tk) (queue_cmds ?k clk (Completed d) @ own)) (thash (db s) t)"
    unfolding d'
    by (rule thash_eq, rule Exec_hash, rule as_hash_thash) (rule goodD(2) [OF assms(1)])
  also have "filter (\<lambda>c. pipe_key c = ?tk) (queue_cmds ?k clk (Completed d) @ own) = own"
    by (simp add: own_def)
  finally show ?thesis
    using m assms(4) call run
    by (simp add: own_def next_min_def hash_cmd_HIncrBy field_int_decimal del: hash_cmd.simps(1))
qed

lemma type_completions_min:
  "\<lbrakk>good db ok s; q \<noteq> ''''; t \<noteq> ''''; \<forall>(clk, d) \<in> set ds. int64 (milliseconds d);
    field_int (thash (db s) t) ''min_duration_ms'' = Some m\<rbrakk> \<Longrightarrow>
   field_int (thash (db (type_completions C q t ds s)) t) ''min_duration_ms'' =
     Some (fold next_min (map (\<lambda>(clk, d). milliseconds d) ds) m)"
  by (induction ds arbitrary: s m) (auto simp: RecordJobCompleted_min good_metrics)

end

text \<open>After durations of 3 ms, under 1 ms, and 5 ms the least duration on record is 5 ms.\<close>

lemma min_duration_lost: "fold next_min [3, 0, 5] 0 = 5"
  by (simp add: next_min_def)

end
