(* ===== verification/RedisServer.thy ===== *)
theory RedisServer
  imports RedisStats
begin

text \<open>
  A server that is just its key space: every command of the client runs the documented effect. It
  meets the locale \<open>redis\<close>, so the locale can be met, and the facts proved in it hold of a program that
  can be evaluated. Patterns are a prefix and a star, the only ones the backend sends.
\<close>

text \<open>The part of a list between two indices, as \<open>ZRANGE\<close> counts them: negative ones from the end.\<close>

definition zrange :: "int \<Rightarrow> int \<Rightarrow> 'a list \<Rightarrow> 'a list" where
  "zrange i j xs =
     (let n = int (length xs); i = (if i < 0 then max 0 (n + i) else i); j = (if j < 0 then n + j else j)
      in take (nat (j - i + 1)) (drop (nat i) xs))"

definition ref_client :: "keyspace redis_client" where
  "ref_client =
     \<lparr>rc_Ping = (\<lambda>d. Ok ()), rc_Set = db_Set, rc_SetNX = db_SetNX, rc_Get = (\<lambda>k d. as_string (d k)),
      rc_Exists = db_Exists, rc_Del = db_Del, rc_ZAdd = db_ZAdd, rc_ZRem = db_ZRem,
      rc_ZRange = (\<lambda>k i j d. map_res (\<lambda>z. map snd (zrange i j z)) (as_zset (d k))),
      rc_ZRangeByScore = (\<lambda>k lo hi n d. map_res (\<lambda>z.
        (let ms = map snd (filter (\<lambda>e. (lo = ''-inf'' \<or> of_int (Atoi lo) \<le> fst e) \<and> fst e \<le> of_int (Atoi hi)) z)
         in if n > 0 then take (nat n) ms else ms)) (as_zset (d k))),
      rc_ZCard = (\<lambda>k d. map_res (\<lambda>z. int (length z)) (as_zset (d k))),
      rc_SAdd = db_SAdd, rc_SRem = db_SRem, rc_SMembers = (\<lambda>k d. map_res sorted_list_of_set (as_set (d k))),
      rc_HIncrBy = db_HIncrBy, rc_HGet = (\<lambda>k f d. map_res (\<lambda>h. h f) (as_hash (d k))),
      rc_HGetAll = (\<lambda>k d. as_hash (d k)), rc_Exec = db_Exec,
      rc_Scan = (\<lambda>cursor pattern n d. Ok (sorted_list_of_set (keys_with (butlast pattern) d), 0))\<rparr>"

lemma ref_client_sel [simp]:
  "rc_Ping ref_client = (\<lambda>d. Ok ())" "rc_Set ref_client = db_Set" "rc_SetNX ref_client = db_SetNX"
  "rc_Get ref_client = (\<lambda>k d. as_string (d k))" "rc_Exists ref_client = db_Exists"
  "rc_Del ref_client = db_Del" "rc_ZAdd ref_client = db_ZAdd" "rc_ZRem ref_client = db_ZRem"
  "rc_ZRange ref_client = (\<lambda>k i j d. map_res (\<lambda>z. map snd (zrange i j z)) (as_zset (d k)))"
  "rc_ZCard ref_client = (\<lambda>k d. map_res (\<lambda>z. int (length z)) (as_zset (d k)))"
  "rc_SAdd ref_client = db_SAdd" "rc_SRem ref_client = db_SRem"
  "rc_SMembers ref_client = (\<lambda>k d. map_res sorted_list_of_set (as_set (d k)))"
  "rc_HIncrBy ref_client = db_HIncrBy" "rc_HGet ref_client = (\<lambda>k f d. map_res (\<lambda>h. h f) (as_hash (d k)))"
  "rc_HGetAll ref_client = (\<lambda>k d. as_hash (d k))" "rc_Exec ref_client = db_Exec"
  "rc_Scan ref_client = (\<lambda>cursor pattern n d. Ok (sorted_list_of_set (keys_with (butlast pattern) d), 0))"
  by (simp_all add: ref_client_def)

text \<open>A key space holds finitely many keys, and finitely many members in each set.\<close>

definition ref_ok :: "keyspace \<Rightarrow> bool" where
  "ref_ok d \<longleftrightarrow> finite (dom d) \<and> (\<forall>k A. d k = Some (RSet A) \<longrightarrow> finite A)"

lemma ref_ok_put: "ref_ok d \<Longrightarrow> (\<And>A. v = Some (RSet A) \<Longrightarrow> finite A) \<Longrightarrow> ref_ok (d(k := v))"
  by (auto simp: ref_ok_def)

lemma ref_ok_on_key:
  assumes "ref_ok d" "\<And>x a A. as (d k) = Ok x \<Longrightarrow> f x = (a, Some (RSet A)) \<Longrightarrow> finite A"
  shows "ref_ok (snd (on_key as k f d))"
  using assms by (auto simp: on_key_def split: outcome.splits prod.splits intro!: ref_ok_put)

lemma as_set_finite: "ref_ok d \<Longrightarrow> as_set (d k) = Ok A \<Longrightarrow> finite A"
  by (cases "d k") (auto simp: ref_ok_def elim!: as_set.elims)

lemma ref_ok_pipe_cmd: "ref_ok d \<Longrightarrow> ref_ok (snd (db_pipe_cmd c d))"
  by (cases c) (auto simp: db_HIncrBy_def db_HSet_def split: outcome.splits option.splits
      intro!: ref_ok_put ref_ok_on_key)

lemma ref_ok_Exec: "ref_ok d \<Longrightarrow> ref_ok (snd (db_Exec cmds d))"
proof (induction cmds arbitrary: d)
  case (Cons c cmds)
  have "snd (db_Exec (c # cmds) d) = snd (db_Exec cmds (snd (db_pipe_cmd c d)))"
    by (simp split: prod.splits)
  with Cons show ?case by (simp add: ref_ok_pipe_cmd)
qed simp

lemma ref_ok_commands:
  assumes "ref_ok d"
  shows "ref_ok (snd (db_Set k v d))" "ref_ok (snd (db_SetNX k v d))" "ref_ok (snd (db_Del k d))"
    "ref_ok (snd (db_ZAdd k sc m d))" "ref_ok (snd (db_ZRem k m d))" "ref_ok (snd (db_SAdd k m d))"
    "ref_ok (snd (db_SRem k m d))" "ref_ok (snd (db_HIncrBy k f n d))"
proof -
  show "ref_ok (snd (db_Set k v d))" "ref_ok (snd (db_SetNX k v d))" "ref_ok (snd (db_Del k d))"
    using assms by (auto simp: db_Set_def db_SetNX_def db_Del_def intro!: ref_ok_put)
  show "ref_ok (snd (db_ZAdd k sc m d))" "ref_ok (snd (db_ZRem k m d))"
    unfolding db_ZAdd_def db_ZRem_def using assms
    by (auto simp: zset_value_def split: if_splits intro!: ref_ok_on_key)
  show "ref_ok (snd (db_SAdd k m d))" "ref_ok (snd (db_SRem k m d))"
    unfolding db_SAdd_def db_SRem_def using assms
    by (auto simp: set_value_def as_set_finite split: if_splits intro!: ref_ok_on_key)
  show "ref_ok (snd (db_HIncrBy k f n d))" using ref_ok_pipe_cmd [OF assms, of "HIncrBy k f n"] by simp
qed

lemma refines_same: "(\<And>d. ok d \<Longrightarrow> ok (snd (f d))) \<Longrightarrow> refines ok (\<lambda>d. d) f f"
  unfolding refines_def by (metis snd_conv)

interpretation server: redis ref_client "\<lambda>d. d" ref_ok
proof unfold_locales
  fix s :: keyspace and k e p :: string and A :: "string set" and lo hi :: string and n :: int
  show "ref_ok s \<Longrightarrow> rc_ZRange ref_client k 0 0 s = map_res (\<lambda>z. map snd (take 1 z)) (as_zset (s k))"
    by (simp add: zrange_def)
  show "ref_ok s \<Longrightarrow> s k = None \<Longrightarrow> rc_ZRangeByScore ref_client k lo hi n s = Ok []"
    by (simp add: ref_client_def Let_def)
  show "ref_ok s \<Longrightarrow> as_set (s k) = Ok A \<Longrightarrow>
      \<exists>ms. rc_SMembers ref_client k s = Ok ms \<and> set ms = A \<and> distinct ms"
    using as_set_finite by simp
  show "ref_ok s \<Longrightarrow> glob_free p \<Longrightarrow>
      \<exists>pages. scan_trace ref_client (p @ ''*'') s 0 pages \<and> set (concat pages) = keys_with p s"
  proof -
    assume "ref_ok s"
    then have "finite (keys_with p s)" by (simp add: ref_ok_def keys_with_def)
    then show ?thesis
      by (intro exI [of _ "[sorted_list_of_set (keys_with p s)]"]) (auto intro!: scan_trace.last)
  qed
qed (auto intro!: refines_same ref_ok_commands ref_ok_Exec)

end
