(* ===== verification/RedisProperties.thy ===== *)
theory RedisProperties
  imports RedisServer RateLimitProperties Samples
begin

text \<open>
  What the redis backend promises, and where it does not keep the promise, over any client that meets the
  locale \<open>redis\<close>. Each property is shown to apply to the server of \<open>RedisServer\<close>.
\<close>

section \<open>Kinds of keys\<close>

text \<open>The methods that write. \<open>ORecord\<close> stands for the four methods that record an event.\<close>

datatype red_op =
    OCreate "job option" | OUpdate "job option" | ODelete string
  | OUpdateStatus clock string Status | OUpdateProgress string int
  | OSetResult string bytes | OSetError string string
  | OEnqueue clock string string Priority | ODequeue string string
  | ORequeue clock string string Priority | ORemove string string
  | OPauseQueue string | OResumeQueue string
  | ORegister "worker option" | OUnregister string | OUpdateHeartbeat clock string
  | OUpdateWorkerStatus string WorkerStatus | OSetCurrentJob string string
  | OIncrementProcessed string | OIncrementFailed string
  | ORecord string string clock red_event
  | OSaveQueueConfig "QueueConfig option" | ODeleteQueueConfig string

fun red_apply :: "rounding \<Rightarrow> codec \<Rightarrow> 'r redis_client \<Rightarrow> red_op \<Rightarrow> 'r \<Rightarrow> 'r" where
  "red_apply rnd cd C (OCreate j) s = snd (red_Create cd C j s)"
| "red_apply rnd cd C (OUpdate j) s = snd (red_Update cd C j s)"
| "red_apply rnd cd C (ODelete jid) s = snd (red_Delete C jid s)"
| "red_apply rnd cd C (OUpdateStatus clk jid st) s = snd (red_UpdateStatus cd C clk jid st s)"
| "red_apply rnd cd C (OUpdateProgress jid n) s = snd (red_UpdateProgress cd C jid n s)"
| "red_apply rnd cd C (OSetResult jid b) s = snd (red_SetResult cd C jid b s)"
| "red_apply rnd cd C (OSetError jid e) s = snd (red_SetError cd C jid e s)"
| "red_apply rnd cd C (OEnqueue clk q jid p) s = snd (red_Enqueue rnd C clk q jid p s)"
| "red_apply rnd cd C (ODequeue q wid) s = snd (red_Dequeue C q wid s)"
| "red_apply rnd cd C (ORequeue clk q jid p) s = snd (red_Requeue rnd C clk q jid p s)"
| "red_apply rnd cd C (ORemove q jid) s = snd (red_Remove C q jid s)"
| "red_apply rnd cd C (OPauseQueue q) s = snd (red_PauseQueue C q s)"
| "red_apply rnd cd C (OResumeQueue q) s = snd (red_ResumeQueue C q s)"
| "red_apply rnd cd C (ORegister w) s = snd (red_Register cd C w s)"
| "red_apply rnd cd C (OUnregister wid) s = snd (red_Unregister C wid s)"
| "red_apply rnd cd C (OUpdateHeartbeat clk wid) s = snd (red_UpdateHeartbeat cd C clk wid s)"
| "red_apply rnd cd C (OUpdateWorkerStatus wid st) s = snd (red_UpdateWorkerStatus cd C wid st s)"
| "red_apply rnd cd C (OSetCurrentJob wid jid) s = snd (red_SetCurrentJob cd C wid jid s)"
| "red_apply rnd cd C (OIncrementProcessed wid) s = snd (red_IncrementProcessed cd C wid s)"
| "red_apply rnd cd C (OIncrementFailed wid) s = snd (red_IncrementFailed cd C wid s)"
| "red_apply rnd cd C (ORecord q t clk e) s = snd (red_record C q t clk e s)"
| "red_apply rnd cd C (OSaveQueueConfig c) s = snd (red_SaveQueueConfig cd C c s)"
| "red_apply rnd cd C (ODeleteQueueConfig q) s = snd (red_DeleteQueueConfig C q s)"

definition names_worker_set :: "red_op \<Rightarrow> bool" where
  "names_worker_set op = (case op of ORegister (Some w) \<Rightarrow> w_ID w = ''set'' | _ \<Rightarrow> False)"

context redis
begin

lemma good_apply:
  assumes "good db ok s" "\<not> names_worker_set op"
  shows "good db ok (red_apply rnd cd C op s)"
proof (cases op)
  case (ORecord q t clk e)
  with assms(1) show ?thesis by (cases e) (simp_all add: good_metrics)
next
  case (ORegister w)
  with assms(2) have "w_ID w' \<noteq> ''set''" if "w = Some w'" for w'
    using that by (simp add: names_worker_set_def)
  with ORegister show ?thesis by (simp add: good_workers(1) [OF assms(1)])
qed (use assms in \<open>simp_all add: good_jobs good_queues good_workers good_metrics red_Requeue_def\<close>)

lemma good_run:
  "good db ok s \<Longrightarrow> \<forall>op \<in> set ops. \<not> names_worker_set op \<Longrightarrow> good db ok (fold (red_apply rnd cd C) ops s)"
  by (induction ops arbitrary: s) (simp_all add: good_apply)

lemma as_set_worker_set: "well_typed d \<Longrightarrow> \<exists>A. as_set (d worker_set) = Ok A"
proof (cases "d worker_set")
  case (Some a)
  moreover assume "well_typed d"
  ultimately have "well_kinded worker_set a" by (blast dest: well_typedD)
  with Some show ?thesis by (cases a) (auto simp: kinds_apart)
qed simp

lemma ListWorkers_Ok: "good db ok s \<Longrightarrow> \<exists>ws. red_ListWorkers cd C s = Ok ws"
  using as_set_worker_set [of "db s"] SMembers [of s worker_set]
  by (auto simp: red_ListWorkers_def good_def)

lemma Length_Ok: "good db ok s \<Longrightarrow> q \<noteq> '''' \<Longrightarrow> red_Length C q s = Ok (int (length (zq (db s) q)))"
  by (simp add: red_Length_def ZCard goodD as_zset_zq)

end


text \<open>Encoding that writes one text for every job, worker and configuration, and decodes a given job.\<close>

definition sample_codec :: "job \<Rightarrow> job \<Rightarrow> codec" where
  "sample_codec old new =
     \<lparr>marshal_job = (\<lambda>_. Ok ''new''), unmarshal_job = (\<lambda>v. Ok (if v = ''old'' then old else new)),
      marshal_worker = (\<lambda>_. Ok ''worker''), unmarshal_worker = (\<lambda>_. Err (Errorf ''no worker'' None)),
      marshal_config = (\<lambda>_. Ok ''config''), unmarshal_config = (\<lambda>_. Err (Errorf ''no config'' None))\<rparr>"

lemma sample_codec_sel [simp]:
  "marshal_job (sample_codec old new) = (\<lambda>_. Ok ''new'')"
  "unmarshal_job (sample_codec old new) = (\<lambda>v. Ok (if v = ''old'' then old else new))"
  "marshal_worker (sample_codec old new) = (\<lambda>_. Ok ''worker'')"
  by (simp_all add: sample_codec_def)

lemma ref_ok_simps [simp]: "ref_ok Map.empty" "ref_ok [k \<mapsto> RString v]"
  by (simp_all add: ref_ok_def)

lemma ref_redis: "redis ref_client (\<lambda>d. d) ref_ok"
  by unfold_locales




section \<open>Order of a queue\<close>

context redis
begin

lemma drain_sorted:
  assumes "good db ok s" "q \<noteq> ''''" "wid \<noteq> ''''" "\<not> rpaused (db s) q" "zq (db s) q = []"
    and "distinct (map fst js)" "'''' \<notin> fst ` set js"
  shows "red_dequeues C q wid (length js) (red_enqueues rnd C q js s) =
    map (Ok \<circ> snd) (sort (map (scored rnd) js))"
proof -
  let ?s = "red_enqueues rnd C q js s"
  have s: "good db ok ?s" "\<not> rpaused (db ?s) q" "mset (zq (db ?s) q) = mset (map (scored rnd) js)"
    using enqueues_zq [OF assms(1,2,4,7,6)] assms(5) by simp_all
  have "sorted (zq (db ?s) q)" using zset_ok_zq goodD(2) [OF s(1)] by (simp add: zset_ok_def)
  then have zq: "zq (db ?s) q = sort (map (scored rnd) js)"
    using s(3) by (metis properties_for_sort)
  then have "length (zq (db ?s) q) = length js" by simp
  then show ?thesis using dequeues_zq [OF s(1) assms(2,3) s(2)] zq by simp
qed

end

text \<open>
  C32: Jobs put into an empty queue of the redis backend come out in the order of their scores, equal
  scores in the order of their identifiers: dequeuing agrees with sorting.
\<close>

theorem redis_drain_sorted:
  assumes "redis C db ok" "good db ok s" "q \<noteq> ''''" "wid \<noteq> ''''" "\<not> rpaused (db s) q" "zq (db s) q = []"
    and "distinct (map fst js)" "'''' \<notin> fst ` set js"
  shows "red_dequeues C q wid (length js) (red_enqueues rnd C q js s) =
    map (Ok \<circ> snd) (sort (map (\<lambda>(jid, p, t). (queue_score rnd p t, jid)) js))"
  using redis.drain_sorted [OF assms] by (simp add: scored_def [abs_def])

lemma empty_server [simp]: "good (\<lambda>d. d) ref_ok Map.empty" "zq Map.empty q = []" "\<not> rpaused Map.empty q"
  by (simp_all add: good_def zq_def rpaused_def)

theorem redis_drain_sorted_witness:
  "red_dequeues ref_client ''mail'' ''w'' 2
     (red_enqueues exact ref_client ''mail'' [(''a'', 0, 5), (''b'', 5, 7)] Map.empty) = [Ok ''b'', Ok ''a'']"
  using redis_drain_sorted [OF ref_redis, where s = Map.empty and q = "''mail''" and wid = "''w''"
      and js = "[(''a'', 0, 5), (''b'', 5, 7)]" and rnd = exact]
  by (simp add: queue_score_def exact_apply int64_def numeral_2_eq_2)

text \<open>
  C33: A priority is worth ten seconds a step: of two jobs the redis backend serves that one first whose
  instant less ten seconds per step of priority is earlier. So a job of low priority that has waited
  longer than that is served before a job of high priority, against the comment in \<open>Enqueue\<close> and
  unlike the memory store. (Arithmetic is exact here; \<open>float64\<close> adds that instants some hundred nanoseconds
  apart can get the same score.)
\<close>

theorem redis_aged_priority:
  assumes "redis C db ok" "good db ok s" "q \<noteq> ''''" "wid \<noteq> ''''" "\<not> rpaused (db s) q" "zq (db s) q = []"
    and "a \<noteq> b" "a \<noteq> ''''" "b \<noteq> ''''" "int64 (- pa)" "int64 (- pb)"
    and "ta - 10 * Second * pa < tb - 10 * Second * pb"
  shows "red_dequeues C q wid 2 (red_enqueues exact C q [(a, pa, ta), (b, pb, tb)] s) = [Ok a, Ok b] \<and>
    red_dequeues C q wid 2 (red_enqueues exact C q [(b, pb, tb), (a, pa, ta)] s) = [Ok a, Ok b]"
proof -
  have score: "queue_score exact p t = of_int (t - 10 * Second * p)" if "int64 (- p)" for p t
    using that by (simp add: queue_score_def exact_apply Second_def)
  have less: "queue_score exact pa ta < queue_score exact pb tb"
    using assms(12) score [OF assms(10)] score [OF assms(11)] by (simp only: of_int_less_iff)
  then have "sort [scored exact (a, pa, ta), scored exact (b, pb, tb)] = [scored exact (a, pa, ta), scored exact (b, pb, tb)]"
    "sort [scored exact (b, pb, tb), scored exact (a, pa, ta)] = [scored exact (a, pa, ta), scored exact (b, pb, tb)]"
    by (simp_all add: less_eq_prod_def)
  then show ?thesis
    using redis.drain_sorted [OF assms(1-6), of "[(a, pa, ta), (b, pb, tb)]" exact]
      redis.drain_sorted [OF assms(1-6), of "[(b, pb, tb), (a, pa, ta)]" exact] assms(7-9)
    by (simp_all add: numeral_2_eq_2)
qed

theorem redis_aged_priority_witness:
  "red_dequeues ref_client ''mail'' ''w'' 2
     (red_enqueues exact ref_client ''mail''
        [(''low'', PriorityLow, 0), (''high'', PriorityHigh, 101 * Second)] Map.empty) = [Ok ''low'', Ok ''high'']"
  using redis_aged_priority [OF ref_redis, where s = Map.empty and q = "''mail''" and wid = "''w''"
      and a = "''low''" and b = "''high''" and pa = PriorityLow and pb = PriorityHigh
      and ta = 0 and tb = "101 * Second"]
  by (simp add: priority_defs Second_def int64_def)

section \<open>Jobs\<close>

text \<open>
  Changing the status of a stored job writes the status, the first start, and the first end, and leaves every
  other key alone, if the changed job survives encoding. Unlike the other backends it leaves \<open>UpdatedAt\<close>
  as it was.
\<close>

theorem redis_UpdateStatus:
  assumes "redis C db ok" "ok s" "red_Get cd C jid s = Ok j" "j_ID j = jid"
    and j': "j' = j\<lparr>j_Status := status,
       j_StartedAt := (if status = StatusRunning \<and> j_StartedAt j = None then Some (clk 0) else j_StartedAt j),
       j_CompletedAt := (if status \<in> {StatusSuccess, StatusFailed, StatusCancelled, StatusExpired} \<and>
          j_CompletedAt j = None then Some (clk 1) else j_CompletedAt j)\<rparr>"
    and "marshal_job cd j' = Ok v" "unmarshal_job cd v = Ok j'"
  shows "\<exists>s'. red_UpdateStatus cd C clk jid status s = (Ok (), s') \<and> red_Get cd C jid s' = Ok j' \<and>
    (\<forall>k. k \<noteq> keyPrefixJob @ jid \<longrightarrow> db s' k = db s k)"
proof -
  have "red_UpdateStatus cd C clk jid status s = red_Update cd C (Some j') s"
    using assms(3) by (auto simp: red_UpdateStatus_def Let_def j' IsTerminal_def)
  moreover have "j_ID j' = jid" using assms(4) by (simp add: j')
  ultimately show ?thesis
    using redis.change_job [OF assms(1-3) _ assms(6,7)] by auto
qed

theorem redis_UpdateStatus_witness:
  "\<exists>s'. red_UpdateStatus
      (sample_codec (sample_job ''a'') ((sample_job ''a'')\<lparr>j_Status := StatusRunning, j_StartedAt := Some 7\<rparr>))
      ref_client (\<lambda>_. 7) ''a'' StatusRunning [''job:a'' \<mapsto> RString ''old''] = (Ok (), s')"
  using redis_UpdateStatus [OF ref_redis, where s = "[''job:a'' \<mapsto> RString ''old'']" and jid = "''a''"
      and j = "sample_job ''a''" and status = StatusRunning and clk = "\<lambda>_. 7" and v = "''new''"
      and cd = "sample_codec (sample_job ''a'') ((sample_job ''a'')\<lparr>j_Status := StatusRunning, j_StartedAt := Some 7\<rparr>)"]
  by (auto simp: red_Get_def keyPrefixJob_def)

text \<open>
  Creating a job under a new identifier and reading it, and creating it again.
\<close>

theorem redis_Create_Get:
  assumes "redis C db ok" "ok s" "red_Get cd C (j_ID j) s = Err ErrJobNotFound"
    and "marshal_job cd j = Ok v" "unmarshal_job cd v = Ok j"
  shows "\<exists>s'. red_Create cd C (Some j) s = (Ok (), s') \<and> red_Get cd C (j_ID j) s' = Ok j \<and>
    fst (red_Create cd C (Some j) s') = Err ErrJobAlreadyExists"
proof -
  have id: "j_ID j \<noteq> ''''" using assms(3) by (auto simp: red_Get_def)
  have none: "db s (keyPrefixJob @ j_ID j) = None"
    using assms(3) id redis.Get [OF assms(1,2)]
    by (cases "db s (keyPrefixJob @ j_ID j)" rule: as_string.cases) (auto simp: red_Get_def wrap_err_iff)
  from redis.Create_cases(2) [OF assms(1,2) id assms(4) none] obtain s' where s':
    "red_Create cd C (Some j) s = (Ok (), s')" "ok s'" "db s' = (db s)(keyPrefixJob @ j_ID j \<mapsto> RString v)"
    by blast
  moreover have "red_Get cd C (j_ID j) s' = Ok j"
    using redis.red_Get_Ok_iff [OF assms(1) s'(2)] s'(3) id assms(5) by simp
  moreover have "fst (red_Create cd C (Some j) s') = Err ErrJobAlreadyExists"
    using redis.Create_cases(1) [OF assms(1) s'(2) id assms(4)] s'(3) by auto
  ultimately show ?thesis by blast
qed

theorem redis_Create_Get_witness:
  "\<exists>s'. red_Create (sample_codec (sample_job ''a'') (sample_job ''a'')) ref_client (Some (sample_job ''a'')) Map.empty =
      (Ok (), s')"
  using redis_Create_Get [OF ref_redis, where s = Map.empty and j = "sample_job ''a''" and v = "''new''"
      and cd = "sample_codec (sample_job ''a'') (sample_job ''a'')"]
  by (auto simp: red_Get_def)

text \<open>
  C35: Listing jobs ends, against any number of pages, and without paging it gives exactly the stored jobs that can be
  decoded and match the filter (a job possibly more than once, since a scan may repeat keys).
\<close>

theorem redis_List_complete:
  assumes "redis C db ok" "ok s" "jf_Limit f = 0" "jf_Offset f = 0"
  shows "\<exists>js. red_List cd C f s = Some (Ok js) \<and>
    set js = {j. filter_matches f j \<and>
      (\<exists>x v. db s (keyPrefixJob @ x) = Some (RString v) \<and> unmarshal_job cd v = Ok j)}"
proof -
  obtain js where "red_List cd C f s = Some (Ok (paginate f js))"
    "set js = {j. \<exists>x v. db s (keyPrefixJob @ x) = Some (RString v) \<and> unmarshal_job cd v = Ok j \<and> filter_matches f j}"
    using redis.List_all [OF assms(1,2)] by blast
  moreover have "paginate f js = js" for js using assms(3,4) by (simp add: paginate_def)
  ultimately show ?thesis by (intro exI [of _ js]) auto
qed

definition any_job :: JobFilter where
  "any_job = \<lparr>jf_Queue = '''', jf_Status = [], jf_Type = '''', jf_WorkerID = '''', jf_CreatedAfter = None,
     jf_CreatedBefore = None, jf_Limit = 0, jf_Offset = 0, jf_SortBy = '''', jf_SortDesc = False\<rparr>"

theorem redis_List_complete_witness:
  "\<exists>js. red_List (sample_codec (sample_job ''a'') (sample_job ''b'')) ref_client any_job [''job:a'' \<mapsto> RString ''old''] =
    Some (Ok js) \<and> sample_job ''a'' \<in> set js"
  using redis_List_complete [OF ref_redis, where s = "[''job:a'' \<mapsto> RString ''old'']" and f = any_job
      and cd = "sample_codec (sample_job ''a'') (sample_job ''b'')"]
  by (auto simp: any_job_def filter_matches_def keyPrefixJob_def)

section \<open>Statistics\<close>

text \<open>
  C34: After any events recorded for a queue without statistics, its pending count is the number of all jobs ever
  created, and its running count is the negative of the number of jobs that ended: nothing counts a job as
  started, so neither number says what is pending or running. Successes, failures and the mean of the
  durations are right.
\<close>

theorem redis_queue_counters:
  assumes "redis C db ok" "good db ok s" "q \<noteq> ''''" "db s (keyPrefixQueueStats @ q) = None"
    and "event_size es < 2 ^ 63"
  shows "\<exists>st. red_GetQueueStats cd C q (red_records C q es s) = Ok st \<and>
    qs_PendingCount st = int (length (filter (\<lambda>(t, clk, e). e = Created) es)) \<and>
    qs_SuccessCount st = int (length (durations es)) \<and>
    qs_FailedCount st = int (length (filter (\<lambda>(t, clk, e). e = Failed) es)) \<and>
    qs_RunningCount st = - (qs_SuccessCount st + qs_FailedCount st) \<and>
    (durations es \<noteq> [] \<longrightarrow>
       qs_AvgProcessingTime st =
         wrap64 (sum_list (map milliseconds (durations es)) sdiv int (length (durations es)) * Millisecond))"
proof -
  let ?s = "red_records C q es s"
  have "field_int (qhash (db s) q) f = Some 0" for f
    using assms(4) by (simp add: qhash_def field_int_def)
  then have "good db ok ?s \<and> field_int (qhash (db ?s) q) f = Some (added es f)" if "f \<in> counters" for f
    using redis.records_counters [OF assms(1-3) that, of 0 es] assms(5) by simp
  moreover have "''pending_count'' \<in> counters" by (simp add: counters_def)
  ultimately obtain st where "red_GetQueueStats cd C q ?s = Ok st" "qs_PendingCount st = added es ''pending_count''"
    "qs_RunningCount st = added es ''running_count''" "qs_SuccessCount st = added es ''success_count''"
    "qs_FailedCount st = added es ''failed_count''"
    "qs_AvgProcessingTime st = (if added es ''completed_count'' > 0
      then wrap64 (added es ''total_duration_ms'' sdiv added es ''completed_count'' * Millisecond) else 0)"
    using redis.GetQueueStats_counters [OF assms(1) _ assms(3), of ?s "added es" cd] by blast
  then show ?thesis by (simp add: added_counters)
qed

theorem redis_queue_counters_witness:
  "\<exists>st. red_GetQueueStats (sample_codec (sample_job ''a'') (sample_job ''a'')) ref_client ''mail''
      (red_records ref_client ''mail''
        [(''echo'', \<lambda>_. 0, Created), (''echo'', \<lambda>_. 0, Created), (''echo'', \<lambda>_. 0, Completed (3 * Millisecond))] Map.empty) = Ok st \<and>
    qs_PendingCount st = 2 \<and> qs_RunningCount st = -1 \<and> qs_AvgProcessingTime st = 3 * Millisecond"
  using redis_queue_counters [OF ref_redis, where s = Map.empty and q = "''mail''"
      and es = "[(''echo'', \<lambda>_. 0, Created), (''echo'', \<lambda>_. 0, Created), (''echo'', \<lambda>_. 0, Completed (3 * Millisecond))]"
      and cd = "sample_codec (sample_job ''a'') (sample_job ''a'')"]
  by (auto simp: event_size_def milliseconds_def Millisecond_def signed_divide_int_def int64_def)

section \<open>Workers\<close>

text \<open>
  The identifier \<open>set\<close> is accepted for a worker although its key is the one of the set of all workers. Its
  registration replaces that set by a worker record and then fails; from then on the workers can
  not be listed, and no other worker can register.
\<close>

theorem redis_Register_set:
  assumes "redis C db ok" "ok s" "w_ID w = ''set''" "marshal_worker cd w = Ok v"
    and "w_ID w' \<notin> {'''', ''set''}" "marshal_worker cd w' = Ok v'"
  shows "\<exists>s'. red_Register cd C (Some w) s =
      (Err (Errorf ''failed to add worker to set'' (Some WRONGTYPE)), s') \<and>
    red_ListWorkers cd C s' = Err (Errorf ''failed to list workers'' (Some WRONGTYPE)) \<and>
    fst (red_Register cd C (Some w') s') = Err (Errorf ''failed to add worker to set'' (Some WRONGTYPE))"
proof -
  let ?fail = "Errorf ''failed to add worker to set'' (Some WRONGTYPE)"
  have blocked: "\<exists>s'. red_Register cd C (Some x) t = (Err ?fail, s') \<and> ok s' \<and> (\<exists>u. db s' worker_set = Some (RString u))"
    if t: "ok t" "marshal_worker cd x = Ok u" "w_ID x \<noteq> ''''"
      and set: "w_ID x = ''set'' \<or> (\<exists>u. db t worker_set = Some (RString u))" for x t u
  proof -
    obtain r t1 where run1: "rc_Set C (keyPrefixWorker @ w_ID x) u t = (r, t1)" by fastforce
    from refinesD [OF redis.Set [OF assms(1)] t(1) run1]
    have t1: "ok t1" "r = Ok ()" "db t1 = (db t)(keyPrefixWorker @ w_ID x \<mapsto> RString u)"
      by (simp_all add: db_Set_def)
    have string: "\<exists>u. db t1 worker_set = Some (RString u)"
      using set t1(3) by (auto simp: worker_set_def)
    obtain r2 t2 where run2: "rc_SAdd C worker_set (w_ID x) t1 = (r2, t2)" by fastforce
    from refinesD [OF redis.SAdd [OF assms(1)] t1(1) run2]
    have "ok t2" "r2 = Err WRONGTYPE" "db t2 = db t1"
      using string by (auto simp: db_SAdd_def on_key_def)
    then show ?thesis
      using run1 run2 t t1(2) string by (simp add: red_Register_def)
  qed
  obtain s' where s': "red_Register cd C (Some w) s = (Err ?fail, s')" "ok s'"
    "\<exists>u. db s' worker_set = Some (RString u)"
    using blocked [OF assms(2,4)] assms(3) by auto
  have "red_ListWorkers cd C s' = Err (Errorf ''failed to list workers'' (Some WRONGTYPE))"
    using redis.SMembers_WRONGTYPE [OF assms(1) s'(2), of worker_set] s'(3)
    by (auto simp: red_ListWorkers_def)
  moreover have "fst (red_Register cd C (Some w') s') = Err ?fail"
    using blocked [OF s'(2) assms(6)] assms(5) s'(3) by auto
  ultimately show ?thesis using s'(1) by blast
qed

definition sample_worker :: "string \<Rightarrow> worker" where
  "sample_worker wid =
     \<lparr>w_ID = wid, w_Hostname = ''host'', w_StartedAt = None, w_LastHeartbeat = None, w_CurrentJobID = None,
      w_ProcessedCount = 0, w_FailedCount = 0, w_Status = WorkerStatusIdle, w_Queues = [''mail''],
      w_Concurrency = 1, w_Tags = Map.empty, w_Version = ''''\<rparr>"

theorem redis_Register_set_witness:
  "\<exists>s'. red_Register (sample_codec (sample_job ''a'') (sample_job ''a'')) ref_client (Some (sample_worker ''set'')) Map.empty =
      (Err (Errorf ''failed to add worker to set'' (Some WRONGTYPE)), s')"
  using redis_Register_set [OF ref_redis, where s = Map.empty and w = "sample_worker ''set''"
      and w' = "sample_worker ''w1''" and cd = "sample_codec (sample_job ''a'') (sample_job ''a'')"]
  by (auto simp: sample_worker_def)

text \<open>Only queues with entries are listed: a queue that was drained, or only configured, is not.\<close>

theorem redis_ListQueues:
  assumes "redis C db ok" "good db ok s"
  shows "\<exists>qs. red_ListQueues C s = Some (Ok qs) \<and> set qs = {q. zq (db s) q \<noteq> []}"
  using redis.ListQueues_nonempty [OF assms] .

end
