(* ===== verification/Postgres.thy ===== *)
theory Postgres
  imports Storage
begin

text \<open>
  The database as the postgres backend uses it. The schema of \<open>initSchema\<close> becomes a record of tables; an SQL
  statement of \<^verbatim>\<open>internal/storage/postgres\<close> becomes its effect on the tables, and the driver
  (\<open>database/sql\<close> with \<open>lib/pq\<close>) and the server behind it are a parameter: a record of functions that run
  statements over a state \<open>'p\<close>. The locale \<open>postgres\<close> says that they run them as SQL defines.

  Columns that no result depends on (serial numbers, \<open>enqueued_at\<close>, \<open>recorded_at\<close>, \<open>paused_at\<close>, the times of
  a configuration) are left out.
\<close>

section \<open>Tables\<close>

text \<open>A nullable column is an option. A JSONB column holds the text that the server gives back.\<close>

record job_row =
  jr_id :: string
  jr_type :: string
  jr_queue :: string
  jr_payload :: string
  jr_result :: "string option"
  jr_error :: "string option"
  jr_status :: string
  jr_priority :: int
  jr_retry_count :: int
  jr_max_retries :: int
  jr_timeout_seconds :: int
  jr_progress :: int
  jr_metadata :: "string option"
  jr_created_at :: time
  jr_updated_at :: time
  jr_started_at :: "time option"
  jr_completed_at :: "time option"
  jr_scheduled_at :: "time option"

record queue_row =
  er_queue_name :: string
  er_job_id :: string
  er_priority :: int
  er_scheduled_for :: time

text \<open>The zero time of a worker is \<open>None\<close>, as in its struct; it is before every other instant.\<close>

record worker_row =
  wr_id :: string
  wr_hostname :: string
  wr_version :: string
  wr_status :: string
  wr_queues :: string
  wr_tags :: string
  wr_concurrency :: int
  wr_current_job_id :: "string option"
  wr_processed_count :: int
  wr_failed_count :: int
  wr_started_at :: "time option"
  wr_last_heartbeat :: "time option"
  wr_metadata :: string

record config_row =
  cr_name :: string
  cr_max_workers :: int
  cr_max_retries :: int
  cr_retry_strategy :: string
  cr_retry_delay_seconds :: int
  cr_max_retry_delay_seconds :: int
  cr_timeout_seconds :: int
  cr_priority :: int
  cr_weight :: int
  cr_rate_limit :: int
  cr_dead_letter_queue :: "string option"
  cr_metadata :: string

record metric_row =
  mr_queue_name :: string
  mr_job_type :: string
  mr_event_type :: string
  mr_duration_ms :: "int option"

record tables =
  t_jobs :: "job_row list"
  t_queues :: "queue_row list"
  t_workers :: "worker_row list"
  t_configs :: "config_row list"
  t_metrics :: "metric_row list"
  t_paused :: "string list"

definition empty_tables :: tables where
  "empty_tables = \<lparr>t_jobs = [], t_queues = [], t_workers = [], t_configs = [], t_metrics = [], t_paused = []\<rparr>"

section \<open>Constraints\<close>

text \<open>The errors of the server. Of their texts the code looks for \<open>duplicate key\<close> and \<open>foreign key\<close>.\<close>

definition pq_duplicate :: err where
  "pq_duplicate = Errorf ''pq: duplicate key value violates unique constraint'' None"
definition pq_foreign_key :: err where
  "pq_foreign_key = Errorf ''pq: insert or update on table violates foreign key constraint'' None"
definition pq_not_null :: err where
  "pq_not_null = Errorf ''pq: null value in column violates not-null constraint'' None"
definition pq_too_long :: err where
  "pq_too_long = Errorf ''pq: value too long for type character varying'' None"
definition pq_out_of_range :: err where
  "pq_out_of_range = Errorf ''pq: integer out of range'' None"

lemmas pq_errors = pq_duplicate_def pq_foreign_key_def pq_not_null_def pq_too_long_def pq_out_of_range_def

text \<open>\<open>INTEGER\<close> has 32 bits, \<open>BIGINT\<close> 64.\<close>

definition int4 :: "int \<Rightarrow> bool" where
  "int4 i \<longleftrightarrow> - (2 ^ 31) \<le> i \<and> i < 2 ^ 31"

definition value_error :: "(nat \<times> string) list \<Rightarrow> int list \<Rightarrow> err option" where
  "value_error chars ints =
     (if \<exists>(n, s) \<in> set chars. length s > n then Some pq_too_long
      else if \<exists>i \<in> set ints. \<not> int4 i then Some pq_out_of_range else None)"

definition job_row_error :: "job_row \<Rightarrow> err option" where
  "job_row_error r =
     (if jr_scheduled_at r = None then Some pq_not_null
      else value_error [(255, jr_id r), (255, jr_type r), (255, jr_queue r), (50, jr_status r)]
        [jr_priority r, jr_retry_count r, jr_max_retries r, jr_timeout_seconds r, jr_progress r])"

definition worker_row_error :: "worker_row \<Rightarrow> err option" where
  "worker_row_error r =
     value_error [(255, wr_id r), (255, wr_hostname r), (50, wr_version r), (50, wr_status r)] [wr_concurrency r]"

definition config_row_error :: "config_row \<Rightarrow> err option" where
  "config_row_error r =
     value_error [(255, cr_name r), (50, cr_retry_strategy r),
        (255, case cr_dead_letter_queue r of None \<Rightarrow> '''' | Some d \<Rightarrow> d)]
       [cr_max_workers r, cr_max_retries r, cr_retry_delay_seconds r, cr_max_retry_delay_seconds r,
        cr_timeout_seconds r, cr_priority r, cr_weight r, cr_rate_limit r]"

section \<open>Statements\<close>

text \<open>
  A statement gives the number of the rows it affects and the tables after it, or an error, and then nothing
  has changed.
\<close>

type_synonym stmt = "tables \<Rightarrow> int res \<times> tables"

definition guarded :: "err option \<Rightarrow> stmt \<Rightarrow> stmt" where
  "guarded e st t = (case e of Some e \<Rightarrow> (Err e, t) | None \<Rightarrow> st t)"

text \<open>\<open>UPDATE \<dots> SET \<dots> WHERE key = $1\<close> and \<open>DELETE FROM \<dots> WHERE key = $1\<close> on a list of rows.\<close>

definition matching :: "('r \<Rightarrow> bool) \<Rightarrow> 'r list \<Rightarrow> int" where
  "matching p rows = int (length (filter p rows))"

definition upd_rows :: "('r \<Rightarrow> bool) \<Rightarrow> ('r \<Rightarrow> 'r) \<Rightarrow> 'r list \<Rightarrow> 'r list" where
  "upd_rows p f rows = map (\<lambda>r. if p r then f r else r) rows"

definition del_rows :: "('r \<Rightarrow> bool) \<Rightarrow> 'r list \<Rightarrow> 'r list" where
  "del_rows p rows = filter (\<lambda>r. \<not> p r) rows"

definition set_error :: "('r \<Rightarrow> err option) \<Rightarrow> ('r \<Rightarrow> bool) \<Rightarrow> ('r \<Rightarrow> 'r) \<Rightarrow> 'r list \<Rightarrow> err option" where
  "set_error check p f rows = (case List.map_filter (\<lambda>r. if p r then check (f r) else None) rows of
     [] \<Rightarrow> None | e # _ \<Rightarrow> Some e)"

definition sql_insert_job :: "job_row \<Rightarrow> stmt" where
  "sql_insert_job r t =
     guarded (job_row_error r) (\<lambda>t.
       if jr_id r \<in> jr_id ` set (t_jobs t) then (Err pq_duplicate, t)
       else (Ok 1, t\<lparr>t_jobs := t_jobs t @ [r]\<rparr>)) t"

definition sql_update_job :: "string \<Rightarrow> (job_row \<Rightarrow> job_row) \<Rightarrow> stmt" where
  "sql_update_job i f t =
     guarded (set_error job_row_error (\<lambda>r. jr_id r = i) f (t_jobs t))
       (\<lambda>t. (Ok (matching (\<lambda>r. jr_id r = i) (t_jobs t)),
             t\<lparr>t_jobs := upd_rows (\<lambda>r. jr_id r = i) f (t_jobs t)\<rparr>)) t"

text \<open>Deleting a job deletes its entries: \<open>ON DELETE CASCADE\<close>.\<close>

definition sql_delete_job :: "string \<Rightarrow> stmt" where
  "sql_delete_job i t =
     (Ok (matching (\<lambda>r. jr_id r = i) (t_jobs t)),
      t\<lparr>t_jobs := del_rows (\<lambda>r. jr_id r = i) (t_jobs t),
        t_queues := (if i \<in> jr_id ` set (t_jobs t) then del_rows (\<lambda>e. er_job_id e = i) (t_queues t)
          else t_queues t)\<rparr>)"

definition entry_at :: "string \<Rightarrow> string \<Rightarrow> queue_row \<Rightarrow> bool" where
  "entry_at q i e \<longleftrightarrow> er_queue_name e = q \<and> er_job_id e = i"

definition sql_upsert_entry :: "queue_row \<Rightarrow> stmt" where
  "sql_upsert_entry e t =
     guarded (value_error [(255, er_queue_name e), (255, er_job_id e)] [er_priority e]) (\<lambda>t.
       let p = entry_at (er_queue_name e) (er_job_id e) in
       if \<exists>x \<in> set (t_queues t). p x
       then (Ok 1, t\<lparr>t_queues := upd_rows p (\<lambda>x. x\<lparr>er_priority := er_priority e,
              er_scheduled_for := er_scheduled_for e\<rparr>) (t_queues t)\<rparr>)
       else if er_job_id e \<notin> jr_id ` set (t_jobs t) then (Err pq_foreign_key, t)
       else (Ok 1, t\<lparr>t_queues := t_queues t @ [e]\<rparr>)) t"

definition sql_delete_entry :: "string \<Rightarrow> string \<Rightarrow> stmt" where
  "sql_delete_entry q i t =
     (Ok (matching (entry_at q i) (t_queues t)), t\<lparr>t_queues := del_rows (entry_at q i) (t_queues t)\<rparr>)"

definition sql_pause :: "string \<Rightarrow> stmt" where
  "sql_pause q t =
     guarded (value_error [(255, q)] []) (\<lambda>t.
       if q \<in> set (t_paused t) then (Ok 0, t) else (Ok 1, t\<lparr>t_paused := t_paused t @ [q]\<rparr>)) t"

definition sql_resume :: "string \<Rightarrow> stmt" where
  "sql_resume q t = (Ok (matching (\<lambda>x. x = q) (t_paused t)), t\<lparr>t_paused := del_rows (\<lambda>x. x = q) (t_paused t)\<rparr>)"

text \<open>A worker that is there keeps its counts, its current job and the time it started.\<close>

definition sql_upsert_worker :: "worker_row \<Rightarrow> stmt" where
  "sql_upsert_worker r t =
     guarded (worker_row_error r) (\<lambda>t.
       let p = (\<lambda>x. wr_id x = wr_id r) in
       if \<exists>x \<in> set (t_workers t). p x
       then (Ok 1, t\<lparr>t_workers := upd_rows p (\<lambda>x. x\<lparr>wr_hostname := wr_hostname r, wr_version := wr_version r,
              wr_status := wr_status r, wr_queues := wr_queues r, wr_tags := wr_tags r,
              wr_concurrency := wr_concurrency r, wr_last_heartbeat := wr_last_heartbeat r\<rparr>) (t_workers t)\<rparr>)
       else (Ok 1, t\<lparr>t_workers := t_workers t @ [r]\<rparr>)) t"

definition sql_delete_worker :: "string \<Rightarrow> stmt" where
  "sql_delete_worker i t =
     (Ok (matching (\<lambda>r. wr_id r = i) (t_workers t)), t\<lparr>t_workers := del_rows (\<lambda>r. wr_id r = i) (t_workers t)\<rparr>)"

definition sql_update_worker :: "string \<Rightarrow> (worker_row \<Rightarrow> err option) \<Rightarrow> (worker_row \<Rightarrow> worker_row) \<Rightarrow> stmt" where
  "sql_update_worker i check f t =
     guarded (set_error check (\<lambda>r. wr_id r = i) f (t_workers t))
       (\<lambda>t. (Ok (matching (\<lambda>r. wr_id r = i) (t_workers t)),
             t\<lparr>t_workers := upd_rows (\<lambda>r. wr_id r = i) f (t_workers t)\<rparr>)) t"

definition sql_upsert_config :: "config_row \<Rightarrow> stmt" where
  "sql_upsert_config r t =
     guarded (config_row_error r) (\<lambda>t.
       let p = (\<lambda>x. cr_name x = cr_name r) in
       if \<exists>x \<in> set (t_configs t). p x
       then (Ok 1, t\<lparr>t_configs := upd_rows p (\<lambda>_. r) (t_configs t)\<rparr>)
       else (Ok 1, t\<lparr>t_configs := t_configs t @ [r]\<rparr>)) t"

definition sql_delete_config :: "string \<Rightarrow> stmt" where
  "sql_delete_config q t =
     (Ok (matching (\<lambda>r. cr_name r = q) (t_configs t)), t\<lparr>t_configs := del_rows (\<lambda>r. cr_name r = q) (t_configs t)\<rparr>)"

definition sql_insert_metric :: "metric_row \<Rightarrow> stmt" where
  "sql_insert_metric r t =
     guarded (value_error [(255, mr_queue_name r), (255, mr_job_type r)] [])
       (\<lambda>t. (Ok 1, t\<lparr>t_metrics := t_metrics t @ [r]\<rparr>)) t"

definition effect :: "stmt \<Rightarrow> tables \<Rightarrow> tables" where
  "effect st t = (case st t of (Ok n, t') \<Rightarrow> t' | _ \<Rightarrow> t)"

section \<open>Queries\<close>

text \<open>
  The rows that \<open>FROM\<close> and \<open>WHERE\<close> give, which of two rows may come first, and the limits. Rows that the order
  does not tell apart come in any order.
\<close>

record 'r select =
  sl_from :: "tables \<Rightarrow> 'r list"
  sl_before :: "'r \<Rightarrow> 'r \<Rightarrow> bool"
  sl_limit :: "int option"
  sl_offset :: int

definition select_valid :: "'r select \<Rightarrow> bool" where
  "select_valid q \<longleftrightarrow> 0 \<le> sl_offset q \<and> (case sl_limit q of None \<Rightarrow> True | Some n \<Rightarrow> 0 \<le> n)"

text \<open>\<open>ORDER BY\<close> compares keys, so any two rows are comparable.\<close>

definition order_keys :: "'r select \<Rightarrow> bool" where
  "order_keys q \<longleftrightarrow> transp (sl_before q) \<and> (\<forall>r r'. sl_before q r r' \<or> sl_before q r' r)"

definition answers :: "'r select \<Rightarrow> tables \<Rightarrow> 'r list \<Rightarrow> bool" where
  "answers q t rows \<longleftrightarrow>
     (\<exists>ys. mset ys = mset (sl_from q t) \<and> sorted_wrt (sl_before q) ys \<and>
        rows = (let zs = drop (nat (sl_offset q)) ys
                in case sl_limit q of None \<Rightarrow> zs | Some n \<Rightarrow> take (nat n) zs))"

section \<open>The driver\<close>

text \<open>
  \<open>Exec\<close> gives the rows affected, whose reading may fail on its own. A query gives the rows that it delivers,
  and the error that ended them, if any. \<open>pg_Value\<close> runs a query for one number.
\<close>

record 'p driver =
  pg_Exec :: "stmt \<Rightarrow> 'p \<Rightarrow> int res res \<times> 'p"
  pg_Jobs :: "job_row select \<Rightarrow> 'p \<Rightarrow> (job_row list \<times> err option) res"
  pg_Entries :: "queue_row select \<Rightarrow> 'p \<Rightarrow> (queue_row list \<times> err option) res"
  pg_Workers :: "worker_row select \<Rightarrow> 'p \<Rightarrow> (worker_row list \<times> err option) res"
  pg_Configs :: "config_row select \<Rightarrow> 'p \<Rightarrow> (config_row list \<times> err option) res"
  pg_Value :: "(tables \<Rightarrow> int) \<Rightarrow> 'p \<Rightarrow> int res"
  pg_Begin :: "'p \<Rightarrow> unit res \<times> 'p"
  pg_Commit :: "'p \<Rightarrow> unit res \<times> 'p"
  pg_Rollback :: "'p \<Rightarrow> 'p"

text \<open>
  \<open>ok\<close>: the server can be reached and no other session writes. \<open>saved\<close> is what a rollback goes back to.
\<close>

locale postgres =
  fixes D :: "'p driver" and db :: "'p \<Rightarrow> tables" and saved :: "'p \<Rightarrow> tables option" and ok :: "'p \<Rightarrow> bool"
  assumes Exec: "ok s \<Longrightarrow> \<exists>s'. pg_Exec D st s = (map_res Ok (fst (st (db s))), s') \<and> ok s' \<and>
      saved s' = saved s \<and> db s' = effect st (db s)"
    and Jobs: "ok s \<Longrightarrow> select_valid jq \<Longrightarrow> order_keys jq \<Longrightarrow> \<exists>rows. pg_Jobs D jq s = Ok (rows, None) \<and> answers jq (db s) rows"
    and Entries: "ok s \<Longrightarrow> select_valid eq \<Longrightarrow> order_keys eq \<Longrightarrow>
      \<exists>rows. pg_Entries D eq s = Ok (rows, None) \<and> answers eq (db s) rows"
    and Workers: "ok s \<Longrightarrow> select_valid wq \<Longrightarrow> order_keys wq \<Longrightarrow>
      \<exists>rows. pg_Workers D wq s = Ok (rows, None) \<and> answers wq (db s) rows"
    and Configs: "ok s \<Longrightarrow> select_valid cq \<Longrightarrow> order_keys cq \<Longrightarrow>
      \<exists>rows. pg_Configs D cq s = Ok (rows, None) \<and> answers cq (db s) rows"
    and invalid: "ok s \<Longrightarrow> \<not> select_valid jq \<Longrightarrow> \<exists>e. pg_Jobs D jq s = Err e"
      "ok s \<Longrightarrow> \<not> select_valid eq \<Longrightarrow> \<exists>e. pg_Entries D eq s = Err e"
    and Value: "ok s \<Longrightarrow> pg_Value D f s = Ok (f (db s))"
    and Begin: "ok s \<Longrightarrow> \<exists>s'. pg_Begin D s = (Ok (), s') \<and> ok s' \<and> db s' = db s \<and> saved s' = Some (db s)"
    and Commit: "ok s \<Longrightarrow> \<exists>s'. pg_Commit D s = (Ok (), s') \<and> ok s' \<and> db s' = db s \<and> saved s' = None"
    and Rollback: "ok s \<Longrightarrow> ok (pg_Rollback D s) \<and> saved (pg_Rollback D s) = None \<and>
      db (pg_Rollback D s) = (case saved s of None \<Rightarrow> db s | Some t \<Rightarrow> t)"

end
