(* ===== verification/PostgresStore.thy ===== *)
theory PostgresStore
  imports Postgres
begin

text \<open>
  Jobs and queues of the postgres backend, \<^verbatim>\<open>internal/storage/postgres/postgres.go\<close> and
  \<^verbatim>\<open>utils.go\<close>. Every method takes the driver \<open>D\<close> and the state \<open>s\<close> behind it. Encoding of JSON,
  the text that the server gives back for a JSONB value, and the precision of its timestamps are the
  parameter \<open>cd\<close>. \<open>Job.ScheduledAt\<close> is the pointer that \<^verbatim>\<open>job.go\<close> declares: nil is sent as NULL. Workers and
  configurations have metadata here that their structs do not declare: they are encoded, and decoding may fail, but
  the records have no field for them.
\<close>

section \<open>Encoding\<close>

record pg_codec =
  pc_map :: "jmap \<Rightarrow> string res"
  pc_unmap :: "string \<Rightarrow> jmap res"
  pc_result :: "string \<Rightarrow> string res"
  pc_unresult :: "string \<Rightarrow> string res"
  pc_queues :: "string list \<Rightarrow> string res"
  pc_unqueues :: "string \<Rightarrow> string list res"
  pc_tags :: "(string \<rightharpoonup> string) \<Rightarrow> string res"
  pc_untags :: "string \<Rightarrow> (string \<rightharpoonup> string) res"
  pc_worker_meta :: "worker \<Rightarrow> string res"
  pc_config_meta :: "QueueConfig \<Rightarrow> string res"
  pc_check_meta :: "string \<Rightarrow> unit res"
  pc_jsonb :: "string \<Rightarrow> string res"
  pc_stamp :: "time \<Rightarrow> time"

text \<open>A text for a JSONB column: the statement fails if it is not JSON.\<close>

definition jsonb_error :: "pg_codec \<Rightarrow> string list \<Rightarrow> err option" where
  "jsonb_error cd texts =
     (case List.map_filter (\<lambda>x. case pc_jsonb cd x of Err e \<Rightarrow> Some e | _ \<Rightarrow> None) texts of
        [] \<Rightarrow> None | e # _ \<Rightarrow> Some e)"

definition jsonb_text :: "pg_codec \<Rightarrow> string \<Rightarrow> string" where
  "jsonb_text cd x = (case pc_jsonb cd x of Ok y \<Rightarrow> y | _ \<Rightarrow> x)"

section \<open>Running statements\<close>

definition contains_text :: "string \<Rightarrow> string \<Rightarrow> bool" where
  "contains_text s sub = list_ex (\<lambda>i. take (length sub) (drop i s) = sub) [0..<Suc (length s)]"

definition isDuplicateKeyError :: "err option \<Rightarrow> bool" where
  "isDuplicateKeyError e =
     (case e of None \<Rightarrow> False
      | Some e \<Rightarrow> contains_text (Error e) ''duplicate key'' \<or> contains_text (Error e) ''UNIQUE constraint'')"

definition isForeignKeyError :: "err option \<Rightarrow> bool" where
  "isForeignKeyError e =
     (case e of None \<Rightarrow> False
      | Some e \<Rightarrow> contains_text (Error e) ''foreign key'' \<or>
          contains_text (Error e) ''violates foreign key constraint'')"

text \<open>\<open>Exec\<close> and the check of the rows affected, which ends most methods that write.\<close>

definition exec_rows :: "'p driver \<Rightarrow> string \<Rightarrow> err \<Rightarrow> stmt \<Rightarrow> 'p \<Rightarrow> unit res \<times> 'p" where
  "exec_rows D msg missing st s =
     then_ok (wrapped msg (pg_Exec D st s)) (\<lambda>rows s.
       with_ok (wrap_err ''failed to get rows affected'' rows) s (\<lambda>rows.
         if rows = 0 then (Err missing, s) else (Ok (), s)))"

definition exec_only :: "'p driver \<Rightarrow> string \<Rightarrow> stmt \<Rightarrow> 'p \<Rightarrow> unit res \<times> 'p" where
  "exec_only D msg st s = discard (wrapped msg (pg_Exec D st s))"

text \<open>\<open>QueryRow(\<dots>).Scan\<close> and the loop over \<open>rows.Next()\<close>, which stops at the first row it cannot decode.\<close>

definition query_row :: "string \<Rightarrow> err \<Rightarrow> ('r \<Rightarrow> 'a res) \<Rightarrow> ('r list \<times> err option) res \<Rightarrow> 'a res" where
  "query_row msg missing dec r =
     read_ok (wrap_err msg r) (\<lambda>(rows, e).
       case rows of
         row # _ \<Rightarrow> dec row
       | [] \<Rightarrow> (case e of None \<Rightarrow> Err missing | Some e \<Rightarrow> Err (Errorf msg (Some e))))"

fun decode_rows :: "('r \<Rightarrow> 'a res) \<Rightarrow> 'r list \<Rightarrow> 'a list res" where
  "decode_rows dec [] = Ok []"
| "decode_rows dec (r # rs) = read_ok (dec r) (\<lambda>x. map_res ((#) x) (decode_rows dec rs))"

definition query_rows :: "string \<Rightarrow> ('r \<Rightarrow> 'a res) \<Rightarrow> ('r list \<times> err option) res \<Rightarrow> 'a list res" where
  "query_rows msg dec r =
     read_ok (wrap_err msg r) (\<lambda>(rows, e).
       read_ok (decode_rows dec rows) (\<lambda>xs.
         case e of None \<Rightarrow> Ok xs | Some e \<Rightarrow> Err (Errorf ''failed during row iteration'' (Some e))))"

section \<open>Opening\<close>

text \<open>Given how opening, the ping and the creation of the tables end. Pool settings are left out.\<close>

definition NewPostgresStore :: "'p driver res \<Rightarrow> unit res \<Rightarrow> unit res \<Rightarrow> 'p driver res" where
  "NewPostgresStore opened ping schema =
     read_ok (wrap_err ''failed to open database'' opened) (\<lambda>D.
       read_ok (wrap_err ''failed to ping database'' ping) (\<lambda>_.
         read_ok (wrap_err ''failed to initialize schema'' schema) (\<lambda>_. Ok D)))"

section \<open>Jobs\<close>

definition pg_CreateJob :: "pg_codec \<Rightarrow> 'p driver \<Rightarrow> job \<Rightarrow> 'p \<Rightarrow> unit res \<times> 'p" where
  "pg_CreateJob cd D j s =
     with_ok (wrap_err ''failed to marshal payload'' (pc_map cd (j_Payload j))) s (\<lambda>payload.
     with_ok (wrap_err ''failed to marshal metadata'' (pc_map cd (j_Metadata j))) s (\<lambda>metadata.
       let row = \<lparr>jr_id = j_ID j, jr_type = j_Type j, jr_queue = j_Queue j, jr_payload = jsonb_text cd payload,
             jr_result = None, jr_error = None, jr_status = j_Status j, jr_priority = j_Priority j,
             jr_retry_count = j_RetryCount j, jr_max_retries = j_MaxRetries j,
             jr_timeout_seconds = j_TimeoutSeconds j, jr_progress = j_Progress j,
             jr_metadata = Some (jsonb_text cd metadata), jr_created_at = pc_stamp cd (j_CreatedAt j),
             jr_updated_at = pc_stamp cd (j_UpdatedAt j), jr_started_at = None, jr_completed_at = None,
             jr_scheduled_at = map_option (pc_stamp cd) (j_ScheduledAt j)\<rparr>
       in case pg_Exec D (guarded (jsonb_error cd [payload, metadata]) (sql_insert_job row)) s of
            (Err e, s) \<Rightarrow> (Err (if isDuplicateKeyError (Some e) then ErrJobAlreadyExists
               else Errorf ''failed to create job'' (Some e)), s)
          | (Panic p, s) \<Rightarrow> (Panic p, s)
          | (Ok _, s) \<Rightarrow> (Ok (), s)))"

text \<open>Fields without a column keep their zero values.\<close>

definition job_of_row :: "pg_codec \<Rightarrow> job_row \<Rightarrow> job res" where
  "job_of_row cd r =
     read_ok (wrap_err ''failed to unmarshal payload'' (pc_unmap cd (jr_payload r))) (\<lambda>payload.
     read_ok (wrap_err ''failed to unmarshal metadata'' (pc_unmap cd (case jr_metadata r of None \<Rightarrow> '''' | Some m \<Rightarrow> m))) (\<lambda>metadata.
     read_ok (case jr_result r of None \<Rightarrow> Ok None
       | Some x \<Rightarrow> map_res Some (wrap_err ''failed to unmarshal result'' (pc_unresult cd x))) (\<lambda>result.
       Ok \<lparr>j_ID = jr_id r, j_Type = jr_type r, j_Payload = payload, j_Priority = jr_priority r,
          j_Status = jr_status r, j_MaxRetries = jr_max_retries r, j_CurrentRetry = jr_retry_count r,
          j_Timeout = 0, j_ScheduledAt = jr_scheduled_at r, j_CreatedAt = jr_created_at r,
          j_StartedAt = jr_started_at r, j_CompletedAt = jr_completed_at r,
          j_Error = (case jr_error r of None \<Rightarrow> '''' | Some e \<Rightarrow> e), j_Result = result, j_Metadata = metadata,
          j_Queue = jr_queue r, j_Progress = jr_progress r, j_WorkerID = '''', j_UpdatedAt = jr_updated_at r,
          j_TimeoutSeconds = jr_timeout_seconds r\<rparr>)))"

definition job_by_id :: "string \<Rightarrow> job_row select" where
  "job_by_id i = \<lparr>sl_from = (\<lambda>t. filter (\<lambda>r. jr_id r = i) (t_jobs t)), sl_before = (\<lambda>_ _. True),
     sl_limit = None, sl_offset = 0\<rparr>"

definition pg_GetJob :: "pg_codec \<Rightarrow> 'p driver \<Rightarrow> string \<Rightarrow> 'p \<Rightarrow> job res" where
  "pg_GetJob cd D i s =
     query_row ''failed to get job'' ErrJobNotFound (job_of_row cd) (pg_Jobs D (job_by_id i) s)"

definition pg_UpdateJob :: "pg_codec \<Rightarrow> 'p driver \<Rightarrow> job \<Rightarrow> 'p \<Rightarrow> unit res \<times> 'p" where
  "pg_UpdateJob cd D j s =
     with_ok (wrap_err ''failed to marshal payload'' (pc_map cd (j_Payload j))) s (\<lambda>payload.
     with_ok (wrap_err ''failed to marshal metadata'' (pc_map cd (j_Metadata j))) s (\<lambda>metadata.
     with_ok (case j_Result j of None \<Rightarrow> Ok None
       | Some x \<Rightarrow> map_res Some (wrap_err ''failed to marshal result'' (pc_result cd x))) s (\<lambda>result.
       exec_rows D ''failed to update job'' ErrJobNotFound
         (guarded (jsonb_error cd (payload # metadata # (case result of None \<Rightarrow> [] | Some x \<Rightarrow> [x])))
           (sql_update_job (j_ID j) (\<lambda>r. r\<lparr>jr_type := j_Type j, jr_queue := j_Queue j,
              jr_payload := jsonb_text cd payload, jr_result := map_option (jsonb_text cd) result,
              jr_error := Some (j_Error j), jr_status := j_Status j, jr_priority := j_Priority j,
              jr_retry_count := j_RetryCount j, jr_max_retries := j_MaxRetries j,
              jr_timeout_seconds := j_TimeoutSeconds j, jr_progress := j_Progress j,
              jr_metadata := Some (jsonb_text cd metadata), jr_updated_at := pc_stamp cd (j_UpdatedAt j),
              jr_started_at := map_option (pc_stamp cd) (j_StartedAt j),
              jr_completed_at := map_option (pc_stamp cd) (j_CompletedAt j),
              jr_scheduled_at := map_option (pc_stamp cd) (j_ScheduledAt j)\<rparr>))) s)))"

definition pg_DeleteJob :: "'p driver \<Rightarrow> string \<Rightarrow> 'p \<Rightarrow> unit res \<times> 'p" where
  "pg_DeleteJob D i s = exec_rows D ''failed to delete job'' ErrJobNotFound (sql_delete_job i) s"

definition jobs_where :: "string \<Rightarrow> Status \<Rightarrow> int \<Rightarrow> int \<Rightarrow> job_row select" where
  "jobs_where q st limit offset =
     \<lparr>sl_from = (\<lambda>t. filter (\<lambda>r. (q = '''' \<or> jr_queue r = q) \<and> (st = '''' \<or> jr_status r = st)) (t_jobs t)),
      sl_before = (\<lambda>r r'. jr_created_at r \<ge> jr_created_at r'), sl_limit = Some limit, sl_offset = offset\<rparr>"

definition pg_ListJobs ::
  "pg_codec \<Rightarrow> 'p driver \<Rightarrow> string \<Rightarrow> Status \<Rightarrow> int \<Rightarrow> int \<Rightarrow> 'p \<Rightarrow> job list res" where
  "pg_ListJobs cd D q st limit offset s =
     query_rows ''failed to list jobs'' (job_of_row cd) (pg_Jobs D (jobs_where q st limit offset) s)"

text \<open>The statement compares the status with lower-case literals.\<close>

definition status_update :: "Status \<Rightarrow> time \<Rightarrow> job_row \<Rightarrow> job_row" where
  "status_update st now r =
     r\<lparr>jr_status := st, jr_updated_at := now,
       jr_started_at := (if st = ''running'' \<and> jr_started_at r = None then Some now else jr_started_at r),
       jr_completed_at := (if st \<in> {''success'', ''failed'', ''cancelled'', ''expired''} \<and> jr_completed_at r = None
         then Some now else jr_completed_at r)\<rparr>"

definition pg_UpdateStatus :: "pg_codec \<Rightarrow> 'p driver \<Rightarrow> clock \<Rightarrow> string \<Rightarrow> Status \<Rightarrow> 'p \<Rightarrow> unit res \<times> 'p" where
  "pg_UpdateStatus cd D clk i st s =
     exec_rows D ''failed to update status'' ErrJobNotFound
       (sql_update_job i (status_update st (pc_stamp cd (clk 0)))) s"

definition pg_UpdateProgress :: "pg_codec \<Rightarrow> 'p driver \<Rightarrow> clock \<Rightarrow> string \<Rightarrow> int \<Rightarrow> 'p \<Rightarrow> unit res \<times> 'p" where
  "pg_UpdateProgress cd D clk i progress s =
     exec_rows D ''failed to update progress'' ErrJobNotFound
       (sql_update_job i (\<lambda>r. r\<lparr>jr_progress := progress, jr_updated_at := pc_stamp cd (clk 0)\<rparr>)) s"

text \<open>The bytes of the result go into the statement as they are; a nil slice is NULL.\<close>

definition pg_SetResult :: "pg_codec \<Rightarrow> 'p driver \<Rightarrow> clock \<Rightarrow> string \<Rightarrow> bytes \<Rightarrow> 'p \<Rightarrow> unit res \<times> 'p" where
  "pg_SetResult cd D clk i result s =
     exec_rows D ''failed to set result'' ErrJobNotFound
       (guarded (jsonb_error cd (case result of None \<Rightarrow> [] | Some x \<Rightarrow> [x]))
         (sql_update_job i (\<lambda>r. r\<lparr>jr_result := map_option (jsonb_text cd) result,
            jr_updated_at := pc_stamp cd (clk 0)\<rparr>))) s"

definition pg_SetError :: "pg_codec \<Rightarrow> 'p driver \<Rightarrow> clock \<Rightarrow> string \<Rightarrow> string \<Rightarrow> 'p \<Rightarrow> unit res \<times> 'p" where
  "pg_SetError cd D clk i errMsg s =
     exec_rows D ''failed to set error'' ErrJobNotFound
       (sql_update_job i (\<lambda>r. r\<lparr>jr_error := Some errMsg, jr_updated_at := pc_stamp cd (clk 0)\<rparr>)) s"

section \<open>Queues\<close>

definition pg_Enqueue ::
  "pg_codec \<Rightarrow> 'p driver \<Rightarrow> clock \<Rightarrow> string \<Rightarrow> string \<Rightarrow> Priority \<Rightarrow> duration \<Rightarrow> 'p \<Rightarrow> unit res \<times> 'p" where
  "pg_Enqueue cd D clk q i priority delay s =
     (case pg_Exec D (sql_upsert_entry \<lparr>er_queue_name = q, er_job_id = i, er_priority = priority,
          er_scheduled_for = pc_stamp cd (clk 0 + delay)\<rparr>) s of
        (Err e, s) \<Rightarrow> (Err (if isForeignKeyError (Some e) then ErrJobNotFound
           else Errorf ''failed to enqueue job'' (Some e)), s)
      | (Panic p, s) \<Rightarrow> (Panic p, s)
      | (Ok _, s) \<Rightarrow> (Ok (), s))"

definition pg_IsQueuePaused :: "'p driver \<Rightarrow> string \<Rightarrow> 'p \<Rightarrow> bool res" where
  "pg_IsQueuePaused D q s =
     map_res (\<lambda>n. n \<noteq> 0) (wrap_err ''failed to check if queue is paused''
       (pg_Value D (\<lambda>t. if q \<in> set (t_paused t) then 1 else 0) s))"

definition entry_before :: "queue_row \<Rightarrow> queue_row \<Rightarrow> bool" where
  "entry_before e e' \<longleftrightarrow> er_priority e > er_priority e' \<or>
     er_priority e = er_priority e' \<and> er_scheduled_for e \<le> er_scheduled_for e'"

definition ready_entry :: "string \<Rightarrow> time \<Rightarrow> queue_row select" where
  "ready_entry q now =
     \<lparr>sl_from = (\<lambda>t. filter (\<lambda>e. er_queue_name e = q \<and> er_scheduled_for e \<le> now) (t_queues t)),
      sl_before = entry_before, sl_limit = Some 1, sl_offset = 0\<rparr>"

text \<open>The deferred rollback runs on every way out, also after the commit, when it does nothing.\<close>

definition pg_Dequeue :: "pg_codec \<Rightarrow> 'p driver \<Rightarrow> clock \<Rightarrow> string \<Rightarrow> 'p \<Rightarrow> string res \<times> 'p" where
  "pg_Dequeue cd D clk q s =
     with_ok (pg_IsQueuePaused D q s) s (\<lambda>paused.
       if paused then (Err ErrQueuePaused, s)
       else then_ok (wrapped ''failed to begin transaction'' (pg_Begin D s)) (\<lambda>_ s.
         case with_ok (query_row ''failed to dequeue job'' ErrQueueEmpty (\<lambda>e. Ok (er_job_id e))
                (pg_Entries D (ready_entry q (pc_stamp cd (clk 0))) s)) s (\<lambda>jobID.
              then_ok (wrapped ''failed to remove from queue'' (pg_Exec D (sql_delete_entry q jobID) s)) (\<lambda>_ s.
              then_ok (wrapped ''failed to commit transaction'' (pg_Commit D s)) (\<lambda>_ s. (Ok jobID, s))))
         of (r, s) \<Rightarrow> (r, pg_Rollback D s)))"

definition pg_Requeue ::
  "pg_codec \<Rightarrow> 'p driver \<Rightarrow> clock \<Rightarrow> string \<Rightarrow> string \<Rightarrow> Priority \<Rightarrow> duration \<Rightarrow> 'p \<Rightarrow> unit res \<times> 'p" where
  "pg_Requeue cd D clk q i priority delay s = pg_Enqueue cd D clk q i priority delay s"

definition pg_Remove :: "'p driver \<Rightarrow> string \<Rightarrow> string \<Rightarrow> 'p \<Rightarrow> unit res \<times> 'p" where
  "pg_Remove D q i s = exec_rows D ''failed to remove from queue'' ErrJobNotFound (sql_delete_entry q i) s"

definition pg_Length :: "'p driver \<Rightarrow> string \<Rightarrow> 'p \<Rightarrow> int res" where
  "pg_Length D q s =
     wrap_err ''failed to get queue length''
       (pg_Value D (\<lambda>t. matching (\<lambda>e. er_queue_name e = q) (t_queues t)) s)"

definition first_entries :: "string \<Rightarrow> int \<Rightarrow> queue_row select" where
  "first_entries q n =
     \<lparr>sl_from = (\<lambda>t. filter (\<lambda>e. er_queue_name e = q) (t_queues t)), sl_before = entry_before,
      sl_limit = Some n, sl_offset = 0\<rparr>"

definition pg_Peek :: "'p driver \<Rightarrow> string \<Rightarrow> int \<Rightarrow> 'p \<Rightarrow> string list res" where
  "pg_Peek D q n s =
     query_rows ''failed to peek queue'' (\<lambda>e. Ok (er_job_id e)) (pg_Entries D (first_entries q n) s)"

definition scheduled_entries :: "string \<Rightarrow> time \<Rightarrow> queue_row select" where
  "scheduled_entries q until =
     \<lparr>sl_from = (\<lambda>t. filter (\<lambda>e. er_queue_name e = q \<and> er_scheduled_for e \<le> until) (t_queues t)),
      sl_before = (\<lambda>e e'. er_scheduled_for e \<le> er_scheduled_for e'), sl_limit = None, sl_offset = 0\<rparr>"

definition pg_GetScheduled :: "pg_codec \<Rightarrow> 'p driver \<Rightarrow> string \<Rightarrow> time \<Rightarrow> 'p \<Rightarrow> string list res" where
  "pg_GetScheduled cd D q until s =
     query_rows ''failed to get scheduled jobs'' (\<lambda>e. Ok (er_job_id e))
       (pg_Entries D (scheduled_entries q (pc_stamp cd until)) s)"

definition pg_PauseQueue :: "'p driver \<Rightarrow> string \<Rightarrow> 'p \<Rightarrow> unit res \<times> 'p" where
  "pg_PauseQueue D q s = exec_only D ''failed to pause queue'' (sql_pause q) s"

definition pg_ResumeQueue :: "'p driver \<Rightarrow> string \<Rightarrow> 'p \<Rightarrow> unit res \<times> 'p" where
  "pg_ResumeQueue D q s = exec_only D ''failed to resume queue'' (sql_resume q) s"

end
