(* ===== verification/PostgresWorkers.thy ===== *)
theory PostgresWorkers
  imports PostgresStore
begin

text \<open>
  Workers, statistics and configurations of the postgres backend: \<^verbatim>\<open>worker.go\<close>,
  \<^verbatim>\<open>metrics.go\<close> and \<^verbatim>\<open>config.go\<close> of \<^verbatim>\<open>internal/storage/postgres\<close>; and the backend as
  a value of the storage interface.
\<close>

section \<open>Workers\<close>

definition pg_RegisterWorker :: "pg_codec \<Rightarrow> 'p driver \<Rightarrow> worker \<Rightarrow> 'p \<Rightarrow> unit res \<times> 'p" where
  "pg_RegisterWorker cd D w s =
     with_ok (wrap_err ''failed to marshal queues'' (pc_queues cd (w_Queues w))) s (\<lambda>queues.
     with_ok (wrap_err ''failed to marshal tags'' (pc_tags cd (w_Tags w))) s (\<lambda>tags.
     with_ok (wrap_err ''failed to marshal metadata'' (pc_worker_meta cd w)) s (\<lambda>metadata.
       exec_only D ''failed to register worker''
         (guarded (jsonb_error cd [queues, tags, metadata]) (sql_upsert_worker
           \<lparr>wr_id = w_ID w, wr_hostname = w_Hostname w, wr_version = w_Version w, wr_status = w_Status w,
            wr_queues = jsonb_text cd queues, wr_tags = jsonb_text cd tags, wr_concurrency = w_Concurrency w,
            wr_current_job_id = None, wr_processed_count = w_ProcessedCount w, wr_failed_count = w_FailedCount w,
            wr_started_at = map_option (pc_stamp cd) (w_StartedAt w),
            wr_last_heartbeat = map_option (pc_stamp cd) (w_LastHeartbeat w),
            wr_metadata = jsonb_text cd metadata\<rparr>)) s)))"

definition pg_UnregisterWorker :: "'p driver \<Rightarrow> string \<Rightarrow> 'p \<Rightarrow> unit res \<times> 'p" where
  "pg_UnregisterWorker D i s = exec_rows D ''failed to unregister worker'' ErrWorkerNotFound (sql_delete_worker i) s"

definition worker_of_row :: "pg_codec \<Rightarrow> worker_row \<Rightarrow> worker res" where
  "worker_of_row cd r =
     read_ok (wrap_err ''failed to unmarshal queues'' (pc_unqueues cd (wr_queues r))) (\<lambda>queues.
     read_ok (wrap_err ''failed to unmarshal tags'' (pc_untags cd (wr_tags r))) (\<lambda>tags.
     read_ok (wrap_err ''failed to unmarshal metadata'' (pc_check_meta cd (wr_metadata r))) (\<lambda>_.
       Ok \<lparr>w_ID = wr_id r, w_Hostname = wr_hostname r, w_StartedAt = wr_started_at r,
          w_LastHeartbeat = wr_last_heartbeat r, w_CurrentJobID = wr_current_job_id r,
          w_ProcessedCount = wr_processed_count r, w_FailedCount = wr_failed_count r, w_Status = wr_status r,
          w_Queues = queues, w_Concurrency = wr_concurrency r, w_Tags = tags, w_Version = wr_version r\<rparr>)))"

definition worker_by_id :: "string \<Rightarrow> worker_row select" where
  "worker_by_id i = \<lparr>sl_from = (\<lambda>t. filter (\<lambda>r. wr_id r = i) (t_workers t)), sl_before = (\<lambda>_ _. True),
     sl_limit = None, sl_offset = 0\<rparr>"

definition pg_GetWorker :: "pg_codec \<Rightarrow> 'p driver \<Rightarrow> string \<Rightarrow> 'p \<Rightarrow> worker res" where
  "pg_GetWorker cd D i s =
     query_row ''failed to get worker'' ErrWorkerNotFound (worker_of_row cd) (pg_Workers D (worker_by_id i) s)"

text \<open>The order of two timestamps of a worker.\<close>

definition instant_le :: "time option \<Rightarrow> time option \<Rightarrow> bool" where
  "instant_le a b = (case a of None \<Rightarrow> True | Some x \<Rightarrow> (case b of None \<Rightarrow> False | Some y \<Rightarrow> x \<le> y))"

text \<open>\<open>queues @> $1\<close>: the JSON array of the row contains the queue.\<close>

definition serves_queue :: "pg_codec \<Rightarrow> string \<Rightarrow> worker_row \<Rightarrow> bool" where
  "serves_queue cd q r = (case pc_unqueues cd (wr_queues r) of Ok qs \<Rightarrow> q \<in> set qs | _ \<Rightarrow> False)"

definition workers_of :: "pg_codec \<Rightarrow> string \<Rightarrow> worker_row select" where
  "workers_of cd q =
     \<lparr>sl_from = (\<lambda>t. if q = '''' then t_workers t else filter (serves_queue cd q) (t_workers t)),
      sl_before = (\<lambda>r r'. instant_le (wr_started_at r') (wr_started_at r)), sl_limit = None, sl_offset = 0\<rparr>"

definition pg_ListWorkers :: "pg_codec \<Rightarrow> 'p driver \<Rightarrow> string \<Rightarrow> 'p \<Rightarrow> worker list res" where
  "pg_ListWorkers cd D q s =
     query_rows ''failed to list workers'' (worker_of_row cd) (pg_Workers D (workers_of cd q) s)"

definition pg_UpdateHeartbeat :: "pg_codec \<Rightarrow> 'p driver \<Rightarrow> clock \<Rightarrow> string \<Rightarrow> 'p \<Rightarrow> unit res \<times> 'p" where
  "pg_UpdateHeartbeat cd D clk i s =
     exec_rows D ''failed to update heartbeat'' ErrWorkerNotFound
       (sql_update_worker i worker_row_error (\<lambda>r. r\<lparr>wr_last_heartbeat := Some (pc_stamp cd (clk 0))\<rparr>)) s"

definition pg_UpdateWorkerStatus :: "'p driver \<Rightarrow> string \<Rightarrow> WorkerStatus \<Rightarrow> 'p \<Rightarrow> unit res \<times> 'p" where
  "pg_UpdateWorkerStatus D i st s =
     exec_rows D ''failed to update worker status'' ErrWorkerNotFound
       (sql_update_worker i worker_row_error (\<lambda>r. r\<lparr>wr_status := st\<rparr>)) s"

definition pg_SetCurrentJob :: "'p driver \<Rightarrow> string \<Rightarrow> string \<Rightarrow> 'p \<Rightarrow> unit res \<times> 'p" where
  "pg_SetCurrentJob D workerID jobID s =
     exec_rows D ''failed to set current job'' ErrWorkerNotFound
       (sql_update_worker workerID
         (\<lambda>r. value_error [(255, case wr_current_job_id r of None \<Rightarrow> '''' | Some j \<Rightarrow> j)] [])
         (\<lambda>r. r\<lparr>wr_current_job_id := (if jobID = '''' then None else Some jobID)\<rparr>)) s"

text \<open>A count at the end of \<open>BIGINT\<close> cannot be incremented.\<close>

definition bigint_error :: "int \<Rightarrow> err option" where
  "bigint_error n = (if int64 n then None else Some (Errorf ''pq: bigint out of range'' None))"

definition pg_IncrementProcessed :: "'p driver \<Rightarrow> string \<Rightarrow> 'p \<Rightarrow> unit res \<times> 'p" where
  "pg_IncrementProcessed D i s =
     exec_rows D ''failed to increment processed count'' ErrWorkerNotFound
       (sql_update_worker i (\<lambda>r. bigint_error (wr_processed_count r))
         (\<lambda>r. r\<lparr>wr_processed_count := wr_processed_count r + 1\<rparr>)) s"

definition pg_IncrementFailed :: "'p driver \<Rightarrow> string \<Rightarrow> 'p \<Rightarrow> unit res \<times> 'p" where
  "pg_IncrementFailed D i s =
     exec_rows D ''failed to increment failed count'' ErrWorkerNotFound
       (sql_update_worker i (\<lambda>r. bigint_error (wr_failed_count r))
         (\<lambda>r. r\<lparr>wr_failed_count := wr_failed_count r + 1\<rparr>)) s"

definition stale_workers :: "time \<Rightarrow> worker_row select" where
  "stale_workers cutoff =
     \<lparr>sl_from = (\<lambda>t. filter (\<lambda>r. \<not> instant_le (Some cutoff) (wr_last_heartbeat r)) (t_workers t)),
      sl_before = (\<lambda>r r'. instant_le (wr_last_heartbeat r) (wr_last_heartbeat r')), sl_limit = None, sl_offset = 0\<rparr>"

definition pg_GetStaleWorkers :: "pg_codec \<Rightarrow> 'p driver \<Rightarrow> clock \<Rightarrow> duration \<Rightarrow> 'p \<Rightarrow> worker list res" where
  "pg_GetStaleWorkers cd D clk threshold s =
     (let cutoff = clk 0 + wrap64 (- threshold) in
      query_rows ''failed to get stale workers'' (worker_of_row cd)
        (pg_Workers D (stale_workers (pc_stamp cd cutoff)) s))"

section \<open>Statistics\<close>

definition pg_RecordJobCreated :: "'p driver \<Rightarrow> string \<Rightarrow> string \<Rightarrow> 'p \<Rightarrow> unit res \<times> 'p" where
  "pg_RecordJobCreated D q t s =
     exec_only D ''failed to record job created'' (sql_insert_metric
       \<lparr>mr_queue_name = q, mr_job_type = t, mr_event_type = ''created'', mr_duration_ms = None\<rparr>) s"

definition pg_RecordJobCompleted :: "'p driver \<Rightarrow> string \<Rightarrow> string \<Rightarrow> duration \<Rightarrow> 'p \<Rightarrow> unit res \<times> 'p" where
  "pg_RecordJobCompleted D q t dur s =
     exec_only D ''failed to record job completed'' (sql_insert_metric
       \<lparr>mr_queue_name = q, mr_job_type = t, mr_event_type = ''completed'',
        mr_duration_ms = Some (dur sdiv Millisecond)\<rparr>) s"

definition pg_RecordJobFailed :: "'p driver \<Rightarrow> string \<Rightarrow> string \<Rightarrow> 'p \<Rightarrow> unit res \<times> 'p" where
  "pg_RecordJobFailed D q t s =
     exec_only D ''failed to record job failed'' (sql_insert_metric
       \<lparr>mr_queue_name = q, mr_job_type = t, mr_event_type = ''failed'', mr_duration_ms = None\<rparr>) s"

definition pg_RecordJobRetried :: "'p driver \<Rightarrow> string \<Rightarrow> string \<Rightarrow> 'p \<Rightarrow> unit res \<times> 'p" where
  "pg_RecordJobRetried D q t s =
     exec_only D ''failed to record job retried'' (sql_insert_metric
       \<lparr>mr_queue_name = q, mr_job_type = t, mr_event_type = ''retried'', mr_duration_ms = None\<rparr>) s"

text \<open>\<open>COUNT(*) FILTER (WHERE status = \<dots>)\<close>, with the literals of the statement.\<close>

definition count_jobs :: "string \<Rightarrow> string \<Rightarrow> tables \<Rightarrow> int" where
  "count_jobs q literal t = matching (\<lambda>r. jr_queue r = q \<and> jr_status r = literal) (t_jobs t)"

text \<open>The four columns come in one row; they are read here one after the other from the same state.\<close>

definition pg_GetQueueStats :: "'p driver \<Rightarrow> string \<Rightarrow> 'p \<Rightarrow> QueueStats res" where
  "pg_GetQueueStats D q s =
     wrap_err ''failed to get queue stats''
       (read_ok (pg_Value D (count_jobs q ''pending'') s) (\<lambda>pending.
        read_ok (pg_Value D (count_jobs q ''running'') s) (\<lambda>running.
        read_ok (pg_Value D (count_jobs q ''success'') s) (\<lambda>success.
        read_ok (pg_Value D (count_jobs q ''failed'') s) (\<lambda>failed.
          Ok ((zero_QueueStats q)\<lparr>qs_PendingCount := pending, qs_RunningCount := running,
            qs_SuccessCount := success, qs_FailedCount := failed\<rparr>))))))"

text \<open>\<open>GROUP BY queue\<close>: one row for each queue that a job is in.\<close>

definition all_jobs :: "job_row select" where
  "all_jobs = \<lparr>sl_from = t_jobs, sl_before = (\<lambda>_ _. True), sl_limit = None, sl_offset = 0\<rparr>"

definition group_stats :: "job_row list \<Rightarrow> string \<rightharpoonup> QueueStats" where
  "group_stats rows q =
     (let c = (\<lambda>literal. matching (\<lambda>r. jr_queue r = q \<and> jr_status r = literal) rows) in
      if q \<in> jr_queue ` set rows
      then Some ((zero_QueueStats q)\<lparr>qs_PendingCount := c ''pending'', qs_RunningCount := c ''running'',
        qs_SuccessCount := c ''success'', qs_FailedCount := c ''failed''\<rparr>)
      else None)"

definition pg_GetQueueStatsAll :: "'p driver \<Rightarrow> 'p \<Rightarrow> (string \<rightharpoonup> QueueStats) res" where
  "pg_GetQueueStatsAll D s =
     map_res group_stats (query_rows ''failed to get all queue stats'' Ok (pg_Jobs D all_jobs s))"

text \<open>
  \<open>COUNT(*)\<close> and \<open>AVG(duration_ms)\<close> over the completed jobs of a type; the mean is read as a float and
  cut off to whole milliseconds. The sum is exact on the server.
\<close>

definition completed_durations :: "string \<Rightarrow> tables \<Rightarrow> int list" where
  "completed_durations t d =
     List.map_filter mr_duration_ms
       (filter (\<lambda>r. mr_job_type r = t \<and> mr_event_type r = ''completed'') (t_metrics d))"

definition truncate_float :: "real \<Rightarrow> int" where
  "truncate_float x = (if x < 0 then \<lceil>x\<rceil> else \<lfloor>x\<rfloor>)"

definition pg_GetJobTypeStats :: "rounding \<Rightarrow> 'p driver \<Rightarrow> string \<Rightarrow> 'p \<Rightarrow> (int \<times> duration) res" where
  "pg_GetJobTypeStats rnd D t s =
     wrap_err ''failed to get job type stats''
       (read_ok (pg_Value D (\<lambda>d. int (length (completed_durations t d))) s) (\<lambda>n.
        read_ok (pg_Value D (\<lambda>d. sum_list (completed_durations t d)) s) (\<lambda>total.
          let avgMs = (if n = 0 then 0 else rnd (of_int total / of_int n))
          in Ok (n, wrap64 (truncate_float avgMs * Millisecond)))))"

section \<open>Configurations\<close>

text \<open>The durations of a configuration go into the columns for seconds as they are.\<close>

definition config_to_row :: "string \<Rightarrow> QueueConfig \<Rightarrow> config_row" where
  "config_to_row metadata c =
     \<lparr>cr_name = qc_Name c, cr_max_workers = qc_MaxWorkers c, cr_max_retries = qc_MaxRetries c,
      cr_retry_strategy = qc_RetryStrategy c, cr_retry_delay_seconds = qc_RetryDelay c,
      cr_max_retry_delay_seconds = qc_MaxRetryDelay c, cr_timeout_seconds = qc_Timeout c,
      cr_priority = qc_Priority c, cr_weight = qc_Weight c, cr_rate_limit = qc_RateLimit c,
      cr_dead_letter_queue = Some (qc_DeadLetterQueue c),
      cr_metadata = metadata\<rparr>"

definition pg_SaveQueueConfig :: "pg_codec \<Rightarrow> 'p driver \<Rightarrow> QueueConfig \<Rightarrow> 'p \<Rightarrow> unit res \<times> 'p" where
  "pg_SaveQueueConfig cd D c s =
     with_ok (wrap_err ''failed to marshal metadata'' (pc_config_meta cd c)) s (\<lambda>metadata.
       exec_only D ''failed to save queue config''
         (guarded (jsonb_error cd [metadata]) (sql_upsert_config (config_to_row (jsonb_text cd metadata) c))) s)"

definition config_of_row :: "pg_codec \<Rightarrow> config_row \<Rightarrow> QueueConfig res" where
  "config_of_row cd r =
     read_ok (wrap_err ''failed to unmarshal metadata'' (pc_check_meta cd (cr_metadata r))) (\<lambda>_.
     Ok (zero_QueueConfig\<lparr>qc_Name := cr_name r, qc_MaxWorkers := cr_max_workers r, qc_MaxRetries := cr_max_retries r,
       qc_RetryStrategy := cr_retry_strategy r, qc_RetryDelay := cr_retry_delay_seconds r,
       qc_MaxRetryDelay := cr_max_retry_delay_seconds r, qc_Timeout := cr_timeout_seconds r,
       qc_Priority := cr_priority r, qc_Weight := cr_weight r, qc_RateLimit := cr_rate_limit r,
       qc_DeadLetterQueue := (case cr_dead_letter_queue r of None \<Rightarrow> '''' | Some d \<Rightarrow> d)\<rparr>))"

definition config_by_name :: "string \<Rightarrow> config_row select" where
  "config_by_name q = \<lparr>sl_from = (\<lambda>t. filter (\<lambda>r. cr_name r = q) (t_configs t)), sl_before = (\<lambda>_ _. True),
     sl_limit = None, sl_offset = 0\<rparr>"

definition pg_GetQueueConfig :: "pg_codec \<Rightarrow> 'p driver \<Rightarrow> string \<Rightarrow> 'p \<Rightarrow> QueueConfig res" where
  "pg_GetQueueConfig cd D q s =
     query_row ''failed to get queue config'' (Errorf (''queue config not found: '' @ q) None)
       (config_of_row cd) (pg_Configs D (config_by_name q) s)"

definition pg_DeleteQueueConfig :: "'p driver \<Rightarrow> string \<Rightarrow> 'p \<Rightarrow> unit res \<times> 'p" where
  "pg_DeleteQueueConfig D q s =
     exec_rows D ''failed to delete queue config'' (Errorf (''queue config not found: '' @ q) None)
       (sql_delete_config q) s"

text \<open>Names compare by their bytes, as in the C collation.\<close>

definition configs_by_name :: "config_row select" where
  "configs_by_name = \<lparr>sl_from = t_configs, sl_before = (\<lambda>r r'. cr_name r \<le> cr_name r'), sl_limit = None, sl_offset = 0\<rparr>"

definition pg_ListQueueConfigs :: "pg_codec \<Rightarrow> 'p driver \<Rightarrow> 'p \<Rightarrow> QueueConfig list res" where
  "pg_ListQueueConfigs cd D s =
     query_rows ''failed to list queue configs'' (config_of_row cd) (pg_Configs D configs_by_name s)"

section \<open>The storage interface\<close>

definition pgStorage :: "pg_codec \<Rightarrow> 'p driver \<Rightarrow> 'p Storage" where
  "pgStorage cd D =
     \<lparr>st_CreateJob = pg_CreateJob cd D, st_GetJob = pg_GetJob cd D, st_UpdateJob = pg_UpdateJob cd D,
      st_DeleteJob = pg_DeleteJob D, st_ListJobs = pg_ListJobs cd D, st_UpdateStatus = pg_UpdateStatus cd D,
      st_UpdateProgress = pg_UpdateProgress cd D, st_SetResult = pg_SetResult cd D, st_SetError = pg_SetError cd D,
      st_Enqueue = pg_Enqueue cd D, st_Dequeue = pg_Dequeue cd D, st_Requeue = pg_Requeue cd D,
      st_Remove = pg_Remove D, st_Length = pg_Length D, st_Peek = pg_Peek D,
      st_GetScheduled = pg_GetScheduled cd D, st_PauseQueue = pg_PauseQueue D, st_ResumeQueue = pg_ResumeQueue D,
      st_IsQueuePaused = pg_IsQueuePaused D, st_RegisterWorker = pg_RegisterWorker cd D,
      st_UnregisterWorker = pg_UnregisterWorker D, st_UpdateHeartbeat = pg_UpdateHeartbeat cd D,
      st_UpdateWorkerStatus = pg_UpdateWorkerStatus D, st_SetCurrentJob = pg_SetCurrentJob D,
      st_IncrementProcessed = pg_IncrementProcessed D, st_IncrementFailed = pg_IncrementFailed D,
      st_RecordJobCreated = pg_RecordJobCreated D, st_RecordJobCompleted = pg_RecordJobCompleted D,
      st_RecordJobFailed = pg_RecordJobFailed D, st_RecordJobRetried = pg_RecordJobRetried D,
      st_GetQueueStats = pg_GetQueueStats D, st_GetQueueStatsAll = pg_GetQueueStatsAll D,
      st_SaveQueueConfig = pg_SaveQueueConfig cd D, st_GetQueueConfig = pg_GetQueueConfig cd D,
      st_DeleteQueueConfig = pg_DeleteQueueConfig D, st_ListQueueConfigs = pg_ListQueueConfigs cd D\<rparr>"

end
