(* ===== verification/PostgresProofs.thy ===== *)
theory PostgresProofs
  imports PostgresWorkers
begin

text \<open>
  Lemmas on the postgres backend: the integrity of the tables and that every statement keeps it, what a query
  answers, and what the methods do to the tables, over the locale \<open>postgres\<close>. The last section is a
  database that is just its tables, and the proof that the locale holds of it.
\<close>

section \<open>Integrity\<close>

text \<open>Keys are unique, and every entry is of a stored job.\<close>

definition integrity :: "tables \<Rightarrow> bool" where
  "integrity t \<longleftrightarrow>
     distinct (map jr_id (t_jobs t)) \<and>
     distinct (map (\<lambda>e. (er_queue_name e, er_job_id e)) (t_queues t)) \<and>
     er_job_id ` set (t_queues t) \<subseteq> jr_id ` set (t_jobs t) \<and>
     distinct (map wr_id (t_workers t)) \<and> distinct (map cr_name (t_configs t)) \<and> distinct (t_paused t)"

lemma integrity_empty [simp]: "integrity empty_tables"
  by (simp add: integrity_def empty_tables_def)

lemma map_upd_rows: "(\<And>r. p r \<Longrightarrow> k (f r) = k r) \<Longrightarrow> map k (upd_rows p f rows) = map k rows"
  by (simp add: upd_rows_def)

lemma image_upd_rows: "(\<And>r. p r \<Longrightarrow> k (f r) = k r) \<Longrightarrow> k ` set (upd_rows p f rows) = k ` set rows"
  by (metis list.set_map map_upd_rows)

lemma distinct_del_rows: "distinct (map k rows) \<Longrightarrow> distinct (map k (del_rows p rows))"
  by (simp add: del_rows_def distinct_map_filter)

lemma set_del_rows: "set (del_rows p rows) = {r \<in> set rows. \<not> p r}"
  by (auto simp: del_rows_def)

text \<open>A statement that keeps integrity when it succeeds.\<close>

definition keeps_integrity :: "stmt \<Rightarrow> bool" where
  "keeps_integrity st \<longleftrightarrow> (\<forall>t n t'. integrity t \<longrightarrow> st t = (Ok n, t') \<longrightarrow> integrity t')"

lemma integrity_effect: "keeps_integrity st \<Longrightarrow> integrity t \<Longrightarrow> integrity (effect st t)"
  by (auto simp: keeps_integrity_def effect_def split: outcome.splits prod.splits)

lemma keeps_guarded: "keeps_integrity st \<Longrightarrow> keeps_integrity (guarded e st)"
  by (auto simp: keeps_integrity_def guarded_def split: option.splits)

lemma keepsI: "(\<And>t. integrity t \<Longrightarrow> integrity (snd (st t))) \<Longrightarrow> keeps_integrity st"
  by (metis keeps_integrity_def snd_conv)

lemma guarded_integrity:
  "integrity t \<Longrightarrow> (integrity t \<Longrightarrow> integrity (snd (st t))) \<Longrightarrow> integrity (snd (guarded e st t))"
  by (auto simp: guarded_def split: option.splits)

lemma keeps_jobs:
  "keeps_integrity (sql_insert_job r)"
  "(\<And>r. jr_id (f r) = jr_id r) \<Longrightarrow> keeps_integrity (sql_update_job i f)"
  "keeps_integrity (sql_delete_job i)"
proof -
  show "keeps_integrity (sql_insert_job r)"
    by (rule keepsI, unfold sql_insert_job_def, rule guarded_integrity) (auto simp: integrity_def)
  show "keeps_integrity (sql_update_job i f)" if "\<And>r. jr_id (f r) = jr_id r"
    by (rule keepsI, unfold sql_update_job_def, rule guarded_integrity)
      (auto simp: integrity_def map_upd_rows image_upd_rows that)
  show "keeps_integrity (sql_delete_job i)"
    by (rule keepsI) (auto simp: sql_delete_job_def integrity_def set_del_rows intro!: distinct_del_rows)
qed

lemma keeps_queues:
  "keeps_integrity (sql_upsert_entry e)" "keeps_integrity (sql_delete_entry q i)"
  "keeps_integrity (sql_pause q)" "keeps_integrity (sql_resume q)"
proof -
  show "keeps_integrity (sql_upsert_entry e)"
    by (rule keepsI, unfold sql_upsert_entry_def, rule guarded_integrity)
      (auto simp: integrity_def Let_def entry_at_def map_upd_rows image_upd_rows simp del: image_subset_iff)
  show "keeps_integrity (sql_delete_entry q i)"
    by (rule keepsI) (auto simp: sql_delete_entry_def integrity_def set_del_rows intro!: distinct_del_rows)
  show "keeps_integrity (sql_pause q)"
    by (rule keepsI, unfold sql_pause_def, rule guarded_integrity) (auto simp: integrity_def)
  show "keeps_integrity (sql_resume q)"
    by (rule keepsI) (auto simp: sql_resume_def integrity_def del_rows_def)
qed

lemma keeps_workers:
  "keeps_integrity (sql_upsert_worker w)" "keeps_integrity (sql_delete_worker i)"
  "(\<And>r. wr_id (g r) = wr_id r) \<Longrightarrow> keeps_integrity (sql_update_worker i check g)"
  "keeps_integrity (sql_upsert_config c)" "keeps_integrity (sql_delete_config q)"
  "keeps_integrity (sql_insert_metric m)"
proof -
  show "keeps_integrity (sql_upsert_worker w)"
    by (rule keepsI, unfold sql_upsert_worker_def, rule guarded_integrity)
      (auto simp: integrity_def Let_def map_upd_rows)
  show "keeps_integrity (sql_delete_worker i)"
    by (rule keepsI) (auto simp: sql_delete_worker_def integrity_def intro!: distinct_del_rows)
  show "keeps_integrity (sql_update_worker i check g)" if "\<And>r. wr_id (g r) = wr_id r"
    by (rule keepsI, unfold sql_update_worker_def, rule guarded_integrity)
      (auto simp: integrity_def map_upd_rows that)
  show "keeps_integrity (sql_upsert_config c)"
    by (rule keepsI, unfold sql_upsert_config_def, rule guarded_integrity)
      (auto simp: integrity_def Let_def map_upd_rows)
  show "keeps_integrity (sql_delete_config q)"
    by (rule keepsI) (auto simp: sql_delete_config_def integrity_def intro!: distinct_del_rows)
  show "keeps_integrity (sql_insert_metric m)"
    by (rule keepsI, unfold sql_insert_metric_def, rule guarded_integrity) (auto simp: integrity_def)
qed

section \<open>What the combinators do\<close>

text \<open>Outside a transaction, on a database that can be reached.\<close>

definition settled :: "('p \<Rightarrow> tables) \<Rightarrow> ('p \<Rightarrow> tables option) \<Rightarrow> ('p \<Rightarrow> bool) \<Rightarrow> 'p \<Rightarrow> bool" where
  "settled db saved ok s \<longleftrightarrow> ok s \<and> saved s = None \<and> integrity (db s)"

text \<open>The three ways a writing method ends.\<close>

definition ends :: "stmt \<Rightarrow> string \<Rightarrow> err \<Rightarrow> tables \<Rightarrow> unit res" where
  "ends st msg missing t = (case fst (st t) of
     Ok n \<Rightarrow> if n = 0 then Err missing else Ok () | Err e \<Rightarrow> Err (Errorf msg (Some e)) | Panic p \<Rightarrow> Panic p)"

context postgres
begin

abbreviation "good \<equiv> settled db saved ok"

lemma good_iff: "good s \<longleftrightarrow> ok s \<and> saved s = None \<and> integrity (db s)"
  by (simp add: settled_def)

lemma Exec_good:
  assumes "good s" "keeps_integrity st"
  obtains s' where "pg_Exec D st s = (map_res Ok (fst (st (db s))), s')" "good s'" "db s' = effect st (db s)"
  using Exec [of s st] assms integrity_effect by (metis good_iff)

lemma exec_rows:
  assumes "good s" "keeps_integrity st"
  obtains s' where "exec_rows D msg missing st s = (ends st msg missing (db s), s')" "good s'"
    "db s' = effect st (db s)"
proof -
  from Exec_good [OF assms] obtain s' where run:
    "pg_Exec D st s = (map_res Ok (fst (st (db s))), s')" "good s'" "db s' = effect st (db s)" .
  moreover from run(1) have "exec_rows D msg missing st s = (ends st msg missing (db s), s')"
    by (cases "fst (st (db s))") (simp_all add: exec_rows_def ends_def)
  ultimately show thesis using that by blast
qed

lemma exec_only:
  assumes "good s" "keeps_integrity st"
  obtains s' where "exec_only D msg st s = (map_res (\<lambda>_. ()) (wrap_err msg (fst (st (db s)))), s')" "good s'"
    "db s' = effect st (db s)"
proof -
  from Exec_good [OF assms] obtain s' where run:
    "pg_Exec D st s = (map_res Ok (fst (st (db s))), s')" "good s'" "db s' = effect st (db s)" .
  moreover from run(1) have "exec_only D msg st s = (map_res (\<lambda>_. ()) (wrap_err msg (fst (st (db s)))), s')"
    by (cases "fst (st (db s))") (simp_all add: exec_only_def)
  ultimately show thesis using that by blast
qed

end

section \<open>What the queries give\<close>

lemma filter_unique: "distinct (map k rows) \<Longrightarrow> r \<in> set rows \<Longrightarrow> filter (\<lambda>x. k x = k r) rows = [r]"
proof (induction rows)
  case (Cons a rows)
  then show ?case by (cases "a = r") (auto simp: filter_empty_conv image_iff)
qed simp

lemma answers_all:
  "answers q t rows \<Longrightarrow> sl_limit q = None \<Longrightarrow> sl_offset q = 0 \<Longrightarrow>
   mset rows = mset (sl_from q t) \<and> sorted_wrt (sl_before q) rows"
  by (auto simp: answers_def)

lemma answers_first:
  assumes "answers q t rows" "sl_limit q = Some 1" "sl_offset q = 0"
  shows "case rows of [] \<Rightarrow> sl_from q t = []
    | r # rs \<Rightarrow> r \<in> set (sl_from q t) \<and> (\<forall>r' \<in> set (sl_from q t). r' = r \<or> sl_before q r r')"
proof -
  from assms obtain ys where ys: "mset ys = mset (sl_from q t)" "sorted_wrt (sl_before q) ys" "rows = take 1 ys"
    by (auto simp: answers_def)
  from ys(1) have "set ys = set (sl_from q t)" by (rule mset_eq_setD)
  with ys show ?thesis by (cases ys) auto
qed

lemma decode_rows_Ok: "decode_rows (\<lambda>r. Ok (f r)) rows = Ok (map f rows)"
  by (induction rows) simp_all

lemma entry_order: "order_keys \<lparr>sl_from = f, sl_before = entry_before, sl_limit = n, sl_offset = k\<rparr>"
  by (auto simp: order_keys_def entry_before_def transp_def)

context postgres
begin

lemma GetJob_row:
  assumes "good s"
  shows "pg_GetJob cd D i s = (case find (\<lambda>r. jr_id r = i) (t_jobs (db s)) of
     None \<Rightarrow> Err ErrJobNotFound | Some r \<Rightarrow> job_of_row cd r)"
proof -
  obtain rows where rows: "pg_Jobs D (job_by_id i) s = Ok (rows, None)" "answers (job_by_id i) (db s) rows"
    using Jobs [of s "job_by_id i"] assms
    by (auto simp: good_iff select_valid_def order_keys_def job_by_id_def transp_def)
  from answers_all [OF this(2)] have *: "mset rows = mset (filter (\<lambda>r. jr_id r = i) (t_jobs (db s)))"
    by (simp add: job_by_id_def)
  show ?thesis
  proof (cases "find (\<lambda>r. jr_id r = i) (t_jobs (db s))")
    case None
    then have "filter (\<lambda>r. jr_id r = i) (t_jobs (db s)) = []" by (simp add: find_None_iff filter_empty_conv)
    with * None rows show ?thesis by (simp add: pg_GetJob_def query_row_def)
  next
    case (Some r)
    then have "r \<in> set (t_jobs (db s))" "jr_id r = i" by (auto simp: find_Some_iff)
    with filter_unique [of jr_id "t_jobs (db s)" r] assms have "filter (\<lambda>r. jr_id r = i) (t_jobs (db s)) = [r]"
      by (simp add: good_iff integrity_def)
    with * have "rows = [r]" by (simp add: mset_single_iff_right)
    with Some rows show ?thesis by (simp add: pg_GetJob_def query_row_def)
  qed
qed

text \<open>The rows that are ready, and the three ways a dequeue ends.\<close>

lemma Dequeue_cases:
  assumes "good s"
  obtains (paused) "q \<in> set (t_paused (db s))" "pg_Dequeue cd D clk q s = (Err ErrQueuePaused, s)"
  | (empty) s' where "q \<notin> set (t_paused (db s))"
      "\<forall>e \<in> set (t_queues (db s)). er_queue_name e = q \<longrightarrow> er_scheduled_for e > pc_stamp cd (clk 0)"
      "pg_Dequeue cd D clk q s = (Err ErrQueueEmpty, s')" "good s'" "db s' = db s"
  | (taken) e s' where "q \<notin> set (t_paused (db s))" "e \<in> set (t_queues (db s))" "er_queue_name e = q"
      "er_scheduled_for e \<le> pc_stamp cd (clk 0)"
      "\<forall>e' \<in> set (t_queues (db s)). er_queue_name e' = q \<longrightarrow> er_scheduled_for e' \<le> pc_stamp cd (clk 0) \<longrightarrow>
         entry_before e e'"
      "pg_Dequeue cd D clk q s = (Ok (er_job_id e), s')" "good s'"
      "db s' = effect (sql_delete_entry q (er_job_id e)) (db s)"
proof (cases "q \<in> set (t_paused (db s))")
  case True
  have "pg_IsQueuePaused D q s = Ok True"
    using Value [of s] assms True by (simp add: pg_IsQueuePaused_def good_iff)
  with True show thesis by (intro paused) (simp_all add: pg_Dequeue_def)
next
  case False
  let ?now = "pc_stamp cd (clk 0)" and ?q = "ready_entry q (pc_stamp cd (clk 0))"
  have running: "pg_IsQueuePaused D q s = Ok False"
    using Value [of s] assms False by (simp add: pg_IsQueuePaused_def good_iff)
  obtain s1 where s1: "pg_Begin D s = (Ok (), s1)" "ok s1" "db s1 = db s" "saved s1 = Some (db s)"
    using Begin [of s] assms by (auto simp: good_iff)
  obtain rows where rows: "pg_Entries D ?q s1 = Ok (rows, None)" "answers ?q (db s) rows"
    using Entries [of s1 ?q] s1 entry_order by (auto simp: select_valid_def ready_entry_def)
  note first = answers_first [OF rows(2)]
  show thesis
  proof (cases rows)
    case Nil
    have rolled: "good (pg_Rollback D s1)" "db (pg_Rollback D s1) = db s"
      using Rollback [of s1] s1 assms by (simp_all add: good_iff)
    have run: "pg_Dequeue cd D clk q s = (Err ErrQueueEmpty, pg_Rollback D s1)"
      using running s1 rows Nil by (simp add: pg_Dequeue_def query_row_def)
    have "\<forall>e \<in> set (t_queues (db s)). er_queue_name e = q \<longrightarrow> er_scheduled_for e > ?now"
      using first Nil by (simp add: ready_entry_def filter_empty_conv not_le)
    from empty [OF False this run rolled] show thesis .
  next
    case (Cons e rs)
    let ?st = "sql_delete_entry q (er_job_id e)"
    have e: "e \<in> set (t_queues (db s))" "er_queue_name e = q" "er_scheduled_for e \<le> ?now"
      "\<forall>e' \<in> set (t_queues (db s)). er_queue_name e' = q \<longrightarrow> er_scheduled_for e' \<le> ?now \<longrightarrow> entry_before e e'"
      using first Cons by (auto simp: ready_entry_def entry_before_def)
    obtain s2 where s2: "pg_Exec D ?st s1 = (Ok (fst (?st (db s))), s2)" "ok s2" "db s2 = effect ?st (db s)"
      using Exec [of s1 ?st] s1 by (auto simp: sql_delete_entry_def)
    obtain s3 where s3: "pg_Commit D s2 = (Ok (), s3)" "ok s3" "db s3 = db s2" "saved s3 = None"
      using Commit [of s2] s2 by auto
    have integ: "integrity (effect ?st (db s))"
      using assms by (intro integrity_effect keeps_queues) (simp add: good_iff)
    have rolled: "good (pg_Rollback D s3)" "db (pg_Rollback D s3) = effect ?st (db s)"
      using Rollback [of s3] s3 s2 integ by (simp_all add: good_iff)
    have run: "pg_Dequeue cd D clk q s = (Ok (er_job_id e), pg_Rollback D s3)"
      using running s1 rows s2(1) s3(1) Cons by (simp add: pg_Dequeue_def query_row_def)
    from taken [OF False e run rolled] show thesis .
  qed
qed

end

end
