(* ===== verification/PostgresFacts.thy ===== *)
theory PostgresFacts
  imports PostgresProofs
begin

text \<open>
  What the methods of the postgres backend do, over the locale \<open>postgres\<close>: the tables as the abstract store of the
  storage interface and the queue methods against its contract, sequences of writing methods, creating
  and fetching a job, and the statements whose literals or columns do not fit the program's values.
\<close>

section \<open>The contract of the queues\<close>

text \<open>The tables as the abstract store of \<open>Storage\<close>. A row that cannot be decoded is no job.\<close>

definition row_job :: "pg_codec \<Rightarrow> job_row \<Rightarrow> job option" where
  "row_job cd r = (case job_of_row cd r of Ok j \<Rightarrow> Some j | _ \<Rightarrow> None)"

definition row_config :: "pg_codec \<Rightarrow> config_row \<Rightarrow> QueueConfig option" where
  "row_config cd r = (case config_of_row cd r of Ok c \<Rightarrow> Some c | _ \<Rightarrow> None)"

definition entries_in :: "string \<Rightarrow> queue_row list \<Rightarrow> entry multiset" where
  "entries_in q rows =
     mset (map (\<lambda>e. (er_job_id e, er_priority e, er_scheduled_for e)) (filter (\<lambda>e. er_queue_name e = q) rows))"

definition pg_view :: "pg_codec \<Rightarrow> tables \<Rightarrow> store_view" where
  "pg_view cd t =
     \<lparr>v_jobs = (\<lambda>i. Option.bind (find (\<lambda>r. jr_id r = i) (t_jobs t)) (row_job cd)),
      v_entries = (\<lambda>q. entries_in q (t_queues t)),
      v_paused = (\<lambda>q. q \<in> set (t_paused t)),
      v_configs = (\<lambda>q. Option.bind (find (\<lambda>r. cr_name r = q) (t_configs t)) (row_config cd))\<rparr>"

lemma entries_in_iff:
  "x \<in># entries_in q rows \<longleftrightarrow> (\<exists>e \<in> set rows. er_queue_name e = q \<and> x = (er_job_id e, er_priority e, er_scheduled_for e))"
  by (auto simp: entries_in_def)

text \<open>Deleting the entry of a job takes exactly that entry from its queue.\<close>

lemma entries_delete:
  assumes "distinct (map (\<lambda>e. (er_queue_name e, er_job_id e)) rows)" "e \<in> set rows"
  shows "entries_in q' (del_rows (entry_at (er_queue_name e) (er_job_id e)) rows) =
    (if q' = er_queue_name e then entries_in q' rows - {#(er_job_id e, er_priority e, er_scheduled_for e)#}
     else entries_in q' rows)"
proof -
  let ?key = "\<lambda>e. (er_queue_name e, er_job_id e)" and ?P = "\<lambda>e. er_queue_name e = q'"
    and ?f = "\<lambda>e. (er_job_id e, er_priority e, er_scheduled_for e)"
  have "del_rows (entry_at (er_queue_name e) (er_job_id e)) rows = filter ((\<noteq>) e) rows"
    unfolding del_rows_def using assms by (intro filter_cong) (auto simp: entry_at_def distinct_map inj_on_def)
  also have "\<dots> = remove1 e rows" using assms(1) by (simp add: distinct_map distinct_remove1_removeAll removeAll_filter_not_eq)
  finally have "entries_in q' (del_rows (entry_at (er_queue_name e) (er_job_id e)) rows) =
      image_mset ?f (filter_mset ?P (mset rows) - filter_mset ?P {#e#})"
    by (simp only: entries_in_def mset_map mset_filter mset_remove1 filter_diff_mset)
  also have "\<dots> = image_mset ?f (filter_mset ?P (mset rows)) - image_mset ?f (filter_mset ?P {#e#})"
    using assms(2) by (intro image_mset_Diff) (simp add: multiset_filter_mono)
  finally show ?thesis by (simp add: entries_in_def)
qed

lemma entries_gone:
  assumes "integrity t" "e \<in> set (t_queues t)" "er_queue_name e = q"
  shows "pg_view cd (effect (sql_delete_entry q (er_job_id e)) t) =
    (pg_view cd t)\<lparr>v_entries := (v_entries (pg_view cd t))(q := v_entries (pg_view cd t) q -
       {#(er_job_id e, er_priority e, er_scheduled_for e)#})\<rparr>"
  using entries_delete [of "t_queues t" e] assms
  by (auto simp: pg_view_def effect_def sql_delete_entry_def integrity_def fun_eq_iff)

context postgres
begin

lemma Dequeue_refines:
  "refines_rel good (\<lambda>s. pg_view cd (db s)) (pg_Dequeue cd D clk q) (spec_Dequeue (pc_stamp cd (clk 0)) q)"
  unfolding refines_rel_def
proof (intro allI impI, elim conjE)
  fix s r s'
  assume s: "good s" and run: "pg_Dequeue cd D clk q s = (r, s')"
  from s show "good s' \<and> spec_Dequeue (pc_stamp cd (clk 0)) q (pg_view cd (db s)) (r, pg_view cd (db s'))"
  proof (cases rule: Dequeue_cases [of s q cd clk])
    case paused
    with run s show ?thesis by (simp add: spec_Dequeue_def pg_view_def)
  next
    case (empty s1)
    with run show ?thesis by (auto simp: spec_Dequeue_def pg_view_def entries_in_iff)
  next
    case (taken e s1)
    have "spec_Dequeue (pc_stamp cd (clk 0)) q (pg_view cd (db s)) (Ok (er_job_id e), pg_view cd (db s1))"
    proof (rule spec_Dequeue_OkI)
      show "\<not> v_paused (pg_view cd (db s)) q" using taken by (simp add: pg_view_def)
      show "(er_job_id e, er_priority e, er_scheduled_for e) \<in># v_entries (pg_view cd (db s)) q"
        using taken by (auto simp: pg_view_def entries_in_iff)
      show "er_scheduled_for e \<le> pc_stamp cd (clk 0)" using taken by simp
      show "\<forall>(jid', p', t') \<in># v_entries (pg_view cd (db s)) q. t' \<le> pc_stamp cd (clk 0) \<longrightarrow> p' \<le> er_priority e"
        using taken(5) by (fastforce simp: pg_view_def entries_in_iff entry_before_def)
      show "pg_view cd (db s1) = (pg_view cd (db s))\<lparr>v_entries := (v_entries (pg_view cd (db s)))(q :=
          v_entries (pg_view cd (db s)) q - {#(er_job_id e, er_priority e, er_scheduled_for e)#})\<rparr>"
        using taken(2,3,8) s by (simp add: entries_gone good_iff)
    qed
    with taken run show ?thesis by simp
  qed
qed

lemma Remove_refines:
  "refines_rel good (\<lambda>s. pg_view cd (db s)) (pg_Remove D q i) (spec_Remove q i)"
  unfolding refines_rel_def
proof (intro allI impI, elim conjE)
  fix s r s'
  assume s: "good s" and run: "pg_Remove D q i s = (r, s')"
  let ?t = "db s"
  have r: "r = ends (sql_delete_entry q i) ''failed to remove from queue'' ErrJobNotFound ?t" "good s'"
    "db s' = effect (sql_delete_entry q i) ?t"
    using exec_rows [OF s keeps_queues(2) [of q i], of "''failed to remove from queue''" ErrJobNotFound] run
    by (auto simp: pg_Remove_def)
  have "spec_Remove q i (pg_view cd ?t) (r, pg_view cd (db s'))"
  proof (cases "\<exists>e \<in> set (t_queues ?t). entry_at q i e")
    case True
    then obtain e where e: "e \<in> set (t_queues ?t)" "er_queue_name e = q" "er_job_id e = i"
      by (auto simp: entry_at_def)
    have "filter (entry_at q i) (t_queues ?t) \<noteq> []" using True by (auto simp: filter_empty_conv)
    then have "r = Ok ()" by (simp add: r ends_def sql_delete_entry_def matching_def)
    moreover have "i \<in># image_mset fst (v_entries (pg_view cd ?t) q)"
      using e by (force simp: pg_view_def entries_in_iff)
    moreover have "(i, er_priority e, er_scheduled_for e) \<in># v_entries (pg_view cd ?t) q"
      using e by (auto simp: pg_view_def entries_in_iff)
    ultimately show ?thesis
      using entries_gone [of ?t e q cd] e s r(3) unfolding spec_Remove_def good_iff by auto
  next
    case False
    then have none: "filter (entry_at q i) (t_queues ?t) = []" by (auto simp: filter_empty_conv)
    then have "r = Err ErrJobNotFound" by (simp add: r ends_def sql_delete_entry_def matching_def)
    moreover have "i \<notin># image_mset fst (v_entries (pg_view cd ?t) q)"
      using False by (force simp: pg_view_def entries_in_iff entry_at_def)
    moreover have "db s' = ?t"
      using False by (simp add: r effect_def sql_delete_entry_def del_rows_def filter_id_conv) 
    ultimately show ?thesis by (simp add: spec_Remove_def)
  qed
  with r show "good s' \<and> spec_Remove q i (pg_view cd ?t) (r, pg_view cd (db s'))" by simp
qed

lemma ResumeQueue_refines:
  "refines good (\<lambda>s. pg_view cd (db s)) (pg_ResumeQueue D q) (spec_set_paused False q)"
  unfolding refines_def
proof (intro allI impI, elim conjE)
  fix s r s'
  assume s: "good s" and run: "pg_ResumeQueue D q s = (r, s')"
  have "r = Ok ()" "good s'" "db s' = effect (sql_resume q) (db s)"
    using exec_only [OF s keeps_queues(4) [of q], of "''failed to resume queue''"] run
    by (auto simp: pg_ResumeQueue_def sql_resume_def)
  then show "good s' \<and> spec_set_paused False q (pg_view cd (db s)) = (r, pg_view cd (db s'))"
    by (auto simp: spec_set_paused_def pg_view_def effect_def sql_resume_def set_del_rows fun_eq_iff)
qed

lemma PauseQueue_refines:
  assumes "length q \<le> 255"
  shows "refines good (\<lambda>s. pg_view cd (db s)) (pg_PauseQueue D q) (spec_set_paused True q)"
  unfolding refines_def
proof (intro allI impI, elim conjE)
  fix s r s'
  assume s: "good s" and run: "pg_PauseQueue D q s = (r, s')"
  have pause: "sql_pause q (db s) = (if q \<in> set (t_paused (db s)) then (Ok 0, db s)
      else (Ok 1, (db s)\<lparr>t_paused := t_paused (db s) @ [q]\<rparr>))"
    using assms by (simp add: sql_pause_def guarded_def value_error_def)
  obtain s1 where s1: "pg_PauseQueue D q s =
      (map_res (\<lambda>_. ()) (wrap_err ''failed to pause queue'' (fst (sql_pause q (db s)))), s1)" "good s1"
    "db s1 = effect (sql_pause q) (db s)"
    using exec_only [OF s keeps_queues(3) [of q], of "''failed to pause queue''"] unfolding pg_PauseQueue_def .
  with run have r: "r = Ok ()" "s' = s1" by (simp_all add: pause split: if_splits)
  have "pg_view cd (db s1) = (pg_view cd (db s))\<lparr>v_paused := (v_paused (pg_view cd (db s)))(q := True)\<rparr>"
    by (simp add: s1 effect_def pause pg_view_def fun_eq_iff)
  with r s1 show "good s' \<and> spec_set_paused True q (pg_view cd (db s)) = (r, pg_view cd (db s'))"
    by (simp add: spec_set_paused_def)
qed

lemma Length_entries: "good s \<Longrightarrow> pg_Length D q s = Ok (int (size (v_entries (pg_view cd (db s)) q)))"
  using Value [of s] by (simp add: good_iff pg_Length_def pg_view_def entries_in_def matching_def flip: mset_filter)

end

section \<open>Putting a job into a queue\<close>

lemma foreign_key_text: "isForeignKeyError (Some pq_foreign_key)"
  unfolding pq_foreign_key_def by code_simp

lemma entries_in_Cons:
  "entries_in q (e # rows) =
     (if er_queue_name e = q then {#(er_job_id e, er_priority e, er_scheduled_for e)#} else {#}) + entries_in q rows"
  by (simp add: entries_in_def)

lemma entries_in_append: "entries_in q (xs @ ys) = entries_in q xs + entries_in q ys"
  by (simp add: entries_in_def)

lemma entries_without:
  "(\<And>e. e \<in> set rows \<Longrightarrow> \<not> entry_at q i e) \<Longrightarrow> filter_mset (\<lambda>x. fst x \<noteq> i) (entries_in q rows) = entries_in q rows"
  by (fastforce simp: entries_in_iff entry_at_def filter_mset_eq_conv)

lemma entries_replace:
  assumes "distinct (map (\<lambda>e. (er_queue_name e, er_job_id e)) rows)" "e \<in> set rows" "entry_at q i e"
  shows "entries_in q' (upd_rows (entry_at q i) (\<lambda>x. x\<lparr>er_priority := p, er_scheduled_for := t\<rparr>) rows) =
    (if q' = q then add_mset (i, p, t) (filter_mset (\<lambda>x. fst x \<noteq> i) (entries_in q rows)) else entries_in q' rows)"
proof -
  from assms(2) obtain xs ys where rows: "rows = xs @ e # ys" by (meson split_list)
  have others: "\<not> entry_at q i x" if "x \<in> set xs \<or> x \<in> set ys" for x
    using assms(1,3) that unfolding rows by (auto simp: entry_at_def image_iff)
  then have "map (\<lambda>r. if entry_at q i r then f r else r) xs = xs" "map (\<lambda>r. if entry_at q i r then f r else r) ys = ys" for f
    by (simp_all add: map_idI)
  then have "upd_rows (entry_at q i) f rows = xs @ f e # ys" for f
    using assms(3) by (simp add: upd_rows_def rows)
  moreover have "filter_mset (\<lambda>x. fst x \<noteq> i) (entries_in q xs) = entries_in q xs"
    "filter_mset (\<lambda>x. fst x \<noteq> i) (entries_in q ys) = entries_in q ys"
    using others by (auto intro: entries_without)
  moreover have "er_queue_name e = q" "er_job_id e = i" using assms(3) by (simp_all add: entry_at_def)
  ultimately show ?thesis
    by (simp add: rows entries_in_append entries_in_Cons)
qed

context postgres
begin

lemma Enqueue_replaces:
  fixes cd :: pg_codec and clk :: clock and d :: duration
  assumes s: "good s" and fit: "length q \<le> 255" "length i \<le> 255" "int4 p"
  defines "due \<equiv> pc_stamp cd (clk 0 + d)" and "v \<equiv> pg_view cd (db s)"
  shows "\<exists>s'. good s' \<and> pg_Enqueue cd D clk q i p d s =
    (if i \<in> jr_id ` set (t_jobs (db s)) then (Ok (), s') else (Err ErrJobNotFound, s')) \<and>
    pg_view cd (db s') =
    (if i \<in> jr_id ` set (t_jobs (db s))
     then v\<lparr>v_entries := (v_entries v)(q := add_mset (i, p, due) (filter_mset (\<lambda>x. fst x \<noteq> i) (v_entries v q)))\<rparr>
     else v)"
proof -
  let ?e = "\<lparr>er_queue_name = q, er_job_id = i, er_priority = p, er_scheduled_for = due\<rparr>" and ?t = "db s"
  let ?st = "sql_upsert_entry ?e" and ?upd = "\<lambda>x. x\<lparr>er_priority := p, er_scheduled_for := due\<rparr>"
  have st: "?st ?t = (if \<exists>x \<in> set (t_queues ?t). entry_at q i x
      then (Ok 1, ?t\<lparr>t_queues := upd_rows (entry_at q i) ?upd (t_queues ?t)\<rparr>)
      else if i \<notin> jr_id ` set (t_jobs ?t) then (Err pq_foreign_key, ?t)
      else (Ok 1, ?t\<lparr>t_queues := t_queues ?t @ [?e]\<rparr>))"
    using fit by (simp add: sql_upsert_entry_def guarded_def value_error_def)
  obtain s' where s': "pg_Exec D ?st s = (map_res Ok (fst (?st ?t)), s')" "good s'" "db s' = effect ?st ?t"
    using Exec_good [OF s keeps_queues(1)] .
  have stored: "i \<in> jr_id ` set (t_jobs ?t)" if "x \<in> set (t_queues ?t)" "entry_at q i x" for x
    using s that by (auto simp: good_iff integrity_def entry_at_def)
  consider x where "x \<in> set (t_queues ?t)" "entry_at q i x"
    | "\<forall>x \<in> set (t_queues ?t). \<not> entry_at q i x" "i \<in> jr_id ` set (t_jobs ?t)"
    | "\<forall>x \<in> set (t_queues ?t). \<not> entry_at q i x" "i \<notin> jr_id ` set (t_jobs ?t)" by blast
  then show ?thesis
  proof cases
    case 1
    have st_result: "fst (?st ?t) = Ok 1" "effect ?st ?t = ?t\<lparr>t_queues := upd_rows (entry_at q i) ?upd (t_queues ?t)\<rparr>"
      using st 1 by (auto simp: effect_def)
    have "v_entries (pg_view cd (db s')) =
        (v_entries v)(q := add_mset (i, p, due) (filter_mset (\<lambda>x. fst x \<noteq> i) (v_entries v q)))"
      using entries_replace [OF _ 1] s st_result(2) s'(3)
      by (auto simp: v_def pg_view_def good_iff integrity_def fun_eq_iff)
    then show ?thesis
      using stored [OF 1] s' st_result by (intro exI [of _ s']) (simp add: pg_Enqueue_def due_def v_def pg_view_def)
  next
    case 2
    have st_result: "fst (?st ?t) = Ok 1" "effect ?st ?t = ?t\<lparr>t_queues := t_queues ?t @ [?e]\<rparr>"
      using st 2 by (auto simp: effect_def)
    have "filter_mset (\<lambda>x. fst x \<noteq> i) (v_entries v q) = v_entries v q"
      using 2(1) entries_without [of "t_queues ?t" q i] by (simp add: v_def pg_view_def)
    then have "v_entries (pg_view cd (db s')) =
        (v_entries v)(q := add_mset (i, p, due) (filter_mset (\<lambda>x. fst x \<noteq> i) (v_entries v q)))"
      using st_result(2) s'(3) by (auto simp: v_def pg_view_def entries_in_append entries_in_def fun_eq_iff)
    then show ?thesis
      using 2 s' st_result by (intro exI [of _ s']) (simp add: pg_Enqueue_def due_def v_def pg_view_def)
  next
    case 3
    have st_result: "fst (?st ?t) = Err pq_foreign_key" "effect ?st ?t = ?t"
      using st 3 by (auto simp: effect_def)
    then show ?thesis
      using 3 s' foreign_key_text by (intro exI [of _ s']) (simp add: pg_Enqueue_def due_def v_def)
  qed
qed

end

section \<open>Integrity\<close>

text \<open>The methods that write. \<open>PRecord\<close> stands for the four methods that record an event.\<close>

datatype pg_op =
    PCreate job | PUpdate job | PDelete string | PUpdateStatus clock string Status
  | PUpdateProgress clock string int | PSetResult clock string bytes | PSetError clock string string
  | PEnqueue clock string string Priority duration | PDequeue clock string
  | PRequeue clock string string Priority duration | PRemove string string
  | PPause string | PResume string | PRegister worker | PUnregister string
  | PHeartbeat clock string | PUpdateWorkerStatus string WorkerStatus | PSetCurrentJob string string
  | PIncrementProcessed string | PIncrementFailed string
  | PRecordCreated string string | PRecordCompleted string string duration
  | PRecordFailed string string | PRecordRetried string string
  | PSaveConfig QueueConfig | PDeleteConfig string

fun pg_apply :: "pg_codec \<Rightarrow> 'p driver \<Rightarrow> pg_op \<Rightarrow> 'p \<Rightarrow> 'p" where
  "pg_apply cd D (PCreate j) s = snd (pg_CreateJob cd D j s)"
| "pg_apply cd D (PUpdate j) s = snd (pg_UpdateJob cd D j s)"
| "pg_apply cd D (PDelete i) s = snd (pg_DeleteJob D i s)"
| "pg_apply cd D (PUpdateStatus clk i st) s = snd (pg_UpdateStatus cd D clk i st s)"
| "pg_apply cd D (PUpdateProgress clk i n) s = snd (pg_UpdateProgress cd D clk i n s)"
| "pg_apply cd D (PSetResult clk i b) s = snd (pg_SetResult cd D clk i b s)"
| "pg_apply cd D (PSetError clk i e) s = snd (pg_SetError cd D clk i e s)"
| "pg_apply cd D (PEnqueue clk q i p d) s = snd (pg_Enqueue cd D clk q i p d s)"
| "pg_apply cd D (PDequeue clk q) s = snd (pg_Dequeue cd D clk q s)"
| "pg_apply cd D (PRequeue clk q i p d) s = snd (pg_Requeue cd D clk q i p d s)"
| "pg_apply cd D (PRemove q i) s = snd (pg_Remove D q i s)"
| "pg_apply cd D (PPause q) s = snd (pg_PauseQueue D q s)"
| "pg_apply cd D (PResume q) s = snd (pg_ResumeQueue D q s)"
| "pg_apply cd D (PRegister w) s = snd (pg_RegisterWorker cd D w s)"
| "pg_apply cd D (PUnregister i) s = snd (pg_UnregisterWorker D i s)"
| "pg_apply cd D (PHeartbeat clk i) s = snd (pg_UpdateHeartbeat cd D clk i s)"
| "pg_apply cd D (PUpdateWorkerStatus i st) s = snd (pg_UpdateWorkerStatus D i st s)"
| "pg_apply cd D (PSetCurrentJob i j) s = snd (pg_SetCurrentJob D i j s)"
| "pg_apply cd D (PIncrementProcessed i) s = snd (pg_IncrementProcessed D i s)"
| "pg_apply cd D (PIncrementFailed i) s = snd (pg_IncrementFailed D i s)"
| "pg_apply cd D (PRecordCreated q t) s = snd (pg_RecordJobCreated D q t s)"
| "pg_apply cd D (PRecordCompleted q t d) s = snd (pg_RecordJobCompleted D q t d s)"
| "pg_apply cd D (PRecordFailed q t) s = snd (pg_RecordJobFailed D q t s)"
| "pg_apply cd D (PRecordRetried q t) s = snd (pg_RecordJobRetried D q t s)"
| "pg_apply cd D (PSaveConfig c) s = snd (pg_SaveQueueConfig cd D c s)"
| "pg_apply cd D (PDeleteConfig q) s = snd (pg_DeleteQueueConfig D q s)"

context postgres
begin

lemma settled_with_ok: "good s \<Longrightarrow> (\<And>a. good (snd (f a))) \<Longrightarrow> good (snd (with_ok r s f))"
  by (cases r) simp_all

lemma good_exec_rows: "good s \<Longrightarrow> keeps_integrity st \<Longrightarrow> good (snd (exec_rows D msg missing st s))"
  using exec_rows [of s st msg missing] by (metis snd_conv)

lemma good_exec_only: "good s \<Longrightarrow> keeps_integrity st \<Longrightarrow> good (snd (exec_only D msg st s))"
  using exec_only [of s st msg] by (metis snd_conv)

lemma good_Exec: "good s \<Longrightarrow> keeps_integrity st \<Longrightarrow> good (snd (pg_Exec D st s))"
  using Exec_good [of s st] by (metis snd_conv)

lemma good_CreateJob:
  assumes "good s"
  shows "good (snd (pg_CreateJob cd D j s))"
proof -
  have "good (snd (pg_Exec D (guarded e (sql_insert_job row)) s))" for e row
    using assms by (intro good_Exec keeps_guarded keeps_jobs)
  with assms show ?thesis
    unfolding pg_CreateJob_def Let_def
    by (intro settled_with_ok) (auto split: prod.splits outcome.splits, (metis snd_conv)+)
qed

lemma good_Enqueue: "good s \<Longrightarrow> good (snd (pg_Enqueue cd D clk q i p d s))"
  using good_Exec [OF _ keeps_queues(1)] unfolding pg_Enqueue_def
  by (auto split: prod.splits outcome.splits) (metis snd_conv)+

lemma good_Dequeue: "good s \<Longrightarrow> good (snd (pg_Dequeue cd D clk q s))"
  by (rule Dequeue_cases [of s q cd clk]) auto

lemma good_pg_apply: "good s \<Longrightarrow> good (pg_apply cd D op s)"
  by (cases op)
    (simp_all add: good_CreateJob good_Enqueue good_Dequeue pg_UpdateJob_def pg_DeleteJob_def pg_UpdateStatus_def
      pg_UpdateProgress_def pg_SetResult_def pg_SetError_def pg_Requeue_def pg_Remove_def pg_PauseQueue_def
      pg_ResumeQueue_def pg_RegisterWorker_def pg_UnregisterWorker_def pg_UpdateHeartbeat_def
      pg_UpdateWorkerStatus_def pg_SetCurrentJob_def pg_IncrementProcessed_def pg_IncrementFailed_def
      pg_RecordJobCreated_def pg_RecordJobCompleted_def pg_RecordJobFailed_def pg_RecordJobRetried_def
      pg_SaveQueueConfig_def pg_DeleteQueueConfig_def status_update_def
      settled_with_ok good_exec_rows good_exec_only keeps_guarded keeps_jobs keeps_queues keeps_workers)

lemma good_ops: "good s \<Longrightarrow> good (fold (pg_apply cd D) ops s)"
  by (induction ops arbitrary: s) (simp_all add: good_pg_apply)

lemma Dequeue_stored:
  assumes "good s" "pg_Dequeue cd D clk q s = (Ok i, s')"
  shows "pg_GetJob cd D i s' \<noteq> Err ErrJobNotFound"
  using assms(1)
proof (cases rule: Dequeue_cases [of s q cd clk])
  case (taken e s1)
  with assms have i: "i = er_job_id e" "s' = s1" by simp_all
  have "i \<in> jr_id ` set (t_jobs (db s))" using assms(1) taken(2) i by (auto simp: good_iff integrity_def)
  moreover have "t_jobs (db s') = t_jobs (db s)" using taken i by (simp add: effect_def sql_delete_entry_def)
  ultimately have "find (\<lambda>r. jr_id r = i) (t_jobs (db s')) \<noteq> None" by (auto simp: find_None_iff)
  then obtain r where "pg_GetJob cd D i s' = job_of_row cd r"
    using GetJob_row [of s' cd i] taken i by auto
  then show ?thesis
    by (auto simp: job_of_row_def read_ok_def map_res.simps wrap_err_iff map_res_iff split: outcome.splits option.splits)
qed (use assms in auto)

end

section \<open>Creating jobs\<close>

text \<open>A map that survives encoding, storing as JSONB and decoding.\<close>

definition stored_map :: "pg_codec \<Rightarrow> jmap \<Rightarrow> bool" where
  "stored_map cd x \<longleftrightarrow> (\<exists>u v. pc_map cd x = Ok u \<and> pc_jsonb cd u = Ok v \<and> pc_unmap cd v = Ok x)"

text \<open>Values that fit into their columns.\<close>

definition fits :: "job \<Rightarrow> bool" where
  "fits j \<longleftrightarrow> length (j_ID j) \<le> 255 \<and> length (j_Type j) \<le> 255 \<and> length (j_Queue j) \<le> 255 \<and>
     length (j_Status j) \<le> 50 \<and>
     (\<forall>i \<in> {j_Priority j, j_RetryCount j, j_MaxRetries j, j_TimeoutSeconds j, j_Progress j}. int4 i)"

text \<open>What is left of a new job.\<close>

definition created_job :: "pg_codec \<Rightarrow> job \<Rightarrow> job" where
  "created_job cd j =
     j\<lparr>j_Timeout := 0, j_WorkerID := '''', j_Error := '''', j_Result := None, j_StartedAt := None,
       j_CompletedAt := None, j_CreatedAt := pc_stamp cd (j_CreatedAt j), j_UpdatedAt := pc_stamp cd (j_UpdatedAt j),
       j_ScheduledAt := map_option (pc_stamp cd) (j_ScheduledAt j)\<rparr>"

lemma jsonb_error_Ok: "list_all (\<lambda>x. \<exists>y. pc_jsonb cd x = Ok y) xs \<Longrightarrow> jsonb_error cd xs = None"
proof -
  assume "list_all (\<lambda>x. \<exists>y. pc_jsonb cd x = Ok y) xs"
  then have "List.map_filter (\<lambda>x. case pc_jsonb cd x of Err e \<Rightarrow> Some e | _ \<Rightarrow> None) xs = []"
    by (induction xs) (auto simp: map_filter_simps)
  then show ?thesis by (simp add: jsonb_error_def)
qed

lemma find_snoc: "find p xs = None \<Longrightarrow> find p (xs @ [x]) = (if p x then Some x else None)"
  by (induction xs) (auto split: if_splits)

lemma set_error_None: "(\<And>r. r \<in> set rows \<Longrightarrow> p r \<Longrightarrow> check (f r) = None) \<Longrightarrow> set_error check p f rows = None"
proof -
  assume "\<And>r. r \<in> set rows \<Longrightarrow> p r \<Longrightarrow> check (f r) = None"
  then have "List.map_filter (\<lambda>r. if p r then check (f r) else None) rows = []"
    by (induction rows) (auto simp: map_filter_simps)
  then show ?thesis by (simp add: set_error_def)
qed

lemma insert_job_guarded:
  "fst (guarded e (sql_insert_job r) t) = Ok 1 \<longleftrightarrow>
     e = None \<and> job_row_error r = None \<and> jr_id r \<notin> jr_id ` set (t_jobs t)"
  "effect (guarded e (sql_insert_job r)) t =
     (if fst (guarded e (sql_insert_job r) t) = Ok 1 then t\<lparr>t_jobs := t_jobs t @ [r]\<rparr> else t)"
  "fst (guarded e (sql_insert_job r) t) = Ok 1 \<or> (\<exists>x. fst (guarded e (sql_insert_job r) t) = Err x)"
  by (auto simp: guarded_def sql_insert_job_def effect_def split: option.splits)

context postgres
begin

lemma Create_Get:
  assumes s: "good s" and maps: "stored_map cd (j_Payload j)" "stored_map cd (j_Metadata j)" and fits: "fits j"
    and scheduled: "j_ScheduledAt j \<noteq> None" and new: "j_ID j \<notin> jr_id ` set (t_jobs (db s))"
  shows "\<exists>s'. pg_CreateJob cd D j s = (Ok (), s') \<and> pg_GetJob cd D (j_ID j) s' = Ok (created_job cd j)"
proof -
  from maps obtain p p' m m' where enc: "pc_map cd (j_Payload j) = Ok p" "pc_jsonb cd p = Ok p'"
    "pc_unmap cd p' = Ok (j_Payload j)" "pc_map cd (j_Metadata j) = Ok m" "pc_jsonb cd m = Ok m'"
    "pc_unmap cd m' = Ok (j_Metadata j)"
    by (auto simp: stored_map_def)
  let ?row = "\<lparr>jr_id = j_ID j, jr_type = j_Type j, jr_queue = j_Queue j, jr_payload = p',
       jr_result = None, jr_error = None, jr_status = j_Status j, jr_priority = j_Priority j,
       jr_retry_count = j_RetryCount j, jr_max_retries = j_MaxRetries j,
       jr_timeout_seconds = j_TimeoutSeconds j, jr_progress = j_Progress j,
       jr_metadata = Some m', jr_created_at = pc_stamp cd (j_CreatedAt j),
       jr_updated_at = pc_stamp cd (j_UpdatedAt j), jr_started_at = None, jr_completed_at = None,
       jr_scheduled_at = map_option (pc_stamp cd) (j_ScheduledAt j)\<rparr>"
  let ?st = "guarded (jsonb_error cd [p, m]) (sql_insert_job ?row)"
  have ok: "fst (?st (db s)) = Ok 1"
    using enc fits scheduled new
    by (auto simp: insert_job_guarded(1) jsonb_error_Ok job_row_error_def value_error_def fits_def)
  obtain s' where s': "pg_Exec D ?st s = (Ok (Ok 1), s')" "good s'" "db s' = effect ?st (db s)"
    using Exec_good [OF s keeps_guarded [OF keeps_jobs(1)], of "jsonb_error cd [p, m]" ?row] ok by auto
  have create: "pg_CreateJob cd D j s = (Ok (), s')"
    using s'(1) enc by (simp add: pg_CreateJob_def jsonb_text_def)
  have "t_jobs (db s') = t_jobs (db s) @ [?row]" using s'(3) ok by (simp add: insert_job_guarded(2))
  moreover have "find (\<lambda>r. jr_id r = j_ID j) (t_jobs (db s)) = None" using new by (auto simp: find_None_iff image_iff)
  ultimately have "find (\<lambda>r. jr_id r = j_ID j) (t_jobs (db s')) = Some ?row"
    by (simp add: find_snoc)
  then have "pg_GetJob cd D (j_ID j) s' = job_of_row cd ?row" using GetJob_row [OF s'(2)] by simp
  also have "\<dots> = Ok (created_job cd j)" using enc by (simp add: job_of_row_def created_job_def)
  finally show ?thesis using create by blast
qed

lemma CreateJob_unscheduled:
  assumes "good s" "j_ScheduledAt j = None"
  shows "fst (pg_CreateJob cd D j s) \<noteq> Ok () \<and> db (snd (pg_CreateJob cd D j s)) = db s"
proof -
  have exec: "(\<exists>x. a = Err x) \<and> db s' = db s"
    if "jr_scheduled_at r = None" "pg_Exec D (guarded e (sql_insert_job r)) s = (a, s')" for e r a s'
  proof -
    have "fst (guarded e (sql_insert_job r) (db s)) \<noteq> Ok 1"
      using that(1) by (simp add: insert_job_guarded(1) job_row_error_def)
    moreover obtain s1 where
      "pg_Exec D (guarded e (sql_insert_job r)) s = (map_res Ok (fst (guarded e (sql_insert_job r) (db s))), s1)"
      "db s1 = effect (guarded e (sql_insert_job r)) (db s)"
      using Exec_good [OF assms(1) keeps_guarded [OF keeps_jobs(1)], of e r] .
    ultimately show ?thesis
      using insert_job_guarded(2,3) [of e r "db s"] that(2) by auto
  qed
  show ?thesis
    unfolding pg_CreateJob_def Let_def
    by (auto simp: with_ok_def assms(2) split: outcome.splits prod.splits dest: exec [rotated])
qed

end

section \<open>The literals of the statements\<close>

definition job_statuses :: "Status set" where
  "job_statuses = {StatusPending, StatusRunning, StatusSuccess, StatusFailed, StatusRetrying, StatusCancelled, StatusExpired}"

lemma status_literals:
  "st \<in> job_statuses \<Longrightarrow>
     st \<notin> {''pending'', ''running'', ''success'', ''failed'', ''cancelled'', ''expired''} \<and> length st \<le> 50"
  by (auto simp: job_statuses_def status_defs)

context postgres
begin

lemma UpdateStatus_row:
  assumes s: "good s" and r: "r \<in> set (t_jobs (db s))" "jr_id r = i" "job_row_error r = None"
    and st: "st \<in> job_statuses"
  shows "\<exists>s'. pg_UpdateStatus cd D clk i st s = (Ok (), s') \<and> good s' \<and>
    t_jobs (db s') = upd_rows (\<lambda>r. jr_id r = i) (\<lambda>r. r\<lparr>jr_status := st, jr_updated_at := pc_stamp cd (clk 0)\<rparr>)
      (t_jobs (db s))"
proof -
  let ?f = "status_update st (pc_stamp cd (clk 0))"
  have f: "?f x = x\<lparr>jr_status := st, jr_updated_at := pc_stamp cd (clk 0)\<rparr>" for x
    using status_literals [OF st] by (simp add: status_update_def)
  have only: "filter (\<lambda>x. jr_id x = i) (t_jobs (db s)) = [r]"
    using filter_unique [of jr_id "t_jobs (db s)" r] r s by (simp add: good_iff integrity_def)
  have "job_row_error (?f r) = None"
    using r(3) status_literals [OF st] by (simp add: f job_row_error_def value_error_def split: if_splits)
  moreover have "x = r" if "x \<in> set (t_jobs (db s))" "jr_id x = i" for x
    using that arg_cong [OF only, of set] by auto
  ultimately have "set_error job_row_error (\<lambda>x. jr_id x = i) ?f (t_jobs (db s)) = None"
    by (intro set_error_None) auto
  then have stmt: "sql_update_job i ?f (db s) =
      (Ok 1, (db s)\<lparr>t_jobs := upd_rows (\<lambda>r. jr_id r = i) ?f (t_jobs (db s))\<rparr>)"
    using only by (simp add: sql_update_job_def guarded_def matching_def)
  have keeps: "keeps_integrity (sql_update_job i ?f)" by (rule keeps_jobs) (simp add: status_update_def)
  obtain s' where "pg_UpdateStatus cd D clk i st s =
      (ends (sql_update_job i ?f) ''failed to update status'' ErrJobNotFound (db s), s')" "good s'"
    "db s' = effect (sql_update_job i ?f) (db s)"
    using exec_rows [OF s keeps, of "''failed to update status''" ErrJobNotFound] unfolding pg_UpdateStatus_def .
  then show ?thesis
    by (intro exI [of _ s']) (simp add: ends_def effect_def stmt flip: f)
qed

lemma GetQueueStats_zero:
  assumes "good s" "jr_status ` set (t_jobs (db s)) \<subseteq> job_statuses"
  shows "pg_GetQueueStats D q s = Ok (zero_QueueStats q)"
proof -
  have "count_jobs q literal (db s) = 0"
    if "literal \<in> {''pending'', ''running'', ''success'', ''failed''}" for literal
  proof -
    have "\<not> (jr_queue r = q \<and> jr_status r = literal)" if r: "r \<in> set (t_jobs (db s))" for r
    proof -
      have "jr_status r \<in> job_statuses" using assms(2) r by blast
      then show ?thesis using status_literals that \<open>literal \<in> _\<close> by blast
    qed
    then show ?thesis by (simp add: count_jobs_def matching_def filter_empty_conv)
  qed
  then show ?thesis
    using Value [of s] assms(1) by (simp add: good_iff pg_GetQueueStats_def zero_QueueStats_def)
qed

lemma SaveQueueConfig_default:
  assumes "good s" "length q \<le> 255" "pc_config_meta cd (DefaultQueueConfig q) = Ok m" "pc_jsonb cd m = Ok v"
  shows "\<exists>s'. pg_SaveQueueConfig cd D (DefaultQueueConfig q) s =
      (Err (Errorf ''failed to save queue config'' (Some pq_out_of_range)), s') \<and> db s' = db s"
proof -
  let ?st = "guarded (jsonb_error cd [m]) (sql_upsert_config (config_to_row (jsonb_text cd m) (DefaultQueueConfig q)))"
  have "config_row_error (config_to_row v (DefaultQueueConfig q)) = Some pq_out_of_range"
    using assms(2)
    by (simp add: config_row_error_def config_to_row_def DefaultQueueConfig_def zero_QueueConfig_def value_error_def
      int4_def strategy_defs Second_def Hour_def Minute_def)
  then have "?st (db s) = (Err pq_out_of_range, db s)"
    using assms(4) by (simp add: guarded_def jsonb_error_Ok jsonb_text_def sql_upsert_config_def)
  moreover obtain s' where "exec_only D ''failed to save queue config'' ?st s =
      (map_res (\<lambda>_. ()) (wrap_err ''failed to save queue config'' (fst (?st (db s)))), s')" "db s' = effect ?st (db s)"
    using exec_only [OF assms(1) keeps_guarded [OF keeps_workers(4)]] .
  ultimately show ?thesis by (simp add: pg_SaveQueueConfig_def assms(3) effect_def)
qed

end

end
