(* ===== verification/PostgresServer.thy ===== *)
theory PostgresServer
  imports PostgresProofs
begin

text \<open>
  A database that is just its tables and, in a transaction, the tables it started from. Statements run as they
  are, and a query sorts its rows. It meets the locale \<open>postgres\<close>, so the locale can be met, and what is
  proved in it holds of a program that can be evaluated.
\<close>

section \<open>Sorting rows\<close>

primrec insert_row :: "('r \<Rightarrow> 'r \<Rightarrow> bool) \<Rightarrow> 'r \<Rightarrow> 'r list \<Rightarrow> 'r list" where
  "insert_row before r [] = [r]"
| "insert_row before r (x # xs) = (if before r x then r # x # xs else x # insert_row before r xs)"

primrec sort_rows :: "('r \<Rightarrow> 'r \<Rightarrow> bool) \<Rightarrow> 'r list \<Rightarrow> 'r list" where
  "sort_rows before [] = []"
| "sort_rows before (r # rs) = insert_row before r (sort_rows before rs)"

lemma mset_insert_row: "mset (insert_row before r xs) = add_mset r (mset xs)"
  by (induction xs) simp_all

lemma set_insert_row: "set (insert_row before r xs) = insert r (set xs)"
  by (metis mset_insert_row set_mset_add_mset_insert set_mset_mset)

lemma mset_sort_rows: "mset (sort_rows before rs) = mset rs"
  by (induction rs) (simp_all add: mset_insert_row)

lemma sorted_insert_row:
  assumes "transp before" "\<And>x y. before x y \<or> before y x" "sorted_wrt before xs"
  shows "sorted_wrt before (insert_row before r xs)"
  using assms(3)
proof (induction xs)
  case (Cons x xs)
  show ?case
  proof (cases "before r x")
    case True
    with Cons.prems assms(1) show ?thesis by (auto dest: transpD)
  next
    case False
    with Cons assms(2) [of r x] show ?thesis by (simp add: set_insert_row)
  qed
qed simp

lemma sorted_sort_rows: "order_keys q \<Longrightarrow> sorted_wrt (sl_before q) (sort_rows (sl_before q) rs)"
  by (induction rs) (auto simp: order_keys_def intro!: sorted_insert_row)

section \<open>The database\<close>

definition run_select :: "'r select \<Rightarrow> tables \<Rightarrow> ('r list \<times> err option) res" where
  "run_select q t =
     (if select_valid q
      then Ok (let zs = drop (nat (sl_offset q)) (sort_rows (sl_before q) (sl_from q t))
               in case sl_limit q of None \<Rightarrow> zs | Some n \<Rightarrow> take (nat n) zs, None)
      else Err (Errorf ''pq: LIMIT must not be negative'' None))"

lemma run_select_answers:
  "select_valid q \<Longrightarrow> order_keys q \<Longrightarrow> \<exists>rows. run_select q t = Ok (rows, None) \<and> answers q t rows"
  unfolding run_select_def answers_def using sorted_sort_rows mset_sort_rows by fastforce

lemma run_select_invalid: "\<not> select_valid q \<Longrightarrow> \<exists>e. run_select q t = Err e"
  by (simp add: run_select_def)

definition ref_driver :: "(tables \<times> tables option) driver" where
  "ref_driver =
     \<lparr>pg_Exec = (\<lambda>st (t, saved). (map_res Ok (fst (st t)), (effect st t, saved))),
      pg_Jobs = (\<lambda>q s. run_select q (fst s)), pg_Entries = (\<lambda>q s. run_select q (fst s)),
      pg_Workers = (\<lambda>q s. run_select q (fst s)), pg_Configs = (\<lambda>q s. run_select q (fst s)),
      pg_Value = (\<lambda>f s. Ok (f (fst s))),
      pg_Begin = (\<lambda>(t, saved). (Ok (), (t, Some t))),
      pg_Commit = (\<lambda>(t, saved). (Ok (), (t, None))),
      pg_Rollback = (\<lambda>(t, saved). (case saved of None \<Rightarrow> t | Some t' \<Rightarrow> t', None))\<rparr>"

interpretation tables_db: postgres ref_driver fst snd "\<lambda>_. True"
  by unfold_locales
    (auto simp: ref_driver_def run_select_answers run_select_invalid split: option.splits)

lemma ref_postgres: "postgres ref_driver fst snd (\<lambda>_. True)"
  by (rule tables_db.postgres_axioms)

lemma ref_settled [simp]: "settled fst snd (\<lambda>_. True) (t, None) \<longleftrightarrow> integrity t"
  by (simp add: settled_def)

end
