(* ===== verification/PostgresProperties.thy ===== *)
theory PostgresProperties
  imports PostgresFacts PostgresServer Samples
begin

text \<open>
  What the postgres backend promises, and where it does not keep the promise, over any driver and server that
  meet the locale \<open>postgres\<close>. Each property is shown to apply to the database of \<open>PostgresServer\<close>.
\<close>

section \<open>Queues\<close>

text \<open>
  C6: The queues of the postgres backend keep the contract of the storage interface: dequeuing takes a ready
  entry of the highest priority in its queue and nothing else, removing takes one entry of the job,
  pausing and resuming set the flag, and the length counts the entries. A queue whose name has more than
  255 characters cannot be paused.
\<close>

theorem pg_queue_contract:
  assumes "postgres D db saved ok"
  shows "let valid = settled db saved ok; view = (\<lambda>s. pg_view cd (db s)) in
    refines_rel valid view (pg_Dequeue cd D clk q) (spec_Dequeue (pc_stamp cd (clk 0)) q) \<and>
    refines_rel valid view (pg_Remove D q i) (spec_Remove q i) \<and>
    refines valid view (pg_ResumeQueue D q) (spec_set_paused False q) \<and>
    (length q \<le> 255 \<longrightarrow> refines valid view (pg_PauseQueue D q) (spec_set_paused True q)) \<and>
    (\<forall>s. valid s \<longrightarrow> pg_Length D q s = Ok (int (size (v_entries (view s) q))))"
  unfolding Let_def
  using postgres.Dequeue_refines [OF assms] postgres.Remove_refines [OF assms]
    postgres.ResumeQueue_refines [OF assms] postgres.PauseQueue_refines [OF assms]
    postgres.Length_entries [OF assms]
  by blast

text \<open>Encoding that writes one text and decodes a map without keys.\<close>

definition sample_pg_codec :: pg_codec where
  "sample_pg_codec =
     \<lparr>pc_map = (\<lambda>_. Ok ''{}''), pc_unmap = (\<lambda>_. Ok Map.empty), pc_result = (\<lambda>_. Ok ''null''),
      pc_unresult = (\<lambda>_. Ok ''null''), pc_queues = (\<lambda>_. Ok ''[]''), pc_unqueues = (\<lambda>_. Ok []),
      pc_tags = (\<lambda>_. Ok ''{}''), pc_untags = (\<lambda>_. Ok Map.empty), pc_worker_meta = (\<lambda>_. Ok ''null''),
      pc_config_meta = (\<lambda>_. Ok ''null''), pc_check_meta = (\<lambda>_. Ok ()), pc_jsonb = Ok, pc_stamp = (\<lambda>t. t)\<rparr>"

definition sample_row :: "string \<Rightarrow> Status \<Rightarrow> job_row" where
  "sample_row i st =
     \<lparr>jr_id = i, jr_type = ''echo'', jr_queue = ''mail'', jr_payload = ''{}'', jr_result = None, jr_error = None,
      jr_status = st, jr_priority = 5, jr_retry_count = 0, jr_max_retries = 3, jr_timeout_seconds = 30,
      jr_progress = 0, jr_metadata = Some ''{}'', jr_created_at = 0, jr_updated_at = 0, jr_started_at = None,
      jr_completed_at = None, jr_scheduled_at = Some 0\<rparr>"

definition sample_tables :: tables where
  "sample_tables = empty_tables\<lparr>t_jobs := [sample_row ''a'' StatusPending, sample_row ''b'' StatusPending],
     t_queues := [\<lparr>er_queue_name = ''mail'', er_job_id = ''a'', er_priority = 0, er_scheduled_for = 3\<rparr>,
       \<lparr>er_queue_name = ''mail'', er_job_id = ''b'', er_priority = 5, er_scheduled_for = 4\<rparr>]\<rparr>"

lemma sample_row_sel [simp]:
  "jr_id (sample_row i st) = i" "jr_status (sample_row i st) = st" "jr_queue (sample_row i st) = ''mail''"
  "jr_started_at (sample_row i st) = None" "jr_completed_at (sample_row i st) = None"
  by (simp_all add: sample_row_def)

lemma integrity_sample [simp]: "integrity sample_tables"
  by (simp add: integrity_def sample_tables_def empty_tables_def)


lemma sample_tables_queues: "t_queues sample_tables =
   [\<lparr>er_queue_name = ''mail'', er_job_id = ''a'', er_priority = 0, er_scheduled_for = 3\<rparr>,
    \<lparr>er_queue_name = ''mail'', er_job_id = ''b'', er_priority = 5, er_scheduled_for = 4\<rparr>]"
  by (simp add: sample_tables_def)

lemma sample_pg_codec_sel [simp]:
  "pc_stamp sample_pg_codec = (\<lambda>t. t)" "pc_jsonb sample_pg_codec = Ok" "pc_map sample_pg_codec = (\<lambda>_. Ok ''{}'')"
  "pc_unmap sample_pg_codec = (\<lambda>_. Ok Map.empty)"
  by (simp_all add: sample_pg_codec_def)

theorem pg_queue_contract_witness:
  "pg_Length ref_driver ''mail'' (sample_tables, None) = Ok 2 \<and>
   fst (pg_Dequeue sample_pg_codec ref_driver (\<lambda>_. 9) ''mail'' (sample_tables, None)) = Ok ''b''"
proof -
  note contract = pg_queue_contract [OF ref_postgres, where cd = sample_pg_codec and clk = "\<lambda>_. 9" and q = "''mail''",
      unfolded Let_def]
  let ?v = "pg_view sample_pg_codec sample_tables"
  have v: "v_entries ?v ''mail'' = {#(''a'', 0, 3), (''b'', 5, 4)#}" "\<not> v_paused ?v ''mail''"
    by (simp_all add: pg_view_def entries_in_def sample_tables_def empty_tables_def)
  obtain r s' where run: "pg_Dequeue sample_pg_codec ref_driver (\<lambda>_. 9) ''mail'' (sample_tables, None) = (r, s')"
    by (rule prod.exhaust)
  have "spec_Dequeue 9 ''mail'' ?v (r, pg_view sample_pg_codec (fst s'))"
    using refines_relD [OF conjunct1 [OF contract] _ run] by simp
  then have "r = Ok ''b''" using v by (auto simp: spec_Dequeue_def)
  then show ?thesis using contract run v by simp
qed

text \<open>
  C37: Every sequence of writing methods keeps the tables sound: keys are unique, and every queue entry is of a
  stored job, since deleting a job deletes its entries. So a job that \<open>Dequeue\<close> hands out is there when
  it is fetched, unlike in the other two backends, which keep the entry of a deleted job.
\<close>

theorem pg_integrity:
  assumes "postgres D db saved ok" "settled db saved ok s"
  shows "let s' = fold (pg_apply cd D) ops s in
    integrity (db s') \<and>
    (\<forall>clk q i s''. pg_Dequeue cd D clk q s' = (Ok i, s'') \<longrightarrow> pg_GetJob cd D i s'' \<noteq> Err ErrJobNotFound)"
  using postgres.good_ops [OF assms, of cd ops] postgres.Dequeue_stored [OF assms(1)]
  by (auto simp: Let_def settled_def)

theorem pg_integrity_witness:
  "integrity (fst (fold (pg_apply sample_pg_codec ref_driver)
     [PCreate ((sample_job ''c'')\<lparr>j_ScheduledAt := Some 1\<rparr>), PEnqueue (\<lambda>_. 2) ''mail'' ''c'' PriorityHigh 0,
      PDequeue (\<lambda>_. 3) ''mail'', PDelete ''a''] (sample_tables, None)))"
  using pg_integrity [OF ref_postgres, where s = "(sample_tables, None)"] unfolding Let_def ref_settled
  by (metis integrity_sample)

section \<open>Jobs\<close>

text \<open>
  C38: A job that is created can be fetched as it was, with its instants at the precision of the server, except
  for what has no column or is not written: its timeout as a duration, its worker, error, result, and
  the times of its start and end are lost. The identifier has to be new, the values have to fit into their
  columns, and the job needs a scheduled time.
\<close>

theorem pg_Create_Get:
  assumes "postgres D db saved ok" "settled db saved ok s"
    and "stored_map cd (j_Payload j)" "stored_map cd (j_Metadata j)" "fits j"
    and "j_ScheduledAt j \<noteq> None" "j_ID j \<notin> jr_id ` set (t_jobs (db s))"
  shows "\<exists>s'. pg_CreateJob cd D j s = (Ok (), s') \<and> pg_GetJob cd D (j_ID j) s' = Ok (created_job cd j)"
  using postgres.Create_Get [OF assms] .

theorem pg_Create_Get_witness:
  "\<exists>s'. pg_CreateJob sample_pg_codec ref_driver ((sample_job ''c'')\<lparr>j_ScheduledAt := Some 1\<rparr>) (sample_tables, None) =
      (Ok (), s')"
proof -
  have "fits ((sample_job ''c'')\<lparr>j_ScheduledAt := Some 1\<rparr>)"
    by (simp add: fits_def sample_job_def int4_def PriorityNormal_def StatusPending_def)
  moreover have "j_ID ((sample_job ''c'')\<lparr>j_ScheduledAt := Some 1\<rparr>) \<notin> jr_id ` set (t_jobs (fst (sample_tables, None)))"
    by (simp add: sample_tables_def)
  moreover have "stored_map sample_pg_codec Map.empty" by (simp add: stored_map_def)
  ultimately show ?thesis
    using pg_Create_Get [OF ref_postgres, where s = "(sample_tables, None)" and cd = sample_pg_codec
        and j = "(sample_job ''c'')\<lparr>j_ScheduledAt := Some 1\<rparr>"]
    by (auto simp: sample_job_def)
qed

text \<open>A job with a nil \<open>ScheduledAt\<close> is never created: the column is \<open>NOT NULL\<close>, and NULL is sent.\<close>

theorem pg_CreateJob_unscheduled:
  assumes "postgres D db saved ok" "settled db saved ok s" "j_ScheduledAt j = None"
  shows "fst (pg_CreateJob cd D j s) \<noteq> Ok () \<and> db (snd (pg_CreateJob cd D j s)) = db s"
  using postgres.CreateJob_unscheduled [OF assms] .

text \<open>
  C39: Putting a stored job into a queue leaves one entry of it there, with the new priority and time, also where
  the memory store would keep two; a job that is not stored is refused with \<open>ErrJobNotFound\<close>, found by
  the text of the server's error.
\<close>

theorem pg_Enqueue_replaces:
  assumes "postgres D db saved ok" "settled db saved ok s" "length q \<le> 255" "length i \<le> 255" "int4 p"
  shows "\<exists>s'. settled db saved ok s' \<and> pg_Enqueue cd D clk q i p d s =
      (if i \<in> jr_id ` set (t_jobs (db s)) then (Ok (), s') else (Err ErrJobNotFound, s')) \<and>
    pg_view cd (db s') =
    (if i \<in> jr_id ` set (t_jobs (db s))
     then (pg_view cd (db s))\<lparr>v_entries := (v_entries (pg_view cd (db s)))(q :=
         add_mset (i, p, pc_stamp cd (clk 0 + d)) {#x \<in># v_entries (pg_view cd (db s)) q. fst x \<noteq> i#})\<rparr>
     else pg_view cd (db s))"
  by (rule postgres.Enqueue_replaces [OF assms])

theorem pg_Enqueue_replaces_witness:
  "\<exists>s'. pg_Enqueue sample_pg_codec ref_driver (\<lambda>_. 20) ''mail'' ''b'' PriorityLow 5 (sample_tables, None) = (Ok (), s') \<and>
     v_entries (pg_view sample_pg_codec (fst s')) ''mail'' = {#(''a'', 0, 3), (''b'', PriorityLow, 25)#}"
proof -
  let ?v = "v_entries (pg_view sample_pg_codec sample_tables)"
  have fit: "int4 PriorityLow" "''b'' \<in> jr_id ` set (t_jobs sample_tables)"
    by (simp_all add: int4_def priority_defs sample_tables_def)
  have v: "{#x \<in># ?v ''mail''. fst x \<noteq> ''b''#} = {#(''a'', 0, 3)#}"
    by (simp add: pg_view_def entries_in_def sample_tables_def)
  obtain s' where "pg_Enqueue sample_pg_codec ref_driver (\<lambda>_. 20) ''mail'' ''b'' PriorityLow 5 (sample_tables, None) = (Ok (), s')"
    "v_entries (pg_view sample_pg_codec (fst s')) = ?v(''mail'' := add_mset (''b'', PriorityLow, 25) {#(''a'', 0, 3)#})"
    using pg_Enqueue_replaces [OF ref_postgres, where s = "(sample_tables, None)" and q = "''mail''" and i = "''b''"
        and p = PriorityLow and cd = sample_pg_codec and clk = "\<lambda>_. 20" and d = 5] fit v
    by (auto simp del: not_None_eq)
  then show ?thesis by (intro exI [of _ s']) simp
qed

section \<open>Statuses and configurations\<close>



text \<open>The counts of a queue are zero for the same reason, whatever jobs it holds.\<close>

theorem pg_GetQueueStats_zero:
  assumes "postgres D db saved ok" "settled db saved ok s" "jr_status ` set (t_jobs (db s)) \<subseteq> job_statuses"
  shows "pg_GetQueueStats D q s = Ok (zero_QueueStats q)"
  by (rule postgres.GetQueueStats_zero [OF assms])

text \<open>
  The default configuration of a queue cannot be saved: its durations are sent in nanoseconds, and five
  seconds of those do not fit into the column for seconds. Nothing is stored.
\<close>

theorem pg_SaveQueueConfig_default:
  assumes "postgres D db saved ok" "settled db saved ok s" "length q \<le> 255"
    and "pc_config_meta cd (DefaultQueueConfig q) = Ok m" "pc_jsonb cd m = Ok v"
  shows "\<exists>s'. pg_SaveQueueConfig cd D (DefaultQueueConfig q) s =
      (Err (Errorf ''failed to save queue config'' (Some pq_out_of_range)), s') \<and> db s' = db s"
  by (rule postgres.SaveQueueConfig_default [OF assms])

theorem pg_SaveQueueConfig_default_witness:
  "\<exists>s'. pg_SaveQueueConfig sample_pg_codec ref_driver (DefaultQueueConfig ''mail'') (sample_tables, None) =
      (Err (Errorf ''failed to save queue config'' (Some pq_out_of_range)), s')"
  using pg_SaveQueueConfig_default [OF ref_postgres, where s = "(sample_tables, None)" and q = "''mail''"
      and cd = sample_pg_codec and m = "''null''" and v = "''null''"]
  by (auto simp: sample_pg_codec_def)

end
