(* ===== verification/PostgresLocks.thy ===== *)
theory PostgresLocks
  imports PostgresProperties
begin

text \<open>
  Concurrent calls of \<open>Dequeue\<close> against one database. A call runs the check of the pause, the \<open>SELECT \<dots> FOR UPDATE
  SKIP LOCKED\<close> of its transaction, the \<open>DELETE\<close> and the commit as separate steps, between which other
  sessions run theirs. As the server documents it, the selection locks the row it gives and skips the rows that
  others have locked, a statement on a locked row waits, what a transaction does is visible to others after its
  commit, and a rollback releases its locks.
\<close>

section \<open>Steps\<close>

datatype pg_phase = Idle | Checked string | Holding string string | Deleted string string

record pg_world =
  pw_tables :: tables
  pw_phase :: "nat \<Rightarrow> pg_phase"
  pw_delivered :: "(string \<times> string) list"
  pw_inserted :: "(string \<times> string) list"

text \<open>The key of the row that a session has locked.\<close>

fun locked_key :: "pg_phase \<Rightarrow> (string \<times> string) option" where
  "locked_key (Holding q i) = Some (q, i)"
| "locked_key (Deleted q i) = Some (q, i)"
| "locked_key _ = None"

definition pg_locked :: "pg_world \<Rightarrow> (string \<times> string) set" where
  "pg_locked w = {k. \<exists>c. locked_key (pw_phase w c) = Some k}"

definition entry_keys :: "tables \<Rightarrow> (string \<times> string) list" where
  "entry_keys t = map (\<lambda>e. (er_queue_name e, er_job_id e)) (t_queues t)"

definition skip_locked :: "pg_world \<Rightarrow> tables" where
  "skip_locked w = (pw_tables w)\<lparr>t_queues :=
     filter (\<lambda>e. (er_queue_name e, er_job_id e) \<notin> pg_locked w) (t_queues (pw_tables w))\<rparr>"

definition to_phase :: "nat \<Rightarrow> pg_phase \<Rightarrow> pg_world \<Rightarrow> pg_world" where
  "to_phase c p w = w\<lparr>pw_phase := (pw_phase w)(c := p)\<rparr>"

inductive pg_step :: "pg_world \<Rightarrow> pg_world \<Rightarrow> bool" where
  check: "pw_phase w c = Idle \<Longrightarrow> q \<notin> set (t_paused (pw_tables w)) \<Longrightarrow> pg_step w (to_phase c (Checked q) w)"
| select: "pw_phase w c = Checked q \<Longrightarrow> answers (ready_entry q now) (skip_locked w) [e] \<Longrightarrow>
    pg_step w (to_phase c (Holding q (er_job_id e)) w)"
| nothing: "pw_phase w c = Checked q \<Longrightarrow> answers (ready_entry q now) (skip_locked w) [] \<Longrightarrow>
    pg_step w (to_phase c Idle w)"
| delete: "pw_phase w c = Holding q i \<Longrightarrow> pg_step w (to_phase c (Deleted q i) w)"
| commit: "pw_phase w c = Deleted q i \<Longrightarrow>
    pg_step w ((to_phase c Idle w)\<lparr>pw_tables := effect (sql_delete_entry q i) (pw_tables w),
      pw_delivered := (q, i) # pw_delivered w\<rparr>)"
| rollback: "pg_step w (to_phase c Idle w)"
| enqueue: "(er_queue_name e, er_job_id e) \<notin> pg_locked w \<Longrightarrow>
    fst (sql_upsert_entry e (pw_tables w)) = Ok n \<Longrightarrow>
    pg_step w (w\<lparr>pw_tables := effect (sql_upsert_entry e) (pw_tables w),
      pw_inserted := (if (er_queue_name e, er_job_id e) \<in> set (entry_keys (pw_tables w)) then pw_inserted w
        else (er_queue_name e, er_job_id e) # pw_inserted w)\<rparr>)"
| remove: "(q, i) \<notin> pg_locked w \<Longrightarrow>
    pg_step w (w\<lparr>pw_tables := effect (sql_delete_entry q i) (pw_tables w)\<rparr>)"
| pause: "pg_step w (w\<lparr>pw_tables := effect (sql_pause q) (pw_tables w)\<rparr>)"
| resume: "pg_step w (w\<lparr>pw_tables := effect (sql_resume q) (pw_tables w)\<rparr>)"
| insert_job: "pg_step w (w\<lparr>pw_tables := effect (sql_insert_job r) (pw_tables w)\<rparr>)"
| delete_job: "(\<And>q. (q, i) \<notin> pg_locked w) \<Longrightarrow>
    pg_step w (w\<lparr>pw_tables := effect (sql_delete_job i) (pw_tables w)\<rparr>)"

text \<open>The entries that are there at the start count as inserted.\<close>

definition pg_start :: "tables \<Rightarrow> pg_world" where
  "pg_start t = \<lparr>pw_tables = t, pw_phase = (\<lambda>_. Idle), pw_delivered = [], pw_inserted = entry_keys t\<rparr>"

lemma pg_start_sel [simp]:
  "pw_tables (pg_start t) = t" "pw_phase (pg_start t) = (\<lambda>_. Idle)" "pw_delivered (pg_start t) = []"
  "pw_inserted (pg_start t) = entry_keys t"
  by (simp_all add: pg_start_def)

inductive pg_reach :: "tables \<Rightarrow> pg_world \<Rightarrow> bool" for t where
  start: "pg_reach t (pg_start t)"
| step: "pg_reach t w \<Longrightarrow> pg_step w w' \<Longrightarrow> pg_reach t w'"

section \<open>The invariant\<close>

text \<open>
  No two sessions hold the same row, a held row is in the table, and each row in the table or delivered was
  inserted once for it.
\<close>

definition locks_inv :: "pg_world \<Rightarrow> bool" where
  "locks_inv w \<longleftrightarrow>
     integrity (pw_tables w) \<and>
     (\<forall>c c' k. locked_key (pw_phase w c) = Some k \<longrightarrow> locked_key (pw_phase w c') = Some k \<longrightarrow> c = c') \<and>
     pg_locked w \<subseteq> set (entry_keys (pw_tables w)) \<and>
     mset (pw_delivered w) + mset (entry_keys (pw_tables w)) \<subseteq># mset (pw_inserted w)"

lemma to_phase_sel [simp]:
  "pw_tables (to_phase c p w) = pw_tables w" "pw_delivered (to_phase c p w) = pw_delivered w"
  "pw_inserted (to_phase c p w) = pw_inserted w" "pw_phase (to_phase c p w) = (pw_phase w)(c := p)"
  by (simp_all add: to_phase_def)

lemma locked_upd [simp]:
  "pg_locked (w\<lparr>pw_tables := t\<rparr>) = pg_locked w" "pg_locked (w\<lparr>pw_inserted := k\<rparr>) = pg_locked w"
  "pg_locked (w\<lparr>pw_delivered := k\<rparr>) = pg_locked w"
  by (simp_all add: pg_locked_def)

lemma distinct_entry_keys: "integrity t \<Longrightarrow> distinct (entry_keys t)"
  by (simp add: integrity_def entry_keys_def)

lemma entry_keys_delete:
  "entry_keys (effect (sql_delete_entry q i) t) = removeAll (q, i) (entry_keys t)"
proof -
  have "filter (\<lambda>e. \<not> entry_at q i e) rows = filter (\<lambda>e. (q, i) \<noteq> (er_queue_name e, er_job_id e)) rows" for rows
    by (rule filter_cong) (auto simp: entry_at_def)
  then show ?thesis
    by (simp add: entry_keys_def effect_def sql_delete_entry_def del_rows_def removeAll_filter_not_eq filter_map comp_def)
qed

lemma entry_keys_delete_job:
  assumes "integrity t"
  shows "entry_keys (effect (sql_delete_job i) t) = filter (\<lambda>k. snd k \<noteq> i) (entry_keys t)"
proof (cases "i \<in> jr_id ` set (t_jobs t)")
  case False
  then have "filter (\<lambda>x. er_job_id x \<noteq> i) (t_queues t) = t_queues t"
    using assms by (auto simp: integrity_def filter_id_conv)
  with False show ?thesis by (simp add: entry_keys_def effect_def sql_delete_job_def filter_map comp_def)
qed (simp add: entry_keys_def effect_def sql_delete_job_def del_rows_def filter_map comp_def)

lemma in_entry_keys: "(q, i) \<in> set (entry_keys t) \<longleftrightarrow> (\<exists>x \<in> set (t_queues t). entry_at q i x)"
  by (auto simp: entry_keys_def entry_at_def)

lemma entry_keys_upsert:
  "fst (sql_upsert_entry e t) = Ok n \<Longrightarrow> entry_keys (effect (sql_upsert_entry e) t) =
     (let k = (er_queue_name e, er_job_id e) in if k \<in> set (entry_keys t) then entry_keys t else entry_keys t @ [k])"
  unfolding in_entry_keys Let_def
  by (auto simp: sql_upsert_entry_def guarded_def effect_def entry_keys_def Let_def map_upd_rows
      split: option.splits if_splits)

lemma entry_keys_other:
  "entry_keys (effect (sql_pause q) t) = entry_keys t" "entry_keys (effect (sql_resume q) t) = entry_keys t"
  "entry_keys (effect (sql_insert_job r) t) = entry_keys t"
  by (auto simp: entry_keys_def effect_def sql_pause_def sql_resume_def sql_insert_job_def guarded_def
      split: option.splits)

lemma locked_to_phase:
  "pg_locked (to_phase c p w) \<subseteq> pg_locked w \<union> set_option (locked_key p)"
  "k \<in> pg_locked (to_phase c p w) \<Longrightarrow> locked_key p = Some k \<or> (\<exists>c'. c' \<noteq> c \<and> locked_key (pw_phase w c') = Some k)"
  by (auto simp: pg_locked_def split: if_splits)

lemma locksD:
  assumes "locks_inv w"
  shows "integrity (pw_tables w)" "pg_locked w \<subseteq> set (entry_keys (pw_tables w))"
    "mset (pw_delivered w) + mset (entry_keys (pw_tables w)) \<subseteq># mset (pw_inserted w)"
    "locked_key (pw_phase w c) = Some k \<Longrightarrow> locked_key (pw_phase w c') = Some k \<Longrightarrow> c = c'"
  using assms unfolding locks_inv_def by blast+

text \<open>A session that moves on takes at most a lock that nobody has.\<close>

lemma inv_phase:
  assumes inv: "locks_inv w"
    and new: "\<And>k. locked_key p = Some k \<Longrightarrow>
      k \<in> set (entry_keys (pw_tables w)) \<and> (\<forall>c'. c' \<noteq> c \<longrightarrow> locked_key (pw_phase w c') \<noteq> Some k)"
  shows "locks_inv (to_phase c p w)"
  unfolding locks_inv_def
proof (intro conjI allI impI)
  show "integrity (pw_tables (to_phase c p w))" using locksD [OF inv] by simp
  show "pg_locked (to_phase c p w) \<subseteq> set (entry_keys (pw_tables (to_phase c p w)))"
    using locked_to_phase(1) [of c p w] locksD(2) [OF inv] new by (cases "locked_key p") auto
  show "mset (pw_delivered (to_phase c p w)) + mset (entry_keys (pw_tables (to_phase c p w)))
      \<subseteq># mset (pw_inserted (to_phase c p w))"
    using locksD(3) [OF inv] by simp
  fix a b k
  assume "locked_key (pw_phase (to_phase c p w) a) = Some k" "locked_key (pw_phase (to_phase c p w) b) = Some k"
  then show "a = b"
    using locksD(4) [OF inv, of a k b] new [of k] by (auto split: if_splits)
qed

text \<open>A change of the tables keeps the rows that are locked.\<close>

lemma inv_tables:
  assumes "locks_inv w" "pw_phase w' = pw_phase w" "integrity (pw_tables w')"
    and "pg_locked w \<subseteq> set (entry_keys (pw_tables w'))"
    and "mset (pw_delivered w') + mset (entry_keys (pw_tables w')) \<subseteq># mset (pw_inserted w')"
  shows "locks_inv w'"
proof -
  have "pg_locked w' = pg_locked w" by (simp add: pg_locked_def assms(2))
  then show ?thesis using assms locksD(4) [OF assms(1)] unfolding locks_inv_def by metis
qed

lemma inv_shrink:
  assumes "locks_inv w" "integrity t" "pg_locked w \<subseteq> set (entry_keys t)"
    and "mset (entry_keys t) \<subseteq># mset (entry_keys (pw_tables w))"
  shows "locks_inv (w\<lparr>pw_tables := t\<rparr>)"
proof -
  have "mset (pw_delivered w) + mset (entry_keys t) \<subseteq># mset (pw_inserted w)"
    using locksD(3) [OF assms(1)] assms(4) by (meson subset_mset.add_left_mono subset_mset.order_trans)
  with assms show ?thesis by (intro inv_tables [of w "w\<lparr>pw_tables := t\<rparr>"]) simp_all
qed

lemma selected_row:
  assumes "answers (ready_entry q now) (skip_locked w) [e]"
  shows "(q, er_job_id e) \<in> set (entry_keys (pw_tables w))" "(q, er_job_id e) \<notin> pg_locked w"
proof -
  have "e \<in> set (sl_from (ready_entry q now) (skip_locked w))"
    using answers_first [OF assms] by (simp add: ready_entry_def)
  then show "(q, er_job_id e) \<in> set (entry_keys (pw_tables w))" "(q, er_job_id e) \<notin> pg_locked w"
    by (auto simp: ready_entry_def skip_locked_def entry_keys_def)
qed

lemma inv_step: "pg_step w w' \<Longrightarrow> locks_inv w \<Longrightarrow> locks_inv w'"
proof (induction rule: pg_step.induct)
  case (select w c q now e)
  note row = selected_row [OF select(2)]
  show ?case
    by (rule inv_phase [OF select(3)]) (use row in \<open>auto simp: pg_locked_def\<close>)
next
  case (delete w c q i)
  have "(q, i) \<in> pg_locked w" using delete(1) by (auto simp: pg_locked_def intro: exI [of _ c])
  then show ?case
    using locksD(2,4) [OF delete(2)] delete(1) by (intro inv_phase [OF delete(2)]) auto
next
  case (commit w c q i)
  let ?t = "effect (sql_delete_entry q i) (pw_tables w)" and ?w = "to_phase c Idle w"
  have mine: "(q, i) \<in> pg_locked w" using commit(1) by (auto simp: pg_locked_def intro: exI [of _ c])
  have inv: "locks_inv ?w" using commit(2) by (rule inv_phase) simp
  have keys: "mset (entry_keys (pw_tables w)) = add_mset (q, i) (mset (entry_keys ?t))"
  proof -
    have "(q, i) \<in> set (entry_keys (pw_tables w))" using mine locksD(2) [OF commit(2)] by blast
    moreover have "distinct (entry_keys (pw_tables w))" using distinct_entry_keys locksD(1) [OF commit(2)] by blast
    ultimately show ?thesis
      by (simp add: entry_keys_delete flip: distinct_remove1_removeAll)
  qed
  have "(q, i) \<notin> pg_locked ?w"
    using locked_to_phase(2) [of "(q, i)" c Idle w] locksD(4) [OF commit(2), of c "(q, i)"] commit(1) by fastforce
  then have "pg_locked ?w \<subseteq> set (entry_keys ?t)"
    using locksD(2) [OF inv] by (auto simp: entry_keys_delete)
  moreover have "integrity ?t" using integrity_effect keeps_queues(2) locksD(1) [OF commit(2)] by blast
  moreover have "mset ((q, i) # pw_delivered w) + mset (entry_keys ?t) \<subseteq># mset (pw_inserted w)"
    using locksD(3) [OF commit(2)] keys by simp
  ultimately show ?case by (intro inv_tables [OF inv]) simp_all
next
  case (enqueue e w n)
  let ?t = "effect (sql_upsert_entry e) (pw_tables w)" and ?k = "(er_queue_name e, er_job_id e)"
  have integ: "integrity ?t" using integrity_effect keeps_queues(1) locksD(1) [OF enqueue(3)] by blast
  note keys = entry_keys_upsert [OF enqueue(2), unfolded Let_def]
  have "pg_locked w \<subseteq> set (entry_keys ?t)" using locksD(2) [OF enqueue(3)] by (auto simp: keys)
  moreover have "mset (pw_delivered w) + mset (entry_keys ?t) \<subseteq>#
      mset (if ?k \<in> set (entry_keys (pw_tables w)) then pw_inserted w else ?k # pw_inserted w)"
    using locksD(3) [OF enqueue(3)] by (simp add: keys)
  ultimately show ?case using integ by (intro inv_tables [OF enqueue(3)]) simp_all
next
  case (remove q i w)
  show ?case
  proof (rule inv_shrink [OF remove(2)])
    show "integrity (effect (sql_delete_entry q i) (pw_tables w))"
      using integrity_effect keeps_queues(2) locksD(1) [OF remove(2)] by blast
  qed (use locksD(2) [OF remove(2)] remove(1) in \<open>auto simp: entry_keys_delete removeAll_filter_not_eq\<close>)
next
  case (delete_job i w)
  note inv = \<open>locks_inv w\<close>
  show ?case
  proof (rule inv_shrink [OF inv])
    show "integrity (effect (sql_delete_job i) (pw_tables w))"
      using integrity_effect keeps_jobs(3) locksD(1) [OF inv] by blast
    show "pg_locked w \<subseteq> set (entry_keys (effect (sql_delete_job i) (pw_tables w)))"
      using locksD(2) [OF inv] delete_job(1) by (auto simp: entry_keys_delete_job locksD(1) [OF inv])
  qed (simp add: entry_keys_delete_job locksD(1) [OF inv])
next
  case (insert_job w r)
  then show ?case
    using integrity_effect keeps_jobs(1) by (intro inv_shrink) (auto simp: entry_keys_other locksD)
qed (auto intro!: inv_phase inv_shrink simp: entry_keys_other locksD integrity_effect keeps_queues
    dest: subsetD [OF locksD(2)])

lemma inv_reach: "pg_reach t w \<Longrightarrow> integrity t \<Longrightarrow> locks_inv w"
proof (induction rule: pg_reach.induct)
  case start
  then show ?case by (simp add: pg_start_def locks_inv_def pg_locked_def)
qed (rule inv_step)

text \<open>
  C7: Under concurrent dequeues no two sessions hold the same entry, and every entry is delivered at most as often
  as it was inserted; putting a job again into a queue that holds it inserts nothing.
\<close>

theorem pg_no_entry_twice:
  assumes "integrity t" "pg_reach t w"
  shows "(locked_key (pw_phase w c) = Some k \<and> locked_key (pw_phase w c') = Some k \<longrightarrow> c = c') \<and>
    count_list (pw_delivered w) k + count_list (entry_keys (pw_tables w)) k \<le> count_list (pw_inserted w) k"
proof -
  note inv = inv_reach [OF assms(2,1)]
  have "count (mset (pw_delivered w) + mset (entry_keys (pw_tables w))) k \<le> count (mset (pw_inserted w)) k"
    using locksD(3) [OF inv] by (rule mset_subset_eq_count)
  then have "count_list (pw_delivered w) k + count_list (entry_keys (pw_tables w)) k \<le> count_list (pw_inserted w) k"
    by (simp add: count_mset)
  then show ?thesis using locksD(4) [OF inv] by blast
qed

text \<open>A session that checks, selects, deletes and commits.\<close>

lemma sample_delivery:
  "\<exists>w. pg_reach sample_tables w \<and> pw_delivered w = [(''mail'', ''b'')] \<and>
     pw_inserted w = [(''mail'', ''a''), (''mail'', ''b'')]"
proof -
  let ?a = "\<lparr>er_queue_name = ''mail'', er_job_id = ''a'', er_priority = 0, er_scheduled_for = 3\<rparr>"
    and ?b = "\<lparr>er_queue_name = ''mail'', er_job_id = ''b'', er_priority = 5, er_scheduled_for = 4\<rparr>"
  let ?w0 = "pg_start sample_tables"
  let ?w1 = "to_phase 0 (Checked ''mail'') ?w0"
  let ?w2 = "to_phase 0 (Holding ''mail'' ''b'') ?w1"
  let ?w3 = "to_phase 0 (Deleted ''mail'' ''b'') ?w2"
  have running: "t_paused sample_tables = []" by (simp add: sample_tables_def empty_tables_def)
  have "pg_step ?w0 ?w1"
    by (rule pg_step.check) (simp_all add: running)
  then have r1: "pg_reach sample_tables ?w1" by (rule pg_reach.step [OF pg_reach.start])
  have "pg_locked ?w1 = {}" by (simp add: pg_locked_def)
  then have "answers (ready_entry ''mail'' 9) (skip_locked ?w1) [?b]"
    unfolding answers_def
    by (intro exI [of _ "[?b, ?a]"]) (simp add: ready_entry_def skip_locked_def sample_tables_queues entry_before_def add_mset_commute)
  from pg_step.select [OF _ this, of 0] have "pg_step ?w1 ?w2" by simp
  with r1 have r2: "pg_reach sample_tables ?w2" by (rule pg_reach.step)
  have "pg_step ?w2 ?w3" by (rule pg_step.delete) simp
  with r2 have r3: "pg_reach sample_tables ?w3" by (rule pg_reach.step)
  from pg_reach.step [OF r3 pg_step.commit, of 0 "''mail''" "''b''"] show ?thesis
    by (intro exI, intro conjI) (assumption | simp add: entry_keys_def sample_tables_queues)+
qed

theorem pg_no_entry_twice_witness:
  "\<exists>w :: pg_world. pw_delivered w = [(''mail'', ''b'')] \<and> (''mail'', ''b'') \<notin> set (entry_keys (pw_tables w))"
proof -
  obtain w where w: "pg_reach sample_tables w" "pw_delivered w = [(''mail'', ''b'')]"
    "pw_inserted w = [(''mail'', ''a''), (''mail'', ''b'')]"
    using sample_delivery by blast
  have "count_list (entry_keys (pw_tables w)) (''mail'', ''b'') = 0"
    using conjunct2 [OF pg_no_entry_twice [OF integrity_sample w(1), of 0 "(''mail'', ''b'')" 0]]
    unfolding w(2,3) by simp
  then have "(''mail'', ''b'') \<notin> set (entry_keys (pw_tables w))" by (simp add: count_list_0_iff)
  with w(2) show ?thesis by (intro exI [of _ w] conjI)
qed

end
