(* ===== verification/Commands.thy ===== *)
theory Commands
  imports HttpApi Handlers StorageConfig
begin

text \<open>
  The two commands, \<^verbatim>\<open>cmd/server/main.go\<close> and \<^verbatim>\<open>cmd/worker/main.go\<close>: their flags, the choice
  of the storage backend, what the worker sets up, and what both do when they are told to stop. What
  \<open>log.Fatalf\<close> prints is an error. \<open>server_main\<close> in \<open>HttpApi\<close> is the part of the server from the manager
  to the scheduler.
\<close>

section \<open>Flags\<close>

record storage_flags =
  fl_storage :: string
  fl_redisAddr :: string
  fl_postgresHost :: string
  fl_postgresPort :: int
  fl_postgresDB :: string
  fl_postgresUser :: string
  fl_postgresPass :: string

record worker_flags = storage_flags +
  fl_workerID :: string
  fl_queues :: string
  fl_concurrency :: int

definition default_storage_flags :: storage_flags where
  "default_storage_flags =
     \<lparr>fl_storage = ''memory'', fl_redisAddr = ''localhost:6379'', fl_postgresHost = ''localhost'',
      fl_postgresPort = 5432, fl_postgresDB = ''taskqueue'', fl_postgresUser = ''postgres'',
      fl_postgresPass = ''''\<rparr>"

definition default_worker_flags :: worker_flags where
  "default_worker_flags =
     \<lparr>fl_storage = ''memory'', fl_redisAddr = ''localhost:6379'', fl_postgresHost = ''localhost'',
      fl_postgresPort = 5432, fl_postgresDB = ''taskqueue'', fl_postgresUser = ''postgres'',
      fl_postgresPass = '''', fl_workerID = '''', fl_queues = ''default'', fl_concurrency = 0\<rparr>"

section \<open>The storage backend\<close>

text \<open>
  The literal of \<open>storage.PostgresConfig\<close> in the commands names other fields than the struct of
  \<^verbatim>\<open>common.go\<close> declares.
\<close>

record PostgresDial =
  pd_Host :: string
  pd_Port :: int
  pd_User :: string
  pd_Password :: string
  pd_Database :: string
  pd_SSLMode :: string
  pd_MaxOpenConns :: int
  pd_MaxIdleConns :: int
  pd_ConnMaxLifetime :: duration

definition redis_dial :: "'f storage_flags_scheme \<Rightarrow> RedisConfig" where
  "redis_dial fl =
     \<lparr>rcf_Addr = fl_redisAddr fl, rcf_Password = '''', rcf_DB = 0, rcf_PoolSize = 0, rcf_MinIdleConns = 0,
      rcf_MaxRetries = 0\<rparr>"

definition postgres_dial :: "'f storage_flags_scheme \<Rightarrow> PostgresDial" where
  "postgres_dial fl =
     \<lparr>pd_Host = fl_postgresHost fl, pd_Port = fl_postgresPort fl, pd_User = fl_postgresUser fl,
      pd_Password = fl_postgresPass fl, pd_Database = fl_postgresDB fl, pd_SSLMode = ''disable'',
      pd_MaxOpenConns = 25, pd_MaxIdleConns = 5, pd_ConnMaxLifetime = 5 * Minute\<rparr>"

text \<open>Given a new memory store and how the two other backends open.\<close>

definition choose_storage ::
  "'b \<Rightarrow> (RedisConfig \<Rightarrow> 'b res) \<Rightarrow> (PostgresDial \<Rightarrow> 'b res) \<Rightarrow> 'f storage_flags_scheme \<Rightarrow> 'b res" where
  "choose_storage memory NewRedis NewPostgres fl =
     (if fl_storage fl = ''memory'' then Ok memory
      else if fl_storage fl = ''redis''
      then wrap_err ''Failed to initialize Redis storage'' (NewRedis (redis_dial fl))
      else if fl_storage fl = ''postgres''
      then wrap_err ''Failed to initialize PostgreSQL storage'' (NewPostgres (postgres_dial fl))
      else Err (Errorf (''Unknown storage backend: '' @ fl_storage fl) None))"

section \<open>The worker\<close>

definition queue_list :: "string \<Rightarrow> string list" where
  "queue_list queues = (if queues \<noteq> '''' then [queues] else [''default''])"

definition worker_config :: "worker_flags \<Rightarrow> Pool.Config" where
  "worker_config fl =
     \<lparr>cf_ID = fl_workerID fl, cf_Queues = queue_list (fl_queues fl), cf_Concurrency = fl_concurrency fl,
      cf_PollInterval = 1 * Second, cf_HeartbeatInterval = 30 * Second, cf_ShutdownTimeout = 30 * Second,
      cf_Tags = Map.empty\<rparr>"

definition worker_main ::
  "'s Storage \<Rightarrow> string \<Rightarrow> int \<Rightarrow> rounding \<Rightarrow> (real \<Rightarrow> string) \<Rightarrow> (duration \<Rightarrow> nat \<Rightarrow> err option) \<Rightarrow> clock \<Rightarrow>
   worker_flags \<Rightarrow> 's \<Rightarrow> 's Pool res" where
  "worker_main St hostname numCPU rnd showFloat done clk fl store =
     read_ok (wrap_err ''Failed to initialize queue manager'' (NewManager St store)) (\<lambda>queueManager.
     read_ok (wrap_err ''Failed to create worker pool''
       (fst (NewPool hostname numCPU clk queueManager (worker_config fl)))) (\<lambda>pool.
     case pool_Start St (registerHandlers rnd showFloat done pool) of
       (r, pool) \<Rightarrow> map_res (\<lambda>_. pool) (wrap_err ''Failed to start worker pool'' r)))"

section \<open>Stopping\<close>

text \<open>Errors are printed and the command goes on; \<open>http_Stop\<close> is how the listener ends.\<close>

definition server_shutdown :: "unit res \<Rightarrow> 's Scheduler \<Rightarrow> unit res \<times> 's Scheduler" where
  "server_shutdown http_Stop s =
     (case http_Stop of
        Panic p \<Rightarrow> (Panic p, s)
      | _ \<Rightarrow> (case sched_Stop s of (Panic p, s) \<Rightarrow> (Panic p, s) | (_, s) \<Rightarrow> (Ok (), s)))"

text \<open>\<open>rest\<close> is what the goroutines of the pool do between the signal and the end of the last of them.\<close>

definition worker_shutdown :: "'s Storage \<Rightarrow> ('s Pool \<Rightarrow> 's Pool) \<Rightarrow> 's Pool \<Rightarrow> unit res \<times> 's Pool" where
  "worker_shutdown St rest p =
     (case pool_close_stopCh p of
        (Panic m, p) \<Rightarrow> (Panic m, p)
      | (_, p) \<Rightarrow> (case pool_Stop_end St (rest p) of (Panic m, p) \<Rightarrow> (Panic m, p) | (_, p) \<Rightarrow> (Ok (), p)))"

end
