(* ===== verification/CommandsProperties.thy ===== *)
theory CommandsProperties
  imports Commands HttpProperties
begin

text \<open>What the commands set up, and what follows for a worker that starts before a queue is registered.\<close>

section \<open>The pool of the worker command\<close>

lemma registerHandlers_sel [simp]:
  "pl_queueManager (registerHandlers rnd sf done p) = pl_queueManager p"
  "pl_queues (registerHandlers rnd sf done p) = pl_queues p"
  "pl_worker (registerHandlers rnd sf done p) = pl_worker p"
  "dom (pl_handlers (registerHandlers rnd sf done p)) = {''echo'', ''math'', ''email'', ''report''} \<union> dom (pl_handlers p)"
  by (auto simp: registerHandlers_def RegisterHandler_def)

lemma pool_Start_keeps:
  assumes "pool_Start St p = (r, p')"
  shows "pl_queues p' = pl_queues p" "mg_configs (pl_queueManager p') = mg_configs (pl_queueManager p)"
    "pl_handlers p' = pl_handlers p"
  using assms by (auto simp: pool_Start_def on_manager_def on_storage_def Let_def split: prod.splits outcome.splits)

lemma pool_defaults_Queues: "cf_Queues c \<noteq> [] \<Longrightarrow> cf_Queues (pool_defaults h n t c) = cf_Queues c"
  by (simp add: pool_defaults_def Let_def)

lemma NewPool_Ok:
  assumes "fst (NewPool h n clk m (worker_config fl)) = Ok p"
  shows "pl_queues p = queue_list (fl_queues fl)" "pl_queueManager p = m" "pl_handlers p = Map.empty"
  using assms pool_defaults_Queues [of "worker_config fl" h n "clk 0"]
  by (auto simp: NewPool_def Let_def worker_config_def queue_list_def split: if_splits)

lemma worker_main_Ok:
  assumes "worker_main St h n rnd sf done clk fl s = Ok p"
  obtains m where "NewManager St s = Ok m" "mg_configs (pl_queueManager p) = mg_configs m"
    "pl_queues p = queue_list (fl_queues fl)" "dom (pl_handlers p) = {''echo'', ''math'', ''email'', ''report''}"
proof -
  from assms obtain m p0 p1 where m: "NewManager St s = Ok m"
    and p0: "fst (NewPool h n clk m (worker_config fl)) = Ok p0"
    and p1: "pool_Start St (registerHandlers rnd sf done p0) = (Ok (), p1)" "p = p1"
    by (auto simp: worker_main_def read_ok_def map_res_iff wrap_err_iff split: outcome.splits prod.splits)
  show thesis
    using pool_Start_keeps [OF p1(1)] NewPool_Ok [OF p0] m that p1(2) by simp
qed

text \<open>The choice of a queue looks only at configurations that the manager has read.\<close>

lemma candidates_unknown: "\<forall>q \<in> set queues. mg_configs m q = None \<Longrightarrow> mgr_candidates St m queues = Ok []"
  by (induction queues) simp_all

lemma Dequeue_unknown:
  assumes "\<forall>q \<in> set queues. mg_configs m q = None" "queues \<noteq> []"
  shows "mgr_Dequeue St clk intn queues m = (Err ErrQueueEmpty, m)"
  using assms candidates_unknown [OF assms(1), of St] by (simp add: mgr_Dequeue_def mgr_selectQueue_def)

text \<open>
  C36: A worker that starts before its queues are registered never serves them: it reads the configurations
  once, when its manager is made, and takes a queue whose configuration it has not read for empty, whatever the
  backend holds later. The list of the flag is one name, as it is not split at its commas. This holds over every backend that keeps the contract. With the memory backend, whose
  store belongs to the process, the worker command so never gets a job at all.
\<close>

theorem worker_misses_new_queues:
  assumes "storage_listing St view ok" "ok s" "worker_main St hostname numCPU rnd showFloat done clk fl s = Ok pool"
    and "\<forall>q \<in> set (queue_list (fl_queues fl)). v_configs (view s) q = None"
  shows "pl_queues pool = queue_list (fl_queues fl) \<and>
    mgr_Dequeue St clk' intn (pl_queues pool) ((pl_queueManager pool)\<lparr>mg_storage := s'\<rparr>) =
      (Err ErrQueueEmpty, (pl_queueManager pool)\<lparr>mg_storage := s'\<rparr>)"
proof -
  from worker_main_Ok [OF assms(3)] obtain m where m: "NewManager St s = Ok m"
    "mg_configs (pl_queueManager pool) = mg_configs m" "pl_queues pool = queue_list (fl_queues fl)" .
  have "mg_configs m = v_configs (view s)"
    using storage_listing.NewManager_Ok [OF assms(1,2)] m(1) by simp
  then show ?thesis
    using assms(4) m by (auto simp: queue_list_def intro!: Dequeue_unknown)
qed

text \<open>The worker command starts on an empty memory store.\<close>

lemma worker_on_memory:
  assumes "0 \<le> fl_concurrency fl" "0 \<le> numCPU"
  shows "\<exists>pool. worker_main (memStorage sorted_list_of_set) hostname numCPU rnd showFloat done clk fl (NewMemoryStore clk0) =
      Ok pool"
proof -
  have new: "NewManager (memStorage sorted_list_of_set) (NewMemoryStore clk0) =
      Ok \<lparr>mg_storage = NewMemoryStore clk0, mg_configs = Map.empty\<rparr>"
    by (simp add: NewManager_def mgr_loadConfigs_def mem_ListQueueConfigs_def NewMemoryStore_def range_map_def Let_def)
  show ?thesis
    using assms new
    by (auto simp: worker_main_def NewPool_def pool_defaults_def worker_config_def Let_def registerHandlers_def
        RegisterHandler_def pool_Start_def on_manager_def on_storage_def mem_RegisterWorker_def
        mem_UpdateWorkerStatus_def mem_with_worker_def)
qed

theorem worker_misses_new_queues_witness:
  "\<exists>pool :: MemoryStore Pool. pl_queues pool = [''mail,sms''] \<and>
     (\<forall>s'. mgr_Dequeue (memStorage sorted_list_of_set) (\<lambda>_. 0) (\<lambda>n. 0) (pl_queues pool)
        ((pl_queueManager pool)\<lparr>mg_storage := s'\<rparr>) = (Err ErrQueueEmpty, (pl_queueManager pool)\<lparr>mg_storage := s'\<rparr>))"
proof -
  let ?St = "memStorage sorted_list_of_set" and ?fl = "default_worker_flags\<lparr>fl_queues := ''mail,sms''\<rparr>"
    and ?s = "NewMemoryStore (\<lambda>_. 0)"
  obtain pool where pool: "worker_main ?St ''host'' 4 exact (\<lambda>_. ''0'') (\<lambda>_ _. None) (\<lambda>_. 0) ?fl ?s = Ok pool"
    using worker_on_memory [of ?fl 4 "''host''" exact "\<lambda>_. ''0''" "\<lambda>_ _. None" "\<lambda>_. 0" "\<lambda>_. 0"]
    by (auto simp: default_worker_flags_def)
  have listing: "storage_listing ?St mem_view mem_inv" by unfold_locales
  have new: "\<forall>q \<in> set (queue_list (fl_queues ?fl)). v_configs (mem_view ?s) q = None"
    by (simp add: NewMemoryStore_def)
  have idle: "pl_queues pool = queue_list (fl_queues ?fl) \<and>
      mgr_Dequeue ?St (\<lambda>_. 0) (\<lambda>n. 0) (pl_queues pool) ((pl_queueManager pool)\<lparr>mg_storage := s'\<rparr>) =
        (Err ErrQueueEmpty, (pl_queueManager pool)\<lparr>mg_storage := s'\<rparr>)" for s'
    by (rule worker_misses_new_queues [OF listing _ pool new]) (simp add: mem_inv_new)
  show ?thesis
    by (intro exI [of _ pool] conjI allI conjunct2 [OF idle]) (simp add: conjunct1 [OF idle] queue_list_def)
qed

end
