(* ===== verification/Logger.thy ===== *)
theory Logger
  imports Scheduler
begin

text \<open>
  The logger, \<^verbatim>\<open>internal/monitoring/logger.go\<close>. A writer is a value of a type \<open>'w\<close>; a call gives the
  writer and the bytes it writes to it, or \<open>None\<close> if it writes nothing. The fields are values of a type
  \<open>'v\<close>; how \<open>fmt\<close> prints one (\<open>%v\<close>) and fills a format are the parameters \<open>show\<close> and \<open>Sprintf\<close>. As in
  \<open>Scheduler\<close>, instants count from the zero time and a location is an offset \<open>loc\<close>.
\<close>

section \<open>Levels\<close>

type_synonym LogLevel = int

definition LogLevelDebug :: LogLevel where "LogLevelDebug = 0"
definition LogLevelInfo :: LogLevel where "LogLevelInfo = 1"
definition LogLevelWarn :: LogLevel where "LogLevelWarn = 2"
definition LogLevelError :: LogLevel where "LogLevelError = 3"

lemmas log_levels = LogLevelDebug_def LogLevelInfo_def LogLevelWarn_def LogLevelError_def

definition level_String :: "LogLevel \<Rightarrow> string" where
  "level_String l =
     (if l = LogLevelDebug then ''DEBUG'' else if l = LogLevelInfo then ''INFO''
      else if l = LogLevelWarn then ''WARN'' else if l = LogLevelError then ''ERROR'' else ''UNKNOWN'')"

section \<open>Loggers\<close>

record ('w, 'v) Logger =
  lg_level :: LogLevel
  lg_output :: 'w
  lg_prefix :: string
  lg_fields :: "string \<rightharpoonup> 'v"

definition NewLogger :: "'w \<Rightarrow> LogLevel \<Rightarrow> 'w option \<Rightarrow> ('w, 'v) Logger" where
  "NewLogger stdout level output =
     \<lparr>lg_level = level, lg_output = (case output of None \<Rightarrow> stdout | Some w \<Rightarrow> w), lg_prefix = '''',
      lg_fields = Map.empty\<rparr>"

definition WithField :: "string \<Rightarrow> 'v \<Rightarrow> ('w, 'v) Logger \<Rightarrow> ('w, 'v) Logger" where
  "WithField key value l =
     \<lparr>lg_level = lg_level l, lg_output = lg_output l, lg_prefix = lg_prefix l,
      lg_fields = (lg_fields l)(key \<mapsto> value)\<rparr>"

definition WithFields :: "(string \<rightharpoonup> 'v) \<Rightarrow> ('w, 'v) Logger \<Rightarrow> ('w, 'v) Logger" where
  "WithFields fs l =
     \<lparr>lg_level = lg_level l, lg_output = lg_output l, lg_prefix = lg_prefix l,
      lg_fields = lg_fields l ++ fs\<rparr>"

definition SetLevel :: "LogLevel \<Rightarrow> ('w, 'v) Logger \<Rightarrow> ('w, 'v) Logger" where
  "SetLevel level l = l\<lparr>lg_level := level\<rparr>"

definition GetLevel :: "('w, 'v) Logger \<Rightarrow> LogLevel" where
  "GetLevel l = lg_level l"

section \<open>A line of the log\<close>

text \<open>\<open>Format(time.RFC3339)\<close>, for years up to 9999: \<open>pad n i\<close> is \<open>i\<close> with at least \<open>n\<close> digits.\<close>

definition pad :: "nat \<Rightarrow> int \<Rightarrow> string" where
  "pad n i = (let ds = decimal i in replicate (n - length ds) CHR ''0'' @ ds)"

definition zone_offset :: "duration \<Rightarrow> string" where
  "zone_offset loc =
     (if loc = 0 then ''Z''
      else let m = \<bar>loc\<bar> div Minute in
        (if loc < 0 then ''-'' else ''+'') @ pad 2 (m div 60) @ '':'' @ pad 2 (m mod 60))"

definition RFC3339 :: "duration \<Rightarrow> time \<Rightarrow> string" where
  "RFC3339 loc t =
     (case time_Date loc t of (y, m, d) \<Rightarrow>
        let s = (t + loc) mod Day div Second in
        pad 4 y @ ''-'' @ pad 2 m @ ''-'' @ pad 2 d @ ''T'' @ pad 2 (s div 3600) @ '':'' @
        pad 2 (s div 60 mod 60) @ '':'' @ pad 2 (s mod 60) @ zone_offset loc)"

definition fields_string ::
  "(string set \<Rightarrow> string list) \<Rightarrow> ('v \<Rightarrow> string) \<Rightarrow> (string \<rightharpoonup> 'v) \<Rightarrow> string" where
  "fields_string iter show fs =
     (if dom fs = {} then ''''
      else '' '' @ concat (map (\<lambda>k. k @ ''='' @ show (the (fs k)) @ '' '') (iter (dom fs))))"

definition newline :: char where "newline = CHR 0x0A"

definition logger_log ::
  "(string set \<Rightarrow> string list) \<Rightarrow> ('v \<Rightarrow> string) \<Rightarrow> duration \<Rightarrow> clock \<Rightarrow> LogLevel \<Rightarrow> string \<Rightarrow>
   ('w, 'v) Logger \<Rightarrow> ('w \<times> string) option" where
  "logger_log iter show loc clk level msg l =
     (if level < lg_level l then None
      else let logMsg = ''['' @ RFC3339 loc (clk 0) @ ''] '' @ level_String level @ '': '' @ msg @
                 fields_string iter show (lg_fields l) @ [newline];
             logMsg = (if lg_prefix l \<noteq> '''' then lg_prefix l @ '' '' @ logMsg else logMsg)
        in Some (lg_output l, logMsg))"

definition log_Debug where "log_Debug iter show loc clk msg l = logger_log iter show loc clk LogLevelDebug msg l"
definition log_Info where "log_Info iter show loc clk msg l = logger_log iter show loc clk LogLevelInfo msg l"
definition log_Warn where "log_Warn iter show loc clk msg l = logger_log iter show loc clk LogLevelWarn msg l"
definition log_Error where "log_Error iter show loc clk msg l = logger_log iter show loc clk LogLevelError msg l"

definition log_Debugf where
  "log_Debugf Sprintf iter show loc clk format args l = logger_log iter show loc clk LogLevelDebug (Sprintf format args) l"
definition log_Infof where
  "log_Infof Sprintf iter show loc clk format args l = logger_log iter show loc clk LogLevelInfo (Sprintf format args) l"
definition log_Warnf where
  "log_Warnf Sprintf iter show loc clk format args l = logger_log iter show loc clk LogLevelWarn (Sprintf format args) l"
definition log_Errorf where
  "log_Errorf Sprintf iter show loc clk format args l = logger_log iter show loc clk LogLevelError (Sprintf format args) l"

lemmas log_methods =
  log_Debug_def log_Info_def log_Warn_def log_Error_def log_Debugf_def log_Infof_def log_Warnf_def
  log_Errorf_def

text \<open>The adapter for the standard logger: every write is one message, taken in full.\<close>

definition adapter_Write where
  "adapter_Write iter show loc clk p l = ((int (length p), None :: err option), log_Info iter show loc clk p l)"

section \<open>The default logger\<close>

text \<open>The package variable is the state; the package functions call the methods of its value.\<close>

definition initial_defaultLogger :: "'w \<Rightarrow> ('w, 'v) Logger" where
  "initial_defaultLogger stdout = NewLogger stdout LogLevelInfo (Some stdout)"

definition SetDefaultLogger :: "('w, 'v) Logger \<Rightarrow> ('w, 'v) Logger \<Rightarrow> ('w, 'v) Logger" where
  "SetDefaultLogger logger defaultLogger = logger"

definition GetDefaultLogger :: "('w, 'v) Logger \<Rightarrow> ('w, 'v) Logger" where
  "GetDefaultLogger defaultLogger = defaultLogger"

text \<open>The functions of the package are the methods of the default logger.\<close>

definition default_Debug where
  "default_Debug iter show loc clk msg defaultLogger = log_Debug iter show loc clk msg defaultLogger"
definition default_Debugf where
  "default_Debugf Sprintf iter show loc clk format args defaultLogger =
     log_Debugf Sprintf iter show loc clk format args defaultLogger"
definition default_Info where
  "default_Info iter show loc clk msg defaultLogger = log_Info iter show loc clk msg defaultLogger"
definition default_Infof where
  "default_Infof Sprintf iter show loc clk format args defaultLogger =
     log_Infof Sprintf iter show loc clk format args defaultLogger"
definition default_Warn where
  "default_Warn iter show loc clk msg defaultLogger = log_Warn iter show loc clk msg defaultLogger"
definition default_Warnf where
  "default_Warnf Sprintf iter show loc clk format args defaultLogger =
     log_Warnf Sprintf iter show loc clk format args defaultLogger"
definition default_Error where
  "default_Error iter show loc clk msg defaultLogger = log_Error iter show loc clk msg defaultLogger"
definition default_Errorf where
  "default_Errorf Sprintf iter show loc clk format args defaultLogger =
     log_Errorf Sprintf iter show loc clk format args defaultLogger"
definition default_WithField where "default_WithField key value defaultLogger = WithField key value defaultLogger"
definition default_WithFields where "default_WithFields fs defaultLogger = WithFields fs defaultLogger"

section \<open>What is written\<close>

lemma level_String_known: "level_String l = ''UNKNOWN'' \<longleftrightarrow> l \<notin> {0..3}"
  by (auto simp: level_String_def log_levels)

lemma log_writes_iff: "logger_log iter show loc clk level msg l \<noteq> None \<longleftrightarrow> lg_level l \<le> level"
  by (simp add: logger_log_def Let_def del: not_None_eq)

text \<open>A fresh logger of some level writes exactly the calls of that level and above.\<close>

lemma NewLogger_threshold:
  "logger_log iter show loc clk level msg (WithFields fs (WithField k v (NewLogger stdout threshold out))) \<noteq> None \<longleftrightarrow>
   threshold \<le> level"
  by (simp only: log_writes_iff) (simp add: NewLogger_def WithField_def WithFields_def)

text \<open>A later field of the same name wins, and the logger a field was added to is still the old one.\<close>

lemma WithField_twice: "WithField k v (WithField k u l) = WithField k v l"
  by (simp add: WithField_def)

lemma WithFields_WithField: "WithFields [k \<mapsto> v] l = WithField k v l"
  by (simp add: WithField_def WithFields_def)

text \<open>Every field is in the line, once.\<close>

lemma field_in_line:
  assumes "map_iteration iter" "finite (dom fs)" "fs k = Some v"
  shows "\<exists>before after. fields_string iter show fs = before @ k @ ''='' @ show v @ '' '' @ after"
proof -
  have "k \<in> set (iter (dom fs))"
    using map_iteration.set_iter [OF assms(1,2)] assms(3) by (auto simp: dom_def)
  then obtain xs ys where "iter (dom fs) = xs @ k # ys" by (meson split_list)
  moreover have "dom fs \<noteq> {}" using assms(3) by auto
  ultimately show ?thesis
    using assms(3)
    by (intro exI [of _ "'' '' @ concat (map (\<lambda>k. k @ ''='' @ show (the (fs k)) @ '' '') xs)"]
        exI [of _ "concat (map (\<lambda>k. k @ ''='' @ show (the (fs k)) @ '' '') ys)"])
      (simp add: fields_string_def)
qed

text \<open>A line ends where it should: nothing is written after the newline, and it starts with the prefix.\<close>

lemma log_line:
  "logger_log iter show loc clk level msg l = Some (w, line) \<Longrightarrow>
     w = lg_output l \<and> (\<exists>text. line = text @ [newline]) \<and> (\<exists>rest. line = lg_prefix l @ rest)"
  by (auto simp: logger_log_def Let_def split: if_splits)

lemma RFC3339_example: "RFC3339 0 (days_of 2024 2 29 * Day + 13 * Hour + 5 * Minute + 9 * Second) = ''2024-02-29T13:05:09Z''"
  by code_simp

end
