(* ===== verification/Metrics.thy ===== *)
theory Metrics
  imports RateLimit
begin

text \<open>
  The metrics of \<^verbatim>\<open>internal/monitoring/metrics.go\<close>. The Prometheus client is a third-party package: what
  the methods do is the list of the calls they make to it. Each of its vectors is declared with the names of
  its labels, and a call \<open>WithLabelValues\<close> panics unless it gives as many values.
\<close>

section \<open>The vectors\<close>

datatype metric =
    JobsCreated | JobsCompleted | JobsFailed | JobsRetried | JobDuration | QueueLength | QueuePaused
  | WorkersActive | WorkerJobsTotal | WorkerJobsCurrent | SystemUptime

datatype metric_kind = Counter | Gauge | Histogram

text \<open>Kind, name and labels as \<open>GetMetrics\<close> registers them.\<close>

fun registered :: "metric \<Rightarrow> metric_kind \<times> string \<times> string list" where
  "registered JobsCreated = (Counter, ''taskqueue_jobs_created_total'', [''queue'', ''type''])"
| "registered JobsCompleted = (Counter, ''taskqueue_jobs_completed_total'', [''queue'', ''type''])"
| "registered JobsFailed = (Counter, ''taskqueue_jobs_failed_total'', [''queue'', ''type''])"
| "registered JobsRetried = (Counter, ''taskqueue_jobs_retried_total'', [''queue'', ''type''])"
| "registered JobDuration = (Histogram, ''taskqueue_job_duration_seconds'', [''queue'', ''type'', ''status''])"
| "registered QueueLength = (Gauge, ''taskqueue_queue_length'', [''queue''])"
| "registered QueuePaused = (Gauge, ''taskqueue_queue_paused'', [''queue''])"
| "registered WorkersActive = (Gauge, ''taskqueue_workers_active'', [])"
| "registered WorkerJobsTotal = (Counter, ''taskqueue_worker_jobs_total'', [''worker_id'', ''status''])"
| "registered WorkerJobsCurrent = (Gauge, ''taskqueue_worker_jobs_current'', [''worker_id''])"
| "registered SystemUptime = (Gauge, ''taskqueue_system_uptime_seconds'', [])"

section \<open>Recording\<close>

datatype prom_call =
    Inc metric "string list" | Observe metric "string list" real | SetGauge metric "string list" real

definition RecordJobCreated :: "string \<Rightarrow> string \<Rightarrow> prom_call list" where
  "RecordJobCreated queue jobType = [Inc JobsCreated [queue, jobType]]"

definition RecordJobCompleted :: "rounding \<Rightarrow> string \<Rightarrow> string \<Rightarrow> duration \<Rightarrow> prom_call list" where
  "RecordJobCompleted rnd queue jobType dur =
     [Inc JobsCompleted [queue, jobType], Observe JobDuration [queue, jobType, ''success''] (Seconds rnd dur)]"

definition RecordJobFailed :: "rounding \<Rightarrow> string \<Rightarrow> string \<Rightarrow> duration \<Rightarrow> prom_call list" where
  "RecordJobFailed rnd queue jobType dur =
     [Inc JobsFailed [queue, jobType], Observe JobDuration [queue, jobType, ''failed''] (Seconds rnd dur)]"

definition RecordJobRetried :: "string \<Rightarrow> string \<Rightarrow> prom_call list" where
  "RecordJobRetried queue jobType = [Inc JobsRetried [queue, jobType]]"

definition SetQueueLength :: "rounding \<Rightarrow> string \<Rightarrow> int \<Rightarrow> prom_call list" where
  "SetQueueLength rnd queue len = [SetGauge QueueLength [queue] (rnd (of_int len))]"

definition SetQueuePaused :: "string \<Rightarrow> bool \<Rightarrow> prom_call list" where
  "SetQueuePaused queue paused = [SetGauge QueuePaused [queue] (if paused then 1 else 0)]"

definition SetWorkersActive :: "rounding \<Rightarrow> int \<Rightarrow> prom_call list" where
  "SetWorkersActive rnd n = [SetGauge WorkersActive [] (rnd (of_int n))]"

definition RecordWorkerJob :: "string \<Rightarrow> string \<Rightarrow> prom_call list" where
  "RecordWorkerJob workerID status = [Inc WorkerJobsTotal [workerID, status]]"

definition SetWorkerJobsCurrent :: "rounding \<Rightarrow> string \<Rightarrow> int \<Rightarrow> prom_call list" where
  "SetWorkerJobsCurrent rnd workerID n = [SetGauge WorkerJobsCurrent [workerID] (rnd (of_int n))]"

definition UpdateSystemUptime :: "rounding \<Rightarrow> clock \<Rightarrow> time \<Rightarrow> prom_call list" where
  "UpdateSystemUptime rnd clk startTime =
     [SetGauge SystemUptime [] (Seconds rnd (time_sub (clk 0) startTime))]"

lemmas metric_methods =
  RecordJobCreated_def RecordJobCompleted_def RecordJobFailed_def RecordJobRetried_def SetQueueLength_def
  SetQueuePaused_def SetWorkersActive_def RecordWorkerJob_def SetWorkerJobsCurrent_def UpdateSystemUptime_def

text \<open>A call fits a vector if it uses it as what it is, with as many values as it has labels.\<close>

fun fits :: "prom_call \<Rightarrow> bool" where
  "fits (Inc m ls) \<longleftrightarrow> fst (registered m) = Counter \<and> length ls = length (snd (snd (registered m)))"
| "fits (Observe m ls x) \<longleftrightarrow> fst (registered m) = Histogram \<and> length ls = length (snd (snd (registered m)))"
| "fits (SetGauge m ls x) \<longleftrightarrow> fst (registered m) = Gauge \<and> length ls = length (snd (snd (registered m)))"

lemma calls_fit:
  "list_all fits (RecordJobCreated q t)" "list_all fits (RecordJobCompleted rnd q t d)"
  "list_all fits (RecordJobFailed rnd q t d)" "list_all fits (RecordJobRetried q t)"
  "list_all fits (SetQueueLength rnd q n)" "list_all fits (SetQueuePaused q b)"
  "list_all fits (SetWorkersActive rnd n)" "list_all fits (RecordWorkerJob w st)"
  "list_all fits (SetWorkerJobsCurrent rnd w n)" "list_all fits (UpdateSystemUptime rnd clk start)"
  by (simp_all add: metric_methods)

text \<open>No two vectors share a name, so registering all of them once does not panic.\<close>

lemma registered_names: "fst (snd (registered m)) = fst (snd (registered m')) \<longleftrightarrow> m = m'"
  by (cases m; cases m') simp_all

section \<open>The metrics server\<close>

text \<open>\<open>string(rune(n))\<close>: the UTF-8 bytes of the code point, of U+FFFD where there is none.\<close>

definition utf8 :: "int \<Rightarrow> string" where
  "utf8 n =
     (let n = signed_take_bit 31 n;
          n = (if n < 0 \<or> n > 0x10FFFF \<or> 0xD800 \<le> n \<and> n \<le> 0xDFFF then 0xFFFD else n);
          tail = (\<lambda>i. char_of (nat (0x80 + n div 64 ^ i mod 64)))
      in if n < 0x80 then [char_of (nat n)]
         else if n < 0x800 then [char_of (nat (0xC0 + n div 64)), tail 0]
         else if n < 0x10000 then [char_of (nat (0xE0 + n div 4096)), tail 1, tail 0]
         else [char_of (nat (0xF0 + n div 262144)), tail 2, tail 1, tail 0])"

text \<open>The server is its address; every path but \<open>/metrics\<close> is not found.\<close>

definition NewMetricsServer :: "string \<Rightarrow> int \<Rightarrow> string" where
  "NewMetricsServer addr port = addr @ '':'' @ utf8 port"

definition ErrServerClosed :: err where "ErrServerClosed = Errorf ''http: Server closed'' None"

text \<open>\<open>Start\<close>, given how \<open>ListenAndServe\<close> ends.\<close>

definition metrics_Start :: "err option \<Rightarrow> unit res" where
  "metrics_Start listen =
     (case listen of None \<Rightarrow> Ok ()
      | Some e \<Rightarrow> if e \<noteq> ErrServerClosed then Err e else Ok ())"

text \<open>The address is not the one meant: no port is written as its decimal number.\<close>

lemma utf8_head:
  assumes "0 \<le> port" "port < 65536"
  shows "\<exists>c cs. utf8 port = c # cs \<and> (is_digit c \<longrightarrow> cs = [] \<and> 48 \<le> port \<and> c = char_of (nat port))"
proof (cases "port < 0x80")
  case True
  then have "utf8 port = [char_of (nat port)]"
    using assms signed_take_bit_int_eq_self [of 31 port] by (simp add: utf8_def Let_def)
  moreover have "is_digit (char_of (nat port)) \<Longrightarrow> 48 \<le> port"
    using True assms by (simp add: is_digit_def nat_le_iff le_nat_iff)
  ultimately show ?thesis by simp
next
  case False
  define n where n_def: "n = (if 0xD800 \<le> port \<and> port \<le> 0xDFFF then 0xFFFD else port)"
  have n: "0x80 \<le> n" "n < 0x10000" using False assms by (auto simp: n_def)
  have eq: "signed_take_bit 31 port = port"
    using assms by (intro signed_take_bit_int_eq_self) simp_all
  have head: "\<not> is_digit (char_of (nat i))" if "0xC0 \<le> i" "i < 0x100" for i :: int
    using that by (simp add: is_digit_def nat_le_iff)
  have "(\<exists>cs. utf8 port = char_of (nat (0xC0 + n div 64)) # cs) \<and> n < 0x800 \<or>
      (\<exists>cs. utf8 port = char_of (nat (0xE0 + n div 4096)) # cs)"
    using n assms by (auto simp: utf8_def Let_def eq n_def)
  moreover have "n < 0x800 \<Longrightarrow> n div 64 < 0x20" "n div 4096 < 0x10" "0 \<le> n div 64" "0 \<le> n div 4096"
    using n by linarith+
  ultimately have "\<exists>c cs. utf8 port = c # cs \<and> \<not> is_digit c"
    using head [of "0xC0 + n div 64"] head [of "0xE0 + n div 4096"] by fastforce
  then show ?thesis by blast
qed

text \<open>
  The text of the port is never its decimal number, so a server for \<open>0.0.0.0:9090\<close> is not what the
  configuration asks for.
\<close>

theorem metrics_address_wrong:
  assumes "0 \<le> port" "port < 65536"
  shows "NewMetricsServer addr port \<noteq> addr @ '':'' @ decimal port"
proof -
  obtain c cs where c: "utf8 port = c # cs" "is_digit c \<longrightarrow> cs = [] \<and> 48 \<le> port \<and> c = char_of (nat port)"
    using utf8_head [OF assms] by blast
  obtain d ds where d: "nat_digits (nat port) = d # ds" "is_digit d"
    using nat_digits_properties [of "nat port"] by (cases "nat_digits (nat port)") auto
  have "c # cs \<noteq> d # ds"
  proof
    assume same: "c # cs = d # ds"
    with c(2) d(2) have "cs = []" "48 \<le> port" by auto
    with same d(1) have "nat_digits (nat port) = [d]" by simp
    then have "nat port < 10" using nat_digits_properties [of "nat port div 10"]
      by (metis butlast_snoc butlast.simps(2) nat_digits.simps)
    with \<open>48 \<le> port\<close> show False by simp
  qed
  with c(1) d(1) assms(1) show ?thesis by (simp add: NewMetricsServer_def decimal_def)
qed

theorem metrics_address_wrong_witness: "NewMetricsServer ''localhost'' 9090 \<noteq> ''localhost:9090''"
proof -
  have "decimal 9090 = ''9090''" by (simp add: decimal_def nat_digits.simps char_of_def bit_0)
  then show ?thesis using metrics_address_wrong [of 9090 "''localhost''"] by simp
qed

end
