(* ===== verification/Spec2Isabelle.thy ===== *)
theory Spec2Isabelle
  imports MemoryProperties ManagerProperties PoolProperties SchedulerProperties RateLimitProperties
    BatchingProperties TenancyProperties HttpProperties Poller RedisProperties PostgresLocks CommandsProperties Logger Metrics
begin

text \<open>
  A verification library for a distributed task queue written in Go. Jobs are put into queues, by clients of
  the HTTP API or by schedules; workers fetch them, run the handler of their type, and retry or give
  up on a failure. Everything goes through a queue manager, which calls a storage backend.

  \<^bold>\<open>The program and its theories.\<close>

  \<^item> \<^verbatim>\<open>pkg/errors\<close>: \<open>Errors\<close>. The error values as a datatype \<open>err\<close>, \<open>Error\<close> and \<open>Unwrap\<close>.
    A call ends with \<open>Ok\<close>, \<open>Err\<close> or \<open>Panic\<close> (\<open>outcome\<close> in \<open>Prelude\<close>).
  \<^item> \<^verbatim>\<open>pkg/job\<close>: \<open>Job\<close>. Jobs, queue configurations, statistics and workers as records.
  \<^item> \<^verbatim>\<open>internal/storage/storage.go\<close>: \<open>Storage\<close>. The interface as a record of operations, the
    abstract store \<open>store_view\<close>, and the contract of a backend as the locale \<open>storage\<close>.
  \<^item> \<^verbatim>\<open>internal/storage/memory\<close>: \<open>MemoryStore\<close> (state and operations), \<open>MemoryQueue\<close> and
    \<open>MemoryProofs\<close> (the dequeue loop, the invariant), \<open>MemoryStorage\<close> (the proof that the memory store
    keeps the contract: the interpretation \<open>mem\<close>), \<open>MemoryProperties\<close>.
  \<^item> \<^verbatim>\<open>internal/storage/common.go\<close>: \<open>StorageConfig\<close>, the configurations of the backends and their defaults.
  \<^item> \<^verbatim>\<open>internal/storage/redis\<close>: \<open>Redis\<close> (the key space, the commands, the client as the locale \<open>redis\<close>),
    \<open>RedisStore\<close>, \<open>RedisQueue\<close> and \<open>RedisWorkers\<close> (the methods of \<^verbatim>\<open>redis.go\<close>,
    \<^verbatim>\<open>queue.go\<close>, and \<^verbatim>\<open>worker.go\<close> with \<^verbatim>\<open>metrics.go\<close>), \<open>RedisProofs\<close>, \<open>RedisFacts\<close> and
    \<open>RedisStats\<close> (lemmas inside the locale), \<open>RedisServer\<close> (a server that is its key space, the
    interpretation \<open>server\<close>), \<open>RedisProperties\<close>.
  \<^item> \<^verbatim>\<open>internal/storage/postgres\<close>: \<open>Postgres\<close> (the tables of \<open>initSchema\<close>, statements and queries on them, the
    driver as the locale \<open>postgres\<close>), \<open>PostgresStore\<close> (the methods of \<^verbatim>\<open>postgres.go\<close> and
    \<^verbatim>\<open>utils.go\<close>), \<open>PostgresWorkers\<close> (those of \<^verbatim>\<open>worker.go\<close>, \<^verbatim>\<open>metrics.go\<close>,
    \<^verbatim>\<open>config.go\<close>, and the backend as a value of the interface), \<open>PostgresProofs\<close> and \<open>PostgresFacts\<close>
    (lemmas inside the locale), \<open>PostgresServer\<close> (a database that is its tables, the interpretation
    \<open>tables_db\<close>), \<open>PostgresProperties\<close>, \<open>PostgresLocks\<close> (concurrent dequeues as a step relation).
  \<^item> \<^verbatim>\<open>internal/queue/manager.go\<close>: \<open>Manager\<close>, with its lemmas inside the locale \<open>storage\<close> in
    \<open>ManagerProofs\<close> and its properties in \<open>ManagerProperties\<close>.
  \<^item> \<^verbatim>\<open>internal/queue/scheduler.go\<close>: \<open>Poller\<close>. It reads the scheduled jobs and prints.
  \<^item> \<^verbatim>\<open>internal/worker/pool.go\<close> and \<^verbatim>\<open>cmd/worker/main.go\<close>: \<open>Pool\<close> (state, processing of
    a job), \<open>Handlers\<close> (the handlers of the worker command), \<open>PoolProofs\<close>, \<open>PoolSteps\<close> (fetcher,
    workers, heartbeat and clients as a step relation), \<open>PoolProperties\<close>.
  \<^item> \<^verbatim>\<open>internal/scheduler/scheduler.go\<close>: \<open>Scheduler\<close>, over \<open>Calendar\<close> (the calendar of Go's \<open>time\<close>
    package), with \<open>CronProofs\<close>, \<open>SchedulerProofs\<close>, \<open>SchedulerProperties\<close>.
  \<^item> \<^verbatim>\<open>internal/features\<close>: \<open>RateLimit\<close>, \<open>Batching\<close>, \<open>Tenancy\<close> and their properties.
  \<^item> \<^verbatim>\<open>internal/api/http/server.go\<close> and the set-up in \<^verbatim>\<open>cmd/server/main.go\<close>: \<open>HttpApi\<close>,
    \<open>HttpProperties\<close>.
  \<^item> \<^verbatim>\<open>cmd/server/main.go\<close> and \<^verbatim>\<open>cmd/worker/main.go\<close>, flags, choice of the backend, set-up of
    the worker, stopping: \<open>Commands\<close>, \<open>CommandsProperties\<close>.
  \<^item> \<^verbatim>\<open>internal/monitoring\<close>: \<open>Logger\<close> (what is printed) and \<open>Metrics\<close> (what is told to the Prometheus client).

  A method becomes a function from the state of its receiver to a result and the next state, under
  the method's name, with a prefix where several receivers share a name (\<open>mem_\<close>, \<open>red_\<close>, \<open>pg_\<close>,
  \<open>mgr_\<close>, \<open>pool_\<close>, \<open>sched_\<close>, \<open>rl_\<close>, \<open>sw_\<close>, \<open>batch_\<close>, \<open>log_\<close>). A method that changes the object behind a pointer
  argument returns the object too. A mutex that is held for a whole method makes the method one step; where
  goroutines interleave (worker pool, batching) the steps are the stretches between two points
  where another goroutine may run.

  \<^bold>\<open>Parameters.\<close> Readings of the clock (\<open>clk 0\<close>, \<open>clk 1\<close>, \<dots> in the order of the source), the order in which
  Go ranges over a map (\<open>iter\<close>, under the locale \<open>map_iteration\<close>), \<open>rand.Intn\<close>, the identifiers
  that \<open>uuid.New\<close> gives, rounding of \<open>float64\<close> (under the locale \<open>float64\<close>), the decoding of a request body,
  handlers and batch processors supplied by clients. The redis client (\<open>C\<close>) and the SQL driver (\<open>D\<close>) are records of
  functions over the state of their server; the locales \<open>redis\<close> and \<open>postgres\<close> state what their commands and
  statements do, as their documentation has it, while the server can be reached and nobody else writes.
  Encoding of JSON is a record of functions (\<open>cd\<close>). Machine integers are kept as \<open>int\<close> with
  \<open>wrap64\<close> after each operation that can leave the range.

  \<^bold>\<open>What the lemmas show.\<close>

  \<^item> The memory store refines the abstract store, keeps its invariant in every sequence of calls, serves
    a queue as a stable sort by priority would, and keeps its statistics.
  \<^item> The redis backend keeps each key of its kind, orders a queue by its scores (which lets a low priority overtake
    a high one), lists every job, and miscounts pending and running jobs.
  \<^item> The postgres backend keeps its tables sound, and its queues keep the contract of the storage interface, also
    that no entry is delivered twice under concurrent dequeues; created jobs can be read back; the statuses
    that its statements name are none that the program uses.
  \<^item> The manager, over any backend that keeps the contract: what enqueue, dequeue, retry and cancel do on
    every branch, that the choice among queues is weighted exactly, that the cache of
    configurations agrees with the storage.
  \<^item> The pool: success, retry and final failure of a job, the retry delays and where they overflow; no job
    is processed by two workers at once; the job channel is used safely.
  \<^item> The scheduler: where the next run of a cron expression lies, what a tick does to schedules and
    store, the limit on runs.
  \<^item> The rate limiters: the sliding window agrees with a reference that forgets nothing and keeps its
    limit in every window; the token bucket keeps burst plus rate; when waiting ends.
  \<^item> Batching keeps every job and leaves no batch without a timer or a run; tenancy deletes the
    empty queues of a tenant; reading over HTTP changes nothing, and what is posted can be read.
  \<^item> A worker command that starts before its queues are registered never serves them.

  \<^bold>\<open>Bounds and fuel.\<close> There is no fuel. Loops over data are structural recursions; the loops that may not end
  by themselves are \<open>wait_from\<close>, a partial function into \<open>option\<close> that is proved to return and proved not to, each
  under its conditions; \<open>scan_loop\<close>, the same over the cursor of redis, proved to return against a server that
  ends its scans; and the event loops (\<open>sched_run\<close>, \<open>poller_Start\<close>), which take the events they meet as a
  list. Theorems about durations assume differences of instants below \<open>2 ^ 63\<close> nanoseconds
  where the code needs them; the burst and rate bounds of the token bucket are stated in exact arithmetic.

  \<^bold>\<open>One reading of the packages.\<close> The packages do not compile together: they disagree on fields and
  constructors. \<open>Job\<close> and \<open>Errors\<close> say which reading the records and errors follow.

  \<^bold>\<open>Not modelled.\<close>

  \<^item> \<open>Close\<close>, printing other than the logger's, the Prometheus registry, the listener of the metrics server and its
    \<open>Stop\<close>, adapters to the standard logger, parsing of flags and waiting for signals: input and output only.
  \<^item> The pool settings of the SQL driver, indexes, and how the server types the parameters of a statement.
  \<^item> Encoding and decoding of JSON, the file server and the listener of the HTTP API; path escapes.
  \<^item> Locations with daylight saving time: a location is a fixed offset from UTC.
  \<^item> The recursive use of read locks, which can block with a writer waiting in between.
  \<^item> Floats beyond their range, and not-a-number.
\<close>

end
